(* ===== verification/Prelude.thy ===== *)
theory Prelude
  imports Main "HOL-Library.Word" "HOL-Library.Char_ord" "HOL-Library.List_Lexorder"
begin

text \<open>
  The prelude of the gose development: octets and Go strings, the result type of fallible Go
  functions, association lists standing for Go maps, and the generic facts on lists, splitting
  and joining that the component theories share.

  A Go \<open>string\<close> and a Go \<open>[]byte\<close> are both sequences of octets, and \<open>char\<close> is the type of
  octets; the conversions \<open>[]byte(s)\<close> and \<open>string(b)\<close> are the identity. Where the source
  distinguishes a \<open>nil\<close> slice from an empty one the model uses \<open>bytes option\<close>.
\<close>

named_theorems wf_rules \<open>closure of the well-formedness predicates\<close>
named_theorems dec_simps \<open>equations of the decoders on the shapes the encoders produce\<close>

type_synonym bytes = string

section \<open>Results\<close>

text \<open>
  A Go function returning \<open>(x, error)\<close> returns \<open>Inl e\<close> for a non-nil error and \<open>Inr x\<close>
  otherwise. \<open>rbind\<close> is the statement \<open>if x, err = f(); err != nil { return }\<close>.
\<close>

definition rbind :: "'e + 'a \<Rightarrow> ('a \<Rightarrow> 'e + 'b) \<Rightarrow> 'e + 'b" where
  "rbind m f = (case m of Inl e \<Rightarrow> Inl e | Inr x \<Rightarrow> f x)"

lemma rbind_simps [simp]: "rbind (Inl e) f = Inl e" "rbind (Inr x) f = f x"
  by (simp_all add: rbind_def)

lemma rbind_eq_Inr_iff [simp]: "rbind m f = Inr y \<longleftrightarrow> (\<exists>x. m = Inr x \<and> f x = Inr y)"
  by (cases m) auto

lemma rbind_eq_Inl_iff: "rbind m f = Inl e \<longleftrightarrow> m = Inl e \<or> (\<exists>x. m = Inr x \<and> f x = Inl e)"
  by (cases m) auto

lemma rbind_assoc: "rbind (rbind m f) g = rbind m (\<lambda>x. rbind (f x) g)"
  by (cases m) auto

lemma rbind_cong [fundef_cong]:
  "m = m' \<Longrightarrow> (\<And>x. m' = Inr x \<Longrightarrow> f x = f' x) \<Longrightarrow> rbind m f = rbind m' f'"
  by (cases m') auto

text \<open>\<open>of_opt e\<close> names the error of a partial operation.\<close>

definition of_opt :: "'e \<Rightarrow> 'a option \<Rightarrow> 'e + 'a" where
  "of_opt e m = (case m of None \<Rightarrow> Inl e | Some x \<Rightarrow> Inr x)"

lemma of_opt_simps [simp]: "of_opt e None = Inl e" "of_opt e (Some x) = Inr x"
  by (simp_all add: of_opt_def)

lemma of_opt_eq_Inr_iff [simp]: "of_opt e m = Inr x \<longleftrightarrow> m = Some x"
  by (cases m) auto

text \<open>A loop that appends the results of a fallible body and stops at the first error.\<close>

fun rmap :: "('a \<Rightarrow> 'e + 'b) \<Rightarrow> 'a list \<Rightarrow> 'e + 'b list" where
  "rmap f [] = Inr []"
| "rmap f (x # xs) = rbind (f x) (\<lambda>y. rbind (rmap f xs) (\<lambda>ys. Inr (y # ys)))"

lemma rmap_Inr_iff: "rmap f xs = Inr ys \<longleftrightarrow> list_all2 (\<lambda>x y. f x = Inr y) xs ys"
  by (induction xs arbitrary: ys) (auto simp: list_all2_Cons1)

lemma rmap_all_ok: "(\<And>x. x \<in> set xs \<Longrightarrow> f x = Inr (g x)) \<Longrightarrow> rmap f xs = Inr (map g xs)"
  by (induction xs) auto

lemma rmap_length: "rmap f xs = Inr ys \<Longrightarrow> length ys = length xs"
  by (auto simp: rmap_Inr_iff dest: list_all2_lengthD)

lemma rmap_cong [fundef_cong]:
  "xs = ys \<Longrightarrow> (\<And>x. x \<in> set ys \<Longrightarrow> f x = g x) \<Longrightarrow> rmap f xs = rmap g ys"
  by (induction ys arbitrary: xs) auto

section \<open>Go maps as association lists\<close>

text \<open>
  A Go \<open>map\<close> whose order never matters is an association list with distinct keys: \<open>map_of\<close> is
  the index expression, \<open>amput\<close> the assignment and \<open>amdel\<close> the built-in \<open>delete\<close>.
\<close>

fun amput :: "'k \<Rightarrow> 'v \<Rightarrow> ('k \<times> 'v) list \<Rightarrow> ('k \<times> 'v) list" where
  "amput k v [] = [(k, v)]"
| "amput k v ((k', v') # m) = (if k = k' then (k, v) # m else (k', v') # amput k v m)"

definition amdel :: "'k \<Rightarrow> ('k \<times> 'v) list \<Rightarrow> ('k \<times> 'v) list" where
  "amdel k m = filter (\<lambda>p. fst p \<noteq> k) m"

lemma map_of_amput [simp]: "map_of (amput k v m) = (map_of m)(k \<mapsto> v)"
  by (induction m) (auto simp: fun_eq_iff)

lemma fst_set_amput [simp]: "fst ` set (amput k v m) = insert k (fst ` set m)"
  using arg_cong [OF map_of_amput [of k v m], of dom]
  by (simp only: dom_map_of_conv_image_fst dom_fun_upd option.simps if_False)

lemma distinct_amput [intro, wf_rules]:
  "distinct (map fst m) \<Longrightarrow> distinct (map fst (amput k v m))"
  by (induction m) auto

lemma map_of_amdel [simp]: "map_of (amdel k m) = (map_of m)(k := None)"
  by (induction m) (auto simp: amdel_def fun_eq_iff)

lemma distinct_amdel [intro, wf_rules]:
  "distinct (map fst m) \<Longrightarrow> distinct (map fst (amdel k m))"
  by (induction m) (auto simp: amdel_def)

lemma fst_set_amdel [simp]: "fst ` set (amdel k m) = fst ` set m - {k}"
  by (auto simp: amdel_def)

lemma amdel_notin [simp]: "k \<notin> fst ` set m \<Longrightarrow> amdel k m = m"
  by (induction m) (auto simp: amdel_def)

lemma map_of_eq_None_notin [simp]: "map_of m k = None \<longleftrightarrow> k \<notin> fst ` set m"
  by (rule map_of_eq_None_iff)

section \<open>Splitting and joining\<close>

text \<open>\<open>strings.Split\<close> at a one-character separator, and \<open>strings.SplitN\<close> with \<open>n > 0\<close>: at most
  \<open>n\<close> parts, the last one keeping the remaining separators.\<close>

fun split_on :: "char \<Rightarrow> string \<Rightarrow> string list" where
  "split_on c [] = [[]]"
| "split_on c (x # xs) =
     (if x = c then [] # split_on c xs
      else (case split_on c xs of [] \<Rightarrow> [[x]] | p # ps \<Rightarrow> (x # p) # ps))"

fun splitn :: "char \<Rightarrow> nat \<Rightarrow> string \<Rightarrow> string list" where
  "splitn c 0 s = []"
| "splitn c (Suc 0) s = [s]"
| "splitn c (Suc (Suc n)) s =
     (if c \<in> set s
      then takeWhile (\<lambda>x. x \<noteq> c) s # splitn c (Suc n) (tl (dropWhile (\<lambda>x. x \<noteq> c) s))
      else [s])"

text \<open>\<open>strings.Join\<close>.\<close>

fun join :: "string \<Rightarrow> string list \<Rightarrow> string" where
  "join sep [] = []"
| "join sep [p] = p"
| "join sep (p # q # ps) = p @ sep @ join sep (q # ps)"

lemma takeWhile_sep [simp]: "c \<notin> set p \<Longrightarrow> takeWhile (\<lambda>x. x \<noteq> c) (p @ c # s) = p"
  by (induction p) auto

lemma dropWhile_sep [simp]: "c \<notin> set p \<Longrightarrow> dropWhile (\<lambda>x. x \<noteq> c) (p @ c # s) = c # s"
  by (induction p) auto

lemma splitn_sep: "c \<notin> set p \<Longrightarrow> splitn c (Suc (Suc n)) (p @ c # s) = p # splitn c (Suc n) s"
  by simp

lemma splitn_join:
  assumes "ps \<noteq> []" and "\<And>p. p \<in> set ps \<Longrightarrow> c \<notin> set p"
  shows "splitn c (length ps) (join [c] ps) = ps"
  using assms
proof (induction "[c]" ps rule: join.induct)
  case (3 p q ps)
  then show ?case by (simp add: splitn_sep del: splitn.simps(3))
qed auto

lemma length_splitn_le: "length (splitn c n s) \<le> n"
  by (induction c n s rule: splitn.induct) auto

lemma splitn_Suc_neq_Nil [simp]: "splitn c (Suc n) s \<noteq> []"
  by (cases n) auto

lemma join_splitn: "0 < n \<Longrightarrow> join [c] (splitn c n s) = s"
proof (induction c n s rule: splitn.induct)
  case (3 c n s)
  show ?case
  proof (cases "c \<in> set s")
    case True
    let ?r = "tl (dropWhile (\<lambda>x. x \<noteq> c) s)"
    have s: "s = takeWhile (\<lambda>x. x \<noteq> c) s @ c # ?r"
      using True by (induction s) auto
    obtain q qs where q: "splitn c (Suc n) ?r = q # qs"
      using splitn_Suc_neq_Nil [of c n ?r] by (cases "splitn c (Suc n) ?r") simp_all
    with True 3 have "join [c] (splitn c (Suc (Suc n)) s) = takeWhile (\<lambda>x. x \<noteq> c) s @ c # ?r"
      by simp
    with s show ?thesis by simp
  qed simp
qed auto

lemma splitn_parts: "p \<in> set (butlast (splitn c n s)) \<Longrightarrow> c \<notin> set p"
proof (induction c n s rule: splitn.induct)
  case (3 c n s)
  then show ?case
    by (cases n) (auto split: if_splits dest: set_takeWhileD)
qed auto

section \<open>Octets\<close>

lemma of_char_char_of_nat [simp]: "n < 256 \<Longrightarrow> (of_char (char_of n) :: nat) = n"
  by (simp add: of_char_of)

text \<open>Big-endian octet strings: \<open>big.Int.SetBytes\<close>, and a fixed number of octets of a number.\<close>

definition be_nat :: "bytes \<Rightarrow> nat" where
  "be_nat bs = foldl (\<lambda>acc b. acc * 256 + of_char b) 0 bs"

lemma foldl_octets:
  "foldl (\<lambda>acc b. acc * 256 + of_char b) a bs
     = a * 256 ^ length bs + foldl (\<lambda>acc b. acc * 256 + of_char b) (0::nat) bs"
proof (induction bs arbitrary: a)
  case (Cons b bs)
  have "foldl (\<lambda>acc b. acc * 256 + of_char b) a (b # bs)
      = foldl (\<lambda>acc b. acc * 256 + of_char b) (a * 256 + of_char b) bs"
    by simp
  also have "\<dots> = a * 256 ^ length (b # bs) + (of_char b * 256 ^ length bs
      + foldl (\<lambda>acc b. acc * 256 + of_char b) 0 bs)"
    by (subst Cons.IH) (simp add: algebra_simps)
  also have "of_char b * 256 ^ length bs + foldl (\<lambda>acc b. acc * 256 + of_char b) 0 bs
      = foldl (\<lambda>acc b. acc * 256 + of_char b) (0::nat) (b # bs)"
    by (simp flip: Cons.IH)
  finally show ?case .
qed simp

lemma be_nat_Nil [simp]: "be_nat [] = 0"
  by (simp add: be_nat_def)

lemma be_nat_Cons [simp]: "be_nat (b # bs) = of_char b * 256 ^ length bs + be_nat bs"
  unfolding be_nat_def by (subst foldl_octets [symmetric]) simp

lemma be_nat_append: "be_nat (xs @ ys) = be_nat xs * 256 ^ length ys + be_nat ys"
  by (induction xs) (auto simp: power_add algebra_simps)

lemma be_nat_less: "be_nat bs < 256 ^ length bs"
proof (induction bs)
  case (Cons b bs)
  have "of_char b * 256 ^ length bs + be_nat bs < (of_char b + 1) * (256::nat) ^ length bs"
    using Cons.IH by simp
  also have "\<dots> \<le> 256 * 256 ^ length bs"
    using nat_of_char_less_256 [of b] by (intro mult_right_mono) linarith+
  finally show ?case by simp
qed simp

fun nat_be :: "nat \<Rightarrow> nat \<Rightarrow> bytes" where
  "nat_be 0 n = []"
| "nat_be (Suc k) n = nat_be k (n div 256) @ [char_of (n mod 256)]"

lemma length_nat_be [simp]: "length (nat_be k n) = k"
  by (induction k arbitrary: n) auto

lemma be_nat_nat_be: "be_nat (nat_be k n) = n mod 256 ^ k"
proof (induction k arbitrary: n)
  case (Suc k)
  have "n mod 256 ^ Suc k = n div 256 mod 256 ^ k * 256 + n mod 256"
    by (simp add: mod_mult2_eq)
  then show ?case by (simp add: be_nat_append Suc)
qed simp

lemma nat_be_be_nat [simp]: "nat_be (length bs) (be_nat bs) = bs"
proof (induction bs rule: rev_induct)
  case (snoc b bs)
  then show ?case by (simp add: be_nat_append)
qed simp

end
