(* ===== verification/Errors.thy ===== *)
theory Errors
  imports Prelude
begin

text \<open>
  The errors of the two packages. \<open>jose_error\<close> are the sentinels of \<open>jose/types.go\<close>,
  \<open>gose_error\<close> those of \<open>errors.go\<close> and \<open>jwks_truststore.go\<close>; \<open>Std\<close> is an error of the
  standard library or of an injected implementation, \<open>Fmt\<close> an error made with \<open>fmt.Errorf\<close>
  without a wrapped sentinel, \<open>InvalidFormat\<close> the error type of \<open>interfaces.go\<close>. An error wrapped with \<open>%w\<close> is the wrapped error (what
  \<open>errors.Is\<close> sees). A run-time panic is the outcome \<open>GoPanic\<close>.
\<close>

datatype jose_error =
    ErrJSONFormat | ErrBlobEmpty | ErrUnsupportedKeyType | ErrUnexpectedKeyType | ErrJwtFormat
  | ErrDuplicateKeyOps | ErrJwkInconsistentCertificateFields | ErrJwkCertificateKeyMismatch
  | ErrJwkInvalidFingerprintfomat | ErrJwkReservedClaimName | ErrJweFormat | ErrInvalidAlgorithm
  | ErrInvalidEncryption | ErrTooManyKeyOps | ErrCritHeaderNotSupported | ErrInputTooLarge

datatype gose_error =
    ErrInvalidKey | ErrInvalidKeyType | ErrUnsupportedKeyType | ErrInvalidSigningKeyURL
  | ErrInvalidOperations | ErrInvalidCertificateHeader | ErrUnknownKey | ErrInvalidSignature
  | ErrInconsistentKeyValues | ErrInvalidKeyLength | ErrHashUnavailable
  | ErrInvalidExponentEncoding | ErrInvalidExponent | ErrInvalidModulusEncoding
  | ErrInvalidXEncoding | ErrInvalidYEncoding | ErrInvalidNonce | ErrInvalidAuthenticationTag | ErrSealFailed
  | ErrInvalidJwsCompactEncoding | ErrInvalidJwsBase64HeaderEncoding | ErrInvalidJwsHeaderEncoding
  | ErrInvalidJwsBase64BodyEncoding | ErrInvalidJwsBase64SignatureEncoding
  | ErrInvalidJwkEncoding | ErrInvalidJwtEncoding | ErrInvalidJwtTimeframe | ErrInvalidKid
  | ErrNoExpectedAudience | ErrInvalidDelegateEncoding | ErrInvalidManifestEncoding | ErrInvalidKeySize
  | ErrInvalidAlgorithm | ErrInvalidEncryption | ErrZipCompressionNotSupported | ErrInputTooLarge
  | ErrJwksStale

datatype std_error = CorruptInput | JSONSyntax | JSONType | X509Parse | LibError string

datatype err =
    Jose jose_error
  | Gose gose_error
  | Std std_error
  | Fmt string
  | InvalidFormat string
  | GoPanic string

text \<open>The method \<open>Error\<close> of \<open>InvalidFormat\<close>.\<close>

definition InvalidFormat_Error :: "string \<Rightarrow> string" where
  "InvalidFormat_Error what = ''Invalid format: '' @ what"

end
