(* ===== verification/Base64.thy ===== *)
theory Base64
  imports Prelude
begin

text \<open>
  The parts of Go's \<open>encoding/base64\<close> the source uses: \<open>RawURLEncoding\<close> (URL alphabet, no
  padding) and \<open>StdEncoding\<close> (standard alphabet, \<open>=\<close> padding), both in their default,
  non-strict mode. Decoding skips CR and LF anywhere, ignores the unused trailing bits of the
  last quantum and reports any other octet as corrupt input, as the library does. The interface
  the other components rely on is the locale \<open>byte_codec\<close>, interpreted on both encodings.
\<close>

record b64_encoding =
  alphabet :: string
  padded :: bool

definition RawURLEncoding :: b64_encoding where
  "RawURLEncoding =
     \<lparr>alphabet = ''ABCDEFGHIJKLMNOPQRSTUVWXYZabcdefghijklmnopqrstuvwxyz0123456789-_'',
      padded = False\<rparr>"

definition StdEncoding :: b64_encoding where
  "StdEncoding =
     \<lparr>alphabet = ''ABCDEFGHIJKLMNOPQRSTUVWXYZabcdefghijklmnopqrstuvwxyz0123456789+/'',
      padded = True\<rparr>"

definition enc_char :: "b64_encoding \<Rightarrow> nat \<Rightarrow> char" where
  "enc_char e n = alphabet e ! n"

definition dec_char :: "b64_encoding \<Rightarrow> char \<Rightarrow> nat option" where
  "dec_char e c = map_of (zip (alphabet e) [0..<64]) c"

definition pad :: "b64_encoding \<Rightarrow> nat \<Rightarrow> string" where
  "pad e n = (if padded e then replicate n CHR ''='' else [])"

text \<open>\<open>EncodeToString\<close>, three octets at a time.\<close>

fun b64_encode :: "b64_encoding \<Rightarrow> bytes \<Rightarrow> string" where
  "b64_encode e [] = []"
| "b64_encode e [a] =
     [enc_char e (of_char a div 4), enc_char e (of_char a mod 4 * 16)] @ pad e 2"
| "b64_encode e [a, b] =
     [enc_char e (of_char a div 4), enc_char e (of_char a mod 4 * 16 + of_char b div 16),
      enc_char e (of_char b mod 16 * 4)] @ pad e 1"
| "b64_encode e (a # b # c # bs) =
     [enc_char e (of_char a div 4), enc_char e (of_char a mod 4 * 16 + of_char b div 16),
      enc_char e (of_char b mod 16 * 4 + of_char c div 64), enc_char e (of_char c mod 64)]
     @ b64_encode e bs"

definition byte0 :: "nat \<Rightarrow> nat \<Rightarrow> char" where
  "byte0 s0 s1 = char_of (s0 * 4 + s1 div 16)"
definition byte1 :: "nat \<Rightarrow> nat \<Rightarrow> char" where
  "byte1 s1 s2 = char_of (s1 mod 16 * 16 + s2 div 4)"
definition byte2 :: "nat \<Rightarrow> nat \<Rightarrow> char" where
  "byte2 s2 s3 = char_of (s2 mod 4 * 64 + s3)"

definition dec2 :: "b64_encoding \<Rightarrow> char \<Rightarrow> char \<Rightarrow> bytes option" where
  "dec2 e c0 c1 = (case (dec_char e c0, dec_char e c1) of
     (Some s0, Some s1) \<Rightarrow> Some [byte0 s0 s1] | _ \<Rightarrow> None)"

definition dec3 :: "b64_encoding \<Rightarrow> char \<Rightarrow> char \<Rightarrow> char \<Rightarrow> bytes option" where
  "dec3 e c0 c1 c2 = (case (dec_char e c0, dec_char e c1, dec_char e c2) of
     (Some s0, Some s1, Some s2) \<Rightarrow> Some [byte0 s0 s1, byte1 s1 s2] | _ \<Rightarrow> None)"

definition dec4 :: "b64_encoding \<Rightarrow> char \<Rightarrow> char \<Rightarrow> char \<Rightarrow> char \<Rightarrow> bytes option" where
  "dec4 e c0 c1 c2 c3 =
     (case (dec_char e c0, dec_char e c1, dec_char e c2, dec_char e c3) of
        (Some s0, Some s1, Some s2, Some s3) \<Rightarrow> Some [byte0 s0 s1, byte1 s1 s2, byte2 s2 s3]
      | _ \<Rightarrow> None)"

text \<open>
  The quantum loop of \<open>Decode\<close> on an input without CR and LF. With padding, \<open>=\<close> may stand only
  in the last two places of the last quantum; without, the last quantum may be short.
\<close>

fun dec_quanta :: "b64_encoding \<Rightarrow> string \<Rightarrow> bytes option" where
  "dec_quanta e [] = Some []"
| "dec_quanta e [c0] = None"
| "dec_quanta e [c0, c1] = (if padded e then None else dec2 e c0 c1)"
| "dec_quanta e [c0, c1, c2] = (if padded e then None else dec3 e c0 c1 c2)"
| "dec_quanta e (c0 # c1 # c2 # c3 # cs) =
     (if padded e \<and> c2 = CHR ''='' then
        (if c3 = CHR ''='' \<and> cs = [] then dec2 e c0 c1 else None)
      else if padded e \<and> c3 = CHR ''='' then
        (if cs = [] then dec3 e c0 c1 c2 else None)
      else (case (dec4 e c0 c1 c2 c3, dec_quanta e cs) of
              (Some x, Some y) \<Rightarrow> Some (x @ y) | _ \<Rightarrow> None))"

definition is_crlf :: "char \<Rightarrow> bool" where
  "is_crlf c \<longleftrightarrow> c = CHR 0x0A \<or> c = CHR 0x0D"

definition b64_decode :: "b64_encoding \<Rightarrow> string \<Rightarrow> bytes option" where
  "b64_decode e s = dec_quanta e (filter (\<lambda>c. \<not> is_crlf c) s)"

text \<open>\<open>DecodedLen\<close> and \<open>EncodedLen\<close>.\<close>

definition DecodedLen :: "b64_encoding \<Rightarrow> nat \<Rightarrow> nat" where
  "DecodedLen e n = (if padded e then n div 4 * 3 else n div 4 * 3 + n mod 4 * 6 div 8)"

definition EncodedLen :: "b64_encoding \<Rightarrow> nat \<Rightarrow> nat" where
  "EncodedLen e n =
     (if padded e then (n + 2) div 3 * 4 else n div 3 * 4 + (n mod 3 * 8 + 5) div 6)"

section \<open>The alphabets\<close>

definition good_encoding :: "b64_encoding \<Rightarrow> bool" where
  "good_encoding e \<longleftrightarrow> length (alphabet e) = 64 \<and> distinct (alphabet e)
     \<and> CHR ''='' \<notin> set (alphabet e) \<and> list_all (\<lambda>c. \<not> is_crlf c) (alphabet e)"

lemma good_RawURL [simp]: "good_encoding RawURLEncoding"
  by (simp add: good_encoding_def RawURLEncoding_def is_crlf_def)

lemma good_Std [simp]: "good_encoding StdEncoding"
  by (simp add: good_encoding_def StdEncoding_def is_crlf_def)

lemma padded_encodings [simp]: "\<not> padded RawURLEncoding" "padded StdEncoding"
  by (simp_all add: RawURLEncoding_def StdEncoding_def)

lemma dec_enc_char [simp]: "good_encoding e \<Longrightarrow> n < 64 \<Longrightarrow> dec_char e (enc_char e n) = Some n"
  by (auto simp: dec_char_def enc_char_def good_encoding_def intro!: map_of_is_SomeI)
     (force simp: in_set_zip)

lemma dec_char_Some:
  assumes "good_encoding e" "dec_char e c = Some n"
  shows "n < 64" and "enc_char e n = c"
  using assms map_of_SomeD [of "zip (alphabet e) [0..<64]" c n]
  by (auto simp: dec_char_def enc_char_def good_encoding_def in_set_zip)

lemma enc_char_in: "good_encoding e \<Longrightarrow> n < 64 \<Longrightarrow> enc_char e n \<in> set (alphabet e)"
  by (auto simp: enc_char_def good_encoding_def)

lemma enc_char_not_pad [simp]: "good_encoding e \<Longrightarrow> n < 64 \<Longrightarrow> enc_char e n \<noteq> CHR ''=''"
  using enc_char_in good_encoding_def by metis

section \<open>Round trip and shape\<close>

lemma sextets_less [simp]:
  "(of_char a :: nat) div 4 < 64"
  "(of_char a :: nat) mod 4 * 16 < 64"
  "(of_char a :: nat) mod 4 * 16 + of_char b div 16 < 64"
  "(of_char b :: nat) mod 16 * 4 < 64"
  "(of_char b :: nat) mod 16 * 4 + of_char c div 64 < 64"
  "(of_char c :: nat) mod 64 < 64"
  using nat_of_char_less_256 [of a] nat_of_char_less_256 [of b] nat_of_char_less_256 [of c]
  by (linarith | auto)+

lemma byte_of_sextets [simp]:
  "byte0 (of_char a div 4) (of_char a mod 4 * 16) = a"
  "byte0 (of_char a div 4) (of_char a mod 4 * 16 + of_char b div 16) = a"
  "byte1 (of_char a mod 4 * 16 + of_char b div 16) (of_char b mod 16 * 4) = b"
  "byte1 (of_char a mod 4 * 16 + of_char b div 16) (of_char b mod 16 * 4 + of_char c div 64) = b"
  "byte2 (of_char b mod 16 * 4 + of_char c div 64) (of_char c mod 64) = c"
proof -
  have b16: "of_char b div 16 < (16::nat)" and c64: "of_char c div 64 < (4::nat)"
    using nat_of_char_less_256 [of b] nat_of_char_less_256 [of c] by linarith+
  then have q: "of_char b div 16 div 16 = (0::nat)" "of_char b div 16 mod 16 = of_char b div (16::nat)"
    "of_char c div 64 mod 4 = of_char c div (64::nat)" "of_char c div 64 div 4 = (0::nat)"
    by simp_all
  show "byte0 (of_char a div 4) (of_char a mod 4 * 16) = a"
    "byte0 (of_char a div 4) (of_char a mod 4 * 16 + of_char b div 16) = a"
    "byte1 (of_char a mod 4 * 16 + of_char b div 16) (of_char b mod 16 * 4) = b"
    "byte1 (of_char a mod 4 * 16 + of_char b div 16) (of_char b mod 16 * 4 + of_char c div 64) = b"
    "byte2 (of_char b mod 16 * 4 + of_char c div 64) (of_char c mod 64) = c"
    using q by (simp_all add: byte0_def byte1_def byte2_def del: div_mult2_eq)
qed

lemma dec_quanta_encode: "good_encoding e \<Longrightarrow> dec_quanta e (b64_encode e bs) = Some bs"
  by (induction e bs rule: b64_encode.induct)
     (auto simp: pad_def dec2_def dec3_def dec4_def numeral_2_eq_2)

lemma set_b64_encode:
  "good_encoding e \<Longrightarrow> set (b64_encode e bs) \<subseteq> set (alphabet e) \<union> (if padded e then {CHR ''=''} else {})"
  by (induction e bs rule: b64_encode.induct) (auto simp: pad_def enc_char_in)

lemma b64_encode_no_crlf: "good_encoding e \<Longrightarrow> c \<in> set (b64_encode e bs) \<Longrightarrow> \<not> is_crlf c"
  using set_b64_encode [of e bs]
  by (auto simp: good_encoding_def list_all_iff is_crlf_def split: if_splits)

theorem b64_decode_encode [simp]: "good_encoding e \<Longrightarrow> b64_decode e (b64_encode e bs) = Some bs"
  by (simp add: b64_decode_def filter_True b64_encode_no_crlf dec_quanta_encode)

lemma EncodedLen_add3 [simp]: "EncodedLen e (Suc (Suc (Suc n))) = 4 + EncodedLen e n"
proof -
  have "Suc (Suc (Suc n)) = n + 3" "n + 3 + 2 = (n + 2) + 3" by simp_all
  then show ?thesis
    unfolding EncodedLen_def by (simp only: div_add_self2 mod_add_self2) simp
qed

lemma length_b64_encode: "length (b64_encode e bs) = EncodedLen e (length bs)"
  by (induction e bs rule: b64_encode.induct) (simp_all, simp_all add: EncodedLen_def pad_def)

lemma DecodedLen_add4 [simp]: "DecodedLen e (4 + n) = 3 + DecodedLen e n"
  unfolding DecodedLen_def by (simp only: div_add_self1 mod_add_self1) simp

lemma DecodedLen_Suc4 [simp]: "DecodedLen e (Suc (Suc (Suc (Suc n)))) = 3 + DecodedLen e n"
  using DecodedLen_add4 [of e n] by (simp only: numeral_eq_Suc add_Suc add_0 pred_numeral_simps BitM.simps)

lemma DecodedLen_EncodedLen: "\<not> padded e \<Longrightarrow> DecodedLen e (EncodedLen e n) = n"
proof (induction n rule: less_induct)
  case (less n)
  show ?case
  proof (cases "n < 3")
    case True
    then have "n = 0 \<or> n = 1 \<or> n = 2" by linarith
    then show ?thesis using less.prems by (auto simp: DecodedLen_def EncodedLen_def)
  next
    case False
    then obtain m where m: "n = Suc (Suc (Suc m))"
      by (metis add_Suc add_0 le_Suc_ex not_less numeral_3_eq_3)
    with less.IH [of m] less.prems show ?thesis by simp
  qed
qed

lemma DecodedLen_mono: "m \<le> n \<Longrightarrow> DecodedLen e m \<le> DecodedLen e n"
proof (induction m arbitrary: n rule: less_induct)
  case (less m)
  show ?case
  proof (cases "m < 4")
    case True
    then have m: "m = 0 \<or> m = 1 \<or> m = 2 \<or> m = 3" by linarith
    show ?thesis
    proof (cases "n < 4")
      case True
      then have "n = 0 \<or> n = 1 \<or> n = 2 \<or> n = 3" by linarith
      with m less.prems show ?thesis by (auto simp: DecodedLen_def)
    next
      case False
      then have "3 \<le> DecodedLen e n" using DecodedLen_add4 [of e "n - 4"] by simp
      with m show ?thesis by (auto simp: DecodedLen_def)
    qed
  next
    case False
    with less.prems have "m = 4 + (m - 4)" "n = 4 + (n - 4)" "m - 4 \<le> n - 4" by linarith+
    then show ?thesis
      using False less.IH [of "m - 4" "n - 4"] DecodedLen_add4 [of e "m - 4"] DecodedLen_add4 [of e "n - 4"]
      by simp
  qed
qed

lemma length_dec_quanta: "dec_quanta e t = Some bs \<Longrightarrow> length bs \<le> DecodedLen e (length t)"
proof (induction e t arbitrary: bs rule: dec_quanta.induct)
  case (5 e c0 c1 c2 c3 cs)
  have len: "DecodedLen e (length (c0 # c1 # c2 # c3 # cs)) = 3 + DecodedLen e (length cs)"
    by simp
  show ?case
    unfolding len using 5
    by (auto simp: dec2_def dec3_def dec4_def split: option.splits if_splits)
qed (auto simp: DecodedLen_def dec2_def dec3_def split: option.splits if_splits)

lemma length_b64_decode_le: "b64_decode e s = Some bs \<Longrightarrow> length bs \<le> DecodedLen e (length s)"
  unfolding b64_decode_def
  by (meson length_dec_quanta DecodedLen_mono length_filter_le order_trans)

text \<open>The octets that delimit a compact serialisation never occur in an encoding.\<close>

lemma RawURL_alphabet:
  "set (alphabet RawURLEncoding) \<subseteq> - {CHR ''.'', CHR 0x22, CHR 0x5C, CHR ''='', CHR 0x0A, CHR 0x0D}"
  by (simp add: RawURLEncoding_def)

lemma RawURL_no_dot [simp]: "CHR ''.'' \<notin> set (b64_encode RawURLEncoding bs)"
  using set_b64_encode [of RawURLEncoding bs] RawURL_alphabet by auto

lemma b64_encode_eq_Nil [simp]: "b64_encode e bs = [] \<longleftrightarrow> bs = []"
  by (cases "(e, bs)" rule: b64_encode.cases) auto

section \<open>The codec interface\<close>

text \<open>
  What the parsers and printers rely on: an encoder and a partial decoder that recovers every
  encoded octet string. Injectivity of the encoder, and that canonical decoding (accept only
  what re-encodes to itself) is exactly the inverse image, follow once for every codec.
\<close>

locale byte_codec =
  fixes enc :: "bytes \<Rightarrow> string" and dec :: "string \<Rightarrow> bytes option"
  assumes dec_enc: "dec (enc bs) = Some bs"
begin

lemma enc_inj: "enc a = enc b \<Longrightarrow> a = b"
  by (metis dec_enc option.inject)

lemma enc_eq_iff: "enc a = enc b \<longleftrightarrow> a = b"
  using enc_inj by blast

lemma canonical: "(dec s = Some b \<and> enc b = s) \<longleftrightarrow> s = enc b"
  using dec_enc by blast

lemma canonical_unique: "dec s = Some b \<Longrightarrow> enc b = s \<Longrightarrow> dec t = Some b \<Longrightarrow> enc b = t \<Longrightarrow> s = t"
  by simp

end

interpretation raw: byte_codec "b64_encode RawURLEncoding" "b64_decode RawURLEncoding"
  by unfold_locales simp

interpretation std: byte_codec "b64_encode StdEncoding" "b64_decode StdEncoding"
  by unfold_locales simp

end
