(* ===== verification/Json.thy ===== *)
theory Json
  imports Prelude
begin

text \<open>
  The parts of Go's \<open>encoding/json\<close> the source uses. A document is parsed into a tree whose
  string tokens keep their raw source text (the octets between the quotes), because the
  \<open>UnmarshalJSON\<close> methods of the source receive raw text; a \<open>json.RawMessage\<close> is such a tree,
  that is the text up to insignificant white space. \<open>quote\<close> and \<open>unquote\<close> convert between a Go
  string and the raw text of a literal (HTML-safe escaping, UTF-8 repair, surrogates), and
  \<open>decode_struct\<close> is the reflection-driven assignment to a struct: exact name first, then the
  case-folded name, the last occurrence winning, type errors remembered and reported at the end.
\<close>

datatype json =
    JNull
  | JBool bool
  | JNum string
  | JStr string
  | JArr "json list"
  | JObj "(string \<times> json) list"

section \<open>Character classes\<close>

definition is_ws :: "char \<Rightarrow> bool" where
  "is_ws c \<longleftrightarrow> c = CHR '' '' \<or> c = CHR 0x09 \<or> c = CHR 0x0A \<or> c = CHR 0x0D"

definition is_digit :: "char \<Rightarrow> bool" where
  "is_digit c \<longleftrightarrow> 48 \<le> (of_char c :: nat) \<and> (of_char c :: nat) \<le> 57"

definition hex_val :: "char \<Rightarrow> nat option" where
  "hex_val c = (let n = (of_char c :: nat) in
     if 48 \<le> n \<and> n \<le> 57 then Some (n - 48)
     else if 97 \<le> n \<and> n \<le> 102 then Some (n - 87)
     else if 65 \<le> n \<and> n \<le> 70 then Some (n - 55) else None)"

definition hex_digit :: "nat \<Rightarrow> char" where
  "hex_digit n = ''0123456789abcdef'' ! (n mod 16)"

abbreviation (input) dquote :: char where "dquote \<equiv> CHR 0x22"
abbreviation (input) backslash :: char where "backslash \<equiv> CHR 0x5C"

definition skip_ws :: "string \<Rightarrow> string" where
  "skip_ws = dropWhile is_ws"

section \<open>Scanning tokens\<close>

definition simple_escape :: "char \<Rightarrow> bool" where
  "simple_escape e \<longleftrightarrow> e \<in> set [dquote, backslash, CHR ''/'', CHR ''b'', CHR ''f'', CHR ''n'', CHR ''r'', CHR ''t'']"

definition add_raw :: "string \<Rightarrow> (string \<times> string) option \<Rightarrow> (string \<times> string) option" where
  "add_raw p m = map_option (\<lambda>(a, r). (p @ a, r)) m"

text \<open>The rest of a string literal after its opening quote: its raw text and what follows.\<close>

fun scan_str :: "string \<Rightarrow> (string \<times> string) option" where
  "scan_str [] = None"
| "scan_str (c # cs) =
     (if c = dquote then Some ([], cs)
      else if c = backslash then
        (case cs of
           [] \<Rightarrow> None
         | e # cs' \<Rightarrow>
             if e = CHR ''u'' then
               (case cs' of
                  h1 # h2 # h3 # h4 # r \<Rightarrow>
                    if list_all (\<lambda>h. hex_val h \<noteq> None) [h1, h2, h3, h4]
                    then add_raw [c, e, h1, h2, h3, h4] (scan_str r) else None
                | _ \<Rightarrow> None)
             else if simple_escape e then add_raw [c, e] (scan_str cs') else None)
      else if of_char c < (32::nat) then None
      else add_raw [c] (scan_str cs))"

definition scan_digits :: "string \<Rightarrow> (string \<times> string) option" where
  "scan_digits s = (let ds = takeWhile is_digit s in
     if ds = [] then None else Some (ds, dropWhile is_digit s))"

definition scan_int :: "string \<Rightarrow> (string \<times> string) option" where
  "scan_int s = (case s of
     [] \<Rightarrow> None
   | c # cs \<Rightarrow> if c = CHR ''0'' then Some ([c], cs) else scan_digits s)"

definition scan_frac :: "string \<Rightarrow> (string \<times> string) option" where
  "scan_frac s = (case s of
     c # cs \<Rightarrow> if c = CHR ''.'' then add_raw [c] (scan_digits cs) else Some ([], s)
   | [] \<Rightarrow> Some ([], []))"

definition scan_exp :: "string \<Rightarrow> (string \<times> string) option" where
  "scan_exp s = (case s of
     c # cs \<Rightarrow>
       if c = CHR ''e'' \<or> c = CHR ''E'' then
         (case cs of
            g # cs' \<Rightarrow> if g = CHR ''+'' \<or> g = CHR ''-'' then add_raw [c, g] (scan_digits cs')
                      else add_raw [c] (scan_digits cs)
          | [] \<Rightarrow> None)
       else Some ([], s)
   | [] \<Rightarrow> Some ([], []))"

definition scan_unsigned :: "string \<Rightarrow> (string \<times> string) option" where
  "scan_unsigned s =
     Option.bind (scan_int s) (\<lambda>(i, s1). Option.bind (scan_frac s1) (\<lambda>(f, s2).
       map_option (\<lambda>(x, s3). (i @ f @ x, s3)) (scan_exp s2)))"

definition scan_num :: "string \<Rightarrow> (string \<times> string) option" where
  "scan_num s = (case s of
     c # cs \<Rightarrow> if c = CHR ''-'' then add_raw [c] (scan_unsigned cs) else scan_unsigned s
   | [] \<Rightarrow> None)"

definition scan_word :: "string \<Rightarrow> json \<Rightarrow> string \<Rightarrow> (json \<times> string) option" where
  "scan_word w v s = (if take (length w) s = w then Some (v, drop (length w) s) else None)"

section \<open>Parsing\<close>

text \<open>
  \<open>d\<close> is the nesting still allowed; the library refuses more than 10000 open containers. The
  loops over elements and members carry the number \<open>n\<close> of items still possible, which the
  callers set to the length of the text: every item takes at least one octet
  (\<open>parse_elems_fuel\<close> and \<open>parse_members_fuel\<close>: any larger \<open>n\<close> gives the same result).
\<close>

function (sequential) parse_value :: "nat \<Rightarrow> string \<Rightarrow> (json \<times> string) option"
  and parse_elems :: "nat \<Rightarrow> nat \<Rightarrow> string \<Rightarrow> (json list \<times> string) option"
  and parse_members :: "nat \<Rightarrow> nat \<Rightarrow> string \<Rightarrow> ((string \<times> json) list \<times> string) option" where
  "parse_value d [] = None"
| "parse_value d (c # cs) =
     (if c = dquote then map_option (\<lambda>(a, r). (JStr a, r)) (scan_str cs)
      else if c = CHR ''['' then
        (if d = 0 then None
         else if take 1 (skip_ws cs) = '']'' then Some (JArr [], drop 1 (skip_ws cs))
         else map_option (\<lambda>(xs, r). (JArr xs, r)) (parse_elems (d - 1) (length cs) cs))
      else if c = CHR ''{'' then
        (if d = 0 then None
         else if take 1 (skip_ws cs) = ''}'' then Some (JObj [], drop 1 (skip_ws cs))
         else map_option (\<lambda>(xs, r). (JObj xs, r)) (parse_members (d - 1) (length cs) cs))
      else if c = CHR ''t'' then scan_word ''true'' (JBool True) (c # cs)
      else if c = CHR ''f'' then scan_word ''false'' (JBool False) (c # cs)
      else if c = CHR ''n'' then scan_word ''null'' JNull (c # cs)
      else map_option (\<lambda>(a, r). (JNum a, r)) (scan_num (c # cs)))"
| "parse_elems d n s =
     (if n = 0 then None else
      case parse_value d (skip_ws s) of
        None \<Rightarrow> None
      | Some (v, r) \<Rightarrow>
          (case skip_ws r of
             [] \<Rightarrow> None
           | c # r' \<Rightarrow>
               if c = CHR '']'' then Some ([v], r')
               else if c = CHR '','' then
                 map_option (\<lambda>(vs, r''). (v # vs, r'')) (parse_elems d (n - 1) r')
               else None))"
| "parse_members d n s =
     (if n = 0 then None else
      case skip_ws s of
        [] \<Rightarrow> None
      | q # s1 \<Rightarrow>
          if q \<noteq> dquote then None else
          (case scan_str s1 of
             None \<Rightarrow> None
           | Some (k, r1) \<Rightarrow>
               if take 1 (skip_ws r1) \<noteq> '':'' then None else
               (case parse_value d (skip_ws (drop 1 (skip_ws r1))) of
                  None \<Rightarrow> None
                | Some (v, r) \<Rightarrow>
                    (case skip_ws r of
                       [] \<Rightarrow> None
                     | c # r' \<Rightarrow>
                         if c = CHR ''}'' then Some ([(k, v)], r')
                         else if c = CHR '','' then
                           map_option (\<lambda>(ms, r''). ((k, v) # ms, r'')) (parse_members d (n - 1) r')
                         else None))))"
  by pat_completeness auto
termination
  by (relation "inv_image (less_than <*lex*> less_than)
        (case_sum (\<lambda>(d, s). (d, 0)) (case_sum (\<lambda>(d, n, s). (d, Suc n)) (\<lambda>(d, n, s). (d, Suc n))))") auto

declare parse_elems.simps [simp del] parse_members.simps [simp del]

definition max_nesting :: nat where
  "max_nesting = 10000"

text \<open>\<open>json.Unmarshal\<close> checks the whole text first: one value and nothing but white space after it.\<close>

definition json_parse :: "string \<Rightarrow> json option" where
  "json_parse s = (case parse_value max_nesting (skip_ws s) of
     Some (v, r) \<Rightarrow> if skip_ws r = [] then Some v else None
   | None \<Rightarrow> None)"

section \<open>Printing\<close>

fun json_print :: "json \<Rightarrow> string" where
  "json_print JNull = ''null''"
| "json_print (JBool b) = (if b then ''true'' else ''false'')"
| "json_print (JNum l) = l"
| "json_print (JStr r) = dquote # r @ [dquote]"
| "json_print (JArr xs) = ''['' @ join '','' (map json_print xs) @ '']''"
| "json_print (JObj ms) =
     ''{'' @ join '','' (map (\<lambda>(k, v). dquote # k @ dquote # CHR '':'' # json_print v) ms) @ ''}''"

section \<open>Strings\<close>

text \<open>
  \<open>utf8_len s\<close> is the number of octets of the first rune of \<open>s\<close>, 0 when \<open>s\<close> does not start
  with a valid encoding (the table of \<open>unicode/utf8\<close>).
\<close>

definition in_range :: "nat \<Rightarrow> nat \<Rightarrow> string \<Rightarrow> nat \<Rightarrow> bool" where
  "in_range lo hi s i \<longleftrightarrow> i < length s \<and> lo \<le> of_char (s ! i) \<and> of_char (s ! i) \<le> hi"

definition utf8_len :: "string \<Rightarrow> nat" where
  "utf8_len s = (if s = [] then 0 else
     let c = (of_char (s ! 0) :: nat) in
     if c < 128 then 1
     else if 194 \<le> c \<and> c \<le> 223 then (if in_range 128 191 s 1 then 2 else 0)
     else if 224 \<le> c \<and> c \<le> 239 then
       (if in_range (if c = 224 then 160 else 128) (if c = 237 then 159 else 191) s 1
          \<and> in_range 128 191 s 2 then 3 else 0)
     else if 240 \<le> c \<and> c \<le> 244 then
       (if in_range (if c = 240 then 144 else 128) (if c = 244 then 143 else 191) s 1
          \<and> in_range 128 191 s 2 \<and> in_range 128 191 s 3 then 4 else 0)
     else 0)"

function utf8_valid :: "string \<Rightarrow> bool" where
  "utf8_valid s =
     (if s = [] then True else if utf8_len s = 0 then False
      else utf8_valid (drop (utf8_len s) s))"
  by pat_completeness auto
termination
  by (relation "measure length") auto

definition utf8_encode :: "nat \<Rightarrow> string" where
  "utf8_encode r =
     (if r < 128 then [char_of r]
      else if r < 2048 then [char_of (192 + r div 64), char_of (128 + r mod 64)]
      else if r < 65536 then
        [char_of (224 + r div 4096), char_of (128 + r div 64 mod 64), char_of (128 + r mod 64)]
      else [char_of (240 + r div 262144), char_of (128 + r div 4096 mod 64),
            char_of (128 + r div 64 mod 64), char_of (128 + r mod 64)])"

definition rune_error :: string where
  "rune_error = [CHR 0xEF, CHR 0xBF, CHR 0xBD]"

definition u_escape :: "nat \<Rightarrow> string" where
  "u_escape n = [backslash, CHR ''u'', hex_digit (n div 4096), hex_digit (n div 256),
                 hex_digit (n div 16), hex_digit n]"

text \<open>The encoder's escape of an ASCII octet, with HTML escaping on as in \<open>json.Marshal\<close>.\<close>

definition quote_ascii :: "char \<Rightarrow> string" where
  "quote_ascii c =
     (if c = dquote \<or> c = backslash then [backslash, c]
      else if c = CHR 0x08 then [backslash, CHR ''b'']
      else if c = CHR 0x0C then [backslash, CHR ''f'']
      else if c = CHR 0x0A then [backslash, CHR ''n'']
      else if c = CHR 0x0D then [backslash, CHR ''r'']
      else if c = CHR 0x09 then [backslash, CHR ''t'']
      else if of_char c < (32::nat) \<or> c \<in> set ''<>&'' then u_escape (of_char c)
      else [c])"

function quote :: "string \<Rightarrow> string" where
  "quote s =
     (if s = [] then []
      else if of_char (hd s) < (128::nat) then quote_ascii (hd s) @ quote (tl s)
      else if utf8_len s = 0 then u_escape 65533 @ quote (tl s)
      else if take 3 s = [CHR 0xE2, CHR 0x80, CHR 0xA8] then u_escape 8232 @ quote (drop 3 s)
      else if take 3 s = [CHR 0xE2, CHR 0x80, CHR 0xA9] then u_escape 8233 @ quote (drop 3 s)
      else take (utf8_len s) s @ quote (drop (utf8_len s) s))"
  by pat_completeness auto
termination
  by (relation "measure length") auto

definition hex4 :: "string \<Rightarrow> nat option" where
  "hex4 s = (case s of
     a # b # c # d # _ \<Rightarrow>
       (case (hex_val a, hex_val b, hex_val c, hex_val d) of
          (Some w, Some x, Some y, Some z) \<Rightarrow> Some (w * 4096 + x * 256 + y * 16 + z)
        | _ \<Rightarrow> None)
   | _ \<Rightarrow> None)"

definition unescape :: "char \<Rightarrow> char" where
  "unescape e =
     (if e = CHR ''b'' then CHR 0x08 else if e = CHR ''f'' then CHR 0x0C
      else if e = CHR ''n'' then CHR 0x0A else if e = CHR ''r'' then CHR 0x0D
      else if e = CHR ''t'' then CHR 0x09 else e)"

text \<open>The low surrogate of a pair that starts at \<open>s\<close>, if \<open>s\<close> continues with one.\<close>

definition low_surrogate :: "string \<Rightarrow> nat option" where
  "low_surrogate s = (if take 2 s = [backslash, CHR ''u''] then
     (case hex4 (drop 2 s) of
        Some l \<Rightarrow> if 56320 \<le> l \<and> l < 57344 then Some l else None | None \<Rightarrow> None)
     else None)"

text \<open>\<open>unquote\<close> on the raw text of a scanned literal.\<close>

function unquote :: "string \<Rightarrow> string" where
  "unquote s =
     (if s = [] then []
      else if hd s = backslash then
        (if take 1 (tl s) = ''u'' then
           (case hex4 (drop 2 s) of
              None \<Rightarrow> []
            | Some r \<Rightarrow>
                if 55296 \<le> r \<and> r < 57344 then
                  (case low_surrogate (drop 6 s) of
                     Some l \<Rightarrow>
                       if r < 56320
                       then utf8_encode (65536 + (r - 55296) * 1024 + (l - 56320)) @ unquote (drop 12 s)
                       else rune_error @ unquote (drop 6 s)
                   | None \<Rightarrow> rune_error @ unquote (drop 6 s))
                else utf8_encode r @ unquote (drop 6 s))
         else map unescape (take 1 (tl s)) @ unquote (drop 2 s))
      else if of_char (hd s) < (128::nat) then hd s # unquote (tl s)
      else if utf8_len s = 0 then rune_error @ unquote (tl s)
      else take (utf8_len s) s @ unquote (drop (utf8_len s) s))"
  by pat_completeness auto
termination
  by (relation "measure length") auto

declare utf8_valid.simps [simp del] quote.simps [simp del] unquote.simps [simp del]

text \<open>Escaping applied to a raw message when it is embedded in an encoded document
  (\<open>compact\<close> with HTML escaping).\<close>

fun html_escape :: "string \<Rightarrow> string" where
  "html_escape [] = []"
| "html_escape (c # cs) =
     (if c \<in> set ''<>&'' then u_escape (of_char c) @ html_escape cs
      else if c = CHR 0xE2 then
        (case cs of
           b # a # r \<Rightarrow>
             if b = CHR 0x80 \<and> a = CHR 0xA8 then u_escape 8232 @ html_escape r
             else if b = CHR 0x80 \<and> a = CHR 0xA9 then u_escape 8233 @ html_escape r
             else c # html_escape cs
         | _ \<Rightarrow> c # html_escape cs)
      else c # html_escape cs)"

fun json_compact :: "json \<Rightarrow> json" where
  "json_compact (JStr r) = JStr (html_escape r)"
| "json_compact (JArr xs) = JArr (map json_compact xs)"
| "json_compact (JObj ms) = JObj (map (\<lambda>(k, v). (html_escape k, json_compact v)) ms)"
| "json_compact v = v"

section \<open>Integers\<close>

fun dec_nat :: "nat \<Rightarrow> string" where
  "dec_nat n = (if n < 10 then [char_of (48 + n)] else dec_nat (n div 10) @ [char_of (48 + n mod 10)])"

declare dec_nat.simps [simp del]

definition dec_int :: "int \<Rightarrow> string" where
  "dec_int i = (if i < 0 then CHR ''-'' # dec_nat (nat (- i)) else dec_nat (nat i))"

definition nat_of_digits :: "string \<Rightarrow> nat" where
  "nat_of_digits s = foldl (\<lambda>a c. a * 10 + (of_char c - 48)) 0 s"

text \<open>\<open>strconv.ParseInt(s, 10, 64)\<close> on a scanned number literal.\<close>

definition parse_int64 :: "string \<Rightarrow> int option" where
  "parse_int64 s =
     (let neg = (take 1 s = ''-''); ds = (if neg then drop 1 s else s);
          i = (if neg then - int (nat_of_digits ds) else int (nat_of_digits ds))
      in if ds \<noteq> [] \<and> list_all is_digit ds \<and> - (2 ^ 63) \<le> i \<and> i < 2 ^ 63 then Some i else None)"

definition parse_uint8 :: "string \<Rightarrow> nat option" where
  "parse_uint8 s = (if s \<noteq> [] \<and> list_all is_digit s \<and> nat_of_digits s < 256
     then Some (nat_of_digits s) else None)"

section \<open>Decoding into Go values\<close>

text \<open>
  The outcome of assigning a JSON value: done, done with a type error remembered by the decoder
  (reported once the whole document has been walked), or stopped by an error of an
  \<open>UnmarshalJSON\<close> method.
\<close>

datatype ('e, 's) dec = Fine 's | Saved 's | Hard 'e

fun map_dec :: "('a \<Rightarrow> 'b) \<Rightarrow> ('e, 'a) dec \<Rightarrow> ('e, 'b) dec" where
  "map_dec f (Fine x) = Fine (f x)"
| "map_dec f (Saved x) = Saved (f x)"
| "map_dec f (Hard e) = Hard e"

definition dec_result :: "'e \<Rightarrow> ('e, 's) dec \<Rightarrow> 'e + 's" where
  "dec_result te d = (case d of Fine s \<Rightarrow> Inr s | Saved _ \<Rightarrow> Inl te | Hard e \<Rightarrow> Inl e)"

text \<open>The key comparison of \<open>encoding/json\<close>: ASCII letters fold to upper case, and the two
  non-ASCII runes that fold to ASCII letters are the long s and the Kelvin sign.\<close>

fun fold_name :: "string \<Rightarrow> string" where
  "fold_name [] = []"
| "fold_name (c # cs) =
     (if c = CHR 0xC5 \<and> take 1 cs = [CHR 0xBF] then CHR ''S'' # fold_name (drop 1 cs)
      else if c = CHR 0xE2 \<and> take 2 cs = [CHR 0x84, CHR 0xAA] then CHR ''K'' # fold_name (drop 2 cs)
      else if 97 \<le> (of_char c :: nat) \<and> (of_char c :: nat) \<le> 122
        then char_of ((of_char c :: nat) - 32) # fold_name cs
      else c # fold_name cs)"

type_synonym ('e, 's) fields = "(string \<times> (json \<Rightarrow> 's \<Rightarrow> ('e, 's) dec)) list"

definition find_field :: "('e, 's) fields \<Rightarrow> string \<Rightarrow> (json \<Rightarrow> 's \<Rightarrow> ('e, 's) dec) option" where
  "find_field fs k = (case map_of fs k of
     Some f \<Rightarrow> Some f
   | None \<Rightarrow> map_of (map (\<lambda>(n, f). (fold_name n, f)) fs) (fold_name k))"

fun decode_members :: "('e, 's) fields \<Rightarrow> (string \<times> json) list \<Rightarrow> bool \<Rightarrow> 's \<Rightarrow> ('e, 's) dec" where
  "decode_members fs [] saved st = (if saved then Saved st else Fine st)"
| "decode_members fs ((k, v) # ms) saved st =
     (case find_field fs (unquote k) of
        None \<Rightarrow> decode_members fs ms saved st
      | Some f \<Rightarrow>
          (case f v st of
             Fine st' \<Rightarrow> decode_members fs ms saved st'
           | Saved st' \<Rightarrow> decode_members fs ms True st'
           | Hard e \<Rightarrow> Hard e))"

definition decode_struct :: "('e, 's) fields \<Rightarrow> json \<Rightarrow> 's \<Rightarrow> ('e, 's) dec" where
  "decode_struct fs v st = (case v of
     JObj ms \<Rightarrow> decode_members fs ms False st
   | JNull \<Rightarrow> Fine st
   | _ \<Rightarrow> Saved st)"

fun dec_string :: "json \<Rightarrow> string \<Rightarrow> ('e, string) dec" where
  "dec_string (JStr r) old = Fine (unquote r)"
| "dec_string JNull old = Fine old"
| "dec_string _ old = Saved old"

fun dec_int64 :: "json \<Rightarrow> int \<Rightarrow> ('e, int) dec" where
  "dec_int64 (JNum l) old = (case parse_int64 l of Some i \<Rightarrow> Fine i | None \<Rightarrow> Saved old)"
| "dec_int64 JNull old = Fine old"
| "dec_int64 _ old = Saved old"

text \<open>Elements of a slice are decoded into fresh zero values.\<close>

fun dec_elems :: "(json \<Rightarrow> ('e, 'a) dec) \<Rightarrow> json list \<Rightarrow> ('e, 'a list) dec" where
  "dec_elems f [] = Fine []"
| "dec_elems f (v # vs) =
     (case f v of
        Hard e \<Rightarrow> Hard e
      | Fine x \<Rightarrow> map_dec (\<lambda>xs. x # xs) (dec_elems f vs)
      | Saved x \<Rightarrow> (case dec_elems f vs of
          Hard e \<Rightarrow> Hard e | Fine xs \<Rightarrow> Saved (x # xs) | Saved xs \<Rightarrow> Saved (x # xs)))"

fun dec_list :: "(json \<Rightarrow> ('e, 'a) dec) \<Rightarrow> json \<Rightarrow> 'a list \<Rightarrow> ('e, 'a list) dec" where
  "dec_list f (JArr vs) old = dec_elems f vs"
| "dec_list f JNull old = Fine []"
| "dec_list f _ old = Saved old"

text \<open>A member of an encoded object: a literal name and a value.\<close>

definition jmember :: "string \<Rightarrow> json \<Rightarrow> string \<times> json" where
  "jmember n v = (quote n, v)"

definition jstring :: "string \<Rightarrow> json" where
  "jstring s = JStr (quote s)"

definition jint :: "int \<Rightarrow> json" where
  "jint i = JNum (dec_int i)"

end
