(* ===== verification/Json_Laws.thy ===== *)
theory Json_Laws
  imports Json
begin

text \<open>
  The laws of the JSON layer: the raw text of every string the encoder produces is a scannable
  literal that decodes back to the string (for valid UTF-8), integers survive printing and
  parsing, and the parser inverts the printer on every well-formed tree within the nesting limit.
\<close>

section \<open>String literals\<close>

definition raw_ok :: "string \<Rightarrow> bool" where
  "raw_ok p \<longleftrightarrow> (\<forall>t. scan_str (p @ t) = add_raw p (scan_str t))"

lemma add_raw_simps [simp]:
  "add_raw p None = None" "add_raw p (Some (a, r)) = Some (p @ a, r)" "add_raw [] m = m"
  "add_raw p (add_raw q m) = add_raw (p @ q) m"
  by (cases m; auto simp: add_raw_def)+

lemma add_raw_Some: "add_raw p m = Some (a, r) \<longleftrightarrow> (\<exists>b. m = Some (b, r) \<and> a = p @ b)"
  by (cases m) (auto simp: add_raw_def)

lemma raw_ok_Nil [simp, wf_rules]: "raw_ok []"
  by (simp add: raw_ok_def)

lemma raw_ok_append [wf_rules]: "raw_ok p \<Longrightarrow> raw_ok q \<Longrightarrow> raw_ok (p @ q)"
  by (simp add: raw_ok_def)

lemma raw_ok_plain [wf_rules]:
  "c \<noteq> CHR 0x22 \<Longrightarrow> c \<noteq> CHR 0x5C \<Longrightarrow> 32 \<le> (of_char c :: nat) \<Longrightarrow> raw_ok [c]"
  by (simp add: raw_ok_def)

lemma raw_ok_plains [wf_rules]:
  "(\<And>c. c \<in> set p \<Longrightarrow> c \<noteq> CHR 0x22 \<and> c \<noteq> CHR 0x5C \<and> 32 \<le> (of_char c :: nat)) \<Longrightarrow> raw_ok p"
proof (induction p)
  case (Cons c p)
  have "raw_ok [c]" using Cons.prems by (intro raw_ok_plain) auto
  moreover have "raw_ok p" using Cons by auto
  ultimately show ?case using raw_ok_append [of "[c]" p] by simp
qed simp

lemma raw_ok_simple [wf_rules]: "simple_escape e \<Longrightarrow> raw_ok [CHR 0x5C, e]"
  by (auto simp: raw_ok_def simple_escape_def)

lemma hex_val_digit [simp]: "hex_val (hex_digit n) = Some (n mod 16)"
proof -
  have "\<forall>k \<in> set [0..<16]. hex_val (''0123456789abcdef'' ! k) = Some k"
    by (simp add: upt_rec hex_val_def)
  then show ?thesis by (simp add: hex_digit_def)
qed

lemma raw_ok_u_escape [simp, wf_rules]: "raw_ok (u_escape n)"
  by (simp add: raw_ok_def u_escape_def)

lemma raw_ok_scan: "raw_ok p \<Longrightarrow> scan_str (p @ CHR 0x22 # t) = Some (p, t)"
  by (simp add: raw_ok_def)

lemma scan_str_raw_ok: "scan_str s = Some (a, r) \<Longrightarrow> raw_ok a \<and> s = a @ CHR 0x22 # r"
proof (induction s arbitrary: a r rule: scan_str.induct)
  case (2 c cs)
  note prem = "2.prems"
  consider (q) "c = CHR 0x22" | (b) "c = CHR 0x5C" | (p) "c \<noteq> CHR 0x22" "c \<noteq> CHR 0x5C" by blast
  then show ?case
  proof cases
    case q
    with prem show ?thesis by simp
  next
    case b
    with prem obtain e cs' where cs: "cs = e # cs'" by (cases cs) simp_all
    show ?thesis
    proof (cases "e = CHR ''u''")
      case True
      with prem b cs obtain h1 h2 h3 h4 t a' where h: "cs' = h1 # h2 # h3 # h4 # t"
        "list_all (\<lambda>h. hex_val h \<noteq> None) [h1, h2, h3, h4]" "scan_str t = Some (a', r)"
        "a = [c, e, h1, h2, h3, h4] @ a'"
        by (simp split: list.splits if_splits add: add_raw_Some) blast
      have "raw_ok a' \<and> t = a' @ CHR 0x22 # r"
        using "2.IH"(1) b cs True h by simp
      moreover have "raw_ok [c, e, h1, h2, h3, h4]" using b True h(2) by (auto simp: raw_ok_def)
      ultimately show ?thesis using h cs raw_ok_append [of "[c, e, h1, h2, h3, h4]" a'] by simp
    next
      case False
      with prem b cs obtain a' where h: "simple_escape e" "scan_str cs' = Some (a', r)" "a = [c, e] @ a'"
        by (simp split: if_splits add: add_raw_Some) blast
      have "raw_ok a' \<and> cs' = a' @ CHR 0x22 # r"
        using "2.IH"(2) b cs False h by simp
      with h cs b show ?thesis using raw_ok_append [of "[c, e]" a'] raw_ok_simple [of e] by simp
    qed
  next
    case p
    with prem obtain a' where h: "32 \<le> (of_char c :: nat)" "scan_str cs = Some (a', r)" "a = [c] @ a'"
      by (simp split: if_splits add: add_raw_Some) (metis not_less)
    have "raw_ok a' \<and> cs = a' @ CHR 0x22 # r"
      using "2.IH"(3) [OF p] h by simp
    with h p show ?thesis using raw_ok_append [of "[c]" a'] raw_ok_plain [of c] by simp
  qed
qed simp

text \<open>The executable form.\<close>

definition lit_ok :: "string \<Rightarrow> bool" where
  "lit_ok r \<longleftrightarrow> scan_str (r @ ''\"'') = Some (r, [])"

lemma lit_ok_iff [simp]: "lit_ok r \<longleftrightarrow> raw_ok r"
  using scan_str_raw_ok [of "r @ ''\"''" r "[]"] raw_ok_scan [of r "[]"] by (auto simp: lit_ok_def)

lemma length_scan_str: "scan_str s = Some (a, r) \<Longrightarrow> length r < length s"
  by (auto dest!: scan_str_raw_ok)

section \<open>UTF-8\<close>

lemma utf8_len_cases: "utf8_len s \<in> {0, 1, 2, 3, 4}"
  by (simp add: utf8_len_def Let_def)

lemma utf8_len_last:
  "utf8_len s = 1 \<Longrightarrow> s \<noteq> []"
  "utf8_len s = 2 \<Longrightarrow> \<exists>lo hi. in_range lo hi s 1"
  "utf8_len s = 3 \<Longrightarrow> \<exists>lo hi. in_range lo hi s 2"
  "utf8_len s = 4 \<Longrightarrow> \<exists>lo hi. in_range lo hi s 3"
  unfolding utf8_len_def Let_def by (simp split: if_splits; blast)+

lemma utf8_len_le: "utf8_len s \<le> length s"
  using utf8_len_cases [of s] utf8_len_last [of s]
  by (auto simp: in_range_def Suc_le_eq numeral_eq_Suc)

lemma utf8_len_ascii [simp]: "(of_char c :: nat) < 128 \<Longrightarrow> utf8_len (c # s) = 1"
  by (simp add: utf8_len_def)

lemma in_range_append: "in_range lo hi s i \<Longrightarrow> in_range lo hi (s @ t) i"
  by (auto simp: in_range_def nth_append)

lemma utf8_len_take: "utf8_len s \<noteq> 0 \<Longrightarrow> utf8_len (take (utf8_len s) s @ t) = utf8_len s"
proof -
  assume nz: "utf8_len s \<noteq> 0"
  let ?n = "utf8_len s"
  have nth: "i < ?n \<Longrightarrow> (take ?n s @ t) ! i = s ! i" for i
    using utf8_len_le [of s] by (simp add: nth_append)
  have ne: "take ?n s @ t \<noteq> []" and nes: "s \<noteq> []" using nz by (auto simp: utf8_len_def)
  have rng: "i < ?n \<Longrightarrow> in_range lo hi (take ?n s @ t) i = in_range lo hi s i" for i lo hi
    using utf8_len_le [of s] by (auto simp: in_range_def nth)
  have z: "(take ?n s @ t) ! 0 = s ! 0" using nz by (simp add: nth)
  consider "?n = 1" | "?n = 2" | "?n = 3" | "?n = 4" using utf8_len_cases [of s] nz by auto
  then show ?thesis
  proof cases
    case 1
    then have "of_char (s ! 0) < (128::nat)" using nes by (auto simp: utf8_len_def Let_def split: if_splits)
    with 1 ne z show ?thesis by (simp add: utf8_len_def)
  next
    case 2
    then show ?thesis using ne nes z rng [of 1]
      by (auto simp: utf8_len_def [of s] utf8_len_def [of "take _ _ @ _"] Let_def split: if_splits)
  next
    case 3
    then show ?thesis using ne nes z rng [of 1] rng [of 2]
      by (auto simp: utf8_len_def [of s] utf8_len_def [of "take _ _ @ _"] Let_def split: if_splits)
  next
    case 4
    then show ?thesis using ne nes z rng [of 1] rng [of 2] rng [of 3]
      by (auto simp: utf8_len_def [of s] utf8_len_def [of "take _ _ @ _"] Let_def split: if_splits)
  qed
qed

lemma utf8_len_high:
  assumes "(128::nat) \<le> of_char (hd s)" "c \<in> set (take (utf8_len s) s)"
  shows "(128::nat) \<le> of_char c"
proof -
  have ne: "s \<noteq> []" using assms(2) by auto
  obtain i where i: "i < utf8_len s" "c = s ! i"
    using assms(2) utf8_len_le [of s] by (auto simp: in_set_conv_nth)
  have z: "(128::nat) \<le> of_char (s ! 0)" using assms(1) ne by (simp add: hd_conv_nth)
  have "i = 0 \<or> i = 1 \<or> i = 2 \<or> i = 3" using i(1) utf8_len_cases [of s] by auto
  then show ?thesis
    using i z ne by (elim disjE) (auto simp: utf8_len_def Let_def in_range_def split: if_splits)
qed

section \<open>Quoting\<close>

lemma raw_ok_quote_ascii [wf_rules]: "raw_ok (quote_ascii c)"
proof (cases "quote_ascii c = [c]")
  case True
  then have "c \<noteq> CHR 0x22 \<and> c \<noteq> CHR 0x5C \<and> \<not> of_char c < (32::nat)"
    by (simp add: quote_ascii_def u_escape_def split: if_splits)
  with True show ?thesis by (simp add: raw_ok_plain)
next
  case False
  then show ?thesis
    by (simp add: quote_ascii_def raw_ok_simple simple_escape_def raw_ok_plain split: if_splits)
qed

theorem raw_ok_quote [simp, wf_rules]: "raw_ok (quote s)"
proof (induction s rule: quote.induct)
  case (1 s)
  have high: "raw_ok (take (utf8_len s) s)" if "\<not> of_char (hd s) < (128::nat)"
  proof (rule raw_ok_plains)
    fix c
    assume "c \<in> set (take (utf8_len s) s)"
    with that have "(128::nat) \<le> of_char c" using utf8_len_high [of s c] by simp
    then show "c \<noteq> CHR 0x22 \<and> c \<noteq> CHR 0x5C \<and> 32 \<le> (of_char c :: nat)" by auto
  qed
  have "raw_ok (if s = [] then []
      else if of_char (hd s) < (128::nat) then quote_ascii (hd s) @ quote (tl s)
      else if utf8_len s = 0 then u_escape 65533 @ quote (tl s)
      else if take 3 s = [CHR 0xE2, CHR 0x80, CHR 0xA8] then u_escape 8232 @ quote (drop 3 s)
      else if take 3 s = [CHR 0xE2, CHR 0x80, CHR 0xA9] then u_escape 8233 @ quote (drop 3 s)
      else take (utf8_len s) s @ quote (drop (utf8_len s) s))"
    using high by (simp add: raw_ok_append raw_ok_quote_ascii "1.IH")
  then show ?case by (subst quote.simps)
qed

lemma quote_Nil [simp]: "quote [] = []"
  by (simp add: quote.simps)

lemma unquote_Nil [simp]: "unquote [] = []"
  by (simp add: unquote.simps)

lemma utf8_valid_Nil [simp]: "utf8_valid []"
  by (simp add: utf8_valid.simps)

lemma utf8_validD:
  "utf8_valid s \<Longrightarrow> s \<noteq> [] \<Longrightarrow> utf8_len s \<noteq> 0 \<and> utf8_valid (drop (utf8_len s) s)"
  by (subst (asm) utf8_valid.simps) (auto split: if_splits)

lemma quote_ascii_step [simp]:
  "(of_char c :: nat) < 128 \<Longrightarrow> quote (c # s) = quote_ascii c @ quote s"
  by (subst quote.simps) simp

lemma utf8_valid_ascii [simp]: "(of_char c :: nat) < 128 \<Longrightarrow> utf8_valid (c # s) = utf8_valid s"
  by (subst utf8_valid.simps) simp

lemma horner16: "16 * (16 * (16 * a + b) + c) + d = a * 4096 + b * 256 + c * 16 + (d::nat)"
  by simp

lemma hex4_u_escape: "hex4 (drop 2 (u_escape n @ t)) = Some (n mod 65536)"
proof -
  have e: "n div 16 div 16 = n div 256" "n div 256 div 16 = n div 4096"
    using div_mult2_eq [of n 16 16, symmetric] div_mult2_eq [of n 256 16, symmetric]
    by (simp_all only: numeral_times_numeral num.simps mult_numeral_1 semiring_norm)
  have m: "n mod 65536 = 16 * (n div 16 mod 4096) + n mod 16"
    "n div 16 mod 4096 = 16 * (n div 256 mod 256) + n div 16 mod 16"
    "n div 256 mod 256 = 16 * (n div 4096 mod 16) + n div 256 mod 16"
    using mod_mult2_eq [of n 16 4096] mod_mult2_eq [of "n div 16" 16 256]
      mod_mult2_eq [of "n div 256" 16 16]
    by (simp_all only: e numeral_times_numeral semiring_norm)
  have "n div 4096 mod 16 * 4096 + n div 256 mod 16 * 256 + n div 16 mod 16 * 16 + n mod 16 = n mod 65536"
    by (subst m(1), subst m(2), subst m(3), rule horner16 [symmetric])
  moreover have "hex4 (drop 2 (u_escape n @ t)) = Some (n div 4096 mod 16 * 4096
      + n div 256 mod 16 * 256 + n div 16 mod 16 * 16 + n mod 16)"
    by (simp add: u_escape_def hex4_def)
  ultimately show ?thesis by (simp only:)
qed

lemma unquote_u_escape:
  assumes "n < 65536" "\<not> (55296 \<le> n \<and> n < 57344)"
  shows "unquote (u_escape n @ t) = utf8_encode n @ unquote t"
proof -
  have "hd (u_escape n @ t) = CHR 0x5C" "take 1 (tl (u_escape n @ t)) = ''u''"
    "drop 6 (u_escape n @ t) = t" "u_escape n @ t \<noteq> []"
    by (simp_all add: u_escape_def)
  then show ?thesis
    using assms hex4_u_escape [of n t] by (subst unquote.simps) auto
qed

lemma utf8_encode_separators:
  "utf8_encode 8232 = [CHR 0xE2, CHR 0x80, CHR 0xA8]"
  "utf8_encode 8233 = [CHR 0xE2, CHR 0x80, CHR 0xA9]"
  by (simp_all add: utf8_encode_def char_of_eq_iff)

lemma unquote_quote_ascii:
  assumes "(of_char c :: nat) < 128"
  shows "unquote (quote_ascii c @ t) = c # unquote t"
proof -
  have u: "unquote (u_escape (of_char c) @ t) = c # unquote t"
    using assms by (subst unquote_u_escape) (simp_all add: utf8_encode_def)
  show ?thesis
    unfolding quote_ascii_def using u assms
    by (auto simp: unquote.simps [of "_ # _"] unescape_def)
qed

theorem unquote_quote: "utf8_valid s \<Longrightarrow> unquote (quote s) = s"
proof (induction s rule: quote.induct)
  case (1 s)
  show ?case
  proof (cases s)
    case (Cons c cs)
    show ?thesis
    proof (cases "of_char c < (128::nat)")
      case True
      with Cons 1 show ?thesis by (simp add: unquote_quote_ascii)
    next
      case high: False
      have len: "utf8_len s \<noteq> 0" and v: "utf8_valid (drop (utf8_len s) s)"
        using utf8_validD [OF "1.prems"] Cons by simp_all
      consider (ls) "take 3 s = [CHR 0xE2, CHR 0x80, CHR 0xA8]"
        | (ps) "take 3 s = [CHR 0xE2, CHR 0x80, CHR 0xA9]"
        | (o) "take 3 s \<noteq> [CHR 0xE2, CHR 0x80, CHR 0xA8]" "take 3 s \<noteq> [CHR 0xE2, CHR 0x80, CHR 0xA9]"
        by blast
      then show ?thesis
      proof cases
        case ls
        have "utf8_len s = 3"
          using ls Cons by (cases cs; cases "tl cs") (auto simp: utf8_len_def in_range_def)
        moreover have "s = [CHR 0xE2, CHR 0x80, CHR 0xA8] @ drop 3 s" using ls by (metis append_take_drop_id)
        ultimately show ?thesis
          using 1(3) v high ls Cons len
          by (subst quote.simps) (simp add: unquote_u_escape utf8_encode_separators)
      next
        case ps
        have "utf8_len s = 3"
          using ps Cons by (cases cs; cases "tl cs") (auto simp: utf8_len_def in_range_def)
        moreover have "s = [CHR 0xE2, CHR 0x80, CHR 0xA9] @ drop 3 s" using ps by (metis append_take_drop_id)
        ultimately show ?thesis
          using 1(4) v high ps Cons len
          by (subst quote.simps) (simp add: unquote_u_escape utf8_encode_separators)
      next
        case o
        let ?p = "take (utf8_len s) s" and ?t = "quote (drop (utf8_len s) s)"
        have q: "quote s = ?p @ ?t"
          by (subst quote.simps) (simp only: o high Cons [THEN arg_cong, of hd] len if_False if_True
              list.sel, simp add: Cons)
        have hd: "hd (?p @ ?t) = c" and ne: "?p @ ?t \<noteq> []" using Cons len by (auto simp: take_Cons')
        have "utf8_len (?p @ ?t) = utf8_len s" using len by (rule utf8_len_take)
        then have "unquote (?p @ ?t) = ?p @ unquote ?t"
          using hd ne high len utf8_len_le [of s]
          by (subst unquote.simps) (auto simp: )
        also have "\<dots> = s" using 1(5) Cons high len o v by simp
        finally show ?thesis using q by simp
      qed
    qed
  qed simp
qed

lemma quote_inj: "utf8_valid s \<Longrightarrow> utf8_valid t \<Longrightarrow> quote s = quote t \<Longrightarrow> s = t"
  by (metis unquote_quote)

text \<open>A plain name is its own literal.\<close>

definition plain_name :: "string \<Rightarrow> bool" where
  "plain_name s \<longleftrightarrow> list_all (\<lambda>c. (of_char c :: nat) < 128 \<and> quote_ascii c = [c]) s"

lemma quote_plain: "plain_name s \<Longrightarrow> quote s = s"
  by (induction s) (auto simp: plain_name_def)

lemma utf8_valid_plain: "list_all (\<lambda>c. (of_char c :: nat) < 128) s \<Longrightarrow> utf8_valid s"
  by (induction s) auto

lemma unquote_plain: "plain_name s \<Longrightarrow> unquote s = s"
  using unquote_quote [of s] quote_plain [of s] utf8_valid_plain [of s]
  by (auto simp: plain_name_def list_all_iff)

section \<open>Numbers\<close>

lemma is_digit_dec [simp]: "n < 10 \<Longrightarrow> is_digit (char_of (48 + n :: nat))"
  by (simp add: is_digit_def)

lemma dec_nat_digits: "c \<in> set (dec_nat n) \<Longrightarrow> is_digit c"
proof (induction n rule: dec_nat.induct)
  case (1 n)
  then show ?case by (subst (asm) dec_nat.simps) (auto split: if_splits)
qed

lemma dec_nat_neq_Nil [simp]: "dec_nat n \<noteq> []"
  by (subst dec_nat.simps) simp

lemma nat_of_digits_snoc: "nat_of_digits (s @ [c]) = nat_of_digits s * 10 + (of_char c - 48)"
  by (simp add: nat_of_digits_def)

lemma nat_of_digits_dec_nat [simp]: "nat_of_digits (dec_nat n) = n"
proof (induction n rule: dec_nat.induct)
  case (1 n)
  show ?case
  proof (cases "n < 10")
    case True
    then show ?thesis by (subst dec_nat.simps) (simp add: nat_of_digits_def)
  next
    case False
    with 1 show ?thesis by (subst dec_nat.simps) (simp add: nat_of_digits_snoc)
  qed
qed

lemma hd_dec_nat: "hd (dec_nat n) = CHR ''0'' \<Longrightarrow> n = 0"
proof (induction n rule: dec_nat.induct)
  case (1 n)
  show ?case
  proof (cases "n < 10")
    case True
    with 1(2) show ?thesis
      by (subst (asm) dec_nat.simps) (simp add: char_of_eq_iff take_bit_nat_def)
  next
    case False
    with 1(2) have "hd (dec_nat (n div 10)) = CHR ''0''"
      by (subst (asm) dec_nat.simps) simp
    with False 1(1) have "n div 10 = 0" by simp
    with False show ?thesis by simp
  qed
qed

lemma is_digit_minus [simp]: "\<not> is_digit CHR ''-''"
  by (simp add: is_digit_def)

lemma hd_dec_nat_minus: "hd (dec_nat n) \<noteq> CHR ''-''"
  using dec_nat_digits [of "hd (dec_nat n)" n] by (metis dec_nat_neq_Nil hd_in_set is_digit_minus)

theorem parse_int64_dec_int:
  "- (2 ^ 63) \<le> i \<Longrightarrow> i < 2 ^ 63 \<Longrightarrow> parse_int64 (dec_int i) = Some i"
proof -
  assume r: "- (2 ^ 63) \<le> i" "i < 2 ^ 63"
  have d: "list_all is_digit (dec_nat n)" for n using dec_nat_digits by (auto simp: list_all_iff)
  have t: "take 1 (dec_nat n) \<noteq> ''-''" for n
    using hd_dec_nat_minus [of n] by (cases "dec_nat n") auto
  show ?thesis
  proof (cases "i < 0")
    case True
    with r d show ?thesis by (simp add: dec_int_def parse_int64_def)
  next
    case False
    with r d t show ?thesis by (simp add: dec_int_def parse_int64_def)
  qed
qed

text \<open>A number literal is recognised in front of anything that cannot continue it.\<close>

definition num_end :: "string \<Rightarrow> bool" where
  "num_end t \<longleftrightarrow> t = [] \<or> (\<not> is_digit (hd t) \<and> hd t \<notin> set ''.eE'')"

definition num_ok :: "string \<Rightarrow> bool" where
  "num_ok l \<longleftrightarrow> scan_num l = Some (l, [])"

lemma takeWhile_digits: "t = [] \<or> \<not> is_digit (hd t) \<Longrightarrow> takeWhile is_digit (s @ t) = takeWhile is_digit s"
  by (induction s) (auto simp: takeWhile_eq_Nil_iff)

lemma dropWhile_digits: "t = [] \<or> \<not> is_digit (hd t) \<Longrightarrow> dropWhile is_digit (s @ t) = dropWhile is_digit s @ t"
  by (induction s) (auto simp: dropWhile_eq_self_iff)

lemma num_end_digit: "num_end t \<Longrightarrow> t = [] \<or> \<not> is_digit (hd t)"
  by (auto simp: num_end_def)

lemma scan_digits_app: "scan_digits s = Some (a, r) \<Longrightarrow> num_end t \<Longrightarrow> scan_digits (s @ t) = Some (a, r @ t)"
  using takeWhile_digits [OF num_end_digit] dropWhile_digits [OF num_end_digit]
  by (auto simp: scan_digits_def Let_def split: if_splits)

lemma scan_int_app: "scan_int s = Some (a, r) \<Longrightarrow> num_end t \<Longrightarrow> scan_int (s @ t) = Some (a, r @ t)"
  using scan_digits_app [of s a r t] by (auto simp: scan_int_def split: list.splits if_splits)

lemma num_end_scan [simp]:
  "num_end t \<Longrightarrow> scan_frac t = Some ([], t)" "num_end t \<Longrightarrow> scan_exp t = Some ([], t)"
  by (auto simp: num_end_def scan_frac_def scan_exp_def split: list.splits)

lemma scan_frac_app: "scan_frac s = Some (a, r) \<Longrightarrow> num_end t \<Longrightarrow> scan_frac (s @ t) = Some (a, r @ t)"
proof (cases s)
  case (Cons c cs)
  assume "scan_frac s = Some (a, r)" "num_end t"
  with Cons show ?thesis
    by (auto simp: scan_frac_def add_raw_Some split: if_splits intro: scan_digits_app)
qed (use num_end_scan in \<open>auto simp: scan_frac_def [of "[]"]\<close>)

lemma scan_exp_app: "scan_exp s = Some (a, r) \<Longrightarrow> num_end t \<Longrightarrow> scan_exp (s @ t) = Some (a, r @ t)"
proof (cases s)
  case (Cons c cs)
  assume "scan_exp s = Some (a, r)" "num_end t"
  with Cons show ?thesis
    by (cases cs) (auto simp: scan_exp_def add_raw_Some split: if_splits dest: scan_digits_app)
qed (use num_end_scan in \<open>auto simp: scan_exp_def [of "[]"]\<close>)

lemma scan_unsigned_app:
  "scan_unsigned s = Some (a, r) \<Longrightarrow> num_end t \<Longrightarrow> scan_unsigned (s @ t) = Some (a, r @ t)"
proof -
  assume "scan_unsigned s = Some (a, r)" and t: "num_end t"
  then obtain i s1 f s2 x where h: "scan_int s = Some (i, s1)" "scan_frac s1 = Some (f, s2)"
    "scan_exp s2 = Some (x, r)" "a = i @ f @ x"
    by (auto simp: scan_unsigned_def bind_eq_Some_conv)
  show ?thesis
    using scan_int_app [OF h(1) t] scan_frac_app [OF h(2) t] scan_exp_app [OF h(3) t] h(4)
    by (simp add: scan_unsigned_def)
qed

lemma scan_num_app: "scan_num s = Some (a, r) \<Longrightarrow> num_end t \<Longrightarrow> scan_num (s @ t) = Some (a, r @ t)"
  by (cases s) (auto simp: scan_num_def add_raw_Some split: if_splits dest: scan_unsigned_app)

lemma scan_num_ok: "num_ok l \<Longrightarrow> num_end t \<Longrightarrow> scan_num (l @ t) = Some (l, t)"
  using scan_num_app [of l l "[]" t] by (simp add: num_ok_def)

lemma scan_unsigned_dec_nat: "scan_unsigned (dec_nat n) = Some (dec_nat n, [])"
proof -
  have tw: "takeWhile is_digit (dec_nat n) = dec_nat n" "dropWhile is_digit (dec_nat n) = []"
    using dec_nat_digits [of _ n] by simp_all
  have "scan_int (dec_nat n) = Some (dec_nat n, [])"
  proof (cases "hd (dec_nat n) = CHR ''0''")
    case True
    then have "n = 0" by (rule hd_dec_nat)
    then show ?thesis by (simp add: scan_int_def dec_nat.simps char_of_eq_iff)
  next
    case False
    then show ?thesis
      using tw by (cases "dec_nat n") (auto simp: scan_int_def scan_digits_def)
  qed
  then show ?thesis by (simp add: scan_unsigned_def scan_frac_def scan_exp_def)
qed

lemma num_ok_dec_int [simp]: "num_ok (dec_int i)"
proof (cases "i < 0")
  case True
  then show ?thesis by (simp add: num_ok_def dec_int_def scan_num_def scan_unsigned_dec_nat)
next
  case False
  then show ?thesis
    using hd_dec_nat_minus [of "nat i"] scan_unsigned_dec_nat [of "nat i"]
    by (cases "dec_nat (nat i)") (auto simp: num_ok_def dec_int_def scan_num_def)
qed

end
