(* ===== verification/Json_RoundTrip.thy ===== *)
theory Json_RoundTrip
  imports Json_Laws
begin

text \<open>
  The parser inverts the printer: every well-formed tree within the nesting limit is read back
  from its printed form. Also: the item counters of the parser's loops never cut a parse short.
\<close>

fun wf_json :: "json \<Rightarrow> bool" where
  "wf_json (JNum l) = num_ok l"
| "wf_json (JStr r) = lit_ok r"
| "wf_json (JArr vs) = list_all wf_json vs"
| "wf_json (JObj ms) = list_all (\<lambda>(k, v). lit_ok k \<and> wf_json v) ms"
| "wf_json _ = True"

fun jdepth :: "json \<Rightarrow> nat" where
  "jdepth (JArr vs) = Suc (foldr max (map jdepth vs) 0)"
| "jdepth (JObj ms) = Suc (foldr max (map (\<lambda>(k, v). jdepth v) ms) 0)"
| "jdepth _ = 0"

lemma foldr_max_le: "foldr max xs (0::nat) \<le> d \<longleftrightarrow> (\<forall>x \<in> set xs. x \<le> d)"
  by (induction xs) auto

section \<open>First characters\<close>

lemma skip_ws_id: "s \<noteq> [] \<Longrightarrow> \<not> is_ws (hd s) \<Longrightarrow> skip_ws s = s"
  by (cases s) (auto simp: skip_ws_def)

lemma scan_num_hd: "scan_num l = Some x \<Longrightarrow> l \<noteq> [] \<and> (hd l = CHR ''-'' \<or> is_digit (hd l))"
proof (cases l)
  case (Cons c cs)
  assume "scan_num l = Some x"
  moreover have "is_digit CHR ''0''" by (simp add: is_digit_def)
  moreover have "takeWhile is_digit (c # cs) \<noteq> [] \<Longrightarrow> is_digit c" by (auto split: if_splits)
  ultimately show ?thesis
    using Cons by (auto simp: scan_num_def scan_unsigned_def bind_eq_Some_conv scan_int_def
        scan_digits_def Let_def split: if_splits)
qed (simp add: scan_num_def)

lemma is_digit_not:
  assumes "c = CHR ''-'' \<or> is_digit c"
  shows "\<not> is_ws c" "c \<noteq> CHR 0x22" "c \<noteq> CHR ''[''" "c \<noteq> CHR ''{''" "c \<noteq> CHR '']''" "c \<noteq> CHR ''}''"
    "c \<noteq> CHR ''t''" "c \<noteq> CHR ''f''" "c \<noteq> CHR ''n''"
  using assms by (auto simp: is_digit_def is_ws_def)

lemma json_print_hd:
  assumes "wf_json v"
  shows "json_print v \<noteq> [] \<and> \<not> is_ws (hd (json_print v))
    \<and> hd (json_print v) \<noteq> CHR '']'' \<and> hd (json_print v) \<noteq> CHR ''}''"
proof (cases v)
  case (JNum l)
  with assms have "l \<noteq> []" "hd l = CHR ''-'' \<or> is_digit (hd l)"
    using scan_num_hd [of l] by (auto simp: num_ok_def)
  with JNum show ?thesis using is_digit_not [of "hd l"] by simp
qed (simp_all add: is_ws_def)

lemma skip_ws_print [simp]: "wf_json v \<Longrightarrow> skip_ws (json_print v @ t) = json_print v @ t"
  using json_print_hd [of v] by (intro skip_ws_id) auto

lemma take1_print: "wf_json v \<Longrightarrow> take 1 (json_print v @ t) = [hd (json_print v)]"
  using json_print_hd [of v] by (cases "json_print v") auto

lemma num_end_delims [simp]: "num_end (CHR '','' # t)" "num_end (CHR '']'' # t)" "num_end (CHR ''}'' # t)" "num_end []"
  by (simp_all add: num_end_def is_digit_def)

lemma skip_ws_delims [simp]:
  "skip_ws (CHR '','' # t) = CHR '','' # t" "skip_ws (CHR '']'' # t) = CHR '']'' # t"
  "skip_ws (CHR ''}'' # t) = CHR ''}'' # t" "skip_ws (CHR '':'' # t) = CHR '':'' # t"
  "skip_ws (CHR 0x22 # t) = CHR 0x22 # t" "skip_ws [] = []"
  by (simp_all add: skip_ws_def is_ws_def)

section \<open>Round trip\<close>

definition reads :: "nat \<Rightarrow> json \<Rightarrow> bool" where
  "reads d v \<longleftrightarrow> (\<forall>t. num_end t \<longrightarrow> parse_value d (json_print v @ t) = Some (v, t))"

lemma parse_elems_print:
  assumes "vs \<noteq> []" "\<And>v. v \<in> set vs \<Longrightarrow> wf_json v \<and> reads d v" "length vs \<le> n"
  shows "parse_elems d n (join '','' (map json_print vs) @ CHR '']'' # t) = Some (vs, t)"
  using assms
proof (induction vs arbitrary: n)
  case outer: (Cons v vs)
  then have v: "wf_json v" "reads d v" "n \<noteq> 0" by auto
  show ?case
  proof (cases vs)
    case Nil
    with v show ?thesis by (subst parse_elems.simps) (simp add: reads_def del: parse_value.simps)
  next
    case (Cons w ws)
    have "parse_elems d (n - 1) (join '','' (map json_print vs) @ CHR '']'' # t) = Some (vs, t)"
      using Cons outer.prems by (intro outer.IH) auto
    with v Cons show ?thesis
      by (subst parse_elems.simps) (simp add: reads_def del: parse_value.simps)
  qed
qed simp

abbreviation (input) print_member :: "string \<times> json \<Rightarrow> string" where
  "print_member \<equiv> \<lambda>(k, v). CHR 0x22 # k @ CHR 0x22 # CHR '':'' # json_print v"

lemma parse_members_print:
  assumes "ms \<noteq> []" "\<And>k v. (k, v) \<in> set ms \<Longrightarrow> raw_ok k \<and> wf_json v \<and> reads d v" "length ms \<le> n"
  shows "parse_members d n (join '','' (map print_member ms) @ CHR ''}'' # t) = Some (ms, t)"
  using assms
proof (induction ms arbitrary: n)
  case outer: (Cons m ms)
  obtain k v where m: "m = (k, v)" by fastforce
  with outer.prems have v: "raw_ok k" "wf_json v" "reads d v" "n \<noteq> 0" by auto
  have sk: "scan_str (k @ CHR 0x22 # r) = Some (k, r)" for r using v(1) by (rule raw_ok_scan)
  show ?case
  proof (cases ms)
    case Nil
    with v m sk show ?thesis
      by (subst parse_members.simps) (simp add: reads_def del: parse_value.simps scan_str.simps)
  next
    case (Cons w ws)
    have "parse_members d (n - 1) (join '','' (map print_member ms) @ CHR ''}'' # t) = Some (ms, t)"
      using Cons outer.prems by (intro outer.IH) auto
    with v m sk Cons show ?thesis
      by (subst parse_members.simps) (simp add: reads_def del: parse_value.simps scan_str.simps)
  qed
qed simp

lemma length_join_ge: "(\<And>p. p \<in> set ps \<Longrightarrow> p \<noteq> []) \<Longrightarrow> length ps \<le> length (join '','' ps)"
proof (induction "'',''" ps rule: join.induct)
  case (3 p q ps)
  then have "p \<noteq> []" "length (q # ps) \<le> length (join '','' (q # ps))" by auto
  then show ?case by (cases p) auto
qed (auto simp: Suc_le_eq)

lemma join_hd: "ps \<noteq> [] \<Longrightarrow> hd ps \<noteq> [] \<Longrightarrow> join '','' ps \<noteq> [] \<and> hd (join '','' ps) = hd (hd ps)"
  by (cases "('','', ps)" rule: join.cases) auto

lemma reads_array:
  assumes "d \<noteq> 0" "\<And>v. v \<in> set vs \<Longrightarrow> wf_json v \<and> reads (d - 1) v"
  shows "reads d (JArr vs)"
proof (cases "vs = []")
  case True
  with assms(1) show ?thesis by (simp add: reads_def)
next
  case False
  let ?p = "join '','' (map json_print vs)"
  have hd: "?p \<noteq> []" "\<not> is_ws (hd ?p)" "hd ?p \<noteq> CHR '']''"
    using join_hd [of "map json_print vs"] json_print_hd [of "hd vs"] assms(2) False by (auto simp: hd_map)
  have "p \<noteq> []" if "p \<in> set (map json_print vs)" for p using that assms(2) json_print_hd by auto
  then have len: "length vs \<le> length ?p" using length_join_ge [of "map json_print vs"] by simp
  have "skip_ws (?p @ CHR '']'' # t) = ?p @ CHR '']'' # t" for t
    using hd by (intro skip_ws_id) auto
  moreover have "take 1 (?p @ CHR '']'' # t) \<noteq> '']''" for t
    using hd by (cases ?p) auto
  moreover have "parse_elems (d - 1) (length (?p @ CHR '']'' # t)) (?p @ CHR '']'' # t) = Some (vs, t)" for t
    using False assms(2) len by (intro parse_elems_print) auto
  ultimately show ?thesis using assms(1) by (simp add: reads_def del: take_append)
qed

lemma reads_object:
  assumes "d \<noteq> 0" "\<And>k v. (k, v) \<in> set ms \<Longrightarrow> raw_ok k \<and> wf_json v \<and> reads (d - 1) v"
  shows "reads d (JObj ms)"
proof (cases "ms = []")
  case True
  with assms(1) show ?thesis by (simp add: reads_def)
next
  case False
  let ?p = "join '','' (map print_member ms)"
  have hd: "?p \<noteq> []" "hd ?p = CHR 0x22"
    using join_hd [of "map print_member ms"] False by (auto simp: hd_map split: prod.splits)
  have "p \<noteq> []" if "p \<in> set (map print_member ms)" for p using that by auto
  then have len: "length ms \<le> length ?p" using length_join_ge [of "map print_member ms"] by simp
  have "skip_ws (?p @ CHR ''}'' # t) = ?p @ CHR ''}'' # t" for t
    using hd by (intro skip_ws_id) (auto simp: is_ws_def)
  moreover have "take 1 (?p @ CHR ''}'' # t) \<noteq> ''}''" for t
    using hd by (cases ?p) auto
  moreover have "parse_members (d - 1) (length (?p @ CHR ''}'' # t)) (?p @ CHR ''}'' # t) = Some (ms, t)" for t
    using False assms(2) len by (intro parse_members_print) auto
  ultimately show ?thesis using assms(1) by (simp add: reads_def del: take_append)
qed

theorem reads_print: "wf_json v \<Longrightarrow> jdepth v \<le> d \<Longrightarrow> reads d v"
proof (induction v arbitrary: d rule: json_print.induct)
  case (3 l)
  then have l: "num_ok l" and "l \<noteq> []" and h: "hd l = CHR ''-'' \<or> is_digit (hd l)"
    using scan_num_hd [of l] by (auto simp: num_ok_def)
  then obtain c cs where c: "l = c # cs" by (cases l) auto
  show ?case
    using scan_num_ok [OF l] is_digit_not [OF h] c by (simp add: reads_def)
next
  case (4 r)
  then show ?case by (simp add: reads_def raw_ok_scan del: scan_str.simps)
next
  case (5 vs)
  have "jdepth v \<le> d - 1" if "v \<in> set vs" for v
    using "5.prems"(2) that foldr_max_le [of "map jdepth vs" "d - 1"] by fastforce
  then show ?case
    using "5.IH" "5.prems" by (intro reads_array) (auto simp: list_all_iff)
next
  case (6 ms)
  have "jdepth v \<le> d - 1" if "(k, v) \<in> set ms" for k v
    using "6.prems"(2) that foldr_max_le [of "map (\<lambda>(k, v). jdepth v) ms" "d - 1"] by fastforce
  then show ?case
    using "6.IH" "6.prems" by (intro reads_object) (auto simp: list_all_iff)
qed (auto simp: reads_def scan_word_def)

theorem json_parse_print [simp]: "wf_json v \<Longrightarrow> jdepth v \<le> max_nesting \<Longrightarrow> json_parse (json_print v) = Some v"
proof -
  assume v: "wf_json v" "jdepth v \<le> max_nesting"
  have "parse_value max_nesting (json_print v @ []) = Some (v, [])"
    using reads_print [OF v] num_end_delims(4) unfolding reads_def by blast
  with v skip_ws_print [of v "[]"] show ?thesis by (simp add: json_parse_def)
qed

section \<open>The item counters\<close>

lemma length_skip_ws: "length (skip_ws s) \<le> length s"
  by (simp add: skip_ws_def length_dropWhile_le)

lemma length_scan_digits: "scan_digits s = Some (a, r) \<Longrightarrow> length r < length s"
  by (cases s) (auto simp: scan_digits_def Let_def length_dropWhile_le less_Suc_eq_le split: if_splits)

lemma length_scan_frac: "scan_frac s = Some (a, r) \<Longrightarrow> length r \<le> length s"
  by (auto simp: scan_frac_def add_raw_Some split: list.splits if_splits dest!: length_scan_digits)

lemma length_scan_exp: "scan_exp s = Some (a, r) \<Longrightarrow> length r \<le> length s"
  by (auto simp: scan_exp_def add_raw_Some split: list.splits if_splits dest!: length_scan_digits)

lemma length_scan_unsigned: "scan_unsigned s = Some (a, r) \<Longrightarrow> length r < length s"
proof -
  assume "scan_unsigned s = Some (a, r)"
  then obtain i s1 f s2 x where h: "scan_int s = Some (i, s1)" "scan_frac s1 = Some (f, s2)"
    "scan_exp s2 = Some (x, r)"
    by (auto simp: scan_unsigned_def bind_eq_Some_conv)
  have "length s1 < length s"
    using h(1) by (auto simp: scan_int_def split: list.splits if_splits dest: length_scan_digits)
  then show ?thesis using length_scan_frac [OF h(2)] length_scan_exp [OF h(3)] by simp
qed

lemma length_scan_num: "scan_num s = Some (a, r) \<Longrightarrow> length r < length s"
  by (cases s) (auto simp: scan_num_def add_raw_Some split: if_splits dest: length_scan_unsigned)

lemma parse_members_SomeE:
  assumes "parse_members d n s = Some (ms, r)"
  obtains s1 k r1 v q c r' where "n \<noteq> 0" "skip_ws s = CHR 0x22 # s1"
    "scan_str s1 = Some (k, r1)" "take 1 (skip_ws r1) = '':''"
    "parse_value d (skip_ws (drop 1 (skip_ws r1))) = Some (v, q)" "skip_ws q = c # r'"
    "r = r' \<or> (c = CHR '','' \<and> (\<exists>ws. parse_members d (n - 1) r' = Some (ws, r)))"
proof -
  note eq = assms [unfolded parse_members.simps [of d n s]]
  have nz: "n \<noteq> 0" using eq by (cases "n = 0") simp_all
  obtain q0 s1 where s1: "skip_ws s = q0 # s1" using eq nz by (cases "skip_ws s") simp_all
  have q0: "q0 = CHR 0x22" using eq nz s1 by (simp split: if_splits)
  obtain k r1 where k: "scan_str s1 = Some (k, r1)"
    using eq nz s1 q0 by (cases "scan_str s1") auto
  have t: "take 1 (skip_ws r1) = '':''"
    using eq nz s1 q0 k by (simp del: parse_value.simps split: if_splits)
  obtain v q where v: "parse_value d (skip_ws (drop 1 (skip_ws r1))) = Some (v, q)"
    using eq nz s1 q0 k t
    by (cases "parse_value d (skip_ws (drop 1 (skip_ws r1)))") (auto simp del: parse_value.simps)
  obtain c r' where c: "skip_ws q = c # r'"
    using eq nz s1 q0 k t v by (cases "skip_ws q") (auto simp del: parse_value.simps)
  have "r = r' \<or> (c = CHR '','' \<and> (\<exists>ws. parse_members d (n - 1) r' = Some (ws, r)))"
    using eq nz s1 q0 k t v c by (auto simp del: parse_value.simps split: if_splits)
  then show thesis using that nz s1 q0 k t v c by blast
qed

lemma parse_value_shorter:
  assumes prem: "parse_value d (c # cs) = Some (v, r)"
    and elems: "\<And>xs. c = CHR ''['' \<Longrightarrow> d \<noteq> 0 \<Longrightarrow> take 1 (skip_ws cs) \<noteq> '']'' \<Longrightarrow>
      parse_elems (d - 1) (length cs) cs = Some (xs, r) \<Longrightarrow> length r < length cs"
    and members: "\<And>xs. c = CHR ''{'' \<Longrightarrow> d \<noteq> 0 \<Longrightarrow> take 1 (skip_ws cs) \<noteq> ''}'' \<Longrightarrow>
      parse_members (d - 1) (length cs) cs = Some (xs, r) \<Longrightarrow> length r < length cs"
  shows "length r < length (c # cs)"
proof -
  have word: "scan_word w x (c # cs) = Some (v, r) \<Longrightarrow> w \<noteq> [] \<Longrightarrow> length r < Suc (length cs)" for w x
    by (auto simp: scan_word_def split: if_splits)
  have sk: "length (drop 1 (skip_ws cs)) < Suc (length cs)"
    using length_skip_ws [of cs] by simp
  consider (s) "c = CHR 0x22" | (a) "c = CHR ''[''" | (o) "c = CHR ''{''"
    | (w) "c = CHR ''t'' \<or> c = CHR ''f'' \<or> c = CHR ''n''"
    | (n) "c \<noteq> CHR 0x22" "c \<noteq> CHR ''[''" "c \<noteq> CHR ''{''" "c \<noteq> CHR ''t''" "c \<noteq> CHR ''f''" "c \<noteq> CHR ''n''"
    by blast
  then show ?thesis
  proof cases
    case s
    with prem obtain x where "scan_str cs = Some (x, r)" by auto
    then show ?thesis using length_scan_str [of cs x r] by simp
  next
    case a
    with prem elems sk show ?thesis by (auto simp del: parse_elems.simps split: if_splits)
  next
    case o
    with prem members sk show ?thesis by (auto simp del: parse_members.simps split: if_splits)
  next
    case w
    with prem word show ?thesis by auto
  next
    case n
    with prem obtain x where "scan_num (c # cs) = Some (x, r)" by auto
    then show ?thesis using length_scan_num [of "c # cs" x r] by simp
  qed
qed

lemma length_parse:
  "parse_value d s = Some (v, r) \<Longrightarrow> length r < length s"
  "parse_elems d n s = Some (vs, r) \<Longrightarrow> length r < length s"
  "parse_members d n s = Some (ms, r) \<Longrightarrow> length r < length s"
proof (induction d s and d n s and d n s arbitrary: v r and vs r and ms r
    rule: parse_value_parse_elems_parse_members.induct)
  case (2 d c cs)
  show ?case
    by (rule parse_value_shorter [OF "2.prems"]) (use "2.IH" in \<open>simp_all del: parse_value.simps\<close>)
next
  case (3 d n s)
  from "3.prems" obtain v q c r' where h: "n \<noteq> 0" "parse_value d (skip_ws s) = Some (v, q)" "skip_ws q = c # r'"
    and r: "r = r' \<or> (\<exists>ws. parse_elems d (n - 1) r' = Some (ws, r))"
    by (subst (asm) parse_elems.simps) (auto split: if_splits option.splits list.splits)
  have "length q < length s" using "3.IH"(1) [OF h(1) h(2)] length_skip_ws [of s] by simp
  moreover have "length r' < length q" using h(3) length_skip_ws [of q] by simp
  moreover have "length r \<le> length r'"
  proof (cases "r = r'")
    case False
    then obtain ws where "parse_elems d (n - 1) r' = Some (ws, r)" using r by blast
    moreover have "c = CHR '',''"
      using False "3.prems" h by (subst (asm) parse_elems.simps) (auto split: if_splits)
    ultimately show ?thesis using "3.IH"(2) [OF h(1) h(2) refl h(3)] by auto
  qed simp
  ultimately show ?case by simp
next
  case (4 d n s)
  from "4.prems" obtain s1 k r1 v q c r' where h: "n \<noteq> 0" "skip_ws s = CHR 0x22 # s1"
      "scan_str s1 = Some (k, r1)" "take 1 (skip_ws r1) = '':''"
      "parse_value d (skip_ws (drop 1 (skip_ws r1))) = Some (v, q)" "skip_ws q = c # r'"
    and r: "r = r' \<or> (c = CHR '','' \<and> (\<exists>ws. parse_members d (n - 1) r' = Some (ws, r)))"
    by (rule parse_members_SomeE)
  have "length q < length (skip_ws (drop 1 (skip_ws r1)))"
    using "4.IH"(1) [OF h(1) h(2) _ h(3) refl _ h(5)] h(4) by simp
  moreover have "length (skip_ws (drop 1 (skip_ws r1))) \<le> length r1"
    using length_skip_ws [of r1] length_skip_ws [of "drop 1 (skip_ws r1)"] by simp
  moreover have "length r1 < length s"
    using length_scan_str [OF h(3)] h(2) length_skip_ws [of s] by simp
  moreover have "length r' < length q" using h(6) length_skip_ws [of q] by simp
  moreover have "length r \<le> length r'"
    using r "4.IH"(2) [OF h(1) h(2) _ h(3) refl _ h(5) refl h(6)] h(4) by auto
  ultimately show ?case by simp
qed simp_all

theorem parse_elems_fuel:
  "length s \<le> n \<Longrightarrow> length s \<le> m \<Longrightarrow> parse_elems d n s = parse_elems d m s"
proof (induction "length s" arbitrary: s n m rule: less_induct)
  case less
  show ?case
  proof (cases "skip_ws s")
    case Nil
    then show ?thesis by (simp add: parse_elems.simps)
  next
    case (Cons c0 s0)
    then have nz: "n \<noteq> 0" "m \<noteq> 0" using less.prems length_skip_ws [of s] by auto
    have step: "map_option f (parse_elems d (n - Suc 0) r') = map_option f (parse_elems d (m - Suc 0) r')"
      if p: "parse_value d (skip_ws s) = Some (v, r)" and r: "skip_ws r = c # r'"
      for v r c r' and f :: "json list \<times> string \<Rightarrow> json list \<times> string"
    proof -
      have "length r' < length s"
        using length_parse(1) [OF p] r length_skip_ws [of s] length_skip_ws [of r] by simp
      then show ?thesis using less.hyps [of r' "n - 1" "m - 1"] less.prems by simp
    qed
    show ?thesis
      by (subst (1 2) parse_elems.simps)
         (auto simp: nz intro!: step simp del: parse_value.simps split: option.splits list.splits)
  qed
qed

theorem parse_members_fuel:
  "length s \<le> n \<Longrightarrow> length s \<le> m \<Longrightarrow> parse_members d n s = parse_members d m s"
proof (induction "length s" arbitrary: s n m rule: less_induct)
  case less
  show ?case
  proof (cases "skip_ws s")
    case Nil
    then show ?thesis by (simp add: parse_members.simps)
  next
    case (Cons c0 s0)
    then have nz: "n \<noteq> 0" "m \<noteq> 0" using less.prems length_skip_ws [of s] by auto
    have step: "parse_members d (n - 1) r' = parse_members d (m - 1) r'"
      if k: "scan_str s0 = Some (k, r1)"
        and p: "parse_value d (skip_ws (drop 1 (skip_ws r1))) = Some (v, r)"
        and r: "skip_ws r = c # r'" for k r1 v r c r'
    proof -
      have "length r' < length s"
        using length_parse(1) [OF p] r length_scan_str [OF k] Cons length_skip_ws [of s]
          length_skip_ws [of r] length_skip_ws [of r1] length_skip_ws [of "drop 1 (skip_ws r1)"] by simp
      then show ?thesis using less.hyps [of r' "n - 1" "m - 1"] less.prems by simp
    qed
    have eqs: "parse_members d n s = parse_members d m s"
      if "\<And>k r1 v r c r'. scan_str s0 = Some (k, r1) \<Longrightarrow>
        parse_value d (skip_ws (drop 1 (skip_ws r1))) = Some (v, r) \<Longrightarrow> skip_ws r = c # r' \<Longrightarrow>
        parse_members d (n - 1) r' = parse_members d (m - 1) r'"
    proof (cases "scan_str s0")
      case None
      then show ?thesis by (subst (1 2) parse_members.simps) (simp add: nz Cons)
    next
      case (Some p)
      obtain k r1 where k: "p = (k, r1)" by fastforce
      show ?thesis
      proof (cases "parse_value d (skip_ws (drop 1 (skip_ws r1)))")
        case None
        with Some k show ?thesis
          by (subst (1 2) parse_members.simps) (simp add: nz Cons del: parse_value.simps)
      next
        case (Some vr)
        obtain v r where vr: "vr = (v, r)" by fastforce
        show ?thesis
          using \<open>scan_str s0 = Some p\<close> k Some vr that [of k r1 v r]
          by (subst (1 2) parse_members.simps)
             (cases "skip_ws r", simp_all add: nz Cons del: parse_value.simps One_nat_def)
      qed
    qed
    show ?thesis by (rule eqs) (rule step)
  qed
qed

end
