(* ===== verification/JoseTypes.thy ===== *)
theory JoseTypes
  imports Errors Base64 Json_RoundTrip
begin

text \<open>
  \<open>jose/types.go\<close>: the registered names, the parser bounds, and the base64 members of the JOSE
  documents (\<open>BigNum\<close>, \<open>Blob\<close>). A \<open>BigNum\<close> is the non-negative integer its \<open>big.Int\<close> holds.
  The \<open>UnmarshalJSON\<close> methods take the raw text of a JSON value, which the struct decoders supply
  with \<open>json_print\<close>.
\<close>

type_synonym Alg = string
type_synonym Crv = string
type_synonym Kty = string
type_synonym KeyUse = string
type_synonym KeyOps = string
type_synonym JwsType = string
type_synonym Enc = string
type_synonym Zip = string
type_synonym Blob = bytes

text \<open>The header fields common to JWS and JWE; \<open>JwsHeader\<close> repeats them.\<close>

record Header =
  hdrAlg :: Alg
  hdrJku :: string
  hdrKid :: string
  hdrX5U :: string
  hdrX5C :: "bytes option list"
  hdrX5T :: "Blob option"
  hdrX5T256 :: "Blob option"
  hdrTyp :: JwsType
  hdrCty :: JwsType

section \<open>Registered names\<close>

definition AlgRS256 :: Alg where [simp]: "AlgRS256 = ''RS256''"
definition AlgRS384 :: Alg where [simp]: "AlgRS384 = ''RS384''"
definition AlgRS512 :: Alg where [simp]: "AlgRS512 = ''RS512''"
definition AlgPS256 :: Alg where [simp]: "AlgPS256 = ''PS256''"
definition AlgPS384 :: Alg where [simp]: "AlgPS384 = ''PS384''"
definition AlgPS512 :: Alg where [simp]: "AlgPS512 = ''PS512''"
definition AlgES256 :: Alg where [simp]: "AlgES256 = ''ES256''"
definition AlgES384 :: Alg where [simp]: "AlgES384 = ''ES384''"
definition AlgES512 :: Alg where [simp]: "AlgES512 = ''ES512''"
definition AlgA128GCM :: Alg where [simp]: "AlgA128GCM = ''A128GCM''"
definition AlgA192GCM :: Alg where [simp]: "AlgA192GCM = ''A192GCM''"
definition AlgA256GCM :: Alg where [simp]: "AlgA256GCM = ''A256GCM''"
definition AlgA256CBC :: Alg where [simp]: "AlgA256CBC = ''A256CBC''"
definition AlgDir :: Alg where [simp]: "AlgDir = ''dir''"
definition AlgRSAOAEP :: Alg where [simp]: "AlgRSAOAEP = ''RSA-OAEP''"
definition AlgRSAOAEPSHA1 :: Alg where [simp]: "AlgRSAOAEPSHA1 = ''RSA-OAEP''"
definition AlgRSAOAEPSHA2 :: Alg where [simp]: "AlgRSAOAEPSHA2 = ''RSA-OAEP-256''"
definition CrvP256 :: Crv where [simp]: "CrvP256 = ''P-256''"
definition CrvP384 :: Crv where [simp]: "CrvP384 = ''P-384''"
definition CrvP521 :: Crv where [simp]: "CrvP521 = ''P-521''"
definition KtyRSA :: Kty where [simp]: "KtyRSA = ''RSA''"
definition KtyEC :: Kty where [simp]: "KtyEC = ''EC''"
definition KtyOct :: Kty where [simp]: "KtyOct = ''oct''"
definition KeyOpsSign :: KeyOps where [simp]: "KeyOpsSign = ''sign''"
definition KeyOpsVerify :: KeyOps where [simp]: "KeyOpsVerify = ''verify''"
definition KeyOpsEncrypt :: KeyOps where [simp]: "KeyOpsEncrypt = ''encrypt''"
definition KeyOpsDecrypt :: KeyOps where [simp]: "KeyOpsDecrypt = ''decrypt''"
definition KeyOpsWrapKey :: KeyOps where [simp]: "KeyOpsWrapKey = ''wrapKey''"
definition KeyOpsUnwrapKey :: KeyOps where [simp]: "KeyOpsUnwrapKey = ''unwrapKey''"
definition KeyOpsDeriveKey :: KeyOps where [simp]: "KeyOpsDeriveKey = ''deriveKey''"
definition KeyOpsDeriveBits :: KeyOps where [simp]: "KeyOpsDeriveBits = ''deriveBits''"
definition KeyUseEnc :: KeyUse where [simp]: "KeyUseEnc = ''enc''"
definition KeyUseSig :: KeyUse where [simp]: "KeyUseSig = ''sig''"
definition JwtType :: JwsType where [simp]: "JwtType = ''JWT''"
definition EncA128GCM :: Enc where [simp]: "EncA128GCM = ''A128GCM''"
definition EncA192GCM :: Enc where [simp]: "EncA192GCM = ''A192GCM''"
definition EncA256GCM :: Enc where [simp]: "EncA256GCM = ''A256GCM''"
definition EncA256CBC :: Enc where [simp]: "EncA256CBC = ''A256CBC''"

definition DeflateZip :: Zip where [simp]: "DeflateZip = ''DEF''"

definition MaxCompactSize :: nat where "MaxCompactSize = 1048576"
definition MaxJwksSize :: nat where "MaxJwksSize = 1048576"
definition MaxBlobSize :: nat where "MaxBlobSize = 65536"

section \<open>Base64 members\<close>

definition unmarshalJSONBlob :: "string \<Rightarrow> b64_encoding \<Rightarrow> err + bytes" where
  "unmarshalJSONBlob src decoder =
     (let srcLen = length src in
      if srcLen < 3 \<or> hd src \<noteq> CHR 0x22 \<or> last src \<noteq> CHR 0x22 then Inl (Jose ErrBlobEmpty)
      else if DecodedLen decoder (srcLen - 2) > MaxBlobSize then Inl (Jose jose_error.ErrInputTooLarge)
      else of_opt (Std CorruptInput) (b64_decode decoder (butlast (tl src))))"

definition marshalJSONBlob :: "bytes \<Rightarrow> b64_encoding \<Rightarrow> err + string" where
  "marshalJSONBlob src encoder =
     (if length src = 0 then Inl (Jose ErrBlobEmpty)
      else Inr (CHR 0x22 # b64_encode encoder src @ [CHR 0x22]))"

type_synonym BigNum = nat

text \<open>\<open>big.Int.Bytes\<close> (minimal big-endian) and \<open>big.Int.BitLen\<close>.\<close>

fun big_Bytes :: "nat \<Rightarrow> bytes" where
  "big_Bytes n = (if n = 0 then [] else big_Bytes (n div 256) @ [char_of (n mod 256)])"

fun BitLen :: "nat \<Rightarrow> nat" where
  "BitLen n = (if n = 0 then 0 else Suc (BitLen (n div 2)))"

declare big_Bytes.simps [simp del] BitLen.simps [simp del]

definition BigNum_SetBytes :: "bytes \<Rightarrow> BigNum" where
  "BigNum_SetBytes val = be_nat val"

text \<open>\<open>Set\<close> copies the absolute value.\<close>

definition BigNum_Set :: "int \<Rightarrow> BigNum" where
  "BigNum_Set val = BigNum_SetBytes (big_Bytes (nat \<bar>val\<bar>))"

definition BigNum_Int :: "BigNum \<Rightarrow> int" where
  "BigNum_Int b = int b"

definition BigNum_Empty :: "BigNum \<Rightarrow> bool" where
  "BigNum_Empty b \<longleftrightarrow> BitLen b = 0"

definition BigNum_MarshalJSON :: "BigNum \<Rightarrow> err + string" where
  "BigNum_MarshalJSON b = marshalJSONBlob (big_Bytes b) RawURLEncoding"

definition BigNum_UnmarshalJSON :: "string \<Rightarrow> err + BigNum" where
  "BigNum_UnmarshalJSON src =
     rbind (unmarshalJSONBlob src RawURLEncoding) (\<lambda>dst. Inr (BigNum_SetBytes dst))"

definition Blob_Bytes :: "Blob \<Rightarrow> bytes" where
  "Blob_Bytes b = b"

definition Blob_SetBytes :: "bytes \<Rightarrow> Blob" where
  "Blob_SetBytes val = val"

definition Blob_UnmarshalJSON :: "string \<Rightarrow> err + Blob" where
  "Blob_UnmarshalJSON src = unmarshalJSONBlob src RawURLEncoding"

definition Blob_MarshalJSON :: "Blob \<Rightarrow> err + string" where
  "Blob_MarshalJSON b = marshalJSONBlob b RawURLEncoding"

text \<open>\<open>unmarshalURLBase64\<close> up to the assignment to the target, which is the caller's decoder.\<close>

definition unmarshalURLBase64 :: "string \<Rightarrow> (json \<Rightarrow> err + 'a) \<Rightarrow> err + 'a" where
  "unmarshalURLBase64 data inst =
     rbind (of_opt (Std CorruptInput) (b64_decode RawURLEncoding data)) (\<lambda>raw.
     rbind (of_opt (Std JSONSyntax) (json_parse raw)) inst)"

section \<open>Members of structs with these types\<close>

text \<open>A value whose type has an \<open>UnmarshalJSON\<close> method, and a pointer to one.\<close>

definition dec_method :: "(string \<Rightarrow> err + 'a) \<Rightarrow> json \<Rightarrow> (err, 'a) dec" where
  "dec_method m v = (case m (json_print v) of Inl e \<Rightarrow> Hard e | Inr x \<Rightarrow> Fine x)"

definition dec_ptr :: "(string \<Rightarrow> err + 'a) \<Rightarrow> json \<Rightarrow> (err, 'a option) dec" where
  "dec_ptr m v = (if v = JNull then Fine None else map_dec Some (dec_method m v))"

text \<open>A \<open>[]byte\<close> member: standard base64 in a string, or an array of octets; \<open>None\<close> is nil.\<close>

fun dec_byte :: "json \<Rightarrow> (err, char) dec" where
  "dec_byte (JNum l) = (case parse_uint8 l of Some n \<Rightarrow> Fine (char_of n) | None \<Rightarrow> Saved (CHR 0x00))"
| "dec_byte JNull = Fine (CHR 0x00)"
| "dec_byte _ = Saved (CHR 0x00)"

fun dec_bytes :: "json \<Rightarrow> (err, bytes option) dec" where
  "dec_bytes (JStr r) = (case b64_decode StdEncoding (unquote r) of
      Some b \<Rightarrow> Fine (Some b) | None \<Rightarrow> Saved None)"
| "dec_bytes JNull = Fine None"
| "dec_bytes (JArr vs) = map_dec Some (dec_elems dec_byte vs)"
| "dec_bytes _ = Saved None"

text \<open>The setters of struct fields; \<open>get\<close> and \<open>upd\<close> are the field's selector and update.\<close>

definition set_str :: "('s \<Rightarrow> string) \<Rightarrow> ((string \<Rightarrow> string) \<Rightarrow> 's \<Rightarrow> 's) \<Rightarrow> json \<Rightarrow> 's \<Rightarrow> (err, 's) dec" where
  "set_str get upd v st = map_dec (\<lambda>x. upd (\<lambda>_. x) st) (dec_string v (get st))"

definition set_int :: "('s \<Rightarrow> int) \<Rightarrow> ((int \<Rightarrow> int) \<Rightarrow> 's \<Rightarrow> 's) \<Rightarrow> json \<Rightarrow> 's \<Rightarrow> (err, 's) dec" where
  "set_int get upd v st = map_dec (\<lambda>x. upd (\<lambda>_. x) st) (dec_int64 v (get st))"

definition set_list :: "(json \<Rightarrow> (err, 'a) dec) \<Rightarrow> ('s \<Rightarrow> 'a list) \<Rightarrow> (('a list \<Rightarrow> 'a list) \<Rightarrow> 's \<Rightarrow> 's)
    \<Rightarrow> json \<Rightarrow> 's \<Rightarrow> (err, 's) dec" where
  "set_list d get upd v st = map_dec (\<lambda>x. upd (\<lambda>_. x) st) (dec_list d v (get st))"

definition set_ptr :: "(string \<Rightarrow> err + 'a) \<Rightarrow> (('a option \<Rightarrow> 'a option) \<Rightarrow> 's \<Rightarrow> 's)
    \<Rightarrow> json \<Rightarrow> 's \<Rightarrow> (err, 's) dec" where
  "set_ptr m upd v st = map_dec (\<lambda>x. upd (\<lambda>_. x) st) (dec_ptr m v)"

definition set_method :: "(string \<Rightarrow> err + 'a) \<Rightarrow> (('a \<Rightarrow> 'a) \<Rightarrow> 's \<Rightarrow> 's) \<Rightarrow> json \<Rightarrow> 's \<Rightarrow> (err, 's) dec" where
  "set_method m upd v st = map_dec (\<lambda>x. upd (\<lambda>_. x) st) (dec_method m v)"

text \<open>An element of a \<open>[]string\<close>.\<close>

definition dec_str_elem :: "json \<Rightarrow> (err, string) dec" where
  "dec_str_elem v = dec_string v []"

text \<open>The encoder runs a \<open>MarshalJSON\<close> method and embeds its text after checking and compacting it.\<close>

definition enc_method :: "err + string \<Rightarrow> err + json" where
  "enc_method m = rbind m (\<lambda>t. rbind (of_opt (Std JSONSyntax) (json_parse t)) (\<lambda>v. Inr (json_compact v)))"

definition omit_str :: "string \<Rightarrow> string \<Rightarrow> (string \<times> json) list" where
  "omit_str n s = (if s = [] then [] else [jmember n (jstring s)])"

definition omit_int :: "string \<Rightarrow> int \<Rightarrow> (string \<times> json) list" where
  "omit_int n i = (if i = 0 then [] else [jmember n (jint i)])"

definition omit_list :: "string \<Rightarrow> ('a \<Rightarrow> json) \<Rightarrow> 'a list \<Rightarrow> (string \<times> json) list" where
  "omit_list n f xs = (if xs = [] then [] else [jmember n (JArr (map f xs))])"

definition enc_blob :: "string \<Rightarrow> bytes option \<Rightarrow> err + (string \<times> json) list" where
  "enc_blob n b = (case b of
     None \<Rightarrow> Inr []
   | Some x \<Rightarrow> rbind (enc_method (Blob_MarshalJSON x)) (\<lambda>v. Inr [jmember n v]))"

definition enc_bignum :: "string \<Rightarrow> BigNum \<Rightarrow> err + (string \<times> json) list" where
  "enc_bignum n b = rbind (enc_method (BigNum_MarshalJSON b)) (\<lambda>v. Inr [jmember n v])"

definition enc_bytes :: "bytes option \<Rightarrow> json" where
  "enc_bytes b = (case b of None \<Rightarrow> JNull | Some x \<Rightarrow> JStr (b64_encode StdEncoding x))"

section \<open>Facts\<close>

lemma MaxCompactSize_pos [simp]: "0 < MaxCompactSize"
  by (simp add: MaxCompactSize_def)

lemma big_Bytes_0 [simp]: "big_Bytes 0 = []"
  by (simp add: big_Bytes.simps)

lemma be_nat_big_Bytes [simp]: "be_nat (big_Bytes n) = n"
proof (induction n rule: big_Bytes.induct)
  case (1 n)
  then show ?case by (subst big_Bytes.simps) (simp add: be_nat_append)
qed

lemma big_Bytes_eq_Nil [simp]: "big_Bytes n = [] \<longleftrightarrow> n = 0"
  by (subst big_Bytes.simps) simp

lemma BigNum_Set_abs [simp]: "BigNum_Set val = nat \<bar>val\<bar>"
  by (simp add: BigNum_Set_def BigNum_SetBytes_def)

lemma BitLen_le_iff: "BitLen n \<le> k \<longleftrightarrow> n < 2 ^ k"
proof (induction n arbitrary: k rule: BitLen.induct)
  case (1 n)
  show ?case
  proof (cases "n = 0")
    case True
    then show ?thesis by (simp add: BitLen.simps)
  next
    case False
    then have "BitLen n \<le> k \<longleftrightarrow> (\<exists>j. k = Suc j \<and> BitLen (n div 2) \<le> j)"
      by (subst BitLen.simps) (cases k, auto)
    also have "\<dots> \<longleftrightarrow> n < 2 ^ k"
    proof (cases k)
      case 0
      with False show ?thesis by simp
    next
      case (Suc j)
      have "BitLen (n div 2) \<le> j \<longleftrightarrow> n div 2 < 2 ^ j" using "1.IH" [OF False] .
      then show ?thesis by (auto simp: Suc less_mult_imp_div_less mult.commute [of 2])
    qed
    finally show ?thesis .
  qed
qed

lemma BitLen_less_iff: "BitLen n < k \<longleftrightarrow> k \<noteq> 0 \<and> n < 2 ^ (k - 1)"
  using BitLen_le_iff [of n "k - 1"] by (cases k) (auto simp: less_Suc_eq_le)

lemma BigNum_Empty_iff [simp]: "BigNum_Empty b \<longleftrightarrow> b = 0"
  using BitLen_le_iff [of b 0] by (simp add: BigNum_Empty_def)

lemma b64_text_plain: "set (b64_encode RawURLEncoding x) \<subseteq> set (alphabet RawURLEncoding)"
  using set_b64_encode [of RawURLEncoding x] by simp

lemma raw_ok_b64 [simp, wf_rules]: "raw_ok (b64_encode RawURLEncoding x)"
proof (rule raw_ok_plains)
  fix c
  assume "c \<in> set (b64_encode RawURLEncoding x)"
  then have "c \<in> set (alphabet RawURLEncoding)" using b64_text_plain by blast
  then show "c \<noteq> CHR 0x22 \<and> c \<noteq> CHR 0x5C \<and> 32 \<le> (of_char c :: nat)"
    by (auto simp: RawURLEncoding_def)
qed

lemma unmarshal_marshal_enc:
  assumes "good_encoding e" "x \<noteq> []" "DecodedLen e (EncodedLen e (length x)) \<le> MaxBlobSize"
  shows "unmarshalJSONBlob (CHR 0x22 # b64_encode e x @ [CHR 0x22]) e = Inr x"
proof -
  have "b64_encode e x \<noteq> []" using assms by simp
  then have "\<not> length (b64_encode e x) < 1" by (cases "b64_encode e x") auto
  then show ?thesis using assms
    by (simp add: unmarshalJSONBlob_def butlast_append length_b64_encode)
qed

lemma unmarshal_marshal_blob:
  assumes "x \<noteq> []" "length x \<le> MaxBlobSize"
  shows "unmarshalJSONBlob (CHR 0x22 # b64_encode RawURLEncoding x @ [CHR 0x22]) RawURLEncoding = Inr x"
  using assms by (intro unmarshal_marshal_enc) (simp_all add: DecodedLen_EncodedLen)

lemma unmarshalJSONBlob_bound:
  "unmarshalJSONBlob src e = Inr b \<Longrightarrow> length b \<le> MaxBlobSize"
  by (auto simp: unmarshalJSONBlob_def Let_def numeral_2_eq_2 split: if_splits
      dest!: length_b64_decode_le)

section \<open>Decoding what was encoded\<close>

text \<open>
  The struct decoder consumes an encoded document member by member; each lemma below is one kind
  of member.
\<close>

definition wf_blob :: "bytes option \<Rightarrow> bool" where
  "wf_blob x = pred_option (\<lambda>b. b \<noteq> [] \<and> length b \<le> MaxBlobSize) x"

definition ascii :: "string \<Rightarrow> bool" where
  "ascii s \<longleftrightarrow> list_all (\<lambda>c. (of_char c :: nat) < 128) s"

lemma ascii_simps [simp]: "ascii []" "ascii (c # s) \<longleftrightarrow> (of_char c :: nat) < 128 \<and> ascii s"
  by (simp_all add: ascii_def)

lemma unquote_quote_ascii_name: "ascii s \<Longrightarrow> unquote (quote s) = s"
  by (simp add: unquote_quote utf8_valid_plain ascii_def)

lemma decode_member:
  "map_of fs n = Some f \<Longrightarrow> ascii n \<Longrightarrow> f v st = Fine st' \<Longrightarrow>
   decode_members fs (jmember n v # ms) b st = decode_members fs ms b st'"
  by (simp add: find_field_def jmember_def unquote_quote_ascii_name)

lemma decode_str [dec_simps]:
  assumes "map_of fs n = Some (set_str get upd)" "ascii n" "utf8_valid s"
  shows "decode_members fs (jmember n (jstring s) # ms) b st = decode_members fs ms b (upd (\<lambda>_. s) st)"
  using assms by (simp add: jstring_def decode_member set_str_def unquote_quote)

lemma decode_omit_str [dec_simps]:
  assumes "map_of fs n = Some (set_str get upd)" "ascii n" "utf8_valid s"
    and "s = [] \<Longrightarrow> upd (\<lambda>_. []) st = st"
  shows "decode_members fs (omit_str n s @ ms) b st = decode_members fs ms b (upd (\<lambda>_. s) st)"
  using assms by (auto simp: omit_str_def decode_str)

lemma decode_omit_list:
  assumes "map_of fs n = Some (set_list d get upd)" "ascii n"
    and "dec_elems d (map f xs) = Fine xs" and "xs = [] \<Longrightarrow> upd (\<lambda>_. []) st = st"
  shows "decode_members fs (omit_list n f xs @ ms) b st = decode_members fs ms b (upd (\<lambda>_. xs) st)"
  using assms by (auto simp: omit_list_def decode_member set_list_def)

lemma dec_elems_strings: "list_all utf8_valid xs \<Longrightarrow> dec_elems dec_str_elem (map jstring xs) = Fine xs"
  by (induction xs) (simp_all add: dec_str_elem_def jstring_def unquote_quote)

lemma alphabet_Std_plain: "plain_name (CHR ''='' # alphabet StdEncoding)"
  by code_simp

lemma plain_name_mono: "plain_name p \<Longrightarrow> set s \<subseteq> set p \<Longrightarrow> plain_name s"
  unfolding plain_name_def list_all_iff by blast

lemma plain_b64_std: "plain_name (b64_encode StdEncoding x)"
proof (rule plain_name_mono [OF alphabet_Std_plain])
  show "set (b64_encode StdEncoding x) \<subseteq> set (CHR ''='' # alphabet StdEncoding)"
    using set_b64_encode [OF good_Std, of x] by (auto split: if_splits)
qed

lemma dec_bytes_enc [simp]: "dec_bytes (enc_bytes b) = Fine b"
  by (cases b) (simp_all add: enc_bytes_def unquote_plain plain_b64_std)

lemma dec_elems_bytes: "dec_elems dec_bytes (map enc_bytes xs) = Fine xs"
  by (induction xs) simp_all

lemmas decode_omit_strings [dec_simps] = decode_omit_list [where d = dec_str_elem, OF _ _ dec_elems_strings]
lemmas decode_omit_bytes [dec_simps] = decode_omit_list [where d = dec_bytes, OF _ _ dec_elems_bytes]
lemmas decode_last [dec_simps] =
  decode_omit_str [where ms = "[]", unfolded append_Nil2]
  decode_omit_strings [where ms = "[]", unfolded append_Nil2]
  decode_omit_bytes [where ms = "[]", unfolded append_Nil2]

lemma html_escape_b64 [simp]: "html_escape (b64_encode RawURLEncoding x) = b64_encode RawURLEncoding x"
proof -
  have "html_escape t = t" if "set t \<subseteq> set (alphabet RawURLEncoding)" for t
    using that by (induction t) (auto simp: RawURLEncoding_def)
  then show ?thesis using b64_text_plain by blast
qed

lemma json_parse_b64: "json_parse (CHR 0x22 # b64_encode RawURLEncoding x @ [CHR 0x22])
    = Some (JStr (b64_encode RawURLEncoding x))"
  using json_parse_print [of "JStr (b64_encode RawURLEncoding x)"] by (simp add: max_nesting_def)

lemma enc_method_blob:
  "x \<noteq> [] \<Longrightarrow> enc_method (marshalJSONBlob x RawURLEncoding) = Inr (JStr (b64_encode RawURLEncoding x))"
  by (simp add: enc_method_def marshalJSONBlob_def json_parse_b64)

definition blob_members :: "string \<Rightarrow> bytes option \<Rightarrow> (string \<times> json) list" where
  "blob_members n x = (case x of None \<Rightarrow> [] | Some b \<Rightarrow> [jmember n (JStr (b64_encode RawURLEncoding b))])"

lemma enc_blob_ok [dec_simps]: "wf_blob x \<Longrightarrow> enc_blob n x = Inr (blob_members n x)"
  by (auto simp: enc_blob_def wf_blob_def blob_members_def Blob_MarshalJSON_def enc_method_blob split: option.splits)

lemma decode_blob [dec_simps]:
  assumes "map_of fs n = Some (set_ptr Blob_UnmarshalJSON upd)" "ascii n" "wf_blob x"
    and "x = None \<Longrightarrow> upd (\<lambda>_. None) st = st"
  shows "decode_members fs (blob_members n x @ ms) b st = decode_members fs ms b (upd (\<lambda>_. x) st)"
  using assms
  by (auto simp: blob_members_def decode_member set_ptr_def dec_ptr_def dec_method_def
      Blob_UnmarshalJSON_def unmarshal_marshal_blob wf_blob_def split: option.splits)

definition wf_big :: "BigNum \<Rightarrow> bool" where
  "wf_big b \<longleftrightarrow> 0 < b \<and> length (big_Bytes b) \<le> MaxBlobSize"

definition big_member :: "string \<Rightarrow> BigNum \<Rightarrow> string \<times> json" where
  "big_member n b = jmember n (JStr (b64_encode RawURLEncoding (big_Bytes b)))"

lemma enc_bignum_ok [dec_simps]: "wf_big b \<Longrightarrow> enc_bignum n b = Inr [big_member n b]"
  by (simp add: enc_bignum_def BigNum_MarshalJSON_def enc_method_blob wf_big_def big_member_def)

lemma BigNum_UnmarshalJSON_marshalled:
  "wf_big b \<Longrightarrow> BigNum_UnmarshalJSON (CHR 0x22 # b64_encode RawURLEncoding (big_Bytes b) @ [CHR 0x22]) = Inr b"
  by (simp add: BigNum_UnmarshalJSON_def unmarshal_marshal_blob wf_big_def BigNum_SetBytes_def)

end
