(* ===== verification/Json_Html.thy ===== *)
theory Json_Html
  imports JoseTypes
begin

text \<open>
  Embedding a raw message in an encoded document escapes the HTML-sensitive characters of its
  literals. The literals the encoder writes are already escaped, so what it wrote once is copied
  unchanged when it is embedded again: \<open>json_compact\<close> is the identity on encoder output.
\<close>

definition html_safe :: "char \<Rightarrow> bool" where
  "html_safe c \<longleftrightarrow> c \<notin> set ''<>&'' \<and> c \<noteq> CHR 0xE2"

lemma html_escape_safe: "list_all html_safe p \<Longrightarrow> html_escape (p @ t) = p @ html_escape t"
  by (induction p) (auto simp: html_safe_def)

lemma hex_digit_cases: "hex_digit n \<in> set ''0123456789abcdef''"
  unfolding hex_digit_def by (rule nth_mem) simp

lemma html_safe_hex: "html_safe (hex_digit n)"
  using hex_digit_cases [of n] unfolding html_safe_def by auto

lemma html_safe_u_escape: "list_all html_safe (u_escape n)"
  by (simp add: u_escape_def html_safe_hex) (simp add: html_safe_def)

lemma html_safe_escapes:
  "html_safe CHR 0x5C" "html_safe CHR 0x22" "html_safe CHR ''b''" "html_safe CHR ''f''"
  "html_safe CHR ''n''" "html_safe CHR ''r''" "html_safe CHR ''t''"
  by (simp_all add: html_safe_def)

lemma html_safe_low: "(of_char c :: nat) < 128 \<Longrightarrow> c \<notin> set ''<>&'' \<Longrightarrow> html_safe c"
  by (auto simp: html_safe_def)

lemma html_safe_quote_ascii:
  assumes "(of_char c :: nat) < 128"
  shows "list_all html_safe (quote_ascii c)"
proof (cases "c \<in> set ''<>&''")
  case True
  then have "quote_ascii c = u_escape (of_char c)" by (auto simp: quote_ascii_def)
  then show ?thesis by (simp add: html_safe_u_escape)
next
  case False
  then have "html_safe c" using assms by (rule html_safe_low [rotated])
  then show ?thesis
    unfolding quote_ascii_def by (simp add: html_safe_escapes html_safe_u_escape del: list.set)
qed

lemma in_range_mono: "in_range lo hi s i \<Longrightarrow> 128 \<le> lo \<Longrightarrow> hi \<le> 191 \<Longrightarrow> in_range 128 191 s i"
  by (auto simp: in_range_def)

lemma utf8_len_continues:
  assumes "128 \<le> (of_char (s ! 0) :: nat)" "s \<noteq> []" "0 < i" "i < utf8_len s"
  shows "in_range 128 191 s i"
proof -
  let ?c = "of_char (s ! 0) :: nat"
  consider (two) "194 \<le> ?c" "?c \<le> 223" | (three) "224 \<le> ?c" "?c \<le> 239"
    | (four) "240 \<le> ?c" "?c \<le> 244" | (bad) "?c < 194 \<or> 244 < ?c" by linarith
  then show ?thesis
  proof cases
    case two
    then have "utf8_len s = (if in_range 128 191 s 1 then 2 else 0)"
      using assms(2) by (simp add: utf8_len_def)
    with assms(3,4) show ?thesis by (cases "i = 1") (auto split: if_split_asm)
  next
    case three
    then have "utf8_len s = (if in_range (if ?c = 224 then 160 else 128) (if ?c = 237 then 159 else 191) s 1
          \<and> in_range 128 191 s 2 then 3 else 0)"
      using assms(2) by (simp add: utf8_len_def)
    then have r: "in_range (if ?c = 224 then 160 else 128) (if ?c = 237 then 159 else 191) s 1"
      "in_range 128 191 s 2" "i < 3" using assms(4) by (simp_all only: split: if_split_asm)
    have "in_range 128 191 s 1" by (rule in_range_mono [OF r(1)]) simp_all
    moreover have "i = 1 \<or> i = 2" using assms(3) r(3) by linarith
    ultimately show ?thesis using r(2) by blast
  next
    case four
    then have "utf8_len s = (if in_range (if ?c = 240 then 144 else 128) (if ?c = 244 then 143 else 191) s 1
          \<and> in_range 128 191 s 2 \<and> in_range 128 191 s 3 then 4 else 0)"
      using assms(2) by (simp add: utf8_len_def)
    then have r: "in_range (if ?c = 240 then 144 else 128) (if ?c = 244 then 143 else 191) s 1"
      "in_range 128 191 s 2" "in_range 128 191 s 3" "i < 4" using assms(4) by (simp_all only: split: if_split_asm)
    have "in_range 128 191 s 1" by (rule in_range_mono [OF r(1)]) simp_all
    moreover have "i = 1 \<or> i = 2 \<or> i = 3" using assms(3) r(4) by linarith
    ultimately show ?thesis using r(2,3) by blast
  next
    case bad
    then have "utf8_len s = 0" using assms(1,2) by (auto simp: utf8_len_def)
    with assms(4) show ?thesis by simp
  qed
qed

lemma utf8_len_tail:
  assumes "128 \<le> (of_char (hd s) :: nat)" "c \<in> set (take (utf8_len s - 1) (tl s))"
  shows "html_safe c"
proof -
  have ne: "s \<noteq> []" using assms(2) by auto
  obtain i where i: "i < utf8_len s - 1" "c = tl s ! i" "i < length (tl s)"
    using assms(2) by (auto simp: in_set_conv_nth)
  then have c: "c = s ! Suc i" by (simp add: nth_tl)
  have "128 \<le> (of_char (s ! 0) :: nat)" using assms(1) ne by (simp add: hd_conv_nth)
  then have "in_range 128 191 s (Suc i)"
    using i(1) by (intro utf8_len_continues ne) simp_all
  then have "128 \<le> (of_char c :: nat)" "(of_char c :: nat) \<le> 191" by (simp_all add: c in_range_def)
  then show ?thesis by (auto simp: html_safe_def)
qed

lemma take_Suc_tl: "s \<noteq> [] \<Longrightarrow> n \<noteq> 0 \<Longrightarrow> take n s = hd s # take (n - 1) (tl s)"
  by (cases s; cases n) auto

lemma utf8_len_E2: "utf8_len (CHR 0xE2 # s) \<in> {0, 3}"
  by (simp add: utf8_len_def)

lemma html_escape_rune:
  assumes "128 \<le> (of_char (hd s) :: nat)" "utf8_len s \<noteq> 0" "s \<noteq> []"
    and "take 3 s \<noteq> [CHR 0xE2, CHR 0x80, CHR 0xA8]" "take 3 s \<noteq> [CHR 0xE2, CHR 0x80, CHR 0xA9]"
  shows "html_escape (take (utf8_len s) s @ t) = take (utf8_len s) s @ html_escape t"
proof -
  let ?r = "take (utf8_len s - 1) (tl s)"
  have p: "take (utf8_len s) s = hd s # ?r" using assms(2,3) by (intro take_Suc_tl)
  have r: "list_all html_safe ?r" using utf8_len_tail [OF assms(1)] by (simp add: list_all_iff)
  show ?thesis
  proof (cases "hd s = CHR 0xE2")
    case False
    then have "html_safe (hd s)" using assms(1) by (auto simp: html_safe_def)
    with r show ?thesis unfolding p by (intro html_escape_safe) simp
  next
    case True
    then obtain s' where s: "s = CHR 0xE2 # s'" using assms(3) by (cases s) auto
    then have n: "utf8_len s = 3" using utf8_len_E2 [of s'] assms(2) by auto
    then obtain b a s'' where s': "s' = b # a # s''"
      using utf8_len_le [of s] s by (cases s'; cases "tl s'") auto
    have "html_escape (CHR 0xE2 # (b # a # t)) = CHR 0xE2 # html_escape ([b, a] @ t)"
      using assms(4,5) s s' by (auto simp: html_escape.simps(2) [of "CHR 0xE2"])
    with n s s' r show ?thesis by (simp only: p) (simp add: html_escape_safe [of "[b, a]", simplified])
  qed
qed

theorem html_escape_quote [simp]: "html_escape (quote s) = quote s"
proof (induction s rule: quote.induct)
  case (1 s)
  note q = quote.simps [of s]
  consider "s = []" | "s \<noteq> []" "of_char (hd s) < (128::nat)"
    | "s \<noteq> []" "\<not> of_char (hd s) < (128::nat)" by blast
  then show ?case
  proof cases
    case 1
    then show ?thesis by simp
  next
    case 2
    then have "quote s = quote_ascii (hd s) @ quote (tl s)" using q by simp
    with 2 1(1) show ?thesis by (simp add: html_escape_safe html_safe_quote_ascii)
  next
    case 3
    then show ?thesis using 1(2-5)
      by (subst (1 2) q) (simp add: html_escape_safe html_safe_u_escape html_escape_rune)
  qed
qed

lemma json_compact_jstring [simp]: "json_compact (jstring s) = jstring s"
  by (simp add: jstring_def)

lemma json_compact_jint [simp]: "json_compact (jint i) = jint i"
  by (simp add: jint_def)

lemma wf_json_jstring [simp, wf_rules]: "wf_json (jstring s)"
  by (simp add: jstring_def)

lemma wf_json_jint [simp, wf_rules]: "wf_json (jint i)"
  by (simp add: jint_def)

lemma jdepth_leaf [simp]: "jdepth (jstring s) = 0" "jdepth (jint i) = 0"
  by (simp_all add: jstring_def jint_def)

section \<open>Encoded members\<close>

text \<open>A member the encoder may write: printable, shallow, and stable under embedding.\<close>

definition member_ok :: "nat \<Rightarrow> string \<times> json \<Rightarrow> bool" where
  "member_ok d m \<longleftrightarrow> lit_ok (fst m) \<and> html_escape (fst m) = fst m \<and> wf_json (snd m)
     \<and> jdepth (snd m) \<le> d \<and> json_compact (snd m) = snd m"

lemma member_ok_jmember [simp]:
  "member_ok d (jmember n v) \<longleftrightarrow> wf_json v \<and> jdepth v \<le> d \<and> json_compact v = v"
  by (simp add: member_ok_def jmember_def)

lemma members_ok_omit_str [simp, wf_rules]: "list_all (member_ok d) (omit_str n s)"
  by (simp add: omit_str_def)

lemma members_ok_omit_int [simp, wf_rules]: "list_all (member_ok d) (omit_int n i)"
  by (simp add: omit_int_def)

lemma members_ok_omit_list [wf_rules]:
  assumes "\<And>x. wf_json (f x) \<and> jdepth (f x) \<le> d \<and> json_compact (f x) = f x"
  shows "list_all (member_ok (Suc d)) (omit_list n f xs)"
  using assms by (auto simp: omit_list_def foldr_max_le list_all_iff intro: map_idI)

lemma members_ok_strings [simp, wf_rules]: "list_all (member_ok (Suc d)) (omit_list n jstring xs)"
  by (rule members_ok_omit_list) simp

lemma html_escape_b64_std [simp]: "html_escape (b64_encode StdEncoding x) = b64_encode StdEncoding x"
  using html_escape_quote [of "b64_encode StdEncoding x"] by (simp add: quote_plain plain_b64_std)

lemma raw_ok_b64_std [simp]: "raw_ok (b64_encode StdEncoding x)"
  using raw_ok_quote [of "b64_encode StdEncoding x"] by (simp add: quote_plain plain_b64_std)

lemma members_ok_bytes [simp, wf_rules]: "list_all (member_ok (Suc d)) (omit_list n enc_bytes xs)"
  by (rule members_ok_omit_list) (simp add: enc_bytes_def split: option.splits)

lemma members_ok_blob [simp, wf_rules]: "list_all (member_ok d) (blob_members n x)"
  by (simp add: blob_members_def split: option.splits)

lemma members_ok_object:
  assumes "list_all (member_ok d) ms"
  shows "wf_json (JObj ms)" "jdepth (JObj ms) \<le> Suc d" "json_compact (JObj ms) = JObj ms"
  using assms by (auto simp: list_all_iff member_ok_def foldr_max_le intro!: map_idI)

text \<open>An encoded object is read back as it was written.\<close>

lemma json_parse_object:
  "list_all (member_ok d) ms \<Longrightarrow> d < max_nesting \<Longrightarrow> json_parse (json_print (JObj ms)) = Some (JObj ms)"
  using members_ok_object [of d ms] by (intro json_parse_print) simp_all

end
