(* ===== verification/Jwk.thy ===== *)
theory Jwk
  imports Json_Html
begin

text \<open>
  \<open>jose/jwk.go\<close> and \<open>jose/jwks.go\<close>: JSON web keys of the five concrete types, their consistency
  checks, and key sets. X.509 parsing and SHA-1 are not part of the source: they are the fields of
  the parameter record \<open>jose_lib\<close>. A \<open>Certificate\<close> wraps a pointer, so it is an option.
\<close>

datatype cert_key = CertRSA nat int | CertEC string nat nat | CertOther

datatype sig_alg = SHA256WithRSA | SHA384WithRSA | SHA512WithRSA | SHA256WithRSAPSS | SHA384WithRSAPSS
  | SHA512WithRSAPSS | OtherSignatureAlgorithm

record x509 =
  cert_Raw :: bytes
  cert_SignatureAlgorithm :: sig_alg
  cert_PublicKey :: cert_key

record jose_lib =
  ParseCertificate :: "bytes \<Rightarrow> x509 option"
  SHA1 :: "bytes \<Rightarrow> bytes"

section \<open>Members with methods of their own\<close>

type_synonym Certificate = "x509 option"

definition Certificate_MarshalJSON :: "Certificate \<Rightarrow> err + string" where
  "Certificate_MarshalJSON c = (case c of
     None \<Rightarrow> Inl (GoPanic ''nil pointer dereference'')
   | Some x \<Rightarrow> marshalJSONBlob (cert_Raw x) StdEncoding)"

definition Certificate_UnmarshalJSON :: "'l jose_lib_scheme \<Rightarrow> string \<Rightarrow> err + Certificate" where
  "Certificate_UnmarshalJSON L src =
     rbind (unmarshalJSONBlob src StdEncoding) (\<lambda>b.
     rbind (of_opt (Std X509Parse) (ParseCertificate L b)) (\<lambda>c. Inr (Some c)))"

type_synonym Fingerprint = bytes

definition Fingerprint_Bytes :: "Fingerprint \<Rightarrow> bytes" where "Fingerprint_Bytes f = f"

definition Fingerprint_SetBytes :: "bytes \<Rightarrow> Fingerprint \<Rightarrow> Fingerprint" where "Fingerprint_SetBytes val f = val"

definition Fingerprint_UnmarshalJSON :: "string \<Rightarrow> err + Fingerprint" where
  "Fingerprint_UnmarshalJSON src =
     rbind (unmarshalJSONBlob src RawURLEncoding) (\<lambda>digest.
     if length digest \<noteq> 20 then Inl (Jose ErrJwkInvalidFingerprintfomat) else Inr digest)"

definition Fingerprint_MarshalJSON :: "Fingerprint \<Rightarrow> err + string" where
  "Fingerprint_MarshalJSON f =
     (if length f \<noteq> 20 then Inl (Jose ErrJwkInvalidFingerprintfomat)
      else marshalJSONBlob f RawURLEncoding)"

section \<open>The common fields\<close>

record jwkFields =
  KeyUse :: KeyUse
  KeyOps :: "KeyOps list"
  KeyAlg :: Alg
  KeyKid :: string
  KeyX5C :: "Certificate list"
  KeyX5T :: "Fingerprint option"

text \<open>\<open>X5C\<close> copies the pointers out of the chain; \<open>SetX5C\<close> appends to the chain that is there.\<close>

definition X5C :: "'a jwkFields_scheme \<Rightarrow> x509 option list" where
  "X5C j = KeyX5C j"

definition SetX5C :: "x509 option list \<Rightarrow> 'a jwkFields_scheme \<Rightarrow> 'a jwkFields_scheme" where
  "SetX5C x5c j = j\<lparr>KeyX5C := KeyX5C j @ x5c\<rparr>"

definition maxKeyOps :: nat where
  "maxKeyOps = 64"

fun check_key_ops :: "KeyOps list \<Rightarrow> KeyOps list \<Rightarrow> err + unit" where
  "check_key_ops seen [] = Inr ()"
| "check_key_ops seen (op # ops) =
     (if op \<in> set seen then Inl (Jose ErrDuplicateKeyOps) else check_key_ops (op # seen) ops)"

definition CheckConsistency :: "'l jose_lib_scheme \<Rightarrow> 'a jwkFields_scheme \<Rightarrow> err + unit" where
  "CheckConsistency L j =
     (if length (KeyOps j) > maxKeyOps then Inl (Jose ErrTooManyKeyOps)
      else rbind (check_key_ops [] (KeyOps j)) (\<lambda>_.
        case KeyX5C j of
          [] \<Rightarrow> Inr ()
        | c # _ \<Rightarrow>
            (case KeyX5T j of
               None \<Rightarrow> Inr ()
             | Some digest \<Rightarrow>
                 (case c of
                    None \<Rightarrow> Inl (GoPanic ''nil pointer dereference'')
                  | Some cert \<Rightarrow>
                      if SHA1 L (cert_Raw cert) \<noteq> digest
                      then Inl (Jose ErrJwkInconsistentCertificateFields) else Inr ()))))"

definition x5cLeaf :: "'a jwkFields_scheme \<Rightarrow> err + x509 option" where
  "x5cLeaf j = (case KeyX5C j of
     [] \<Rightarrow> Inr None
   | c # _ \<Rightarrow> (case c of
       None \<Rightarrow> Inl (Jose ErrJwkInconsistentCertificateFields)
     | Some leaf \<Rightarrow> Inr (Some leaf)))"

section \<open>The key types\<close>

record PublicRsaKey = jwkFields +
  rsaN :: BigNum
  rsaE :: BigNum

record PrivateRsaKey = PublicRsaKey +
  rsaD :: BigNum
  rsaP :: BigNum
  rsaQ :: BigNum
  rsaDp :: BigNum
  rsaDq :: BigNum
  rsaQi :: BigNum

record PublicEcKey = jwkFields +
  ecCrv :: Crv
  ecX :: BigNum
  ecY :: BigNum

record PrivateEcKey = PublicEcKey +
  ecD :: BigNum

record OctSecretKey = jwkFields +
  octK :: bytes

datatype Jwk =
    RsaPub PublicRsaKey
  | RsaPriv PrivateRsaKey
  | EcPub PublicEcKey
  | EcPriv PrivateEcKey
  | Oct OctSecretKey

text \<open>The \<open>Jwk\<close> interface: reading and writing the common fields of whatever key it holds.\<close>

definition PublicRsaKey_Kty :: "PublicRsaKey \<Rightarrow> Kty" where [simp]: "PublicRsaKey_Kty k = KtyRSA"
definition PrivateRsaKey_Kty :: "PrivateRsaKey \<Rightarrow> Kty" where [simp]: "PrivateRsaKey_Kty k = KtyRSA"
definition PublicEcKey_Kty :: "PublicEcKey \<Rightarrow> Kty" where [simp]: "PublicEcKey_Kty k = KtyEC"
definition PrivateEcKey_Kty :: "PrivateEcKey \<Rightarrow> Kty" where [simp]: "PrivateEcKey_Kty k = KtyEC"
definition OctSecretKey_Kty :: "OctSecretKey \<Rightarrow> Kty" where [simp]: "OctSecretKey_Kty k = KtyOct"

definition Jwk_Kty :: "Jwk \<Rightarrow> Kty" where
  "Jwk_Kty j = (case j of RsaPub k \<Rightarrow> PublicRsaKey_Kty k | RsaPriv k \<Rightarrow> PrivateRsaKey_Kty k
     | EcPub k \<Rightarrow> PublicEcKey_Kty k | EcPriv k \<Rightarrow> PrivateEcKey_Kty k | Oct k \<Rightarrow> OctSecretKey_Kty k)"

definition jwk_get :: "Jwk \<Rightarrow> jwkFields" where
  "jwk_get j = (case j of
     RsaPub k \<Rightarrow> jwkFields.truncate k | RsaPriv k \<Rightarrow> jwkFields.truncate k
   | EcPub k \<Rightarrow> jwkFields.truncate k | EcPriv k \<Rightarrow> jwkFields.truncate k | Oct k \<Rightarrow> jwkFields.truncate k)"

definition put_fields :: "jwkFields \<Rightarrow> 'a jwkFields_scheme \<Rightarrow> 'a jwkFields_scheme" where
  "put_fields f k = k\<lparr>KeyUse := KeyUse f, KeyOps := KeyOps f, KeyAlg := KeyAlg f, KeyKid := KeyKid f,
     KeyX5C := KeyX5C f, KeyX5T := KeyX5T f\<rparr>"

definition jwk_put :: "jwkFields \<Rightarrow> Jwk \<Rightarrow> Jwk" where
  "jwk_put f j = (case j of
     RsaPub k \<Rightarrow> RsaPub (put_fields f k) | RsaPriv k \<Rightarrow> RsaPriv (put_fields f k)
   | EcPub k \<Rightarrow> EcPub (put_fields f k) | EcPriv k \<Rightarrow> EcPriv (put_fields f k)
   | Oct k \<Rightarrow> Oct (put_fields f k))"

definition Jwk_Use :: "Jwk \<Rightarrow> KeyUse" where "Jwk_Use j = KeyUse (jwk_get j)"
definition Jwk_Ops :: "Jwk \<Rightarrow> KeyOps list" where "Jwk_Ops j = KeyOps (jwk_get j)"
definition Jwk_Alg :: "Jwk \<Rightarrow> Alg" where "Jwk_Alg j = KeyAlg (jwk_get j)"
definition Jwk_Kid :: "Jwk \<Rightarrow> string" where "Jwk_Kid j = KeyKid (jwk_get j)"
definition Jwk_X5C :: "Jwk \<Rightarrow> x509 option list" where "Jwk_X5C j = X5C (jwk_get j)"
definition Jwk_X5T :: "Jwk \<Rightarrow> Fingerprint option" where "Jwk_X5T j = KeyX5T (jwk_get j)"

definition Jwk_SetUse :: "KeyUse \<Rightarrow> Jwk \<Rightarrow> Jwk" where
  "Jwk_SetUse u j = jwk_put ((jwk_get j)\<lparr>KeyUse := u\<rparr>) j"
definition Jwk_SetOps :: "KeyOps list \<Rightarrow> Jwk \<Rightarrow> Jwk" where
  "Jwk_SetOps ops j = jwk_put ((jwk_get j)\<lparr>KeyOps := ops\<rparr>) j"
definition Jwk_SetAlg :: "Alg \<Rightarrow> Jwk \<Rightarrow> Jwk" where
  "Jwk_SetAlg a j = jwk_put ((jwk_get j)\<lparr>KeyAlg := a\<rparr>) j"
definition Jwk_SetKid :: "string \<Rightarrow> Jwk \<Rightarrow> Jwk" where
  "Jwk_SetKid kid j = jwk_put ((jwk_get j)\<lparr>KeyKid := kid\<rparr>) j"
definition Jwk_SetX5C :: "x509 option list \<Rightarrow> Jwk \<Rightarrow> Jwk" where
  "Jwk_SetX5C cs j = jwk_put (SetX5C cs (jwk_get j)) j"
definition Jwk_SetX5T :: "Fingerprint option \<Rightarrow> Jwk \<Rightarrow> Jwk" where
  "Jwk_SetX5T f j = jwk_put ((jwk_get j)\<lparr>KeyX5T := f\<rparr>) j"

definition checkX5CMatchesKey_rsa :: "'a PublicRsaKey_scheme \<Rightarrow> err + unit" where
  "checkX5CMatchesKey_rsa k = rbind (x5cLeaf k) (\<lambda>leaf. case leaf of
     None \<Rightarrow> Inr ()
   | Some c \<Rightarrow> (case cert_PublicKey c of
       CertRSA n e \<Rightarrow> if n \<noteq> rsaN k \<or> e \<noteq> int (rsaE k)
         then Inl (Jose ErrJwkCertificateKeyMismatch) else Inr ()
     | _ \<Rightarrow> Inl (Jose ErrJwkCertificateKeyMismatch)))"

definition checkX5CMatchesKey_ec :: "'a PublicEcKey_scheme \<Rightarrow> err + unit" where
  "checkX5CMatchesKey_ec k = rbind (x5cLeaf k) (\<lambda>leaf. case leaf of
     None \<Rightarrow> Inr ()
   | Some c \<Rightarrow> (case cert_PublicKey c of
       CertEC crv x y \<Rightarrow>
         if x \<noteq> ecX k \<or> y \<noteq> ecY k then Inl (Jose ErrJwkCertificateKeyMismatch)
         else if ecCrv k \<noteq> [] \<and> crv \<noteq> ecCrv k then Inl (Jose ErrJwkCertificateKeyMismatch)
         else Inr ()
     | _ \<Rightarrow> Inl (Jose ErrJwkCertificateKeyMismatch)))"

section \<open>Encoding\<close>

definition enc_x5c :: "Certificate list \<Rightarrow> err + (string \<times> json) list" where
  "enc_x5c cs = (if cs = [] then Inr []
     else rbind (rmap (\<lambda>c. enc_method (Certificate_MarshalJSON c)) cs) (\<lambda>vs. Inr [jmember ''x5c'' (JArr vs)]))"

definition enc_x5t :: "Fingerprint option \<Rightarrow> err + (string \<times> json) list" where
  "enc_x5t f = (case f of None \<Rightarrow> Inr []
     | Some d \<Rightarrow> rbind (enc_method (Fingerprint_MarshalJSON d)) (\<lambda>v. Inr [jmember ''x5t'' v]))"

definition common_members :: "'a jwkFields_scheme \<Rightarrow> err + (string \<times> json) list" where
  "common_members j =
     rbind (enc_x5c (KeyX5C j)) (\<lambda>x5c.
     rbind (enc_x5t (KeyX5T j)) (\<lambda>x5t.
     Inr (omit_str ''use'' (KeyUse j) @ omit_list ''key_ops'' jstring (KeyOps j)
       @ omit_str ''alg'' (KeyAlg j) @ omit_str ''kid'' (KeyKid j) @ x5c @ x5t)))"

text \<open>The members of a struct are encoded in order, stopping at the first error.\<close>

definition enc_seq :: "(err + (string \<times> json) list) list \<Rightarrow> err + string" where
  "enc_seq ms = rbind (rmap (\<lambda>m. m) ms) (\<lambda>mss. Inr (json_print (JObj (concat mss))))"

definition kty_member :: "Kty \<Rightarrow> err + (string \<times> json) list" where
  "kty_member kty = Inr [jmember ''kty'' (jstring kty)]"

definition rsa_public_members :: "'a PublicRsaKey_scheme \<Rightarrow> (err + (string \<times> json) list) list" where
  "rsa_public_members k = [enc_bignum ''n'' (rsaN k), enc_bignum ''e'' (rsaE k)]"

definition PublicRsaKey_MarshalJSON :: "'a PublicRsaKey_scheme \<Rightarrow> err + string" where
  "PublicRsaKey_MarshalJSON k =
     enc_seq (common_members k # rsa_public_members k @ [kty_member KtyRSA])"

definition PrivateRsaKey_MarshalJSON :: "PrivateRsaKey \<Rightarrow> err + string" where
  "PrivateRsaKey_MarshalJSON k =
     enc_seq (kty_member KtyRSA # common_members k # rsa_public_members k
       @ [enc_bignum ''d'' (rsaD k), enc_bignum ''p'' (rsaP k), enc_bignum ''q'' (rsaQ k),
          enc_bignum ''dp'' (rsaDp k), enc_bignum ''dq'' (rsaDq k), enc_bignum ''qi'' (rsaQi k)])"

definition ec_public_members :: "'a PublicEcKey_scheme \<Rightarrow> (err + (string \<times> json) list) list" where
  "ec_public_members k = [Inr [jmember ''crv'' (jstring (ecCrv k))],
     enc_bignum ''x'' (ecX k), enc_bignum ''y'' (ecY k)]"

definition PublicEcKey_MarshalJSON :: "'a PublicEcKey_scheme \<Rightarrow> err + string" where
  "PublicEcKey_MarshalJSON k =
     enc_seq (common_members k # ec_public_members k @ [kty_member KtyEC])"

definition PrivateEcKey_MarshalJSON :: "PrivateEcKey \<Rightarrow> err + string" where
  "PrivateEcKey_MarshalJSON k =
     enc_seq (kty_member KtyEC # common_members k # ec_public_members k @ [enc_bignum ''d'' (ecD k)])"

definition OctSecretKey_MarshalJSON :: "OctSecretKey \<Rightarrow> err + string" where
  "OctSecretKey_MarshalJSON k =
     enc_seq [common_members k, enc_blob ''k'' (Some (octK k)), kty_member KtyOct]"

definition Jwk_MarshalJSON :: "Jwk \<Rightarrow> err + string" where
  "Jwk_MarshalJSON j = (case j of
     RsaPub k \<Rightarrow> PublicRsaKey_MarshalJSON k | RsaPriv k \<Rightarrow> PrivateRsaKey_MarshalJSON k
   | EcPub k \<Rightarrow> PublicEcKey_MarshalJSON k | EcPriv k \<Rightarrow> PrivateEcKey_MarshalJSON k
   | Oct k \<Rightarrow> OctSecretKey_MarshalJSON k)"

section \<open>Decoding\<close>

text \<open>The target is the pair of the temporary \<open>Kty\<close> member and the key behind the embedded pointers.\<close>

definition kty_field :: "(err, Kty \<times> 'k) fields" where
  "kty_field = [(''kty'', set_str fst apfst)]"

definition common_fields :: "'l jose_lib_scheme \<Rightarrow> (err, Kty \<times> 'a jwkFields_scheme) fields" where
  "common_fields L =
     [(''use'', set_str (KeyUse \<circ> snd) (apsnd \<circ> KeyUse_update)),
      (''key_ops'', set_list dec_str_elem (KeyOps \<circ> snd) (apsnd \<circ> KeyOps_update)),
      (''alg'', set_str (KeyAlg \<circ> snd) (apsnd \<circ> KeyAlg_update)),
      (''kid'', set_str (KeyKid \<circ> snd) (apsnd \<circ> KeyKid_update)),
      (''x5c'', set_list (dec_method (Certificate_UnmarshalJSON L)) (KeyX5C \<circ> snd) (apsnd \<circ> KeyX5C_update)),
      (''x5t'', set_ptr Fingerprint_UnmarshalJSON (apsnd \<circ> KeyX5T_update))]"

definition rsa_public_fields :: "(err, Kty \<times> 'a PublicRsaKey_scheme) fields" where
  "rsa_public_fields =
     [(''n'', set_method BigNum_UnmarshalJSON (apsnd \<circ> rsaN_update)),
      (''e'', set_method BigNum_UnmarshalJSON (apsnd \<circ> rsaE_update))]"

definition rsa_private_fields :: "(err, Kty \<times> 'a PrivateRsaKey_scheme) fields" where
  "rsa_private_fields =
     [(''d'', set_method BigNum_UnmarshalJSON (apsnd \<circ> rsaD_update)),
      (''p'', set_method BigNum_UnmarshalJSON (apsnd \<circ> rsaP_update)),
      (''q'', set_method BigNum_UnmarshalJSON (apsnd \<circ> rsaQ_update)),
      (''dp'', set_method BigNum_UnmarshalJSON (apsnd \<circ> rsaDp_update)),
      (''dq'', set_method BigNum_UnmarshalJSON (apsnd \<circ> rsaDq_update)),
      (''qi'', set_method BigNum_UnmarshalJSON (apsnd \<circ> rsaQi_update))]"

definition ec_public_fields :: "(err, Kty \<times> 'a PublicEcKey_scheme) fields" where
  "ec_public_fields =
     [(''crv'', set_str (ecCrv \<circ> snd) (apsnd \<circ> ecCrv_update)),
      (''x'', set_method BigNum_UnmarshalJSON (apsnd \<circ> ecX_update)),
      (''y'', set_method BigNum_UnmarshalJSON (apsnd \<circ> ecY_update))]"

definition ec_private_fields :: "(err, Kty \<times> 'a PrivateEcKey_scheme) fields" where
  "ec_private_fields = [(''d'', set_method BigNum_UnmarshalJSON (apsnd \<circ> ecD_update))]"

definition oct_fields :: "(err, Kty \<times> 'a OctSecretKey_scheme) fields" where
  "oct_fields = [(''k'', set_method Blob_UnmarshalJSON (apsnd \<circ> octK_update))]"

text \<open>The common shape of the five \<open>UnmarshalJSON\<close> methods: decode, check the type, check the key.\<close>

definition unmarshal_key :: "(err, Kty \<times> 'k) fields \<Rightarrow> Kty \<Rightarrow> ('k \<Rightarrow> err + unit) \<Rightarrow> json \<Rightarrow> 'k \<Rightarrow> err + 'k" where
  "unmarshal_key fs kty check src k =
     rbind (dec_result (Std JSONType) (decode_struct fs src ([], k))) (\<lambda>(kty', k').
     if kty' \<noteq> kty then Inl (Jose ErrUnexpectedKeyType)
     else rbind (check k') (\<lambda>_. Inr k'))"

definition check_rsa :: "'l jose_lib_scheme \<Rightarrow> 'a PublicRsaKey_scheme \<Rightarrow> err + unit" where
  "check_rsa L k = rbind (CheckConsistency L k) (\<lambda>_. checkX5CMatchesKey_rsa k)"

definition check_ec :: "'l jose_lib_scheme \<Rightarrow> 'a PublicEcKey_scheme \<Rightarrow> err + unit" where
  "check_ec L k = rbind (CheckConsistency L k) (\<lambda>_. checkX5CMatchesKey_ec k)"

definition PublicRsaKey_UnmarshalJSON :: "'l jose_lib_scheme \<Rightarrow> json \<Rightarrow> PublicRsaKey \<Rightarrow> err + PublicRsaKey" where
  "PublicRsaKey_UnmarshalJSON L =
     unmarshal_key (common_fields L @ rsa_public_fields @ kty_field) KtyRSA (check_rsa L)"

definition PrivateRsaKey_UnmarshalJSON :: "'l jose_lib_scheme \<Rightarrow> json \<Rightarrow> PrivateRsaKey \<Rightarrow> err + PrivateRsaKey" where
  "PrivateRsaKey_UnmarshalJSON L =
     unmarshal_key (kty_field @ common_fields L @ rsa_public_fields @ rsa_private_fields) KtyRSA (check_rsa L)"

definition PublicEcKey_UnmarshalJSON :: "'l jose_lib_scheme \<Rightarrow> json \<Rightarrow> PublicEcKey \<Rightarrow> err + PublicEcKey" where
  "PublicEcKey_UnmarshalJSON L =
     unmarshal_key (kty_field @ common_fields L @ ec_public_fields) KtyEC (check_ec L)"

definition PrivateEcKey_UnmarshalJSON :: "'l jose_lib_scheme \<Rightarrow> json \<Rightarrow> PrivateEcKey \<Rightarrow> err + PrivateEcKey" where
  "PrivateEcKey_UnmarshalJSON L =
     unmarshal_key (kty_field @ common_fields L @ ec_public_fields @ ec_private_fields) KtyEC (check_ec L)"

definition OctSecretKey_UnmarshalJSON :: "'l jose_lib_scheme \<Rightarrow> json \<Rightarrow> OctSecretKey \<Rightarrow> err + OctSecretKey" where
  "OctSecretKey_UnmarshalJSON L =
     unmarshal_key (common_fields L @ oct_fields @ kty_field) KtyOct (CheckConsistency L)"

definition zero_PrivateRsaKey :: PrivateRsaKey where
  "zero_PrivateRsaKey = \<lparr>KeyUse = [], KeyOps = [], KeyAlg = [], KeyKid = [], KeyX5C = [], KeyX5T = None,
     rsaN = 0, rsaE = 0, rsaD = 0, rsaP = 0, rsaQ = 0, rsaDp = 0, rsaDq = 0, rsaQi = 0\<rparr>"

definition zero_PrivateEcKey :: PrivateEcKey where
  "zero_PrivateEcKey = \<lparr>KeyUse = [], KeyOps = [], KeyAlg = [], KeyKid = [], KeyX5C = [], KeyX5T = None,
     ecCrv = [], ecX = 0, ecY = 0, ecD = 0\<rparr>"

definition zero_OctSecretKey :: OctSecretKey where
  "zero_OctSecretKey = \<lparr>KeyUse = [], KeyOps = [], KeyAlg = [], KeyKid = [], KeyX5C = [], KeyX5T = None,
     octK = []\<rparr>"

text \<open>The switch on the key type; a key without a private exponent is returned as a public one.\<close>

definition jwk_of_kty :: "'l jose_lib_scheme \<Rightarrow> Kty \<Rightarrow> json \<Rightarrow> err + Jwk" where
  "jwk_of_kty L kty v =
     (if kty = KtyRSA then
        rbind (PrivateRsaKey_UnmarshalJSON L v zero_PrivateRsaKey) (\<lambda>rsa.
        Inr (if BitLen (rsaD rsa) = 0 then RsaPub (PublicRsaKey.truncate rsa) else RsaPriv rsa))
      else if kty = KtyEC then
        rbind (PrivateEcKey_UnmarshalJSON L v zero_PrivateEcKey) (\<lambda>ec.
        Inr (if BitLen (ecD ec) = 0 then EcPub (PublicEcKey.truncate ec) else EcPriv ec))
      else if kty = KtyOct then
        rbind (OctSecretKey_UnmarshalJSON L v zero_OctSecretKey) (\<lambda>oct. Inr (Oct oct))
      else Inl (Jose jose_error.ErrUnsupportedKeyType))"

definition kty_only :: "(err, Kty) fields" where
  "kty_only = [(''kty'', set_str id (\<lambda>f. f))]"

text \<open>\<open>reader\<close> is the content the reader delivers.\<close>

definition UnmarshalJwk :: "'l jose_lib_scheme \<Rightarrow> string \<Rightarrow> err + Jwk" where
  "UnmarshalJwk L reader =
     (let src = take (MaxJwksSize + 1) reader in
      if length src > MaxJwksSize then Inl (Jose jose_error.ErrInputTooLarge)
      else rbind (of_opt (Std JSONSyntax) (json_parse src)) (\<lambda>v.
           rbind (dec_result (Std JSONType) (decode_struct kty_only v [])) (\<lambda>kty.
           jwk_of_kty L kty v)))"

definition Jwks_UnmarshalJSON :: "'l jose_lib_scheme \<Rightarrow> string \<Rightarrow> Jwk list \<Rightarrow> err + Jwk list" where
  "Jwks_UnmarshalJSON L data keys =
     (if length data > MaxJwksSize then Inl (Jose jose_error.ErrInputTooLarge)
      else rbind (of_opt (Std JSONSyntax) (json_parse data)) (\<lambda>v.
           rbind (dec_result (Std JSONType)
             (decode_struct [(''keys'', set_list Fine id (\<lambda>f. f))] v [])) (\<lambda>blobs.
           rbind (rmap (\<lambda>blob. UnmarshalJwk L (json_print blob)) blobs) (\<lambda>ks.
           Inr (keys @ ks)))))"

end
