(* ===== verification/Crypto.thy ===== *)
theory Crypto
  imports Jwk
begin

text \<open>
  What the source uses of Go's \<open>crypto\<close> packages. Key material is represented by the numbers Go's
  key structs hold. The cryptographic primitives are not part of the source: they are the fields
  of the parameter record \<open>crypto_lib\<close>, functions of their inputs and, where the source passes
  \<open>rand.Reader\<close>, of the octets drawn from it. What the properties rely on of them is stated as a
  hypothesis of the property. \<open>OtherSigner\<close> and \<open>OtherPublic\<close> are keys of a type the source does not
  name; \<open>OtherSign\<close> is the \<open>Sign\<close> method of such a signer.
\<close>

datatype hash = SHA1_hash | SHA256_hash | SHA384_hash | SHA512_hash

datatype curve = P224 | P256 | P384 | P521

definition curve_Name :: "curve \<Rightarrow> string" where
  "curve_Name c = (case c of P224 \<Rightarrow> ''P-224'' | P256 \<Rightarrow> ''P-256'' | P384 \<Rightarrow> ''P-384'' | P521 \<Rightarrow> ''P-521'')"

definition curve_BitSize :: "curve \<Rightarrow> nat" where
  "curve_BitSize c = (case c of P224 \<Rightarrow> 224 | P256 \<Rightarrow> 256 | P384 \<Rightarrow> 384 | P521 \<Rightarrow> 521)"

record rsa_public =
  pub_N :: nat
  pub_E :: int

record rsa_private = rsa_public +
  priv_D :: nat
  priv_Primes :: "nat list"
  pre_Dp :: nat
  pre_Dq :: nat
  pre_Qinv :: nat

record ec_public =
  ec_Curve :: curve
  ec_X :: nat
  ec_Y :: nat

record ec_private = ec_public +
  ec_D :: nat

datatype Signer = RsaSigner rsa_private | EcSigner ec_private | OtherSigner

datatype PublicKey = RsaPublic rsa_public | EcPublic ec_public | OtherPublic

text \<open>\<open>cipher.AEAD\<close>; \<open>Seal\<close> returns ciphertext and tag together, or panics; its nonce may be nil.\<close>

record AEAD =
  aead_NonceSize :: nat
  aead_Overhead :: nat
  aead_Seal :: "bytes option \<Rightarrow> bytes \<Rightarrow> bytes \<Rightarrow> bytes option"
  aead_Open :: "bytes \<Rightarrow> bytes \<Rightarrow> bytes \<Rightarrow> bytes option"

record crypto_lib = jose_lib +
  HashAvailable :: "hash \<Rightarrow> bool"
  Digest :: "hash \<Rightarrow> bytes \<Rightarrow> bytes"
  CurveOrder :: "curve \<Rightarrow> nat"
  EcdhPublic :: "curve \<Rightarrow> bytes \<Rightarrow> bytes option"
  RsaValidate :: "nat \<Rightarrow> int \<Rightarrow> nat \<Rightarrow> nat list \<Rightarrow> bool"
  RsaPrecompute :: "nat \<Rightarrow> nat list \<Rightarrow> nat \<times> nat \<times> nat"
  RsaSignPSS :: "bytes \<Rightarrow> rsa_private \<Rightarrow> hash \<Rightarrow> nat \<Rightarrow> bytes \<Rightarrow> bytes option"
  RsaSignPKCS1v15 :: "bytes \<Rightarrow> rsa_private \<Rightarrow> hash \<Rightarrow> bytes \<Rightarrow> bytes option"
  RsaVerifyPSS :: "rsa_public \<Rightarrow> hash \<Rightarrow> nat \<Rightarrow> bytes \<Rightarrow> bytes \<Rightarrow> bool"
  RsaVerifyPKCS1v15 :: "rsa_public \<Rightarrow> hash \<Rightarrow> bytes \<Rightarrow> bytes \<Rightarrow> bool"
  EncryptOAEP :: "hash \<Rightarrow> bytes \<Rightarrow> rsa_public \<Rightarrow> bytes \<Rightarrow> bytes option"
  DecryptOAEP :: "hash \<Rightarrow> rsa_private \<Rightarrow> bytes \<Rightarrow> bytes option"
  EcdsaSign :: "bytes \<Rightarrow> ec_private \<Rightarrow> bytes \<Rightarrow> (nat \<times> nat) option"
  EcdsaVerify :: "ec_public \<Rightarrow> bytes \<Rightarrow> nat \<Rightarrow> nat \<Rightarrow> bool"
  EcdsaSignASN1 :: "bytes \<Rightarrow> ec_private \<Rightarrow> bytes \<Rightarrow> bytes option"
  OtherSign :: "bytes \<Rightarrow> bytes \<Rightarrow> hash \<Rightarrow> bytes option"
  NewGCM :: "bytes \<Rightarrow> AEAD option"
  MarshalPKCS1PrivateKey :: "rsa_private \<Rightarrow> bytes"
  MarshalECPrivateKey :: "ec_private \<Rightarrow> bytes option"
  MarshalPKIXPublicKey :: "PublicKey \<Rightarrow> bytes option"
  PemEncode :: "string \<Rightarrow> bytes \<Rightarrow> string"

text \<open>\<open>hash.New()\<close> panics on an unavailable digest; then write and sum.\<close>

definition hash_sum :: "crypto_lib \<Rightarrow> hash \<Rightarrow> bytes \<Rightarrow> err + bytes" where
  "hash_sum C h data = (if HashAvailable C h then Inr (Digest C h data)
     else Inl (GoPanic ''requested hash function is unavailable''))"

text \<open>\<open>big.Int.Int64\<close>: the low 64 bits as a signed number.\<close>

definition big_Int64 :: "nat \<Rightarrow> int" where
  "big_Int64 n = (int n + 2 ^ 63) mod 2 ^ 64 - 2 ^ 63"

lemma big_Int64_small: "n < 2 ^ 63 \<Longrightarrow> big_Int64 n = int n"
proof -
  assume "n < 2 ^ 63"
  then have "int n < 2 ^ 63" by (metis of_nat_less_numeral_power_cancel_iff)
  then have "(int n + 2 ^ 63) mod 2 ^ 64 = int n + 2 ^ 63" by (intro mod_pos_pos_trivial) simp_all
  then show ?thesis by (simp add: big_Int64_def)
qed

text \<open>Lower-case hexadecimal, as \<open>%x\<close> prints octets.\<close>

definition hex_bytes :: "bytes \<Rightarrow> string" where
  "hex_bytes bs = concat (map (\<lambda>c. [hex_digit (of_char c div 16), hex_digit (of_char c)]) bs)"

end
