(* ===== verification/Jwk_Interface.thy ===== *)
theory Jwk_Interface
  imports Crypto
begin

text \<open>
  The \<open>jose.Jwk\<close> interface as a contract: its getters and setters read and write one block of
  common fields. The locale states the three laws of such an access path; the interpretation
  proves them for the five key types, and the accessor equations used by every client of a JWK
  follow from it. The theory ends with the concrete primitives used to run the model.
\<close>

locale field_access =
  fixes get :: "'s \<Rightarrow> 'f" and put :: "'f \<Rightarrow> 's \<Rightarrow> 's"
  assumes get_put: "get (put f s) = f"
    and put_get: "put (get s) s = s"
    and put_put: "put f (put g s) = put f s"
begin

definition modify :: "('f \<Rightarrow> 'f) \<Rightarrow> 's \<Rightarrow> 's" where
  "modify h s = put (h (get s)) s"

lemma get_modify: "get (modify h s) = h (get s)"
  by (simp add: modify_def get_put)

lemma modify_modify: "modify h (modify k s) = modify (\<lambda>f. h (k f)) s"
  by (simp add: modify_def get_put put_put)

lemma modify_same: "h (get s) = get s \<Longrightarrow> modify h s = s"
  by (simp add: modify_def put_get)

end

lemma put_fields_get: "jwkFields.truncate (put_fields f k) = f"
  by (cases f) (simp add: put_fields_def jwkFields.truncate_def)

lemma put_fields_self: "put_fields (jwkFields.truncate k) k = k"
  by (cases k) (simp add: put_fields_def jwkFields.truncate_def)

lemma put_fields_twice: "put_fields f (put_fields g k) = put_fields f k"
  by (simp add: put_fields_def)

interpretation jwk: field_access jwk_get jwk_put
proof
  fix f g :: jwkFields and s :: Jwk
  show "jwk_get (jwk_put f s) = f"
    by (cases s) (simp_all add: jwk_get_def jwk_put_def put_fields_get)
  show "jwk_put (jwk_get s) s = s"
    by (cases s) (simp_all add: jwk_get_def jwk_put_def put_fields_self)
  show "jwk_put f (jwk_put g s) = jwk_put f s"
    by (cases s) (simp_all add: jwk_get_def jwk_put_def put_fields_twice)
qed

lemmas jwk_setters = Jwk_SetUse_def Jwk_SetOps_def Jwk_SetAlg_def Jwk_SetKid_def Jwk_SetX5C_def Jwk_SetX5T_def
lemmas jwk_getters = Jwk_Use_def Jwk_Ops_def Jwk_Alg_def Jwk_Kid_def Jwk_X5C_def Jwk_X5T_def

lemma get_set_Ops [simp]: "Jwk_Ops (Jwk_SetOps ops j) = ops" "Jwk_Alg (Jwk_SetOps ops j) = Jwk_Alg j"
  "Jwk_Kid (Jwk_SetOps ops j) = Jwk_Kid j" "Jwk_X5C (Jwk_SetOps ops j) = Jwk_X5C j"
  by (simp_all add: jwk_setters jwk_getters jwk.get_put X5C_def)

lemma get_set_Alg [simp]: "Jwk_Alg (Jwk_SetAlg a j) = a" "Jwk_Ops (Jwk_SetAlg a j) = Jwk_Ops j"
  "Jwk_Kid (Jwk_SetAlg a j) = Jwk_Kid j" "Jwk_X5C (Jwk_SetAlg a j) = Jwk_X5C j"
  by (simp_all add: jwk_setters jwk_getters jwk.get_put X5C_def)

lemma get_set_Kid [simp]: "Jwk_Kid (Jwk_SetKid kid j) = kid" "Jwk_Ops (Jwk_SetKid kid j) = Jwk_Ops j"
  "Jwk_Alg (Jwk_SetKid kid j) = Jwk_Alg j" "Jwk_X5C (Jwk_SetKid kid j) = Jwk_X5C j"
  by (simp_all add: jwk_setters jwk_getters jwk.get_put X5C_def)

lemma get_set_X5C [simp]: "Jwk_X5C (Jwk_SetX5C cs j) = Jwk_X5C j @ cs" "Jwk_Ops (Jwk_SetX5C cs j) = Jwk_Ops j"
  "Jwk_Alg (Jwk_SetX5C cs j) = Jwk_Alg j" "Jwk_Kid (Jwk_SetX5C cs j) = Jwk_Kid j"
  by (simp_all add: jwk_setters jwk_getters jwk.get_put X5C_def SetX5C_def)

lemma set_Ops_twice [simp]: "Jwk_SetOps ops (Jwk_SetOps ops' j) = Jwk_SetOps ops j"
  by (simp add: Jwk_SetOps_def jwk.get_put jwk.put_put)

lemma set_Ops_same: "Jwk_Ops j = ops \<Longrightarrow> Jwk_SetOps ops j = j"
  using jwk.put_get [of j] by (auto simp: Jwk_SetOps_def Jwk_Ops_def)

text \<open>Writing a common field keeps the type of the key and its numbers.\<close>

lemma jwk_put_cases [simp]:
  "jwk_put f (RsaPub k) = RsaPub (put_fields f k)" "jwk_put f (RsaPriv k') = RsaPriv (put_fields f k')"
  "jwk_put f (EcPub e) = EcPub (put_fields f e)" "jwk_put f (EcPriv e') = EcPriv (put_fields f e')"
  "jwk_put f (Oct s) = Oct (put_fields f s)"
  by (simp_all add: jwk_put_def)

lemma put_fields_numbers [simp]:
  "rsaN (put_fields f k) = rsaN k" "rsaE (put_fields f k) = rsaE k"
  "ecCrv (put_fields f e) = ecCrv e" "ecX (put_fields f e) = ecX e" "ecY (put_fields f e) = ecY e"
  "rsaD (put_fields f p) = rsaD p" "rsaP (put_fields f p) = rsaP p" "rsaQ (put_fields f p) = rsaQ p"
  "rsaDp (put_fields f p) = rsaDp p" "rsaDq (put_fields f p) = rsaDq p" "rsaQi (put_fields f p) = rsaQi p"
  "ecD (put_fields f d) = ecD d" "octK (put_fields f s) = octK s"
  "KeyAlg (put_fields f a) = KeyAlg f" "KeyOps (put_fields f a) = KeyOps f"
  by (simp_all add: put_fields_def)

lemma jwk_get_cases [simp]:
  "KeyAlg (jwk_get (RsaPub k)) = KeyAlg k" "KeyAlg (jwk_get (RsaPriv k')) = KeyAlg k'"
  "KeyAlg (jwk_get (EcPub e)) = KeyAlg e" "KeyAlg (jwk_get (EcPriv e')) = KeyAlg e'"
  "KeyAlg (jwk_get (Oct s)) = KeyAlg s"
  by (simp_all add: jwk_get_def jwkFields.truncate_def)

section \<open>Primitives to run the model with\<close>

definition demo_aead :: AEAD where
  "demo_aead = \<lparr>aead_NonceSize = 12, aead_Overhead = 16,
     aead_Seal = (\<lambda>nonce pt ad. if map_option length nonce = Some 12 then Some (pt @ replicate 16 CHR ''t'') else None),
     aead_Open = (\<lambda>nonce ct ad. if length nonce = 12 \<and> drop (length ct - 16) ct = replicate 16 CHR ''t''
        then Some (take (length ct - 16) ct) else None)\<rparr>"

definition demo_lib :: crypto_lib where
  "demo_lib = \<lparr>ParseCertificate = (\<lambda>_. None), SHA1 = (\<lambda>_. replicate 20 CHR 0x00),
     HashAvailable = (\<lambda>_. True), Digest = (\<lambda>_ m. m), CurveOrder = (\<lambda>_. 251),
     EcdhPublic = (\<lambda>_ k. Some (CHR 0x04 # k @ k)),
     RsaValidate = (\<lambda>_ _ _ _. True), RsaPrecompute = (\<lambda>_ _. (1, 1, 1)),
     RsaSignPSS = (\<lambda>_ _ _ _ d. Some d), RsaSignPKCS1v15 = (\<lambda>_ _ _ d. Some d),
     RsaVerifyPSS = (\<lambda>_ _ _ d s. s = d), RsaVerifyPKCS1v15 = (\<lambda>_ _ d s. s = d),
     EncryptOAEP = (\<lambda>_ _ _ m. Some m), DecryptOAEP = (\<lambda>_ _ c. Some c),
     EcdsaSign = (\<lambda>_ _ _. Some (1, 2)), EcdsaVerify = (\<lambda>_ _ r s. r = 1 \<and> s = 2),
     EcdsaSignASN1 = (\<lambda>_ _ d. Some d), OtherSign = (\<lambda>_ d _. Some d),
     NewGCM = (\<lambda>k. if length k \<in> {16, 24, 32} then Some demo_aead else None),
     MarshalPKCS1PrivateKey = (\<lambda>_. []), MarshalECPrivateKey = (\<lambda>_. Some []),
     MarshalPKIXPublicKey = (\<lambda>_. Some []), PemEncode = (\<lambda>t _. t)\<rparr>"

end
