(* ===== verification/Jws.thy ===== *)
theory Jws
  imports Json_Html
begin

text \<open>
  \<open>jose/jws.go\<close>: the JOSE header, the audience member, and the compact JWS serialisation. The
  header is encoded by its struct tags in field order with \<open>omitempty\<close>, and decoded by the
  struct decoder of the JSON layer. A \<open>Jws\<close> holds its header behind a pointer and its payload in
  an interface value, so both become nil when the segment is the JSON literal \<open>null\<close>.
\<close>

record JwsHeader =
  hAlg :: Alg
  hJku :: string
  hKid :: string
  hX5U :: string
  hX5C :: "bytes option list"
  hX5T :: "bytes option"
  hX5T256 :: "bytes option"
  hTyp :: JwsType
  hCty :: JwsType
  hCrit :: "string list"

definition zero_JwsHeader :: JwsHeader where
  "zero_JwsHeader = \<lparr>hAlg = [], hJku = [], hKid = [], hX5U = [], hX5C = [], hX5T = None,
     hX5T256 = None, hTyp = [], hCty = [], hCrit = []\<rparr>"

definition jws_fields :: "(err, 'a JwsHeader_scheme) fields" where
  "jws_fields =
     [(''alg'', set_str hAlg hAlg_update),
      (''jku'', set_str hJku hJku_update),
      (''kid'', set_str hKid hKid_update),
      (''x5u'', set_str hX5U hX5U_update),
      (''x5c'', set_list dec_bytes hX5C hX5C_update),
      (''x5t'', set_ptr Blob_UnmarshalJSON hX5T_update),
      (''x5t#S256'', set_ptr Blob_UnmarshalJSON hX5T256_update),
      (''typ'', set_str hTyp hTyp_update),
      (''cty'', set_str hCty hCty_update),
      (''crit'', set_list dec_str_elem hCrit hCrit_update)]"

definition jws_members :: "'a JwsHeader_scheme \<Rightarrow> err + (string \<times> json) list" where
  "jws_members h =
     rbind (enc_blob ''x5t'' (hX5T h)) (\<lambda>x5t.
     rbind (enc_blob ''x5t#S256'' (hX5T256 h)) (\<lambda>x5t256.
       Inr ([jmember ''alg'' (jstring (hAlg h))] @ omit_str ''jku'' (hJku h)
         @ omit_str ''kid'' (hKid h) @ omit_str ''x5u'' (hX5U h)
         @ omit_list ''x5c'' enc_bytes (hX5C h) @ x5t @ x5t256
         @ omit_str ''typ'' (hTyp h) @ omit_str ''cty'' (hCty h)
         @ omit_list ''crit'' jstring (hCrit h))))"

definition JwsHeader_Marshal :: "JwsHeader \<Rightarrow> err + json" where
  "JwsHeader_Marshal h = rbind (jws_members h) (\<lambda>ms. Inr (JObj ms))"

section \<open>Audiences\<close>

text \<open>The slice \<open>Aud\<close>; \<open>None\<close> is nil. Decoding appends to what is there.\<close>

type_synonym Audiences = "string list option"

definition aud_list :: "Audiences \<Rightarrow> string list" where
  "aud_list a = (case a of None \<Rightarrow> [] | Some xs \<Rightarrow> xs)"

definition aud_append :: "Audiences \<Rightarrow> string \<Rightarrow> Audiences" where
  "aud_append a s = Some (aud_list a @ [s])"

fun aud_items :: "json list \<Rightarrow> Audiences \<Rightarrow> err + Audiences" where
  "aud_items [] a = Inr a"
| "aud_items (v # vs) a = (case v of
     JStr r \<Rightarrow> aud_items vs (aud_append a (unquote r))
   | _ \<Rightarrow> Inl (Jose ErrJSONFormat))"

definition Audiences_UnmarshalJSON :: "json \<Rightarrow> Audiences \<Rightarrow> err + Audiences" where
  "Audiences_UnmarshalJSON src a = (case src of
     JStr r \<Rightarrow> Inr (aud_append a (unquote r))
   | JArr vs \<Rightarrow> aud_items vs a
   | _ \<Rightarrow> Inl (Jose ErrJSONFormat))"

definition Audiences_MarshalJSON :: "Audiences \<Rightarrow> json" where
  "Audiences_MarshalJSON a = (case aud_list a of
     [x] \<Rightarrow> jstring x
   | _ \<Rightarrow> (case a of None \<Rightarrow> JNull | Some xs \<Rightarrow> JArr (map jstring xs)))"

section \<open>Compact serialisation\<close>

definition strictCompactB64 :: "string \<Rightarrow> err + bytes" where
  "strictCompactB64 s =
     rbind (of_opt (Std CorruptInput) (b64_decode RawURLEncoding s)) (\<lambda>b.
     if b64_encode RawURLEncoding b \<noteq> s then Inl (Jose ErrJwtFormat) else Inr b)"

record 'p Jws =
  jwsHeader :: "JwsHeader option"
  jwsPayload :: "'p option"
  jwsSignature :: bytes

definition MarshalJws :: "string \<Rightarrow> bytes \<Rightarrow> string" where
  "MarshalJws body signature = body @ ''.'' @ b64_encode RawURLEncoding signature"

text \<open>\<open>MarshalBody\<close>; \<open>enc\<close> is the encoder of the payload's dynamic type. A nil header pointer
  is dereferenced first.\<close>

definition Jws_MarshalBody :: "('p \<Rightarrow> err + json) \<Rightarrow> 'p Jws \<Rightarrow> err + string" where
  "Jws_MarshalBody enc jws = (case jwsHeader jws of
     None \<Rightarrow> Inl (GoPanic ''nil pointer dereference'')
   | Some h \<Rightarrow>
       if hTyp h \<noteq> JwtType then Inl (Jose ErrJwtFormat)
       else if hCty h \<noteq> [] \<and> hCty h \<noteq> JwtType then Inl (Jose ErrJwtFormat)
       else rbind (JwsHeader_Marshal h) (\<lambda>header.
            rbind (case jwsPayload jws of None \<Rightarrow> Inr JNull | Some p \<Rightarrow> enc p) (\<lambda>claims.
            Inr (b64_encode RawURLEncoding (json_print header) @ ''.''
                 @ b64_encode RawURLEncoding (json_print claims)))))"

definition Jws_Body :: "('p \<Rightarrow> err + json) \<Rightarrow> 'p Jws \<Rightarrow> err + string" where
  "Jws_Body enc jws = Jws_MarshalBody enc jws"

text \<open>Assignment of the first segment through the pointer \<open>&(jws.Header)\<close>.\<close>

definition unmarshal_header :: "JwsHeader option \<Rightarrow> json \<Rightarrow> err + JwsHeader option" where
  "unmarshal_header p v = (if v = JNull then Inr None
     else rbind (dec_result (Std JSONType) (decode_struct jws_fields v
       (case p of None \<Rightarrow> zero_JwsHeader | Some h \<Rightarrow> h))) (\<lambda>h. Inr (Some h)))"

text \<open>\<open>Unmarshal\<close>; \<open>dec\<close> decodes into the payload's dynamic type, starting from \<open>p0\<close>.\<close>

definition Jws_Unmarshal ::
    "(json \<Rightarrow> 'p \<Rightarrow> err + 'p) \<Rightarrow> 'p \<Rightarrow> JwsHeader option \<Rightarrow> string \<Rightarrow> err + ('p Jws \<times> string)" where
  "Jws_Unmarshal dec p0 hdr src =
     (if length src > MaxCompactSize then Inl (Jose jose_error.ErrInputTooLarge)
      else let parts = splitn CHR ''.'' 3 src in
      if length parts \<noteq> 3 then Inl (Jose ErrJwtFormat)
      else rbind (unmarshalURLBase64 (parts ! 0) (unmarshal_header hdr)) (\<lambda>h.
           rbind (unmarshalURLBase64 (parts ! 1)
             (\<lambda>v. if v = JNull then Inr None else rbind (dec v p0) (\<lambda>p. Inr (Some p)))) (\<lambda>p.
           case strictCompactB64 (parts ! 2) of
             Inl _ \<Rightarrow> Inl (Jose ErrJwtFormat)
           | Inr sig \<Rightarrow>
               Inr (\<lparr>jwsHeader = h, jwsPayload = p, jwsSignature = sig\<rparr>,
                    join ''.'' (take 2 parts)))))"

section \<open>Decoding what was encoded\<close>

definition wf_JwsHeader :: "'a JwsHeader_scheme \<Rightarrow> bool" where
  "wf_JwsHeader h \<longleftrightarrow> list_all utf8_valid [hAlg h, hJku h, hKid h, hX5U h, hTyp h, hCty h]
     \<and> list_all utf8_valid (hCrit h) \<and> wf_blob (hX5T h) \<and> wf_blob (hX5T256 h)"

lemma jws_fields_lookup [dec_simps]:
  "map_of jws_fields ''alg'' = Some (set_str hAlg hAlg_update)"
  "map_of jws_fields ''jku'' = Some (set_str hJku hJku_update)"
  "map_of jws_fields ''kid'' = Some (set_str hKid hKid_update)"
  "map_of jws_fields ''x5u'' = Some (set_str hX5U hX5U_update)"
  "map_of jws_fields ''x5c'' = Some (set_list dec_bytes hX5C hX5C_update)"
  "map_of jws_fields ''x5t'' = Some (set_ptr Blob_UnmarshalJSON hX5T_update)"
  "map_of jws_fields ''x5t#S256'' = Some (set_ptr Blob_UnmarshalJSON hX5T256_update)"
  "map_of jws_fields ''typ'' = Some (set_str hTyp hTyp_update)"
  "map_of jws_fields ''cty'' = Some (set_str hCty hCty_update)"
  "map_of jws_fields ''crit'' = Some (set_list dec_str_elem hCrit hCrit_update)"
  by (simp_all add: jws_fields_def)

lemma jws_members_decode:
  assumes "wf_JwsHeader h"
  shows "\<exists>ms. jws_members h = Inr ms \<and> list_all (member_ok 1) ms
    \<and> decode_members jws_fields ms False zero_JwsHeader = Fine h"
  using assms
  by (simp add: wf_JwsHeader_def jws_members_def zero_JwsHeader_def dec_simps)

text \<open>The header segment of a token is read back as the header it was made from.\<close>

lemma header_segment:
  assumes "wf_JwsHeader h"
  shows "\<exists>v. JwsHeader_Marshal h = Inr v
    \<and> unmarshalURLBase64 (b64_encode RawURLEncoding (json_print v)) (unmarshal_header (Some zero_JwsHeader))
        = Inr (Some h)"
proof -
  obtain ms where ms: "jws_members h = Inr ms" "list_all (member_ok 1) ms"
    "decode_members jws_fields ms False zero_JwsHeader = Fine h"
    using jws_members_decode [OF assms] by blast
  have "json_parse (json_print (JObj ms)) = Some (JObj ms)"
    using ms(2) by (rule json_parse_object) (simp add: max_nesting_def)
  with ms show ?thesis
    by (simp add: JwsHeader_Marshal_def unmarshalURLBase64_def unmarshal_header_def decode_struct_def
        dec_result_def del: json_print.simps)
qed

section \<open>Segments\<close>

lemma strictCompactB64_iff: "strictCompactB64 s = Inr b \<longleftrightarrow> s = b64_encode RawURLEncoding b"
  by (auto simp: strictCompactB64_def)

lemma join_three: "join ''.'' [a, b, c] = a @ ''.'' @ b @ ''.'' @ c"
  by simp

lemma splitn_three_iff:
  assumes "CHR ''.'' \<notin> set a" "CHR ''.'' \<notin> set b"
  shows "splitn CHR ''.'' 3 (a @ ''.'' @ b @ ''.'' @ c) = [a, b, c]"
  using assms by (simp add: numeral_3_eq_3)

lemma splitn_threeE:
  assumes "length (splitn CHR ''.'' 3 s) = 3"
  obtains a b c where "splitn CHR ''.'' 3 s = [a, b, c]" "s = a @ ''.'' @ b @ ''.'' @ c"
    "CHR ''.'' \<notin> set a" "CHR ''.'' \<notin> set b"
proof -
  obtain a b c where p: "splitn CHR ''.'' 3 s = [a, b, c]"
    using assms by (auto simp: numeral_3_eq_3 length_Suc_conv)
  have "s = join ''.'' [a, b, c]" using join_splitn [of 3 "CHR ''.''" s] p by simp
  moreover have "CHR ''.'' \<notin> set x" if "x \<in> {a, b}" for x
    using splitn_parts [of x "CHR ''.''" 3 s] p that by auto
  ultimately show ?thesis using that p by auto
qed

lemma Jws_Unmarshal_Inr:
  assumes "Jws_Unmarshal dec p0 hdr src = Inr (j, body)"
  obtains a b where "src = MarshalJws body (jwsSignature j)" "body = a @ ''.'' @ b"
    "CHR ''.'' \<notin> set a" "CHR ''.'' \<notin> set b" "length src \<le> MaxCompactSize"
    "unmarshalURLBase64 a (unmarshal_header hdr) = Inr (jwsHeader j)"
    "unmarshalURLBase64 b (\<lambda>v. if v = JNull then Inr None else rbind (dec v p0) (\<lambda>p. Inr (Some p)))
       = Inr (jwsPayload j)"
proof -
  have len: "length src \<le> MaxCompactSize" and n: "length (splitn CHR ''.'' 3 src) = 3"
    using assms by (auto simp: Jws_Unmarshal_def Let_def split: if_splits)
  from n obtain a b c where abc: "splitn CHR ''.'' 3 src = [a, b, c]" "src = a @ ''.'' @ b @ ''.'' @ c"
    "CHR ''.'' \<notin> set a" "CHR ''.'' \<notin> set b" by (rule splitn_threeE)
  have "unmarshalURLBase64 a (unmarshal_header hdr) = Inr (jwsHeader j)
    \<and> unmarshalURLBase64 b (\<lambda>v. if v = JNull then Inr None else rbind (dec v p0) (\<lambda>p. Inr (Some p)))
        = Inr (jwsPayload j)
    \<and> strictCompactB64 c = Inr (jwsSignature j) \<and> body = a @ ''.'' @ b"
    using assms len n abc(1) by (cases "strictCompactB64 c") (auto simp: Jws_Unmarshal_def)
  with abc len that show ?thesis by (auto simp: strictCompactB64_iff MarshalJws_def)
qed

lemma Jws_Unmarshal_too_large:
  "\<not> length src \<le> MaxCompactSize \<Longrightarrow> Jws_Unmarshal dec p0 hdr src = Inl (Jose jose_error.ErrInputTooLarge)"
  by (simp add: Jws_Unmarshal_def)

text \<open>What a token made from a header and a payload is read back as.\<close>

lemma Jws_roundtrip:
  assumes h: "wf_JwsHeader h" "hTyp h = JwtType" "hCty h \<in> {[], JwtType}"
    and v: "enc p = Inr v" "wf_json v" "jdepth v \<le> max_nesting" "v \<noteq> JNull" "dec v p0 = Inr p'"
  shows "\<exists>body. Jws_MarshalBody enc \<lparr>jwsHeader = Some h, jwsPayload = Some p, jwsSignature = s0\<rparr> = Inr body
    \<and> Jws_Unmarshal dec p0 (Some zero_JwsHeader) (MarshalJws body sig)
        = (if length (MarshalJws body sig) \<le> MaxCompactSize
           then Inr (\<lparr>jwsHeader = Some h, jwsPayload = Some p', jwsSignature = sig\<rparr>, body)
           else Inl (Jose jose_error.ErrInputTooLarge))"
proof -
  obtain w where w: "JwsHeader_Marshal h = Inr w"
    "unmarshalURLBase64 (b64_encode RawURLEncoding (json_print w)) (unmarshal_header (Some zero_JwsHeader))
        = Inr (Some h)"
    using header_segment [OF h(1)] by blast
  let ?a = "b64_encode RawURLEncoding (json_print w)" and ?b = "b64_encode RawURLEncoding (json_print v)"
  have b: "unmarshalURLBase64 ?b (\<lambda>v. if v = JNull then Inr None else rbind (dec v p0) (\<lambda>p. Inr (Some p)))
      = Inr (Some p')"
    using v by (simp add: unmarshalURLBase64_def)
  have split: "splitn CHR ''.'' 3 (MarshalJws (?a @ ''.'' @ ?b) sig) = [?a, ?b, b64_encode RawURLEncoding sig]"
    using splitn_three_iff [of ?a ?b "b64_encode RawURLEncoding sig"] by (simp add: MarshalJws_def)
  have sig: "strictCompactB64 (b64_encode RawURLEncoding sig) = Inr sig" by (simp add: strictCompactB64_iff)
  have "Jws_MarshalBody enc \<lparr>jwsHeader = Some h, jwsPayload = Some p, jwsSignature = s0\<rparr> = Inr (?a @ ''.'' @ ?b)"
    using h w v(1) by (auto simp: Jws_MarshalBody_def)
  moreover have "Jws_Unmarshal dec p0 (Some zero_JwsHeader) (MarshalJws (?a @ ''.'' @ ?b) sig)
       = Inr (\<lparr>jwsHeader = Some h, jwsPayload = Some p', jwsSignature = sig\<rparr>, ?a @ ''.'' @ ?b)"
    if "length (MarshalJws (?a @ ''.'' @ ?b) sig) \<le> MaxCompactSize"
    using w(2) b split sig that by (simp add: Jws_Unmarshal_def not_less)
  ultimately show ?thesis by (auto simp: Jws_Unmarshal_too_large)
qed

text \<open>A concrete token: two empty objects and a one-octet signature.\<close>

definition tiny_token :: string where
  "tiny_token = ''e30.e30._w''"

lemma json_parse_empty: "json_parse ''{}'' = Some (JObj [])"
  using json_parse_print [of "JObj []"] by (simp add: max_nesting_def)

lemma tiny_segments: "b64_decode RawURLEncoding ''e30'' = Some ''{}''"
  "strictCompactB64 ''_w'' = Inr [CHR 0xFF]"
  by code_simp+

lemma tiny_token_parse:
  "Jws_Unmarshal (\<lambda>v p. Inr p) () (Some zero_JwsHeader) tiny_token
     = Inr (\<lparr>jwsHeader = Some zero_JwsHeader, jwsPayload = Some (), jwsSignature = [CHR 0xFF]\<rparr>, ''e30.e30'')"
  by (simp add: Jws_Unmarshal_def tiny_token_def MaxCompactSize_def numeral_3_eq_3 unmarshalURLBase64_def
      tiny_segments json_parse_empty unmarshal_header_def decode_struct_def dec_result_def)

text \<open>
  C20: a JWS that parses has exactly one serialisation: the accepted text is its signing input, a
  dot and the canonical base64url of its signature, so two accepted texts with the same signing
  input and signature octets are the same text; and the accepted text is within the size bound.
\<close>

theorem Jws_Unmarshal_canonical:
  assumes "Jws_Unmarshal dec p0 hdr src = Inr (j, body)"
  shows "src = MarshalJws body (jwsSignature j) \<and> length src \<le> MaxCompactSize"
  using assms by (rule Jws_Unmarshal_Inr) simp

theorem Jws_Unmarshal_canonical_witness:
  "tiny_token = MarshalJws ''e30.e30'' [CHR 0xFF] \<and> length tiny_token \<le> MaxCompactSize"
  using Jws_Unmarshal_canonical [OF tiny_token_parse] by simp

end
