(* ===== verification/Helpers.thy ===== *)
theory Helpers
  imports Jwk_Interface Jws
begin

text \<open>
  \<open>helpers.go\<close>: sets of key operations, conversion between JWKs and Go keys, key identifiers, and
  the octet-string helpers of JWE. A function that fails returns \<open>Inl\<close>; \<open>C\<close> is the record of
  cryptographic primitives.
\<close>

definition version1 :: string where "version1 = ''v1''"
definition MaxKeyFileSize :: nat where "MaxKeyFileSize = 1048576"
definition MaxPlaintextSize :: nat where "MaxPlaintextSize = 67108864"
definition MinRsaModulusBits :: nat where "MinRsaModulusBits = 2048"

definition fromBase64 :: "string \<Rightarrow> err + nat" where
  "fromBase64 b64 = rbind (of_opt (Std CorruptInput) (b64_decode RawURLEncoding b64)) (\<lambda>b. Inr (be_nat b))"

section \<open>Key operations\<close>

definition isSubset :: "KeyOps list \<Rightarrow> KeyOps list \<Rightarrow> bool" where
  "isSubset ops required =
     (if length required = 0 then False
      else foldl (\<lambda>result req. result \<and> foldl (\<lambda>opExists op. opExists \<or> req = op) False ops) True required)"

definition intersection :: "KeyOps list \<Rightarrow> KeyOps list \<Rightarrow> KeyOps list" where
  "intersection first second = foldl (\<lambda>result a.
     foldl (\<lambda>result b. if a = b then result @ [a] else result) result second) [] first"

definition cloneOps :: "KeyOps list \<Rightarrow> KeyOps list" where
  "cloneOps ops = map (\<lambda>i. ops ! i) [0..<length ops]"

definition inverseOps :: "(KeyOps \<times> KeyOps) list" where
  "inverseOps = [(KeyOpsEncrypt, KeyOpsDecrypt), (KeyOpsDecrypt, KeyOpsEncrypt),
     (KeyOpsSign, KeyOpsVerify), (KeyOpsVerify, KeyOpsSign)]"

text \<open>Indexing a map with an absent key yields the empty string.\<close>

definition inverse_op :: "KeyOps \<Rightarrow> KeyOps" where
  "inverse_op op = (case map_of inverseOps op of Some r \<Rightarrow> r | None \<Rightarrow> [])"

section \<open>Algorithms\<close>

datatype SignerOpts = PSSOptions nat hash | HashOpts hash | ECDSAOptions hash nat nat curve

definition algToOptsMap :: "(Alg \<times> SignerOpts) list" where
  "algToOptsMap =
     [(AlgPS256, PSSOptions 32 SHA256_hash), (AlgPS384, PSSOptions 48 SHA384_hash), (AlgPS512, PSSOptions 64 SHA512_hash),
      (AlgRS256, HashOpts SHA256_hash), (AlgRS384, HashOpts SHA384_hash), (AlgRS512, HashOpts SHA512_hash),
      (AlgES256, ECDSAOptions SHA256_hash 32 256 P256), (AlgES384, ECDSAOptions SHA384_hash 48 384 P384),
      (AlgES512, ECDSAOptions SHA512_hash 66 521 P521)]"

fun HashFunc :: "SignerOpts \<Rightarrow> hash" where
  "HashFunc (PSSOptions _ h) = h"
| "HashFunc (HashOpts h) = h"
| "HashFunc (ECDSAOptions h _ _ _) = h"

definition ecdsaCurveForAlg :: "Alg \<Rightarrow> err + curve" where
  "ecdsaCurveForAlg alg = (case map_of algToOptsMap alg of
     Some (ECDSAOptions _ _ _ c) \<Rightarrow> Inr c
   | _ \<Rightarrow> Inl (Gose ErrInvalidKeyType))"

definition ecdhCurveFor :: "curve \<Rightarrow> err + curve" where
  "ecdhCurveFor c = (case c of P256 \<Rightarrow> Inr P256 | P384 \<Rightarrow> Inr P384 | P521 \<Rightarrow> Inr P521
     | _ \<Rightarrow> Inl (Gose ErrInvalidKeyType))"

definition ecPointFromScalar :: "crypto_lib \<Rightarrow> curve \<Rightarrow> nat \<Rightarrow> err + nat \<times> nat" where
  "ecPointFromScalar C c d =
     rbind (ecdhCurveFor c) (\<lambda>ecdhCurve.
     let scalar = d mod CurveOrder C c in
     if scalar = 0 then Inl (Gose ErrInvalidKeyType)
     else let size = (curve_BitSize c + 7) div 8 in
       if scalar \<ge> 256 ^ size then Inl (GoPanic ''math/big: buffer too small to fit value'')
       else rbind (of_opt (Std (LibError ''ecdh'')) (EcdhPublic C ecdhCurve (nat_be size scalar))) (\<lambda>pub.
       if length pub \<noteq> 1 + 2 * size then Inl (Gose ErrInvalidKeyType)
       else Inr (be_nat (take size (drop 1 pub)), be_nat (drop (1 + size) pub))))"

definition rsaBitsToAlg :: "nat \<Rightarrow> Alg" where
  "rsaBitsToAlg bitLen = (if bitLen \<ge> 15360 then AlgPS512 else if bitLen \<ge> 7680 then AlgPS384 else AlgPS256)"

fun rsaAlgFromOps :: "nat \<Rightarrow> KeyOps list \<Rightarrow> Alg" where
  "rsaAlgFromOps bitLen [] = rsaBitsToAlg bitLen"
| "rsaAlgFromOps bitLen (op # ops) =
     (if op = KeyOpsEncrypt \<or> op = KeyOpsDecrypt then AlgRSAOAEP else rsaAlgFromOps bitLen ops)"

definition ecBitsToAlg :: "nat \<Rightarrow> Alg" where
  "ecBitsToAlg bitLen = (if bitLen = 256 then AlgES256 else if bitLen = 384 then AlgES384
     else if bitLen = 521 then AlgES512 else ''Unsupported'')"

section \<open>Loading keys\<close>

definition privateKeyAlgs :: "Alg list" where
  "privateKeyAlgs = [AlgRS256, AlgRS384, AlgRS512, AlgPS256, AlgPS384, AlgPS512, AlgES256, AlgES384, AlgES512,
     AlgRSAOAEP, AlgRSAOAEPSHA2]"

definition publicKeyAlgs :: "Alg list" where
  "publicKeyAlgs = privateKeyAlgs"

definition LoadPrivateKey :: "crypto_lib \<Rightarrow> Jwk \<Rightarrow> KeyOps list \<Rightarrow> err + Signer" where
  "LoadPrivateKey C jwk required =
     (if Jwk_Alg jwk \<notin> set privateKeyAlgs then Inl (Gose ErrInvalidKeyType)
      else if length required > 0 \<and> \<not> isSubset (Jwk_Ops jwk) required then Inl (Gose ErrInvalidOperations)
      else case jwk of
        RsaPriv v \<Rightarrow>
          if BigNum_Empty (rsaD v) \<or> BigNum_Empty (rsaE v) \<or> BigNum_Empty (rsaN v) then Inl (Gose ErrInvalidKeyType)
          else if BitLen (rsaE v) > 32 \<or> rsaE v < 1 then Inl (Gose ErrInvalidExponent)
          else if BitLen (rsaN v) < MinRsaModulusBits then Inl (Gose ErrInvalidKeySize)
          else if BigNum_Empty (rsaP v) \<or> BigNum_Empty (rsaQ v) \<or> BigNum_Empty (rsaDp v) \<or> BigNum_Empty (rsaDq v)
            \<or> BigNum_Empty (rsaQi v) then Inl (Gose ErrInconsistentKeyValues)
          else let primes = [rsaP v, rsaQ v]; e = big_Int64 (rsaE v) in
            if \<not> RsaValidate C (rsaN v) e (rsaD v) primes then Inl (Gose ErrInconsistentKeyValues)
            else let (dp, dq, qinv) = RsaPrecompute C (rsaD v) primes in
              if dp \<noteq> rsaDp v \<or> dq \<noteq> rsaDq v \<or> qinv \<noteq> rsaQi v then Inl (Gose ErrInconsistentKeyValues)
              else Inr (RsaSigner \<lparr>pub_N = rsaN v, pub_E = e, priv_D = rsaD v, priv_Primes = primes,
                     pre_Dp = dp, pre_Dq = dq, pre_Qinv = qinv\<rparr>)
      | EcPriv v \<Rightarrow>
          if BigNum_Empty (ecD v) then Inl (Gose ErrInvalidKeyType)
          else rbind (ecdsaCurveForAlg (KeyAlg v)) (\<lambda>c.
               Inr (EcSigner \<lparr>ec_Curve = c, ec_X = ecX v, ec_Y = ecY v, ec_D = ecD v\<rparr>))
      | _ \<Rightarrow> Inl (Gose gose_error.ErrUnsupportedKeyType))"

definition LoadPublicKey :: "Jwk \<Rightarrow> KeyOps list \<Rightarrow> err + PublicKey" where
  "LoadPublicKey jwk required =
     (if Jwk_Alg jwk \<notin> set publicKeyAlgs then Inl (Gose ErrInvalidKeyType)
      else if length required > 0 \<and> \<not> isSubset (Jwk_Ops jwk) required then Inl (Gose ErrInvalidOperations)
      else case jwk of
        RsaPub v \<Rightarrow>
          if BigNum_Empty (rsaN v) \<or> BigNum_Empty (rsaE v) then Inl (Gose ErrInvalidKeyType)
          else if BitLen (rsaE v) > 32 \<or> rsaE v < 1 then Inl (Gose ErrInvalidExponent)
          else if BitLen (rsaN v) < MinRsaModulusBits then Inl (Gose ErrInvalidKeySize)
          else Inr (RsaPublic \<lparr>pub_N = rsaN v, pub_E = big_Int64 (rsaE v)\<rparr>)
      | EcPub v \<Rightarrow>
          if BigNum_Empty (ecX v) \<or> BigNum_Empty (ecY v) then Inl (Gose ErrInvalidKeyType)
          else rbind (ecdsaCurveForAlg (KeyAlg v)) (\<lambda>c.
               Inr (EcPublic \<lparr>ec_Curve = c, ec_X = ecX v, ec_Y = ecY v\<rparr>))
      | _ \<Rightarrow> Inl (Gose gose_error.ErrUnsupportedKeyType))"

record LoadedJws =
  ljProtected :: JwsHeader
  ljHeader :: bytes
  ljData :: bytes
  ljPayload :: bytes
  ljSignature :: bytes

definition LoadJws :: "string \<Rightarrow> err + LoadedJws" where
  "LoadJws jws =
     (let parts = splitn CHR ''.'' 3 jws in
      if length parts \<noteq> 3 then Inl (Gose ErrInvalidJwsCompactEncoding)
      else rbind (of_opt (Gose ErrInvalidJwsBase64HeaderEncoding) (b64_decode RawURLEncoding (parts ! 0))) (\<lambda>header.
      case rbind (of_opt (Std JSONSyntax) (json_parse header)) (\<lambda>v.
             dec_result (Std JSONType) (decode_struct jws_fields v zero_JwsHeader)) of
        Inl _ \<Rightarrow> Inl (Gose ErrInvalidJwsHeaderEncoding)
      | Inr tmp \<Rightarrow>
          rbind (of_opt (Gose ErrInvalidJwsBase64BodyEncoding) (b64_decode RawURLEncoding (parts ! 1))) (\<lambda>data.
          rbind (of_opt (Gose ErrInvalidJwsBase64SignatureEncoding) (b64_decode RawURLEncoding (parts ! 2))) (\<lambda>signature.
          Inr \<lparr>ljProtected = tmp, ljHeader = header, ljData = data,
               ljPayload = parts ! 0 @ ''.'' @ parts ! 1, ljSignature = signature\<rparr>))))"

section \<open>Key identifiers\<close>

definition key_id :: "crypto_lib \<Rightarrow> string list \<Rightarrow> err + string" where
  "key_id C parts = Inr (hex_bytes (Digest C SHA256_hash (join ''.'' (version1 # ''jwk'' # parts))))"

definition CalculateKeyID :: "crypto_lib \<Rightarrow> Jwk \<Rightarrow> err + string" where
  "CalculateKeyID C jwk = (case jwk of
     RsaPub k \<Rightarrow> key_id C [Jwk_Kty jwk, b64_encode RawURLEncoding (big_Bytes (rsaN k)),
       b64_encode RawURLEncoding (big_Bytes (rsaE k))]
   | EcPub k \<Rightarrow> key_id C [Jwk_Kty jwk, b64_encode RawURLEncoding (big_Bytes (ecX k)),
       b64_encode RawURLEncoding (big_Bytes (ecY k))]
   | Oct k \<Rightarrow> key_id C [Jwk_Kty jwk, b64_encode RawURLEncoding (octK k)]
   | _ \<Rightarrow> Inl (Gose gose_error.ErrUnsupportedKeyType))"

definition LoadJwk :: "crypto_lib \<Rightarrow> string \<Rightarrow> KeyOps list \<Rightarrow> err + Jwk" where
  "LoadJwk C reader required = rbind (UnmarshalJwk C reader) (\<lambda>jwk.
     if length required > 0 \<and> \<not> isSubset (Jwk_Ops jwk) required then Inl (Gose ErrInvalidOperations)
     else Inr jwk)"

text \<open>The file system is the argument \<open>fs\<close>: the content of a file that can be opened.\<close>

definition LoadJwkFromFile :: "crypto_lib \<Rightarrow> (string \<Rightarrow> string option) \<Rightarrow> string \<Rightarrow> KeyOps list \<Rightarrow> err + Jwk" where
  "LoadJwkFromFile C fs file required = rbind (of_opt (Gose ErrInvalidSigningKeyURL) (fs file)) (\<lambda>fd.
     LoadJwk C fd required)"

definition JwkToString :: "Jwk \<Rightarrow> err + string" where
  "JwkToString jwk = rbind (enc_method (Jwk_MarshalJSON jwk)) (\<lambda>b. Inr (json_print b))"

section \<open>Making JWKs\<close>

definition zero_fields :: jwkFields where
  "zero_fields = \<lparr>KeyUse = [], KeyOps = [], KeyAlg = [], KeyKid = [], KeyX5C = [], KeyX5T = None\<rparr>"

definition public_rsa :: "nat \<Rightarrow> nat \<Rightarrow> PublicRsaKey" where
  "public_rsa n e = jwkFields.extend zero_fields \<lparr>rsaN = n, rsaE = e\<rparr>"

definition public_ec :: "Crv \<Rightarrow> nat \<Rightarrow> nat \<Rightarrow> PublicEcKey" where
  "public_ec crv x y = jwkFields.extend zero_fields \<lparr>ecCrv = crv, ecX = x, ecY = y\<rparr>"

text \<open>\<open>PublicFromPrivate\<close>, and its last five statements on the common fields.\<close>

definition public_metadata :: "Jwk \<Rightarrow> Jwk \<Rightarrow> Jwk" where
  "public_metadata jin out =
     Jwk_SetX5C (Jwk_X5C jin) (Jwk_SetOps (map inverse_op (Jwk_Ops jin))
       (Jwk_SetAlg (Jwk_Alg jin) (Jwk_SetKid (Jwk_Kid jin) out)))"

definition PublicFromPrivate :: "crypto_lib \<Rightarrow> Jwk \<Rightarrow> err + Jwk" where
  "PublicFromPrivate C jin =
     rbind (case jin of
       RsaPriv k \<Rightarrow>
         if BigNum_Empty (rsaD k) \<or> BigNum_Empty (rsaQ k) \<or> BigNum_Empty (rsaDq k) \<or> BigNum_Empty (rsaP k)
           \<or> BigNum_Empty (rsaDp k) \<or> BigNum_Empty (rsaQi k) \<or> BigNum_Empty (rsaN k) \<or> BigNum_Empty (rsaE k)
         then Inl (Gose ErrInvalidKeyType)
         else Inr (RsaPub (public_rsa (rsaN k) (rsaE k)))
     | EcPriv k \<Rightarrow>
         rbind (ecdsaCurveForAlg (KeyAlg k)) (\<lambda>c.
         if BigNum_Empty (ecD k) then Inl (Gose ErrInvalidKeyType)
         else rbind (ecPointFromScalar C c (ecD k)) (\<lambda>(x, y).
              Inr (EcPub (public_ec (curve_Name c) x y))))
     | _ \<Rightarrow> Inl (Gose gose_error.ErrUnsupportedKeyType))
     (\<lambda>out. Inr (public_metadata jin out))"

definition MaxInt32 :: int where "MaxInt32 = 2147483647"

text \<open>\<open>Precompute\<close> fills the CRT values, a function of the exponent and the primes; a key that already carries
  them, which \<open>Precompute\<close> leaves alone, is taken to carry these. \<open>Primes\<close> holds at least two primes.\<close>

definition JwkFromPrivateKey :: "crypto_lib \<Rightarrow> Signer \<Rightarrow> KeyOps list \<Rightarrow> x509 option list \<Rightarrow> err + Jwk" where
  "JwkFromPrivateKey C privateKey operations certs =
     rbind (case privateKey of
       RsaSigner v \<Rightarrow>
         if pub_E v > MaxInt32 then Inl (Gose ErrInvalidExponent)
         else if length (priv_Primes v) < 2 then Inl (GoPanic ''index out of range'')
         else let (dp, dq, qinv) = RsaPrecompute C (priv_D v) (priv_Primes v) in
           Inr (RsaPriv (zero_PrivateRsaKey\<lparr>KeyAlg := rsaAlgFromOps (BitLen (pub_N v)) operations,
             rsaQ := priv_Primes v ! 1, rsaQi := qinv, rsaDq := dq, rsaP := priv_Primes v ! 0, rsaDp := dp,
             rsaN := pub_N v, rsaE := BigNum_Set (pub_E v), rsaD := priv_D v\<rparr>))
     | EcSigner v \<Rightarrow>
         Inr (EcPriv (zero_PrivateEcKey\<lparr>KeyAlg := ecBitsToAlg (curve_BitSize (ec_Curve v)), ecX := ec_X v,
           ecY := ec_Y v, ecD := ec_D v, ecCrv := curve_Name (ec_Curve v)\<rparr>))
     | OtherSigner \<Rightarrow> Inl (Gose gose_error.ErrUnsupportedKeyType))
     (\<lambda>jwk0.
     let jwk1 = Jwk_SetOps operations jwk0;
         jwk = (if length certs > 0 then Jwk_SetX5C certs jwk1 else jwk1) in
     rbind (PublicFromPrivate C jwk) (\<lambda>publicKey.
     rbind (CalculateKeyID C publicKey) (\<lambda>kid. Inr (Jwk_SetKid kid jwk))))"

definition JwkFromPublicKey :: "crypto_lib \<Rightarrow> PublicKey \<Rightarrow> KeyOps list \<Rightarrow> x509 option list \<Rightarrow> err + Jwk" where
  "JwkFromPublicKey C publicKey operations certs =
     rbind (case publicKey of
       RsaPublic v \<Rightarrow>
         if pub_E v > MaxInt32 then Inl (Gose ErrInvalidExponent)
         else Inr (RsaPub ((public_rsa (pub_N v) (BigNum_Set (pub_E v)))
                \<lparr>KeyAlg := rsaAlgFromOps (BitLen (pub_N v)) operations\<rparr>))
     | EcPublic v \<Rightarrow>
         Inr (EcPub ((public_ec (curve_Name (ec_Curve v)) (ec_X v) (ec_Y v))
                \<lparr>KeyAlg := ecBitsToAlg (curve_BitSize (ec_Curve v))\<rparr>))
     | OtherPublic \<Rightarrow> Inl (Gose gose_error.ErrUnsupportedKeyType))
     (\<lambda>jwk0.
     let jwk1 = Jwk_SetOps operations jwk0 in
     rbind (CalculateKeyID C jwk1) (\<lambda>kid.
     let jwk = Jwk_SetKid kid jwk1 in
     Inr (if length certs > 0 then Jwk_SetX5C certs jwk else jwk)))"

section \<open>Symmetric keys\<close>

record symmetricAlgInfo =
  minLen :: nat
  maxLen :: nat
  confidentiality :: bool
  integrity :: bool

definition symmetricAlgs :: "(Alg \<times> symmetricAlgInfo) list" where
  "symmetricAlgs =
     [(AlgA128GCM, \<lparr>minLen = 16, maxLen = 16, confidentiality = True, integrity = True\<rparr>),
      (AlgA192GCM, \<lparr>minLen = 24, maxLen = 24, confidentiality = True, integrity = True\<rparr>),
      (AlgA256GCM, \<lparr>minLen = 32, maxLen = 32, confidentiality = True, integrity = True\<rparr>)]"

definition JwkFromSymmetric :: "crypto_lib \<Rightarrow> bytes \<Rightarrow> Alg \<Rightarrow> err + OctSecretKey" where
  "JwkFromSymmetric C key alg = (case map_of symmetricAlgs alg of
     None \<Rightarrow> Inl (Gose gose_error.ErrUnsupportedKeyType)
   | Some sai \<Rightarrow>
       if length key < minLen sai \<or> length key > maxLen sai then Inl (Gose ErrInvalidKeyLength)
       else let ops = (if confidentiality sai then [KeyOpsEncrypt, KeyOpsDecrypt] else [])
                  @ (if integrity sai then [KeyOpsSign, KeyOpsVerify] else []);
                oct = zero_OctSecretKey\<lparr>KeyOps := ops, KeyAlg := alg, octK := key\<rparr> in
         rbind (CalculateKeyID C (Oct oct)) (\<lambda>kid. Inr (oct\<lparr>KeyKid := kid\<rparr>)))"

definition loadSymmetricBytes :: "Jwk \<Rightarrow> KeyOps list \<Rightarrow> err + bytes" where
  "loadSymmetricBytes jwk required = (case map_of symmetricAlgs (Jwk_Alg jwk) of
     None \<Rightarrow> Inl (Gose ErrInvalidKeyType)
   | Some sai \<Rightarrow>
       if length required > 0 \<and> \<not> isSubset (Jwk_Ops jwk) required then Inl (Gose ErrInvalidOperations)
       else case jwk of
         Oct v \<Rightarrow> if length (octK v) < minLen sai \<or> length (octK v) > maxLen sai
           then Inl (Gose ErrInvalidKeyLength) else Inr (octK v)
       | _ \<Rightarrow> Inl (Gose gose_error.ErrUnsupportedKeyType))"

definition LoadSymmetricAEAD :: "crypto_lib \<Rightarrow> Jwk \<Rightarrow> KeyOps list \<Rightarrow> err + AEAD" where
  "LoadSymmetricAEAD C jwk required = rbind (loadSymmetricBytes jwk required) (\<lambda>key.
     if Jwk_Alg jwk \<in> {AlgA128GCM, AlgA192GCM, AlgA256GCM}
     then of_opt (Std (LibError ''aes'')) (NewGCM C key)
     else Inl (Gose gose_error.ErrUnsupportedKeyType))"

section \<open>Octet strings\<close>

definition uintToBytesBigEndian :: "64 word \<Rightarrow> bytes" where
  "uintToBytesBigEndian val = nat_be 8 (unat val)"

definition concatByteArrays :: "bytes list \<Rightarrow> bytes" where
  "concatByteArrays slices = foldl (\<lambda>tmp s. tmp @ s) [] slices"

text \<open>The length times eight is a Go \<open>int\<close> product, then converted: both modulo \<open>2^64\<close>.\<close>

definition GetALFromAAD :: "bytes \<Rightarrow> bytes" where
  "GetALFromAAD aad = (let aadLengthBits = (of_nat (length aad) * 8 :: 64 word) in nat_be 8 (unat aadLengthBits))"

end
