(* ===== verification/Keys.thy ===== *)
theory Keys
  imports Helpers
begin

text \<open>
  The asymmetric keys of the package: \<open>signer.go\<close>, \<open>ecdsa_signer.go\<close>, \<open>verifier.go\<close>,
  \<open>ecdsa_verifier.go\<close>, \<open>rsa_private.go\<close>, \<open>rsa_public.go\<close> and \<open>rsa_oaep_alg.go\<close>. Every key type
  captures the operations and the algorithm of its JWK when it is made; the three fields they share
  are the record \<open>key_policy\<close>. \<open>rnd\<close> is what \<open>rand.Reader\<close> delivers. An operation that panics
  returns \<open>GoPanic\<close>, also where the Go result is a plain boolean.
\<close>

record key_policy =
  kJwk :: Jwk
  kOps :: "KeyOps list"
  kAlg :: Alg

record SigningKeyImpl = key_policy +
  skKey :: Signer
  skCerts :: "x509 option list"

record ECDSASigningKey = key_policy +
  eskKey :: Signer
  eskCerts :: "x509 option list"

record RsaPrivateKeyImpl = key_policy +
  rpKey :: rsa_private

record RsaPublicKeyImpl = key_policy +
  rkKey :: rsa_public

record ECVerificationKeyImpl = key_policy +
  ekKey :: ec_public

datatype SigningKey = SkImpl SigningKeyImpl | SkEcdsa ECDSASigningKey

datatype VerificationKey = VkRsa RsaPublicKeyImpl | VkEc ECVerificationKeyImpl

definition policy :: "Jwk \<Rightarrow> KeyOps list \<Rightarrow> Alg \<Rightarrow> key_policy" where
  "policy jwk ops alg = \<lparr>kJwk = jwk, kOps = ops, kAlg = alg\<rparr>"

section \<open>Algorithm tables\<close>

definition signerOptsForAlg :: "Alg \<Rightarrow> err + SignerOpts" where
  "signerOptsForAlg alg = of_opt (Gose gose_error.ErrInvalidAlgorithm) (map_of algToOptsMap alg)"

definition validSignerOps :: "KeyOps list" where "validSignerOps = [KeyOpsSign]"
definition validEncryptionOps :: "KeyOps list" where "validEncryptionOps = [KeyOpsEncrypt]"
definition validDecryptionOps :: "KeyOps list" where "validDecryptionOps = [KeyOpsDecrypt]"
definition validVerificationOps :: "KeyOps list" where "validVerificationOps = [KeyOpsVerify]"

definition pssAlgs :: "Alg list" where "pssAlgs = [AlgPS256, AlgPS384, AlgPS512]"

definition oaepAlgToHash :: "(Alg \<times> hash) list" where
  "oaepAlgToHash = [(AlgRSAOAEPSHA1, SHA1_hash), (AlgRSAOAEPSHA2, SHA256_hash)]"

definition oaepHashToAlg :: "(hash \<times> Alg) list" where
  "oaepHashToAlg = [(SHA1_hash, AlgRSAOAEPSHA1), (SHA256_hash, AlgRSAOAEPSHA2)]"

definition OaepHashFromAlg :: "Alg \<Rightarrow> hash option" where
  "OaepHashFromAlg alg = map_of oaepAlgToHash alg"

definition OaepAlgFromHash :: "hash \<Rightarrow> Alg option" where
  "OaepAlgFromHash h = map_of oaepHashToAlg h"

definition isRsaOaepAlg :: "Alg \<Rightarrow> bool" where
  "isRsaOaepAlg alg \<longleftrightarrow> map_of oaepAlgToHash alg \<noteq> None"

text \<open>The check every private-key and public-key operation starts with.\<close>

definition permits :: "KeyOps list \<Rightarrow> KeyOps list \<Rightarrow> KeyOps \<Rightarrow> bool" where
  "permits valid ops requested = isSubset (intersection valid ops) [requested]"

section \<open>Verification keys\<close>

definition cert_sig_alg :: "sig_alg \<Rightarrow> Alg option" where
  "cert_sig_alg s = (case s of
     SHA256WithRSA \<Rightarrow> Some AlgRS256 | SHA384WithRSA \<Rightarrow> Some AlgRS384 | SHA512WithRSA \<Rightarrow> Some AlgRS512
   | SHA256WithRSAPSS \<Rightarrow> Some AlgPS256 | SHA384WithRSAPSS \<Rightarrow> Some AlgPS384 | SHA512WithRSAPSS \<Rightarrow> Some AlgPS512
   | OtherSignatureAlgorithm \<Rightarrow> None)"

definition fallback_alg :: "Jwk \<Rightarrow> err + Jwk" where
  "fallback_alg jwk =
     (if Jwk_Alg jwk = [] then
        (case Jwk_X5C jwk of
           [] \<Rightarrow> Inr jwk
         | None # _ \<Rightarrow> Inl (GoPanic ''nil pointer dereference'')
         | Some c # _ \<Rightarrow> (case cert_sig_alg (cert_SignatureAlgorithm c) of
             Some alg \<Rightarrow> Inr (Jwk_SetAlg alg jwk) | None \<Rightarrow> Inr jwk))
      else Inr jwk)"

text \<open>\<open>NewVerificationKey\<close> writes to the JWK it is given: the JWK it leaves is part of the result,
  with its error or key.\<close>

definition NewVerificationKey :: "Jwk \<Rightarrow> Jwk \<times> (err + VerificationKey)" where
  "NewVerificationKey jwk =
     (let ops = (if length (Jwk_Ops jwk) > 0 then intersection validVerificationOps (Jwk_Ops jwk)
                 else validVerificationOps) in
      if length (Jwk_Ops jwk) > 0 \<and> length ops = 0 then (jwk, Inl (Gose ErrInvalidOperations))
      else case jwk of
        RsaPub v \<Rightarrow> (case fallback_alg jwk of
            Inl e \<Rightarrow> (jwk, Inl e)
          | Inr jwk1 \<Rightarrow>
              if Jwk_Alg jwk1 \<in> {AlgPS256, AlgPS384, AlgPS512, AlgRS256, AlgRS384, AlgRS512} then
                if BitLen (rsaE v) > 32 \<or> rsaE v < 1 then (jwk1, Inl (Gose ErrInvalidExponent))
                else if BitLen (rsaN v) < MinRsaModulusBits then (jwk1, Inl (Gose ErrInvalidKeySize))
                else let jwk2 = Jwk_SetOps ops jwk1 in
                  (jwk2, Inr (VkRsa (key_policy.extend (policy jwk2 (cloneOps ops) (Jwk_Alg jwk2))
                     \<lparr>rkKey = \<lparr>pub_N = rsaN v, pub_E = big_Int64 (rsaE v)\<rparr>\<rparr>)))
              else (jwk1, Inl (Gose gose_error.ErrUnsupportedKeyType)))
      | EcPub v \<Rightarrow>
          if Jwk_Alg jwk \<noteq> AlgES256 \<and> Jwk_Alg jwk \<noteq> AlgES384 \<and> Jwk_Alg jwk \<noteq> AlgES512
          then (jwk, Inl (Gose gose_error.ErrUnsupportedKeyType))
          else (case map_of algToOptsMap (Jwk_Alg jwk) of
              Some (ECDSAOptions _ _ _ c) \<Rightarrow>
                (jwk, Inr (VkEc (key_policy.extend (policy jwk (cloneOps ops) (Jwk_Alg jwk))
                   \<lparr>ekKey = \<lparr>ec_Curve = c, ec_X = ecX v, ec_Y = ecY v\<rparr>\<rparr>)))
            | _ \<Rightarrow> (jwk, Inl (GoPanic ''interface conversion'')))
      | _ \<Rightarrow> (jwk, Inl (Gose gose_error.ErrUnsupportedKeyType)))"

definition ECVerificationKeyImpl_Verify ::
    "crypto_lib \<Rightarrow> ECVerificationKeyImpl \<Rightarrow> KeyOps \<Rightarrow> bytes \<Rightarrow> bytes \<Rightarrow> err + bool" where
  "ECVerificationKeyImpl_Verify C verifier operation data signature =
     (if \<not> permits validVerificationOps (kOps verifier) operation then Inr False
      else case map_of algToOptsMap (kAlg verifier) of
        Some (ECDSAOptions h keySize _ _) \<Rightarrow>
          if length signature \<noteq> 2 * keySize then Inr False
          else let r = be_nat (take keySize signature); s = be_nat (drop keySize signature) in
            if \<not> HashAvailable C h then Inr False
            else Inr (EcdsaVerify C (ekKey verifier) (Digest C h data) r s)
      | _ \<Rightarrow> Inl (GoPanic ''interface conversion''))"

definition RsaPublicKeyImpl_Verify ::
    "crypto_lib \<Rightarrow> RsaPublicKeyImpl \<Rightarrow> KeyOps \<Rightarrow> bytes \<Rightarrow> bytes \<Rightarrow> err + bool" where
  "RsaPublicKeyImpl_Verify C k operation data signature =
     (if \<not> permits validVerificationOps (kOps k) operation then Inr False
      else case map_of algToOptsMap (kAlg k) of
        None \<Rightarrow> Inr False
      | Some opts \<Rightarrow> rbind (hash_sum C (HashFunc opts) data) (\<lambda>digest.
          if kAlg k \<in> set pssAlgs then
            (case opts of
               PSSOptions salt h \<Rightarrow> Inr (RsaVerifyPSS C (rkKey k) h salt digest signature)
             | _ \<Rightarrow> Inl (GoPanic ''interface conversion''))
          else Inr (RsaVerifyPKCS1v15 C (rkKey k) (HashFunc opts) digest signature)))"

definition VerificationKey_Verify ::
    "crypto_lib \<Rightarrow> VerificationKey \<Rightarrow> KeyOps \<Rightarrow> bytes \<Rightarrow> bytes \<Rightarrow> err + bool" where
  "VerificationKey_Verify C vk = (case vk of
     VkRsa k \<Rightarrow> RsaPublicKeyImpl_Verify C k | VkEc k \<Rightarrow> ECVerificationKeyImpl_Verify C k)"

section \<open>Signing keys\<close>

definition NewSigningKey :: "crypto_lib \<Rightarrow> Jwk \<Rightarrow> KeyOps list \<Rightarrow> err + SigningKey" where
  "NewSigningKey C jwk required =
     (let ops = intersection validSignerOps (Jwk_Ops jwk) in
      if length ops = 0 then Inl (Gose ErrInvalidOperations)
      else rbind (signerOptsForAlg (Jwk_Alg jwk)) (\<lambda>_.
      rbind (LoadPrivateKey C jwk required) (\<lambda>k.
      case jwk of
        RsaPriv _ \<Rightarrow> Inr (SkImpl (key_policy.extend (policy jwk (cloneOps (Jwk_Ops jwk)) (Jwk_Alg jwk))
           \<lparr>skKey = k, skCerts = Jwk_X5C jwk\<rparr>))
      | EcPriv _ \<Rightarrow> Inr (SkEcdsa (key_policy.extend (policy jwk (cloneOps (Jwk_Ops jwk)) (Jwk_Alg jwk))
           \<lparr>eskKey = k, eskCerts = Jwk_X5C jwk\<rparr>))
      | _ \<Rightarrow> Inl (Gose ErrInvalidKeyType))))"

text \<open>The \<open>Sign\<close> methods of Go's \<open>rsa.PrivateKey\<close> and of a \<open>crypto.Signer\<close>.\<close>

definition rsa_Sign :: "crypto_lib \<Rightarrow> bytes \<Rightarrow> rsa_private \<Rightarrow> bytes \<Rightarrow> SignerOpts \<Rightarrow> err + bytes" where
  "rsa_Sign C rnd k digest opts = of_opt (Std (LibError ''rsa'')) (case opts of
     PSSOptions salt h \<Rightarrow> RsaSignPSS C rnd k h salt digest
   | _ \<Rightarrow> RsaSignPKCS1v15 C rnd k (HashFunc opts) digest)"

definition Signer_Sign :: "crypto_lib \<Rightarrow> bytes \<Rightarrow> Signer \<Rightarrow> bytes \<Rightarrow> SignerOpts \<Rightarrow> err + bytes" where
  "Signer_Sign C rnd key digest opts = (case key of
     RsaSigner k \<Rightarrow> rsa_Sign C rnd k digest opts
   | EcSigner k \<Rightarrow> of_opt (Std (LibError ''ecdsa'')) (EcdsaSignASN1 C rnd k digest)
   | OtherSigner \<Rightarrow> of_opt (Std (LibError ''signer'')) (OtherSign C rnd digest (HashFunc opts)))"

definition SigningKeyImpl_Sign ::
    "crypto_lib \<Rightarrow> bytes \<Rightarrow> SigningKeyImpl \<Rightarrow> KeyOps \<Rightarrow> bytes \<Rightarrow> err + bytes" where
  "SigningKeyImpl_Sign C rnd signer requested data =
     (if \<not> permits validSignerOps (kOps signer) requested then Inl (Gose ErrInvalidOperations)
      else rbind (signerOptsForAlg (kAlg signer)) (\<lambda>opts.
           rbind (hash_sum C (HashFunc opts) data) (\<lambda>digest.
           Signer_Sign C rnd (skKey signer) digest opts)))"

text \<open>Left padding with zeros; the slice expression panics when the number is too long.\<close>

definition pad_left :: "nat \<Rightarrow> nat \<Rightarrow> err + bytes" where
  "pad_left keyBytes n = (let b = big_Bytes n in
     if length b > keyBytes then Inl (GoPanic ''slice bounds out of range'')
     else Inr (replicate (keyBytes - length b) CHR 0x00 @ b))"

definition ECDSASigningKey_Sign ::
    "crypto_lib \<Rightarrow> bytes \<Rightarrow> ECDSASigningKey \<Rightarrow> KeyOps \<Rightarrow> bytes \<Rightarrow> err + bytes" where
  "ECDSASigningKey_Sign C rnd signer requested data =
     (if \<not> permits validSignerOps (kOps signer) requested then Inl (Gose ErrInvalidOperations)
      else rbind (signerOptsForAlg (kAlg signer)) (\<lambda>opts.
      if \<not> HashAvailable C (HashFunc opts) then Inl (Gose ErrHashUnavailable)
      else let digest = Digest C (HashFunc opts) data in
      case eskKey signer of
        EcSigner key \<Rightarrow>
          rbind (of_opt (Std (LibError ''ecdsa'')) (EcdsaSign C rnd key digest)) (\<lambda>(r, s).
          let curveBits = curve_BitSize (ec_Curve key) in
          case opts of
            ECDSAOptions _ _ optBits _ \<Rightarrow>
              if optBits \<noteq> curveBits then Inl (Gose ErrInvalidKey)
              else let keyBytes = (curveBits + 7) div 8 in
                rbind (pad_left keyBytes r) (\<lambda>rBytesPadded.
                rbind (pad_left keyBytes s) (\<lambda>sBytesPadded.
                Inr (rBytesPadded @ sBytesPadded)))
          | _ \<Rightarrow> Inl (GoPanic ''interface conversion''))
      | _ \<Rightarrow> Inl (GoPanic ''interface conversion'')))"

definition SigningKeyImpl_Verifier :: "crypto_lib \<Rightarrow> SigningKeyImpl \<Rightarrow> err + VerificationKey" where
  "SigningKeyImpl_Verifier C signer =
     rbind (PublicFromPrivate C (kJwk signer)) (\<lambda>publicJwk. snd (NewVerificationKey publicJwk))"

definition ECDSASigningKey_Verifier :: "crypto_lib \<Rightarrow> ECDSASigningKey \<Rightarrow> err + VerificationKey" where
  "ECDSASigningKey_Verifier C signer =
     rbind (PublicFromPrivate C (kJwk signer)) (\<lambda>publicJwk. snd (NewVerificationKey publicJwk))"

definition SigningKey_Sign :: "crypto_lib \<Rightarrow> bytes \<Rightarrow> SigningKey \<Rightarrow> KeyOps \<Rightarrow> bytes \<Rightarrow> err + bytes" where
  "SigningKey_Sign C rnd sk = (case sk of
     SkImpl k \<Rightarrow> SigningKeyImpl_Sign C rnd k | SkEcdsa k \<Rightarrow> ECDSASigningKey_Sign C rnd k)"

definition SigningKey_Verifier :: "crypto_lib \<Rightarrow> SigningKey \<Rightarrow> err + VerificationKey" where
  "SigningKey_Verifier C sk = (case sk of
     SkImpl k \<Rightarrow> SigningKeyImpl_Verifier C k | SkEcdsa k \<Rightarrow> ECDSASigningKey_Verifier C k)"

section \<open>RSA keys for decryption\<close>

definition RsaPrivateKeyImpl_Sign ::
    "crypto_lib \<Rightarrow> bytes \<Rightarrow> RsaPrivateKeyImpl \<Rightarrow> KeyOps \<Rightarrow> bytes \<Rightarrow> err + bytes" where
  "RsaPrivateKeyImpl_Sign C rnd rsaKey requested data =
     (if \<not> permits validSignerOps (kOps rsaKey) requested then Inl (Gose ErrInvalidOperations)
      else rbind (signerOptsForAlg (kAlg rsaKey)) (\<lambda>opts.
           rbind (hash_sum C (HashFunc opts) data) (\<lambda>digest.
           rsa_Sign C rnd (rpKey rsaKey) digest opts)))"

text \<open>\<open>hash.New()\<close> panics on a digest that is not linked in.\<close>

definition hash_New :: "crypto_lib \<Rightarrow> hash \<Rightarrow> err + unit" where
  "hash_New C h = (if HashAvailable C h then Inr ()
     else Inl (GoPanic ''requested hash function is unavailable''))"

definition RsaPrivateKeyImpl_Decrypt ::
    "crypto_lib \<Rightarrow> RsaPrivateKeyImpl \<Rightarrow> KeyOps \<Rightarrow> hash \<Rightarrow> bytes \<Rightarrow> err + bytes" where
  "RsaPrivateKeyImpl_Decrypt C rsaKey requested h ciphertext =
     (if \<not> permits validDecryptionOps (kOps rsaKey) requested then Inl (Gose ErrInvalidOperations)
      else rbind (hash_New C h) (\<lambda>_.
           of_opt (Std (LibError ''rsa'')) (DecryptOAEP C h (rpKey rsaKey) ciphertext)))"

definition publicKey :: "crypto_lib \<Rightarrow> RsaPrivateKeyImpl \<Rightarrow> err + RsaPublicKeyImpl" where
  "publicKey C rsaKey = rbind (PublicFromPrivate C (kJwk rsaKey)) (\<lambda>publicJwk.
     Inr (key_policy.extend (policy publicJwk (cloneOps (Jwk_Ops publicJwk)) (Jwk_Alg publicJwk))
       \<lparr>rkKey = \<lparr>pub_N = pub_N (rpKey rsaKey), pub_E = pub_E (rpKey rsaKey)\<rparr>\<rparr>))"

definition RsaPrivateKeyImpl_Verifier :: "crypto_lib \<Rightarrow> RsaPrivateKeyImpl \<Rightarrow> err + VerificationKey" where
  "RsaPrivateKeyImpl_Verifier C rsaKey = rbind (publicKey C rsaKey) (\<lambda>k. Inr (VkRsa k))"

definition Encryptor :: "crypto_lib \<Rightarrow> RsaPrivateKeyImpl \<Rightarrow> err + RsaPublicKeyImpl" where
  "Encryptor C rsaKey = publicKey C rsaKey"

definition NewRsaDecryptionKey :: "crypto_lib \<Rightarrow> Jwk \<Rightarrow> err + RsaPrivateKeyImpl" where
  "NewRsaDecryptionKey C jwk = rbind (LoadPrivateKey C jwk [KeyOpsDecrypt]) (\<lambda>signer.
     case signer of
       RsaSigner rsaKey \<Rightarrow>
         Inr (key_policy.extend (policy jwk (cloneOps (Jwk_Ops jwk)) (Jwk_Alg jwk)) \<lparr>rpKey = rsaKey\<rparr>)
     | _ \<Rightarrow> Inl (Gose ErrInvalidKeyType))"

definition RsaPublicKeyImpl_Encrypt ::
    "crypto_lib \<Rightarrow> bytes \<Rightarrow> RsaPublicKeyImpl \<Rightarrow> KeyOps \<Rightarrow> hash \<Rightarrow> bytes \<Rightarrow> err + bytes" where
  "RsaPublicKeyImpl_Encrypt C rnd k requested h data =
     (if \<not> permits validEncryptionOps (kOps k) requested then Inl (Gose ErrInvalidOperations)
      else rbind (hash_New C h) (\<lambda>_. of_opt (Std (LibError ''rsa'')) (EncryptOAEP C h rnd (rkKey k) data)))"

definition NewRsaPublicKeyImpl :: "Jwk \<Rightarrow> err + RsaPublicKeyImpl" where
  "NewRsaPublicKeyImpl jwk = rbind (LoadPublicKey jwk []) (\<lambda>publicKey.
     case publicKey of
       RsaPublic rsaKey \<Rightarrow>
         Inr (key_policy.extend (policy jwk (cloneOps (Jwk_Ops jwk)) (Jwk_Alg jwk)) \<lparr>rkKey = rsaKey\<rparr>)
     | _ \<Rightarrow> Inl (Gose ErrInvalidKeyType))"

section \<open>Descriptions of keys\<close>

text \<open>The accessors of each key type.\<close>

definition SigningKeyImpl_Key :: "SigningKeyImpl \<Rightarrow> Signer" where [simp]: "SigningKeyImpl_Key signer = skKey signer"
definition SigningKeyImpl_Kid :: "SigningKeyImpl \<Rightarrow> string" where [simp]: "SigningKeyImpl_Kid signer = Jwk_Kid (kJwk signer)"
definition SigningKeyImpl_Jwk :: "SigningKeyImpl \<Rightarrow> err + Jwk" where [simp]: "SigningKeyImpl_Jwk signer = Inr (kJwk signer)"
definition SigningKeyImpl_Algorithm :: "SigningKeyImpl \<Rightarrow> Alg" where [simp]: "SigningKeyImpl_Algorithm signer = kAlg signer"
definition SigningKeyImpl_Certificates :: "SigningKeyImpl \<Rightarrow> x509 option list" where
  [simp]: "SigningKeyImpl_Certificates signer = skCerts signer"

definition ECDSASigningKey_Key :: "ECDSASigningKey \<Rightarrow> Signer" where [simp]: "ECDSASigningKey_Key signer = eskKey signer"
definition ECDSASigningKey_Kid :: "ECDSASigningKey \<Rightarrow> string" where [simp]: "ECDSASigningKey_Kid signer = Jwk_Kid (kJwk signer)"
definition ECDSASigningKey_Algorithm :: "ECDSASigningKey \<Rightarrow> Alg" where [simp]: "ECDSASigningKey_Algorithm signer = kAlg signer"
definition ECDSASigningKey_Certificates :: "ECDSASigningKey \<Rightarrow> x509 option list" where
  [simp]: "ECDSASigningKey_Certificates signer = eskCerts signer"

definition RsaPrivateKeyImpl_Key :: "RsaPrivateKeyImpl \<Rightarrow> Signer" where [simp]: "RsaPrivateKeyImpl_Key rsaKey = RsaSigner (rpKey rsaKey)"
definition RsaPrivateKeyImpl_Kid :: "RsaPrivateKeyImpl \<Rightarrow> string" where [simp]: "RsaPrivateKeyImpl_Kid rsaKey = Jwk_Kid (kJwk rsaKey)"
definition RsaPrivateKeyImpl_Jwk :: "RsaPrivateKeyImpl \<Rightarrow> err + Jwk" where [simp]: "RsaPrivateKeyImpl_Jwk rsaKey = Inr (kJwk rsaKey)"
definition RsaPrivateKeyImpl_Algorithm :: "RsaPrivateKeyImpl \<Rightarrow> Alg" where [simp]: "RsaPrivateKeyImpl_Algorithm rsaKey = kAlg rsaKey"
definition RsaPrivateKeyImpl_Certificates :: "RsaPrivateKeyImpl \<Rightarrow> x509 option list" where
  [simp]: "RsaPrivateKeyImpl_Certificates rsaKey = Jwk_X5C (kJwk rsaKey)"

definition RsaPublicKeyImpl_Kid :: "RsaPublicKeyImpl \<Rightarrow> string" where [simp]: "RsaPublicKeyImpl_Kid k = Jwk_Kid (kJwk k)"
definition RsaPublicKeyImpl_Algorithm :: "RsaPublicKeyImpl \<Rightarrow> Alg" where [simp]: "RsaPublicKeyImpl_Algorithm k = kAlg k"
definition RsaPublicKeyImpl_Certificates :: "RsaPublicKeyImpl \<Rightarrow> x509 option list" where
  [simp]: "RsaPublicKeyImpl_Certificates k = Jwk_X5C (kJwk k)"

definition ECVerificationKeyImpl_Kid :: "ECVerificationKeyImpl \<Rightarrow> string" where
  [simp]: "ECVerificationKeyImpl_Kid verifier = Jwk_Kid (kJwk verifier)"
definition ECVerificationKeyImpl_Algorithm :: "ECVerificationKeyImpl \<Rightarrow> Alg" where
  [simp]: "ECVerificationKeyImpl_Algorithm verifier = kAlg verifier"
definition ECVerificationKeyImpl_Jwk :: "ECVerificationKeyImpl \<Rightarrow> err + Jwk" where
  [simp]: "ECVerificationKeyImpl_Jwk verifier = Inr (kJwk verifier)"
definition ECVerificationKeyImpl_Certificates :: "ECVerificationKeyImpl \<Rightarrow> x509 option list" where
  [simp]: "ECVerificationKeyImpl_Certificates verifier = Jwk_X5C (kJwk verifier)"

definition rsaPrivateKeyPemType :: string where [simp]: "rsaPrivateKeyPemType = ''RSA PRIVATE KEY''"
definition rsaPublicKeyPemType :: string where [simp]: "rsaPublicKeyPemType = ''RSA PUBLIC KEY''"
definition ecPublicKeyPemType :: string where [simp]: "ecPublicKeyPemType = ''EC PUBLIC KEY''"

definition SigningKeyImpl_Operations :: "SigningKeyImpl \<Rightarrow> KeyOps list" where
  "SigningKeyImpl_Operations signer = cloneOps (kOps signer)"

definition SigningKeyImpl_Marshal :: "SigningKeyImpl \<Rightarrow> err + string" where
  "SigningKeyImpl_Marshal signer = JwkToString (kJwk signer)"

definition SigningKeyImpl_MarshalPem :: "crypto_lib \<Rightarrow> SigningKeyImpl \<Rightarrow> err + string" where
  "SigningKeyImpl_MarshalPem C signer = (case skKey signer of
     RsaSigner k \<Rightarrow> Inr (PemEncode C rsaPrivateKeyPemType (MarshalPKCS1PrivateKey C k))
   | _ \<Rightarrow> Inl (Gose gose_error.ErrUnsupportedKeyType))"

definition ECDSASigningKey_Marshal :: "ECDSASigningKey \<Rightarrow> err + string" where
  "ECDSASigningKey_Marshal signer = JwkToString (kJwk signer)"

definition ECDSASigningKey_MarshalPem :: "crypto_lib \<Rightarrow> ECDSASigningKey \<Rightarrow> err + string" where
  "ECDSASigningKey_MarshalPem C signer = (case eskKey signer of
     EcSigner k \<Rightarrow> rbind (of_opt (Std (LibError ''x509'')) (MarshalECPrivateKey C k)) (\<lambda>der.
       Inr (PemEncode C ''ECDSA PRIVATE KEY'' der))
   | _ \<Rightarrow> Inl (GoPanic ''interface conversion''))"

definition ECDSASigningKey_Jwk :: "crypto_lib \<Rightarrow> ECDSASigningKey \<Rightarrow> err + Jwk" where
  "ECDSASigningKey_Jwk C signer = JwkFromPrivateKey C (eskKey signer) (Jwk_Ops (kJwk signer)) (eskCerts signer)"

definition ECVerificationKeyImpl_Marshal :: "ECVerificationKeyImpl \<Rightarrow> err + string" where
  "ECVerificationKeyImpl_Marshal verifier = JwkToString (kJwk verifier)"

definition ECVerificationKeyImpl_MarshalPem :: "crypto_lib \<Rightarrow> ECVerificationKeyImpl \<Rightarrow> err + string" where
  "ECVerificationKeyImpl_MarshalPem C verifier =
     rbind (of_opt (Std (LibError ''x509'')) (MarshalPKIXPublicKey C (EcPublic (ekKey verifier)))) (\<lambda>der.
     Inr (PemEncode C ecPublicKeyPemType der))"

definition RsaPrivateKeyImpl_Operations :: "RsaPrivateKeyImpl \<Rightarrow> KeyOps list" where
  "RsaPrivateKeyImpl_Operations rsaKey = cloneOps (kOps rsaKey)"

definition RsaPrivateKeyImpl_Marshal :: "RsaPrivateKeyImpl \<Rightarrow> err + string" where
  "RsaPrivateKeyImpl_Marshal rsaKey = JwkToString (kJwk rsaKey)"

definition RsaPrivateKeyImpl_MarshalPem :: "crypto_lib \<Rightarrow> RsaPrivateKeyImpl \<Rightarrow> err + string" where
  "RsaPrivateKeyImpl_MarshalPem C rsaKey =
     Inr (PemEncode C rsaPrivateKeyPemType (MarshalPKCS1PrivateKey C (rpKey rsaKey)))"

definition RsaPublicKeyImpl_Jwk :: "crypto_lib \<Rightarrow> RsaPublicKeyImpl \<Rightarrow> err + Jwk" where
  "RsaPublicKeyImpl_Jwk C k =
     rbind (JwkFromPublicKey C (RsaPublic (rkKey k)) (cloneOps (kOps k)) (Jwk_X5C (kJwk k))) (\<lambda>jwk.
     Inr (Jwk_SetAlg (kAlg k) jwk))"

definition RsaPublicKeyImpl_Marshal :: "crypto_lib \<Rightarrow> RsaPublicKeyImpl \<Rightarrow> err + string" where
  "RsaPublicKeyImpl_Marshal C k = rbind (RsaPublicKeyImpl_Jwk C k) JwkToString"

definition RsaPublicKeyImpl_MarshalPem :: "crypto_lib \<Rightarrow> RsaPublicKeyImpl \<Rightarrow> err + string" where
  "RsaPublicKeyImpl_MarshalPem C k =
     rbind (of_opt (Std (LibError ''x509'')) (MarshalPKIXPublicKey C (RsaPublic (rkKey k)))) (\<lambda>der.
     Inr (PemEncode C rsaPublicKeyPemType der))"

text \<open>The interfaces \<open>SigningKey\<close> and \<open>VerificationKey\<close>: each method is that of the dynamic type.\<close>

definition VerificationKey_Algorithm :: "VerificationKey \<Rightarrow> Alg" where
  "VerificationKey_Algorithm vk = (case vk of VkRsa k \<Rightarrow> RsaPublicKeyImpl_Algorithm k | VkEc k \<Rightarrow> ECVerificationKeyImpl_Algorithm k)"

definition VerificationKey_Kid :: "VerificationKey \<Rightarrow> string" where
  "VerificationKey_Kid vk = (case vk of VkRsa k \<Rightarrow> RsaPublicKeyImpl_Kid k | VkEc k \<Rightarrow> ECVerificationKeyImpl_Kid k)"

definition VerificationKey_Jwk :: "crypto_lib \<Rightarrow> VerificationKey \<Rightarrow> err + Jwk" where
  "VerificationKey_Jwk C vk = (case vk of VkRsa k \<Rightarrow> RsaPublicKeyImpl_Jwk C k | VkEc k \<Rightarrow> ECVerificationKeyImpl_Jwk k)"

definition VerificationKey_Marshal :: "crypto_lib \<Rightarrow> VerificationKey \<Rightarrow> err + string" where
  "VerificationKey_Marshal C vk = (case vk of VkRsa k \<Rightarrow> RsaPublicKeyImpl_Marshal C k | VkEc k \<Rightarrow> ECVerificationKeyImpl_Marshal k)"

definition VerificationKey_Certificates :: "VerificationKey \<Rightarrow> x509 option list" where
  "VerificationKey_Certificates vk = (case vk of
     VkRsa k \<Rightarrow> RsaPublicKeyImpl_Certificates k | VkEc k \<Rightarrow> ECVerificationKeyImpl_Certificates k)"

definition SigningKey_Algorithm :: "SigningKey \<Rightarrow> Alg" where
  "SigningKey_Algorithm sk = (case sk of SkImpl k \<Rightarrow> SigningKeyImpl_Algorithm k | SkEcdsa k \<Rightarrow> ECDSASigningKey_Algorithm k)"

definition SigningKey_Kid :: "SigningKey \<Rightarrow> string" where
  "SigningKey_Kid sk = (case sk of SkImpl k \<Rightarrow> SigningKeyImpl_Kid k | SkEcdsa k \<Rightarrow> ECDSASigningKey_Kid k)"

definition SigningKey_Jwk :: "crypto_lib \<Rightarrow> SigningKey \<Rightarrow> err + Jwk" where
  "SigningKey_Jwk C sk = (case sk of SkImpl k \<Rightarrow> SigningKeyImpl_Jwk k | SkEcdsa k \<Rightarrow> ECDSASigningKey_Jwk C k)"

end
