(* ===== verification/Jwt.thy ===== *)
theory Jwt
  imports Jws
begin

text \<open>
  \<open>jose/jwt.go\<close>: JWT claims and the compact JWT. A claims set has seven typed members and a map
  of the remaining ones, kept as raw JSON; encoding merges both into one object whose names are
  sorted, decoding takes the typed members out of the object and keeps what is left.
\<close>

definition reservedJwtClaims :: "string list" where
  "reservedJwtClaims = [''iss'', ''iat'', ''jti'', ''sub'', ''aud'', ''exp'', ''nbf'']"

type_synonym raw_claims = "(string \<times> json) list"

record JwtClaims =
  cIssuer :: string
  cIssuedAt :: int
  cJwtID :: string
  cSubject :: string
  cAudiences :: Audiences
  cExpiration :: int
  cNotBefore :: int
  cUntyped :: raw_claims

definition zero_JwtClaims :: JwtClaims where
  "zero_JwtClaims = \<lparr>cIssuer = [], cIssuedAt = 0, cJwtID = [], cSubject = [], cAudiences = None,
     cExpiration = 0, cNotBefore = 0, cUntyped = []\<rparr>"

text \<open>The fields of the two embedded structs in declaration order, with \<open>json.Unmarshal\<close> into each.\<close>

type_synonym claim_fields = "(string \<times> (json \<Rightarrow> JwtClaims \<Rightarrow> err + JwtClaims)) list"

definition claim_str :: "(JwtClaims \<Rightarrow> string) \<Rightarrow> ((string \<Rightarrow> string) \<Rightarrow> JwtClaims \<Rightarrow> JwtClaims)
    \<Rightarrow> json \<Rightarrow> JwtClaims \<Rightarrow> err + JwtClaims" where
  "claim_str get upd v c = dec_result (Std JSONType) (set_str get upd v c)"

definition claim_int :: "(JwtClaims \<Rightarrow> int) \<Rightarrow> ((int \<Rightarrow> int) \<Rightarrow> JwtClaims \<Rightarrow> JwtClaims)
    \<Rightarrow> json \<Rightarrow> JwtClaims \<Rightarrow> err + JwtClaims" where
  "claim_int get upd v c = dec_result (Std JSONType) (set_int get upd v c)"

definition claim_aud :: "json \<Rightarrow> JwtClaims \<Rightarrow> err + JwtClaims" where
  "claim_aud v c = rbind (Audiences_UnmarshalJSON v (cAudiences c)) (\<lambda>a. Inr (c\<lparr>cAudiences := a\<rparr>))"

definition AutomaticJwtClaims :: claim_fields where
  "AutomaticJwtClaims =
     [(''iss'', claim_str cIssuer cIssuer_update),
      (''iat'', claim_int cIssuedAt cIssuedAt_update),
      (''jti'', claim_str cJwtID cJwtID_update)]"

definition SettableJwtClaims :: claim_fields where
  "SettableJwtClaims =
     [(''sub'', claim_str cSubject cSubject_update),
      (''aud'', claim_aud),
      (''exp'', claim_int cExpiration cExpiration_update),
      (''nbf'', claim_int cNotBefore cNotBefore_update)]"

fun unmarshalTypedClaims :: "claim_fields \<Rightarrow> raw_claims \<times> JwtClaims \<Rightarrow> err + raw_claims \<times> JwtClaims" where
  "unmarshalTypedClaims [] s = Inr s"
| "unmarshalTypedClaims ((name, setter) # fs) (claims, c) =
     (case map_of claims name of
        None \<Rightarrow> unmarshalTypedClaims fs (claims, c)
      | Some v \<Rightarrow> rbind (setter v c) (\<lambda>c'. unmarshalTypedClaims fs (amdel name claims, c')))"

text \<open>\<open>json.Unmarshal\<close> into a \<open>map[string]json.RawMessage\<close>: the last of equal names wins.\<close>

definition raw_map :: "json \<Rightarrow> err + raw_claims" where
  "raw_map v = (case v of
     JObj ms \<Rightarrow> Inr (fold (\<lambda>(k, w). amput (unquote k) w) ms [])
   | JNull \<Rightarrow> Inr []
   | _ \<Rightarrow> Inl (Std JSONType))"

definition JwtClaims_UnmarshalJSON :: "json \<Rightarrow> JwtClaims \<Rightarrow> err + JwtClaims" where
  "JwtClaims_UnmarshalJSON data c =
     rbind (raw_map data) (\<lambda>claims.
     rbind (unmarshalTypedClaims AutomaticJwtClaims (claims, c)) (\<lambda>s1.
     rbind (unmarshalTypedClaims SettableJwtClaims s1) (\<lambda>(claims', c').
     Inr (c'\<lparr>cUntyped := claims'\<rparr>))))"

definition UnmarshalCustomClaim :: "(json \<Rightarrow> 'a \<Rightarrow> err + 'a) \<Rightarrow> JwtClaims \<Rightarrow> string \<Rightarrow> 'a \<Rightarrow> err + 'a" where
  "UnmarshalCustomClaim dec c name claim = (case map_of (cUntyped c) name of
     Some targetClaim \<Rightarrow> dec targetClaim claim
   | None \<Rightarrow> Inr claim)"

text \<open>The typed members; \<open>aud\<close> is a struct, which \<open>omitempty\<close> never omits.\<close>

definition typed_claims :: "JwtClaims \<Rightarrow> err + (string \<times> json) list" where
  "typed_claims c =
     rbind (enc_method (Inr (json_print (Audiences_MarshalJSON (cAudiences c))))) (\<lambda>aud.
     Inr (omit_str ''iss'' (cIssuer c) @ omit_int ''iat'' (cIssuedAt c) @ omit_str ''jti'' (cJwtID c)
       @ omit_str ''sub'' (cSubject c) @ [jmember ''aud'' aud]
       @ omit_int ''exp'' (cExpiration c) @ omit_int ''nbf'' (cNotBefore c)))"

fun merge_untyped :: "raw_claims \<Rightarrow> raw_claims \<Rightarrow> err + raw_claims" where
  "merge_untyped [] merged = Inr merged"
| "merge_untyped ((k, v) # m) merged =
     (if k \<in> set reservedJwtClaims then Inl (Jose ErrJwkReservedClaimName)
      else merge_untyped m (amput k v merged))"

text \<open>\<open>json.Marshal\<close> of a \<open>map[string]json.RawMessage\<close>: names sorted, values compacted.\<close>

definition marshal_raw_map :: "raw_claims \<Rightarrow> json" where
  "marshal_raw_map m = JObj (map (\<lambda>(k, v). jmember k (json_compact v)) (sort_key fst m))"

definition JwtClaims_MarshalJSON :: "JwtClaims \<Rightarrow> err + string" where
  "JwtClaims_MarshalJSON c =
     rbind (typed_claims c) (\<lambda>typed.
     rbind (of_opt (Std JSONSyntax) (json_parse (json_print (JObj typed)))) (\<lambda>t.
     rbind (raw_map t) (\<lambda>merged.
     rbind (merge_untyped (cUntyped c) merged) (\<lambda>merged'.
     Inr (json_print (marshal_raw_map merged'))))))"

record Jwt =
  jwtHeader :: JwsHeader
  jwtClaims :: JwtClaims
  jwtSignature :: bytes

definition Jwt_Verify :: "Jwt \<Rightarrow> err + unit" where
  "Jwt_Verify jwt =
     (if hTyp (jwtHeader jwt) \<noteq> JwtType then Inl (Jose ErrJwtFormat)
      else if hCty (jwtHeader jwt) \<noteq> [] \<and> hCty (jwtHeader jwt) \<noteq> JwtType then Inl (Jose ErrJwtFormat)
      else if length (hCrit (jwtHeader jwt)) > 0 then Inl (Jose ErrCritHeaderNotSupported)
      else if list_ex (\<lambda>(k, _). k \<in> set reservedJwtClaims) (cUntyped (jwtClaims jwt))
        then Inl (Jose ErrJwkReservedClaimName)
      else Inr ())"

text \<open>The payload is encoded through its \<open>MarshalJSON\<close> method.\<close>

definition Jwt_MarshalBody :: "Jwt \<Rightarrow> err + string" where
  "Jwt_MarshalBody jwt = rbind (Jwt_Verify jwt) (\<lambda>_.
     Jws_MarshalBody (\<lambda>c. enc_method (JwtClaims_MarshalJSON c))
       \<lparr>jwsHeader = Some (jwtHeader jwt), jwsPayload = Some (jwtClaims jwt), jwsSignature = []\<rparr>)"

text \<open>
  \<open>Unmarshal\<close> resets the receiver, so its previous content is no argument. A segment that is the
  literal \<open>null\<close> clears the pointer in the intermediate \<open>Jws\<close> and leaves the zero value.
\<close>

definition Jwt_Unmarshal :: "string \<Rightarrow> err + (Jwt \<times> string)" where
  "Jwt_Unmarshal src =
     rbind (Jws_Unmarshal JwtClaims_UnmarshalJSON zero_JwtClaims (Some zero_JwsHeader) src) (\<lambda>(jws, body).
     let jwt = \<lparr>jwtHeader = (case jwsHeader jws of None \<Rightarrow> zero_JwsHeader | Some h \<Rightarrow> h),
                jwtClaims = (case jwsPayload jws of None \<Rightarrow> zero_JwtClaims | Some c \<Rightarrow> c),
                jwtSignature = jwsSignature jws\<rparr> in
     rbind (Jwt_Verify jwt) (\<lambda>_. Inr (jwt, body)))"

section \<open>Raw members\<close>

text \<open>The members of an object some of which are omitted.\<close>

fun raws :: "(string \<times> json option) list \<Rightarrow> raw_claims" where
  "raws [] = []"
| "raws ((n, None) # r) = raws r"
| "raws ((n, Some v) # r) = (n, v) # raws r"

definition opt_str :: "string \<Rightarrow> json option" where
  "opt_str s = (if s = [] then None else Some (jstring s))"

definition opt_int :: "int \<Rightarrow> json option" where
  "opt_int i = (if i = 0 then None else Some (jint i))"

definition typed_opts :: "JwtClaims \<Rightarrow> (string \<times> json option) list" where
  "typed_opts c =
     [(''iss'', opt_str (cIssuer c)), (''iat'', opt_int (cIssuedAt c)), (''jti'', opt_str (cJwtID c)),
      (''sub'', opt_str (cSubject c)), (''aud'', Some (Audiences_MarshalJSON (cAudiences c))),
      (''exp'', opt_int (cExpiration c)), (''nbf'', opt_int (cNotBefore c))]"

lemma fst_raws: "fst ` set (raws opts) \<subseteq> fst ` set opts"
  by (induction opts rule: raws.induct) auto

lemma raws_values: "(k, v) \<in> set (raws opts) \<Longrightarrow> list_all (\<lambda>(n, x). pred_option P x) opts \<Longrightarrow> P v"
  by (induction opts rule: raws.induct) auto

lemma distinct_raws: "distinct (map fst opts) \<Longrightarrow> distinct (map fst (raws opts))"
proof (induction opts rule: raws.induct)
  case (3 n v r)
  then show ?case using fst_raws [of r] by auto
qed simp_all

lemma map_of_absent: "k \<notin> fst ` set m \<Longrightarrow> map_of m k = None"
  by (simp only: map_of_eq_None_iff not_False_eq_True)

lemma map_of_raws:
  "distinct (map fst opts) \<Longrightarrow> map_of (raws opts) n = Option.bind (map_of opts n) id"
  by (induction opts rule: raws.induct) (auto simp: map_of_absent)

lemma amput_fresh: "k \<notin> fst ` set m \<Longrightarrow> amput k v m = m @ [(k, v)]"
  by (induction m) auto

lemma fold_amput_members:
  assumes "distinct (map fst (m0 @ m))" "list_all (\<lambda>(k, v). utf8_valid k) m"
  shows "fold (\<lambda>(k, w). amput (unquote k) w) (map (\<lambda>(k, v). jmember k v) m) m0 = m0 @ m"
  using assms
proof (induction m arbitrary: m0)
  case (Cons p m)
  obtain k v where p: "p = (k, v)" by fastforce
  have "fold (\<lambda>(k, w). amput (unquote k) w) (map (\<lambda>(k, v). jmember k v) m) (m0 @ [(k, v)]) = (m0 @ [(k, v)]) @ m"
    using Cons.prems p by (intro Cons.IH) auto
  moreover have "amput k v m0 = m0 @ [(k, v)]" using Cons.prems p by (intro amput_fresh) auto
  ultimately show ?case using p Cons.prems by (simp add: jmember_def unquote_quote)
qed simp

lemma raw_map_members:
  "distinct (map fst m) \<Longrightarrow> list_all (\<lambda>(k, v). utf8_valid k) m \<Longrightarrow>
   raw_map (JObj (map (\<lambda>(k, v). jmember k v) m)) = Inr m"
  using fold_amput_members [of "[]" m] by (simp add: raw_map_def)

lemma merge_untyped_ok:
  assumes "distinct (map fst (m @ u))" "list_all (\<lambda>(k, v). k \<notin> set reservedJwtClaims) u"
  shows "merge_untyped u m = Inr (m @ u)"
  using assms
proof (induction u arbitrary: m)
  case (Cons p u)
  obtain k v where p: "p = (k, v)" by fastforce
  have "merge_untyped u (m @ [(k, v)]) = Inr ((m @ [(k, v)]) @ u)"
    using Cons.prems p by (intro Cons.IH) auto
  moreover have "amput k v m = m @ [(k, v)]" using Cons.prems p by (intro amput_fresh) auto
  ultimately show ?case using p Cons.prems by simp
qed simp

lemma merge_untyped_reserved:
  "list_ex (\<lambda>(k, v). k \<in> set reservedJwtClaims) u \<Longrightarrow> merge_untyped u m = Inl (Jose ErrJwkReservedClaimName)"
  by (induction u m rule: merge_untyped.induct) auto

section \<open>Typed claims\<close>

lemma typed_step:
  assumes "map_of claims n = o'" "o' = None \<Longrightarrow> c' = c" "\<And>v. o' = Some v \<Longrightarrow> f v c = Inr c'"
  shows "unmarshalTypedClaims ((n, f) # fs) (claims, c) = unmarshalTypedClaims fs (amdel n claims, c')"
  using assms by (cases o') (auto simp: map_of_absent unmarshalTypedClaims.simps(2))

declare unmarshalTypedClaims.simps(2) [simp del]

lemma typed_step_str:
  assumes "map_of claims n = opt_str s" "utf8_valid s" "s = [] \<Longrightarrow> upd (\<lambda>_. []) c = c"
  shows "unmarshalTypedClaims ((n, claim_str get upd) # fs) (claims, c)
    = unmarshalTypedClaims fs (amdel n claims, upd (\<lambda>_. s) c)"
  by (rule typed_step [OF assms(1)])
     (use assms(2,3) in \<open>auto simp: opt_str_def claim_str_def set_str_def jstring_def unquote_quote
        dec_result_def split: if_splits\<close>)

definition int64 :: "int \<Rightarrow> bool" where
  "int64 i \<longleftrightarrow> - (2 ^ 63) \<le> i \<and> i < 2 ^ 63"

lemma typed_step_int:
  assumes "map_of claims n = opt_int i" "int64 i" "i = 0 \<Longrightarrow> upd (\<lambda>_. 0) c = c"
  shows "unmarshalTypedClaims ((n, claim_int get upd) # fs) (claims, c)
    = unmarshalTypedClaims fs (amdel n claims, upd (\<lambda>_. i) c)"
  by (rule typed_step [OF assms(1)])
     (use assms(2,3) in \<open>auto simp: opt_int_def claim_int_def set_int_def jint_def parse_int64_dec_int
        int64_def dec_result_def split: if_splits\<close>)

lemma aud_items_strings:
  "list_all utf8_valid xs \<Longrightarrow> aud_items (map jstring xs) (Some ys) = Inr (Some (ys @ xs))"
  by (induction xs arbitrary: ys) (simp_all add: jstring_def unquote_quote aud_append_def aud_list_def)

lemma aud_roundtrip:
  "xs \<noteq> [] \<Longrightarrow> list_all utf8_valid xs \<Longrightarrow>
   Audiences_UnmarshalJSON (Audiences_MarshalJSON (Some xs)) None = Inr (Some xs)"
  using aud_items_strings [of "tl xs" "[hd xs]"]
  by (cases xs rule: list.exhaust; cases "tl xs")
     (simp_all add: Audiences_MarshalJSON_def Audiences_UnmarshalJSON_def aud_list_def aud_append_def
        jstring_def unquote_quote)

lemma jdepth_strings [simp]: "foldr max (map (jdepth \<circ> jstring) xs) 0 = 0"
  by (induction xs) simp_all

lemma aud_encoding_ok:
  "wf_json (Audiences_MarshalJSON a) \<and> jdepth (Audiences_MarshalJSON a) \<le> 1
   \<and> json_compact (Audiences_MarshalJSON a) = Audiences_MarshalJSON a"
  by (auto simp: Audiences_MarshalJSON_def aud_list_def list_all_iff
      split: list.splits option.splits)

lemma enc_method_print:
  "wf_json v \<Longrightarrow> jdepth v \<le> max_nesting \<Longrightarrow> json_compact v = v \<Longrightarrow> enc_method (Inr (json_print v)) = Inr v"
  by (simp add: enc_method_def)

lemma typed_claims_raws:
  "typed_claims c = Inr (map (\<lambda>(k, v). jmember k v) (raws (typed_opts c)))"
proof -
  have "enc_method (Inr (json_print (Audiences_MarshalJSON (cAudiences c))))
      = Inr (Audiences_MarshalJSON (cAudiences c))"
    using aud_encoding_ok [of "cAudiences c"] by (intro enc_method_print) (auto simp: max_nesting_def)
  then show ?thesis
    by (simp add: typed_claims_def typed_opts_def opt_str_def opt_int_def omit_str_def omit_int_def)
qed

lemma distinct_typed_opts: "distinct (map fst (typed_opts c))"
  by (simp add: typed_opts_def)

lemma fst_typed_opts: "map fst (typed_opts c) = reservedJwtClaims"
  by (simp add: typed_opts_def reservedJwtClaims_def)

lemma typed_names: "k \<in> fst ` set (raws (typed_opts c)) \<Longrightarrow> k \<in> set reservedJwtClaims"
  using fst_raws [of "typed_opts c"] fst_typed_opts [of c] by (metis image_set subsetD)

lemma reserved_ascii: "k \<in> set reservedJwtClaims \<Longrightarrow> utf8_valid k"
  by (auto simp: reservedJwtClaims_def)

definition wf_untyped :: "raw_claims \<Rightarrow> bool" where
  "wf_untyped u \<longleftrightarrow> distinct (map fst u) \<and> list_all (\<lambda>(k, v). utf8_valid k \<and> k \<notin> set reservedJwtClaims
     \<and> wf_json v \<and> jdepth v < max_nesting \<and> json_compact v = v) u"

definition wf_JwtClaims :: "JwtClaims \<Rightarrow> bool" where
  "wf_JwtClaims c \<longleftrightarrow> list_all utf8_valid [cIssuer c, cJwtID c, cSubject c]
     \<and> list_all int64 [cIssuedAt c, cExpiration c, cNotBefore c]
     \<and> pred_option (list_all utf8_valid) (cAudiences c) \<and> wf_untyped (cUntyped c)"

lemma claim_values:
  assumes "wf_untyped u" "(k, v) \<in> set (raws (typed_opts c) @ u)"
  shows "utf8_valid k" "member_ok (max_nesting - 1) (jmember k v)"
proof -
  have "wf_json v \<and> jdepth v < max_nesting \<and> json_compact v = v \<and> utf8_valid k"
  proof (cases "(k, v) \<in> set u")
    case True
    with assms(1) show ?thesis by (auto simp: wf_untyped_def list_all_iff)
  next
    case False
    then have m: "(k, v) \<in> set (raws (typed_opts c))" using assms(2) by simp
    have "wf_json v \<and> jdepth v < max_nesting \<and> json_compact v = v"
      using m
    proof (rule raws_values)
      show "list_all (\<lambda>(n, x). pred_option (\<lambda>v. wf_json v \<and> jdepth v < max_nesting \<and> json_compact v = v) x)
          (typed_opts c)"
        using aud_encoding_ok [of "cAudiences c"] by (simp add: typed_opts_def opt_str_def opt_int_def max_nesting_def)
    qed
    with m show ?thesis by (force intro: reserved_ascii typed_names)
  qed
  then show "utf8_valid k" "member_ok (max_nesting - 1) (jmember k v)" by auto
qed

text \<open>The object a claims set is encoded as: all members, sorted by name.\<close>

definition all_claims :: "JwtClaims \<Rightarrow> raw_claims" where
  "all_claims c = sort_key fst (raws (typed_opts c) @ cUntyped c)"

lemma distinct_claims:
  "wf_untyped (cUntyped c) \<Longrightarrow> distinct (map fst (raws (typed_opts c) @ cUntyped c))"
  using distinct_raws [OF distinct_typed_opts, of c]
  by (auto simp: wf_untyped_def list_all_iff dest!: typed_names)

lemma distinct_sort_key: "distinct (map fst xs) \<Longrightarrow> distinct (map fst (sort_key fst xs))"
  by (metis distinct_map distinct_sort set_sort)

lemma all_claims_ok:
  assumes "wf_untyped (cUntyped c)"
  shows "list_all (member_ok (max_nesting - 1)) (map (\<lambda>(k, v). jmember k v) (all_claims c))"
    "list_all (\<lambda>(k, v). utf8_valid k) (all_claims c)" "distinct (map fst (all_claims c))"
proof -
  have mem: "(k, v) \<in> set (raws (typed_opts c) @ cUntyped c)" if "(k, v) \<in> set (all_claims c)" for k v
    using that by (simp add: all_claims_def)
  show "list_all (member_ok (max_nesting - 1)) (map (\<lambda>(k, v). jmember k v) (all_claims c))"
    using claim_values(2) [OF assms mem] by (fastforce simp: list_all_iff)
  show "list_all (\<lambda>(k, v). utf8_valid k) (all_claims c)"
    using claim_values(1) [OF assms mem] by (fastforce simp: list_all_iff)
  show "distinct (map fst (all_claims c))"
    unfolding all_claims_def using distinct_claims [OF assms] by (rule distinct_sort_key)
qed

lemma typed_step_aud:
  assumes "map_of claims n = Some (Audiences_MarshalJSON (Some xs))" "xs \<noteq> []" "list_all utf8_valid xs"
    and "cAudiences c = None"
  shows "unmarshalTypedClaims ((n, claim_aud) # fs) (claims, c)
    = unmarshalTypedClaims fs (amdel n claims, c\<lparr>cAudiences := Some xs\<rparr>)"
  by (rule typed_step [OF assms(1)]) (use assms(2-4) in \<open>simp_all add: claim_aud_def aud_roundtrip\<close>)

lemmas typed_steps = typed_step_str typed_step_int typed_step_aud

section \<open>Encoding and decoding a claims set\<close>

lemma JwtClaims_MarshalJSON_ok:
  assumes "wf_untyped (cUntyped c)"
  shows "JwtClaims_MarshalJSON c = Inr (json_print (JObj (map (\<lambda>(k, v). jmember k v) (all_claims c))))"
proof -
  let ?t = "raws (typed_opts c)"
  have d: "distinct (map fst (?t @ cUntyped c))" by (rule distinct_claims [OF assms])
  have "list_all (member_ok (max_nesting - 1)) (map (\<lambda>(k, v). jmember k v) ?t)"
    "list_all (\<lambda>(k, v). utf8_valid k) ?t"
    using claim_values [OF assms, of _ _ c] by (fastforce simp: list_all_iff)+
  then have p: "json_parse (json_print (JObj (map (\<lambda>(k, v). jmember k v) ?t)))
      = Some (JObj (map (\<lambda>(k, v). jmember k v) ?t))"
    and r: "raw_map (JObj (map (\<lambda>(k, v). jmember k v) ?t)) = Inr ?t"
    using d by (auto intro!: raw_map_members json_parse_object [of "max_nesting - 1"] simp: max_nesting_def
        simp del: json_print.simps)
  have m: "merge_untyped (cUntyped c) ?t = Inr (?t @ cUntyped c)"
    using d assms by (intro merge_untyped_ok) (auto simp: wf_untyped_def list_all_iff)
  have "marshal_raw_map (?t @ cUntyped c) = JObj (map (\<lambda>(k, v). jmember k v) (all_claims c))"
    unfolding marshal_raw_map_def all_claims_def json.inject
  proof (intro map_cong refl)
    fix p
    assume "p \<in> set (sort_key fst (?t @ cUntyped c))"
    then have "member_ok (max_nesting - 1) (jmember (fst p) (snd p))"
      using claim_values(2) [OF assms, of "fst p" "snd p" c] by simp
    then show "(case p of (k, v) \<Rightarrow> jmember k (json_compact v)) = (case p of (k, v) \<Rightarrow> jmember k v)"
      by (simp add: case_prod_beta)
  qed
  with p r m show ?thesis
    by (simp add: JwtClaims_MarshalJSON_def typed_claims_raws del: json_print.simps)
qed

lemma all_claims_lookup:
  assumes "wf_untyped (cUntyped c)" "n \<in> set reservedJwtClaims"
  shows "map_of (all_claims c) n = Option.bind (map_of (typed_opts c) n) id"
proof -
  have "n \<notin> fst ` set (cUntyped c)" using assms by (auto simp: wf_untyped_def list_all_iff)
  then have "map_of (raws (typed_opts c) @ cUntyped c) n = map_of (raws (typed_opts c)) n"
    by (simp add: map_add_def map_of_absent [of n "cUntyped c"] split: option.splits del: map_of_eq_None_notin)
  moreover have "map_of (all_claims c) = map_of (raws (typed_opts c) @ cUntyped c)"
    unfolding all_claims_def using distinct_claims [OF assms(1)]
    by (subst map_of_inject_set) (simp_all only: distinct_sort_key set_sort)
  ultimately show ?thesis by (simp add: map_of_raws distinct_typed_opts)
qed

lemma all_claims_lookups:
  assumes "wf_untyped (cUntyped c)"
  shows "map_of (all_claims c) ''iss'' = opt_str (cIssuer c)"
    "map_of (all_claims c) ''iat'' = opt_int (cIssuedAt c)"
    "map_of (all_claims c) ''jti'' = opt_str (cJwtID c)"
    "map_of (all_claims c) ''sub'' = opt_str (cSubject c)"
    "map_of (all_claims c) ''aud'' = Some (Audiences_MarshalJSON (cAudiences c))"
    "map_of (all_claims c) ''exp'' = opt_int (cExpiration c)"
    "map_of (all_claims c) ''nbf'' = opt_int (cNotBefore c)"
  by (simp_all add: all_claims_lookup [OF assms] reservedJwtClaims_def typed_opts_def)

lemma amdel_filter: "amdel k (filter P m) = filter (\<lambda>p. fst p \<noteq> k \<and> P p) m"
  by (simp add: amdel_def conj_commute)

lemma untyped_rest:
  assumes "wf_untyped (cUntyped c)"
  shows "foldr amdel (rev reservedJwtClaims) (all_claims c) = sort_key fst (cUntyped c)"
proof -
  have f: "foldr amdel ns m = filter (\<lambda>p. fst p \<notin> set ns) m" for ns and m :: raw_claims
    by (induction ns) (auto simp: amdel_filter intro!: filter_cong)
  have t: "filter (\<lambda>p. fst p \<notin> set reservedJwtClaims) (raws (typed_opts c)) = []"
    using typed_names by (auto simp: filter_empty_conv)
  have u: "filter (\<lambda>p. fst p \<notin> set reservedJwtClaims) (cUntyped c) = cUntyped c"
    using assms by (auto simp: wf_untyped_def list_all_iff intro!: filter_True)
  show ?thesis
    unfolding all_claims_def f set_rev filter_sort by (simp add: t u)
qed

lemma typed_claims_decode:
  assumes "wf_JwtClaims c" "cAudiences c = Some xs" "xs \<noteq> []"
  obtains s1 where "unmarshalTypedClaims AutomaticJwtClaims (all_claims c, zero_JwtClaims) = Inr s1"
    "unmarshalTypedClaims SettableJwtClaims s1
       = Inr (foldr amdel (rev reservedJwtClaims) (all_claims c), c\<lparr>cUntyped := []\<rparr>)"
proof -
  have wf: "wf_untyped (cUntyped c)" "utf8_valid (cIssuer c)" "utf8_valid (cJwtID c)" "utf8_valid (cSubject c)"
    "int64 (cIssuedAt c)" "int64 (cExpiration c)" "int64 (cNotBefore c)" "list_all utf8_valid xs"
    using assms by (simp_all add: wf_JwtClaims_def)
  note l = all_claims_lookups [OF wf(1)]
  have "unmarshalTypedClaims AutomaticJwtClaims (all_claims c, zero_JwtClaims)
    = Inr (amdel ''jti'' (amdel ''iat'' (amdel ''iss'' (all_claims c))), zero_JwtClaims
        \<lparr>cIssuer := cIssuer c, cIssuedAt := cIssuedAt c, cJwtID := cJwtID c\<rparr>)"
    by (simp add: AutomaticJwtClaims_def zero_JwtClaims_def typed_steps l wf)
  moreover have "unmarshalTypedClaims SettableJwtClaims
      (amdel ''jti'' (amdel ''iat'' (amdel ''iss'' (all_claims c))), zero_JwtClaims
        \<lparr>cIssuer := cIssuer c, cIssuedAt := cIssuedAt c, cJwtID := cJwtID c\<rparr>)
    = Inr (foldr amdel (rev reservedJwtClaims) (all_claims c), zero_JwtClaims
        \<lparr>cIssuer := cIssuer c, cIssuedAt := cIssuedAt c, cJwtID := cJwtID c, cSubject := cSubject c,
          cAudiences := Some xs, cExpiration := cExpiration c, cNotBefore := cNotBefore c\<rparr>)"
    using assms(3) wf unfolding SettableJwtClaims_def zero_JwtClaims_def reservedJwtClaims_def
    by (simp add: typed_steps l assms(2) del: amdel_notin)
  moreover have "zero_JwtClaims
        \<lparr>cIssuer := cIssuer c, cIssuedAt := cIssuedAt c, cJwtID := cJwtID c, cSubject := cSubject c,
          cAudiences := Some xs, cExpiration := cExpiration c, cNotBefore := cNotBefore c\<rparr> = c\<lparr>cUntyped := []\<rparr>"
    using assms(2) by (cases c) (simp add: zero_JwtClaims_def)
  ultimately show ?thesis using that by simp
qed

lemma claims_encoding:
  assumes "wf_untyped (cUntyped c)"
  defines "v \<equiv> JObj (map (\<lambda>(k, v). jmember k v) (all_claims c))"
  shows "enc_method (JwtClaims_MarshalJSON c) = Inr v" "wf_json v" "jdepth v \<le> max_nesting" "v \<noteq> JNull"
    "raw_map v = Inr (all_claims c)"
proof -
  note ok = all_claims_ok [OF assms(1)]
  note o = members_ok_object [OF ok(1)]
  show v: "wf_json v" "jdepth v \<le> max_nesting" "v \<noteq> JNull"
    using o(1,2) by (simp_all add: v_def max_nesting_def del: wf_json.simps jdepth.simps)
  show "enc_method (JwtClaims_MarshalJSON c) = Inr v"
    using v o(3) unfolding JwtClaims_MarshalJSON_ok [OF assms(1)] v_def by (intro enc_method_print)
  show "raw_map v = Inr (all_claims c)" unfolding v_def using ok(2,3) by (intro raw_map_members)
qed

lemma JwtClaims_roundtrip:
  assumes "wf_JwtClaims c" "cAudiences c = Some xs" "xs \<noteq> []"
  shows "JwtClaims_UnmarshalJSON (JObj (map (\<lambda>(k, v). jmember k v) (all_claims c))) zero_JwtClaims
    = Inr (c\<lparr>cUntyped := sort_key fst (cUntyped c)\<rparr>)"
proof -
  have u: "wf_untyped (cUntyped c)" using assms(1) by (simp add: wf_JwtClaims_def)
  obtain s1 where "unmarshalTypedClaims AutomaticJwtClaims (all_claims c, zero_JwtClaims) = Inr s1"
    "unmarshalTypedClaims SettableJwtClaims s1
       = Inr (foldr amdel (rev reservedJwtClaims) (all_claims c), c\<lparr>cUntyped := []\<rparr>)"
    using typed_claims_decode [OF assms] .
  then show ?thesis
    using claims_encoding(5) [OF u] untyped_rest [OF u] by (simp add: JwtClaims_UnmarshalJSON_def)
qed

lemma no_reserved: "wf_untyped u \<Longrightarrow> \<not> list_ex (\<lambda>(k, _). k \<in> set reservedJwtClaims) u"
  by (auto simp: wf_untyped_def list_all_iff list_ex_iff)

definition signable_header :: "JwsHeader \<Rightarrow> bool" where
  "signable_header h \<longleftrightarrow> wf_JwsHeader h \<and> hTyp h = JwtType \<and> hCty h \<in> {[], JwtType} \<and> hCrit h = []"

lemma Jwt_Verify_ok:
  "signable_header h \<Longrightarrow> wf_untyped (cUntyped c) \<Longrightarrow> Jwt_Verify \<lparr>jwtHeader = h, jwtClaims = c, jwtSignature = s\<rparr> = Inr ()"
  by (auto simp: Jwt_Verify_def signable_header_def no_reserved)

lemma wf_untyped_sort: "wf_untyped u \<Longrightarrow> wf_untyped (sort_key fst u)"
  by (simp add: wf_untyped_def distinct_sort_key list_all_iff)

lemma Jwt_token_roundtrip:
  assumes "signable_header h" "wf_JwtClaims c" "cAudiences c = Some xs" "xs \<noteq> []"
  shows "\<exists>body. Jwt_MarshalBody \<lparr>jwtHeader = h, jwtClaims = c, jwtSignature = s0\<rparr> = Inr body
    \<and> Jwt_Unmarshal (MarshalJws body sig) = (if length (MarshalJws body sig) \<le> MaxCompactSize
        then Inr (\<lparr>jwtHeader = h, jwtClaims = c\<lparr>cUntyped := sort_key fst (cUntyped c)\<rparr>, jwtSignature = sig\<rparr>, body)
        else Inl (Jose jose_error.ErrInputTooLarge))"
proof -
  have h: "wf_JwsHeader h" "hTyp h = JwtType" "hCty h \<in> {[], JwtType}"
    using assms(1) by (simp_all add: signable_header_def)
  have u: "wf_untyped (cUntyped c)" using assms(2) by (simp add: wf_JwtClaims_def)
  note ver = Jwt_Verify_ok [OF assms(1)]
  show ?thesis
    using Jws_roundtrip [of h "\<lambda>c. enc_method (JwtClaims_MarshalJSON c)" c _ JwtClaims_UnmarshalJSON,
        OF h claims_encoding(1-4) [OF u] JwtClaims_roundtrip [OF assms(2-4)], of "[]" sig]
      ver [OF u] ver [of "c\<lparr>cUntyped := sort_key fst (cUntyped c)\<rparr>"] wf_untyped_sort [OF u]
    by (auto simp: Jwt_MarshalBody_def Jwt_Unmarshal_def)
qed

text \<open>A concrete token.\<close>

definition demo_header :: JwsHeader where
  "demo_header = zero_JwsHeader\<lparr>hAlg := ''ES256'', hKid := ''k1'', hTyp := ''JWT''\<rparr>"

definition demo_claims :: JwtClaims where
  "demo_claims = zero_JwtClaims\<lparr>cIssuer := ''i'', cExpiration := 2000, cAudiences := Some [''a''],
     cUntyped := [(''z'', JBool True), (''r'', JArr [jint 7])]\<rparr>"

lemma demo_header_signable: "signable_header demo_header"
  by (simp add: signable_header_def demo_header_def zero_JwsHeader_def wf_JwsHeader_def wf_blob_def)

lemma demo_claims_wf: "wf_JwtClaims demo_claims"
  by (simp add: wf_JwtClaims_def demo_claims_def zero_JwtClaims_def wf_untyped_def int64_def
      reservedJwtClaims_def max_nesting_def)

abbreviation demo_jwt :: "bytes \<Rightarrow> Jwt" where
  "demo_jwt s \<equiv> \<lparr>jwtHeader = demo_header, jwtClaims = demo_claims, jwtSignature = s\<rparr>"

lemma demo_aud: "cAudiences demo_claims = Some [''a'']"
  by (simp add: demo_claims_def zero_JwtClaims_def)

lemma demo_untyped: "wf_untyped (cUntyped demo_claims)"
  using demo_claims_wf by (simp add: wf_JwtClaims_def)

lemma demo_lengths:
  "length (json_print (JObj (map (\<lambda>(k, v). jmember k v) (all_claims demo_claims)))) < 64"
  "pred_sum (\<lambda>_. False) (\<lambda>v. length (json_print v) < 64) (JwsHeader_Marshal demo_header)"
  by code_simp+

lemma demo_body_length:
  assumes "Jwt_MarshalBody (demo_jwt s) = Inr body" "length sig \<le> 200"
  shows "length (MarshalJws body sig) \<le> MaxCompactSize"
proof -
  obtain v where v: "JwsHeader_Marshal demo_header = Inr v" "length (json_print v) < 64"
    using demo_lengths(2) by (cases "JwsHeader_Marshal demo_header") simp_all
  have body: "body = b64_encode RawURLEncoding (json_print v) @ ''.'' @ b64_encode RawURLEncoding
      (json_print (JObj (map (\<lambda>(k, v). jmember k v) (all_claims demo_claims))))"
    using assms(1) v demo_header_signable claims_encoding(1) [OF demo_untyped]
    by (auto simp: Jwt_MarshalBody_def Jws_MarshalBody_def Jwt_Verify_ok demo_untyped signable_header_def
        simp del: json_print.simps)
  have le: "EncodedLen RawURLEncoding n \<le> 2 * n + 2" for n
    by (simp add: EncodedLen_def RawURLEncoding_def)
  show ?thesis
    using v(2) demo_lengths(1) le [of "length (json_print v)"]
      le [of "length (json_print (JObj (map (\<lambda>(k, v). jmember k v) (all_claims demo_claims))))"] le [of "length sig"] assms(2)
    by (simp add: body MarshalJws_def length_b64_encode MaxCompactSize_def pad_def del: json_print.simps b64_encode.simps)
qed

lemma demo_roundtrip:
  "\<exists>body. Jwt_MarshalBody (demo_jwt []) = Inr body \<and> Jwt_Unmarshal (MarshalJws body [CHR 0x01])
     = Inr (\<lparr>jwtHeader = demo_header, jwtClaims = demo_claims\<lparr>cUntyped := sort_key fst (cUntyped demo_claims)\<rparr>,
             jwtSignature = [CHR 0x01]\<rparr>, body)"
  using Jwt_token_roundtrip [OF demo_header_signable demo_claims_wf demo_aud, of "[]" "[CHR 0x01]"] demo_body_length
  by auto

text \<open>
  C6: a JWT whose strings are valid UTF-8, whose times are 64-bit integers, which names at least
  one audience and whose custom claims have distinct unreserved names is encoded without error,
  and the token made from the body and any signature, unless it exceeds the parser's size bound,
  is parsed back to the same header, typed claims and signature, with the custom claims in name
  order, and the same signing input.
\<close>

theorem Jwt_roundtrip:
  assumes "signable_header h" "wf_JwtClaims c" "cAudiences c = Some xs" "xs \<noteq> []"
  shows "\<exists>body. Jwt_MarshalBody \<lparr>jwtHeader = h, jwtClaims = c, jwtSignature = s0\<rparr> = Inr body
    \<and> Jwt_Unmarshal (MarshalJws body sig) = (if length (MarshalJws body sig) \<le> MaxCompactSize
        then Inr (\<lparr>jwtHeader = h, jwtClaims = c\<lparr>cUntyped := sort_key fst (cUntyped c)\<rparr>, jwtSignature = sig\<rparr>, body)
        else Inl (Jose jose_error.ErrInputTooLarge))"
  using assms by (rule Jwt_token_roundtrip)

theorem Jwt_roundtrip_witness:
  "\<exists>body. Jwt_MarshalBody (demo_jwt []) = Inr body \<and> Jwt_Unmarshal (MarshalJws body [CHR 0x01])
     = Inr (\<lparr>jwtHeader = demo_header, jwtClaims = demo_claims\<lparr>cUntyped := [(''r'', JArr [jint 7]), (''z'', JBool True)]\<rparr>,
             jwtSignature = [CHR 0x01]\<rparr>, body)"
proof -
  have "sort_key fst (cUntyped demo_claims) = [(''r'', JArr [jint 7]), (''z'', JBool True)]" by code_simp
  then show ?thesis
    using Jwt_roundtrip [OF demo_header_signable demo_claims_wf demo_aud, of "[]" "[CHR 0x01]"] demo_body_length
    by auto
qed

section \<open>Accepted tokens\<close>

lemma typed_claims_removed:
  assumes "unmarshalTypedClaims fs (m, c) = Inr (m', c')"
  shows "map_of m' = map_of m |` (- fst ` set fs)"
  using assms
proof (induction fs "(m, c)" arbitrary: m c rule: unmarshalTypedClaims.induct)
  case (2 n f fs m c)
  show ?case
  proof (cases "map_of m n")
    case None
    with 2 have "map_of m' = map_of m |` (- fst ` set fs)" by (simp add: unmarshalTypedClaims.simps(2))
    with None show ?thesis by (auto simp: restrict_map_def fun_eq_iff map_of_absent)
  next
    case (Some v)
    with 2(3) obtain c1 where "unmarshalTypedClaims fs (amdel n m, c1) = Inr (m', c')" "f v c = Inr c1"
      by (auto simp: unmarshalTypedClaims.simps(2))
    with 2(2) [OF Some] show ?thesis by (auto simp: restrict_map_def fun_eq_iff)
  qed
qed (simp add: restrict_map_def)

text \<open>
  A JWT that parses is typed \<open>JWT\<close>, has no foreign content type, lists no critical header
  extension and keeps none of the seven registered names among its custom claims, whatever the
  token text; and the text is the canonical serialisation of the returned body and signature.
\<close>

theorem Jwt_Unmarshal_accepts:
  assumes "Jwt_Unmarshal src = Inr (jwt, body)"
  shows "hTyp (jwtHeader jwt) = JwtType \<and> hCty (jwtHeader jwt) \<in> {[], JwtType} \<and> hCrit (jwtHeader jwt) = []
    \<and> fst ` set (cUntyped (jwtClaims jwt)) \<inter> set reservedJwtClaims = {}
    \<and> src = MarshalJws body (jwtSignature jwt)"
proof -
  obtain j where j: "Jws_Unmarshal JwtClaims_UnmarshalJSON zero_JwtClaims (Some zero_JwsHeader) src = Inr (j, body)"
    and jwt: "jwtSignature jwt = jwsSignature j" "Jwt_Verify jwt = Inr ()"
    using assms by (auto simp: Jwt_Unmarshal_def Let_def)
  have "src = MarshalJws body (jwtSignature jwt)"
    using j by (rule Jws_Unmarshal_Inr) (simp add: jwt)
  with jwt(2) show ?thesis
    by (auto simp: Jwt_Verify_def list_ex_iff split: if_splits)
qed

theorem Jwt_Unmarshal_accepts_witness:
  "\<exists>body. hTyp demo_header = JwtType \<and> hCrit demo_header = [] \<and>
     MarshalJws body [CHR 0x01] = MarshalJws body (jwtSignature (demo_jwt [CHR 0x01]))
     \<and> Jwt_MarshalBody (demo_jwt []) = Inr body"
proof -
  obtain body where b: "Jwt_MarshalBody (demo_jwt []) = Inr body"
    "Jwt_Unmarshal (MarshalJws body [CHR 0x01]) = Inr (\<lparr>jwtHeader = demo_header,
       jwtClaims = demo_claims\<lparr>cUntyped := sort_key fst (cUntyped demo_claims)\<rparr>, jwtSignature = [CHR 0x01]\<rparr>, body)"
    using demo_roundtrip by blast
  show ?thesis using Jwt_Unmarshal_accepts [OF b(2)] b(1) by auto
qed

text \<open>
  The custom claims left by decoding a claims set are exactly the members of the object whose
  names are not registered, each with its raw value, whatever the previous content of the target.
\<close>

theorem custom_claims_kept:
  assumes "JwtClaims_UnmarshalJSON v c = Inr c'" "raw_map v = Inr m"
  shows "map_of (cUntyped c') = map_of m |` (- set reservedJwtClaims)"
proof -
  obtain m1 c1 m2 c2 where
    "unmarshalTypedClaims AutomaticJwtClaims (m, c) = Inr (m1, c1)"
    "unmarshalTypedClaims SettableJwtClaims (m1, c1) = Inr (m2, c2)" "cUntyped c' = m2"
    using assms by (fastforce simp: JwtClaims_UnmarshalJSON_def)
  then have "map_of (cUntyped c')
      = map_of m |` (- fst ` set AutomaticJwtClaims \<inter> - fst ` set SettableJwtClaims)"
    using typed_claims_removed by (metis restrict_restrict)
  also have "- fst ` set AutomaticJwtClaims \<inter> - fst ` set SettableJwtClaims = - set reservedJwtClaims"
    by (auto simp: AutomaticJwtClaims_def SettableJwtClaims_def reservedJwtClaims_def)
  finally show ?thesis .
qed

theorem custom_claims_kept_witness:
  "map_of (cUntyped (zero_JwtClaims\<lparr>cIssuer := ''i'', cUntyped := [(''x'', JNull)]\<rparr>))
     = map_of [(''iss'', jstring ''i''), (''x'', JNull)] |` (- set reservedJwtClaims)"
  by (rule custom_claims_kept [of "JObj [jmember ''iss'' (jstring ''i''), jmember ''x'' JNull]" zero_JwtClaims])
     code_simp+



end
