(* ===== verification/TrustStore.thy ===== *)
theory TrustStore
  imports Keys Jwt
begin

text \<open>
  \<open>keystore.go\<close>: the trust store that is filled by its user. Every method runs under the store's
  mutex, so a method is one transition of the store. A stored JWK is a pointer and \<open>Get\<close> lets
  \<open>NewVerificationKey\<close> write through it, hence \<open>Get\<close> returns the changed store too.
\<close>

record TrustKeyStoreImpl =
  tksKeys :: "string \<rightharpoonup> string \<rightharpoonup> Jwk"
  tksRevoked :: "string \<rightharpoonup> string set"

definition TrustKeyStoreImpl_Add :: "TrustKeyStoreImpl \<Rightarrow> string \<Rightarrow> Jwk \<Rightarrow> TrustKeyStoreImpl \<times> (err + unit)" where
  "TrustKeyStoreImpl_Add store issuer jwk =
     (if Jwk_Kid jwk = [] then (store, Inl (Gose ErrInvalidKey))
      else let keySet = (case tksKeys store issuer of None \<Rightarrow> Map.empty | Some m \<Rightarrow> m) in
        if keySet (Jwk_Kid jwk) \<noteq> None then (store\<lparr>tksKeys := (tksKeys store)(issuer \<mapsto> keySet)\<rparr>, Inr ())
        else (store\<lparr>tksKeys := (tksKeys store)(issuer \<mapsto> keySet(Jwk_Kid jwk \<mapsto> jwk))\<rparr>, Inr ()))"

definition TrustKeyStoreImpl_Remove :: "TrustKeyStoreImpl \<Rightarrow> string \<Rightarrow> string \<Rightarrow> TrustKeyStoreImpl \<times> bool" where
  "TrustKeyStoreImpl_Remove store issuer kid = (case tksKeys store issuer of
     None \<Rightarrow> (store, False)
   | Some keySet \<Rightarrow>
       let revoked = (case tksRevoked store issuer of None \<Rightarrow> {} | Some r \<Rightarrow> r) in
       (store\<lparr>tksKeys := (tksKeys store)(issuer \<mapsto> keySet(kid := None)),
              tksRevoked := (tksRevoked store)(issuer \<mapsto> insert kid revoked)\<rparr>, True))"

definition is_revoked :: "TrustKeyStoreImpl \<Rightarrow> string \<Rightarrow> string \<Rightarrow> bool" where
  "is_revoked store issuer kid = (case tksRevoked store issuer of None \<Rightarrow> False | Some r \<Rightarrow> kid \<in> r)"

text \<open>A stored JWK is a value of its own: \<open>Get\<close> rewrites it under the issuer and identifier it was asked for.\<close>

definition TrustKeyStoreImpl_Get ::
    "TrustKeyStoreImpl \<Rightarrow> string \<Rightarrow> string \<Rightarrow> TrustKeyStoreImpl \<times> (err + VerificationKey option)" where
  "TrustKeyStoreImpl_Get store issuer kid =
     (if is_revoked store issuer kid then (store, Inl (Gose ErrUnknownKey))
      else case tksKeys store issuer of
        None \<Rightarrow> (store, Inl (Gose ErrUnknownKey))
      | Some keySet \<Rightarrow> (case keySet kid of
          None \<Rightarrow> (store, Inl (Gose ErrUnknownKey))
        | Some jwk \<Rightarrow>
            let (jwk', r) = NewVerificationKey jwk;
                store' = store\<lparr>tksKeys := (tksKeys store)(issuer \<mapsto> keySet(kid \<mapsto> jwk'))\<rparr> in
            (store', rbind r (\<lambda>key. Inr (Some key)))))"

definition empty_store :: TrustKeyStoreImpl where
  "empty_store = \<lparr>tksKeys = Map.empty, tksRevoked = Map.empty\<rparr>"

text \<open>The loop over a Go map: its entries in the order the iteration happens to take.\<close>

fun add_all :: "TrustKeyStoreImpl \<Rightarrow> (string \<times> Jwk) list \<Rightarrow> err + TrustKeyStoreImpl" where
  "add_all store [] = Inr store"
| "add_all store ((issuer, jwk) # rest) = (case TrustKeyStoreImpl_Add store issuer jwk of
     (_, Inl e) \<Rightarrow> Inl e
   | (store', Inr _) \<Rightarrow> add_all store' rest)"

definition NewTrustKeyStore :: "(string \<times> Jwk) list \<Rightarrow> err + TrustKeyStoreImpl" where
  "NewTrustKeyStore rootData = add_all empty_store rootData"

fun load_all :: "crypto_lib \<Rightarrow> TrustKeyStoreImpl \<Rightarrow> raw_claims \<Rightarrow> err + TrustKeyStoreImpl" where
  "load_all C store [] = Inr store"
| "load_all C store ((issuer, entry) # rest) =
     rbind (UnmarshalJwk C (json_print entry)) (\<lambda>jwk.
     case TrustKeyStoreImpl_Add store issuer jwk of
       (_, Inl e) \<Rightarrow> Inl e
     | (store', Inr _) \<Rightarrow> load_all C store' rest)"

text \<open>The file's size and content, and the order of the iteration, are arguments.\<close>

definition NewTrustKeyStoreFromFile ::
    "crypto_lib \<Rightarrow> (raw_claims \<Rightarrow> raw_claims) \<Rightarrow> nat option \<Rightarrow> string option \<Rightarrow> err + TrustKeyStoreImpl" where
  "NewTrustKeyStoreFromFile C order stat content =
     rbind (of_opt (Std (LibError ''os'')) stat) (\<lambda>size.
     if size > MaxKeyFileSize then Inl (Gose gose_error.ErrInputTooLarge)
     else rbind (of_opt (Std (LibError ''os'')) content) (\<lambda>rootData.
          rbind (of_opt (Std JSONSyntax) (json_parse rootData)) (\<lambda>v.
          rbind (raw_map v) (\<lambda>entries.
          load_all C empty_store (order entries)))))"

section \<open>The trust store interface\<close>

text \<open>
  What a client relies on: a key handed out for an issuer and an identifier is one the store
  vouches for at that moment (\<open>vouches\<close>), and looking up does not make the store vouch for
  anything else. Three outcomes are the client's to handle: a key, no key, an error.
\<close>

locale trust_store =
  fixes get :: "'s \<Rightarrow> string \<Rightarrow> string \<Rightarrow> 's \<times> (err + VerificationKey option)"
    and vouches :: "'s \<Rightarrow> string \<Rightarrow> string \<Rightarrow> VerificationKey \<Rightarrow> bool"
  assumes get_vouched: "get s issuer kid = (s', Inr (Some vk)) \<Longrightarrow> vouches s' issuer kid vk"

definition stored :: "TrustKeyStoreImpl \<Rightarrow> string \<Rightarrow> string \<Rightarrow> Jwk option" where
  "stored store issuer kid = (case tksKeys store issuer of None \<Rightarrow> None | Some m \<Rightarrow> m kid)"

definition store_vouches :: "TrustKeyStoreImpl \<Rightarrow> string \<Rightarrow> string \<Rightarrow> VerificationKey \<Rightarrow> bool" where
  "store_vouches store issuer kid vk \<longleftrightarrow> \<not> is_revoked store issuer kid
     \<and> (\<exists>jwk. stored store issuer kid = Some jwk \<and> NewVerificationKey jwk = (jwk, Inr vk))"

end
