(* ===== verification/JwksStore.thy ===== *)
theory JwksStore
  imports TrustStore
begin

text \<open>
  \<open>jwks_truststore.go\<close>: the trust store that fetches its keys. Times and durations are nanoseconds;
  the zero \<open>time.Time\<close> is \<open>None\<close>. A critical section of the store's mutex \<open>mu\<close> is one function of
  the store. The clock and the answer of the HTTP endpoint are arguments.
\<close>

definition maxJwksBytes :: nat where "maxJwksBytes = 1048576"

definition DefaultJwksRefreshInterval :: int where "DefaultJwksRefreshInterval = 5 * 60 * 1000000000"

definition DefaultJwksMinRefreshInterval :: int where "DefaultJwksMinRefreshInterval = 30 * 1000000000"

record JwksTrustStore =
  jsUrl :: string
  jsInputIssuers :: string
  jsIssuers :: "string list"
  jsKeys :: "VerificationKey list"
  jsFetchedAt :: "int option"
  jsLastAttempt :: "int option"
  jsRefreshInterval :: int
  jsMinRefreshInterval :: int

type_synonym JwksOption = "JwksTrustStore \<Rightarrow> JwksTrustStore"

definition WithJwksRefreshInterval :: "int \<Rightarrow> JwksOption" where
  "WithJwksRefreshInterval d store = store\<lparr>jsRefreshInterval := d\<rparr>"

definition WithJwksMinRefreshInterval :: "int \<Rightarrow> JwksOption" where
  "WithJwksMinRefreshInterval d store = store\<lparr>jsMinRefreshInterval := d\<rparr>"

definition JwksTrustStore_Add :: "JwksTrustStore \<Rightarrow> string \<Rightarrow> Jwk \<Rightarrow> err + unit" where
  "JwksTrustStore_Add store issuer jwk = Inl (Fmt ''read-only trust store'')"

definition JwksTrustStore_Remove :: "JwksTrustStore \<Rightarrow> string \<Rightarrow> string \<Rightarrow> bool" where
  "JwksTrustStore_Remove store issuer kid = False"

definition knownIssuer :: "JwksTrustStore \<Rightarrow> string \<Rightarrow> JwksTrustStore \<times> bool" where
  "knownIssuer store issuer =
     (let store' = (if length (jsIssuers store) = 0
                    then store\<lparr>jsIssuers := split_on CHR '','' (jsInputIssuers store)\<rparr> else store) in
      (store', list_ex (\<lambda>i. i = issuer) (jsIssuers store')))"

text \<open>\<open>time.Time.Sub\<close> saturates at the ends of the 64-bit duration.\<close>

definition time_Sub :: "int \<Rightarrow> int \<Rightarrow> int" where
  "time_Sub t u = max (- (2 ^ 63)) (min (2 ^ 63 - 1) (t - u))"

definition is_fresh :: "int \<Rightarrow> JwksTrustStore \<Rightarrow> bool" where
  "is_fresh now store = (case jsFetchedAt store of
     None \<Rightarrow> False
   | Some t \<Rightarrow> jsRefreshInterval store = 0 \<or> time_Sub now t \<le> jsRefreshInterval store)"

definition coolingDown :: "int \<Rightarrow> JwksTrustStore \<Rightarrow> bool" where
  "coolingDown now store = (case jsLastAttempt store of
     None \<Rightarrow> False
   | Some t \<Rightarrow> time_Sub now t < jsMinRefreshInterval store)"

text \<open>\<open>None\<close> is \<open>done = false\<close>.\<close>

definition lookup :: "int \<Rightarrow> JwksTrustStore \<Rightarrow> string \<Rightarrow> (err + VerificationKey option) option" where
  "lookup now store kid =
     (case find (\<lambda>candidate. VerificationKey_Kid candidate = kid) (jsKeys store) of
        Some key \<Rightarrow>
          if is_fresh now store then Some (Inr (Some key))
          else if coolingDown now store then Some (Inl (Gose ErrJwksStale))
          else None
      | None \<Rightarrow> if coolingDown now store then Some (Inr None) else None)"

datatype http_answer = BadRequest | TransportError err | Response nat string

text \<open>\<open>json.Decoder.Decode\<close> reads the first value of the stream and leaves the rest.\<close>

definition decode_first :: "crypto_lib \<Rightarrow> string \<Rightarrow> err + Jwk list" where
  "decode_first C body =
     (case parse_value max_nesting (skip_ws (take maxJwksBytes body)) of
        None \<Rightarrow> Inl (Std JSONSyntax)
      | Some (v, _) \<Rightarrow> Jwks_UnmarshalJSON C (json_print v) [])"

text \<open>\<open>refresh\<close> in its three parts: the first critical section, the request and the decoding of its
  answer, and the second critical section.\<close>

definition refresh_start :: "int \<Rightarrow> JwksTrustStore \<Rightarrow> JwksTrustStore" where
  "refresh_start now store = store\<lparr>jsLastAttempt := Some now\<rparr>"

definition refresh_answer :: "crypto_lib \<Rightarrow> http_answer \<Rightarrow> err + VerificationKey list" where
  "refresh_answer C answer = (case answer of
     BadRequest \<Rightarrow> Inl (Std (LibError ''http''))
   | TransportError e \<Rightarrow> Inl e
   | Response status body \<Rightarrow>
       if status \<noteq> 200 then Inl (Fmt ''error encountered retrieving JWKS'')
       else (case decode_first C body of
         Inl _ \<Rightarrow> Inl (Fmt ''error encountered retrieving JWKS: invalid encoding'')
       | Inr jwks \<Rightarrow> rmap (\<lambda>jwk. snd (NewVerificationKey jwk)) jwks))"

definition refresh_install :: "int \<Rightarrow> VerificationKey list \<Rightarrow> JwksTrustStore \<Rightarrow> JwksTrustStore" where
  "refresh_install now keys store = store\<lparr>jsKeys := keys, jsFetchedAt := Some now\<rparr>"

definition refresh :: "crypto_lib \<Rightarrow> int \<Rightarrow> http_answer \<Rightarrow> int \<Rightarrow> JwksTrustStore \<Rightarrow> JwksTrustStore \<times> (err + unit)" where
  "refresh C now answer now' store =
     (let store1 = refresh_start now store in
      case refresh_answer C answer of
        Inl e \<Rightarrow> (store1, Inl e)
      | Inr keys \<Rightarrow> (refresh_install now' keys store1, Inr ()))"

text \<open>
  \<open>Get\<close> without interference: the clock is read at the first lookup, under the fetch lock, when
  the attempt is recorded, when the set is installed and at the last lookup.
\<close>

record clock = c_first :: int
  c_locked :: int
  c_attempt :: int
  c_install :: int
  c_last :: int

definition not_done :: "(err + VerificationKey option) option \<Rightarrow> err + VerificationKey option" where
  "not_done r = (case r of Some x \<Rightarrow> x | None \<Rightarrow> Inr None)"

definition JwksTrustStore_Get ::
    "crypto_lib \<Rightarrow> clock \<Rightarrow> http_answer \<Rightarrow> JwksTrustStore \<Rightarrow> string \<Rightarrow> string
     \<Rightarrow> JwksTrustStore \<times> (err + VerificationKey option)" where
  "JwksTrustStore_Get C t answer store issuer kid =
     (let (store1, known) = knownIssuer store issuer in
      if \<not> known then (store1, Inr None)
      else case lookup (c_first t) store1 kid of
        Some r \<Rightarrow> (store1, r)
      | None \<Rightarrow> (case lookup (c_locked t) store1 kid of
          Some r \<Rightarrow> (store1, r)
        | None \<Rightarrow> (case refresh C (c_attempt t) answer (c_install t) store1 of
            (store2, Inl e) \<Rightarrow> (store2, Inl e)
          | (store2, Inr _) \<Rightarrow> (store2, not_done (lookup (c_last t) store2 kid)))))"

definition NewJwksKeyStore :: "string \<Rightarrow> string \<Rightarrow> JwksOption list \<Rightarrow> JwksTrustStore" where
  "NewJwksKeyStore issuerList url opts =
     foldl (\<lambda>store opt. opt store)
       \<lparr>jsUrl = url, jsInputIssuers = issuerList, jsIssuers = [], jsKeys = [], jsFetchedAt = None,
        jsLastAttempt = None, jsRefreshInterval = DefaultJwksRefreshInterval,
        jsMinRefreshInterval = DefaultJwksMinRefreshInterval\<rparr> opts"

section \<open>Concurrent lookups\<close>

text \<open>
  Goroutines in \<open>Get\<close>. Each is at a point between two atomic actions; \<open>fetchMu\<close> is held by the
  goroutines at the points from \<open>Locked\<close> to \<open>Installed\<close>.
\<close>

datatype point =
    Entered string string
  | Looking string
  | Blocked string
  | Locked string
  | Decided string
  | Requested string
  | Answered string "VerificationKey list"
  | Installed string
  | Returned "err + VerificationKey option"

fun holds_lock :: "point \<Rightarrow> bool" where
  "holds_lock (Locked _) = True"
| "holds_lock (Decided _) = True"
| "holds_lock (Requested _) = True"
| "holds_lock (Answered _ _) = True"
| "holds_lock (Installed _) = True"
| "holds_lock _ = False"

record world =
  w_store :: JwksTrustStore
  w_now :: int
  w_points :: "nat \<rightharpoonup> point"
  w_attempts :: "int list"
  w_fetches :: "(int \<times> VerificationKey list) list"

abbreviation goto :: "nat \<Rightarrow> point \<Rightarrow> world \<Rightarrow> world" where
  "goto t p w \<equiv> w\<lparr>w_points := (w_points w)(t \<mapsto> p)\<rparr>"

text \<open>
  Two histories that no rule reads, the latest entry first: \<open>w_attempts\<close> has the moments at which a
  request was attempted, \<open>w_fetches\<close> the moments at which an answer was installed, with its keys.
\<close>

inductive get_step :: "crypto_lib \<Rightarrow> world \<Rightarrow> world \<Rightarrow> bool" for C :: crypto_lib where
  tick: "d \<ge> 0 \<Longrightarrow> get_step C w (w\<lparr>w_now := w_now w + d\<rparr>)"
| enter: "w_points w t = None \<Longrightarrow> get_step C w (goto t (Entered issuer kid) w)"
| known: "w_points w t = Some (Entered issuer kid) \<Longrightarrow> knownIssuer (w_store w) issuer = (s, True) \<Longrightarrow>
    get_step C w (goto t (Looking kid) (w\<lparr>w_store := s\<rparr>))"
| unknown: "w_points w t = Some (Entered issuer kid) \<Longrightarrow> knownIssuer (w_store w) issuer = (s, False) \<Longrightarrow>
    get_step C w (goto t (Returned (Inr None)) (w\<lparr>w_store := s\<rparr>))"
| hit: "w_points w t = Some (Looking kid) \<Longrightarrow> lookup (w_now w) (w_store w) kid = Some r \<Longrightarrow>
    get_step C w (goto t (Returned r) w)"
| miss: "w_points w t = Some (Looking kid) \<Longrightarrow> lookup (w_now w) (w_store w) kid = None \<Longrightarrow>
    get_step C w (goto t (Blocked kid) w)"
| lock: "w_points w t = Some (Blocked kid) \<Longrightarrow> \<forall>u p. w_points w u = Some p \<longrightarrow> \<not> holds_lock p \<Longrightarrow>
    get_step C w (goto t (Locked kid) w)"
| hit_locked: "w_points w t = Some (Locked kid) \<Longrightarrow> lookup (w_now w) (w_store w) kid = Some r \<Longrightarrow>
    get_step C w (goto t (Returned r) w)"
| decide: "w_points w t = Some (Locked kid) \<Longrightarrow> lookup (w_now w) (w_store w) kid = None \<Longrightarrow>
    get_step C w (goto t (Decided kid) w)"
| request: "w_points w t = Some (Decided kid) \<Longrightarrow>
    get_step C w (goto t (Requested kid) (w\<lparr>w_store := refresh_start (w_now w) (w_store w),
      w_attempts := w_now w # w_attempts w\<rparr>))"
| failed: "w_points w t = Some (Requested kid) \<Longrightarrow> refresh_answer C answer = Inl e \<Longrightarrow>
    get_step C w (goto t (Returned (Inl e)) w)"
| answered: "w_points w t = Some (Requested kid) \<Longrightarrow> refresh_answer C answer = Inr keys \<Longrightarrow>
    get_step C w (goto t (Answered kid keys) w)"
| install: "w_points w t = Some (Answered kid keys) \<Longrightarrow>
    get_step C w (goto t (Installed kid) (w\<lparr>w_store := refresh_install (w_now w) keys (w_store w),
      w_fetches := (w_now w, keys) # w_fetches w\<rparr>))"
| finish: "w_points w t = Some (Installed kid) \<Longrightarrow>
    get_step C w (goto t (Returned (not_done (lookup (w_now w) (w_store w) kid))) w)"

definition initial_world :: "JwksTrustStore \<Rightarrow> int \<Rightarrow> world" where
  "initial_world store now = \<lparr>w_store = store, w_now = now, w_points = Map.empty, w_attempts = [], w_fetches = []\<rparr>"

end
