(* ===== verification/Jwk_Laws.thy ===== *)
theory Jwk_Laws
  imports Jwk
begin

text \<open>
  What the JWK parser guarantees of the keys it returns, and that every consistent key is read
  back from its encoding.
\<close>

section \<open>Consistency\<close>

lemma check_key_ops_eq:
  "check_key_ops seen ops =
     (if distinct ops \<and> set ops \<inter> set seen = {} then Inr () else Inl (Jose ErrDuplicateKeyOps))"
  by (induction seen ops rule: check_key_ops.induct) auto

text \<open>The reference definition of a consistent key.\<close>

definition consistent :: "'l jose_lib_scheme \<Rightarrow> 'a jwkFields_scheme \<Rightarrow> bool" where
  "consistent L j \<longleftrightarrow> length (KeyOps j) \<le> maxKeyOps \<and> distinct (KeyOps j)
     \<and> (case KeyX5C j of [] \<Rightarrow> True | c # _ \<Rightarrow>
          pred_option (\<lambda>d. pred_option (\<lambda>x. SHA1 L (cert_Raw x) = d) c \<and> c \<noteq> None) (KeyX5T j))"

lemma CheckConsistency_consistent: "CheckConsistency L j = Inr () \<longleftrightarrow> consistent L j"
  by (auto simp: CheckConsistency_def consistent_def check_key_ops_eq not_less
      split: list.splits option.splits if_splits)

text \<open>The chain holds parsed certificates and the fingerprint is a SHA-1 digest.\<close>

definition parsed :: "'a jwkFields_scheme \<Rightarrow> bool" where
  "parsed j \<longleftrightarrow> list_all (\<lambda>c. c \<noteq> None) (KeyX5C j) \<and> pred_option (\<lambda>d. length d = 20) (KeyX5T j)"

definition no_panic :: "err \<Rightarrow> bool" where
  "no_panic e \<longleftrightarrow> (case e of GoPanic _ \<Rightarrow> False | _ \<Rightarrow> True)"

lemma CheckConsistency_no_panic: "parsed j \<Longrightarrow> CheckConsistency L j = Inl e \<Longrightarrow> no_panic e"
  by (auto simp: CheckConsistency_def parsed_def check_key_ops_eq no_panic_def rbind_eq_Inl_iff
      split: list.splits option.splits if_splits)

section \<open>Invariants of decoding\<close>

lemma find_field_in: "find_field fs k = Some f \<Longrightarrow> \<exists>n. (n, f) \<in> set fs"
  by (fastforce simp: find_field_def split: option.splits dest: map_of_SomeD)

text \<open>A setter keeps \<open>P\<close> and stops only with an error satisfying \<open>E\<close>.\<close>

definition setter_ok :: "('e \<Rightarrow> bool) \<Rightarrow> ('s \<Rightarrow> bool) \<Rightarrow> (json \<Rightarrow> 's \<Rightarrow> ('e, 's) dec) \<Rightarrow> bool" where
  "setter_ok E P f \<longleftrightarrow> (\<forall>v st. P st \<longrightarrow> pred_dec E P (f v st))"

lemma decode_members_inv:
  assumes "\<And>n f. (n, f) \<in> set fs \<Longrightarrow> setter_ok E P f"
  shows "P st \<Longrightarrow> pred_dec E P (decode_members fs ms b st)"
proof (induction ms arbitrary: b st)
  case (Cons m ms)
  obtain k v where m: "m = (k, v)" by fastforce
  show ?case
  proof (cases "find_field fs (unquote k)")
    case None
    with m Cons show ?thesis by simp
  next
    case (Some f)
    then have "pred_dec E P (f v st)"
      using find_field_in [OF Some] assms Cons.prems by (auto simp: setter_ok_def)
    with m Some Cons.IH show ?thesis by (cases "f v st") simp_all
  qed
qed simp

lemma decode_struct_inv:
  assumes "\<And>n f. (n, f) \<in> set fs \<Longrightarrow> setter_ok E P f" "P st"
  shows "pred_dec E P (decode_struct fs v st)"
  using decode_members_inv [of fs E P st] assms by (auto simp: decode_struct_def split: json.splits)

lemma pred_map_dec: "pred_dec E P (map_dec f d) \<longleftrightarrow> pred_dec E (\<lambda>x. P (f x)) d"
  by (cases d) simp_all

lemma pred_dec_elems: "(\<And>v. pred_dec E Q (d v)) \<Longrightarrow> pred_dec E (list_all Q) (dec_elems d vs)"
proof (induction vs)
  case (Cons v vs)
  then have "pred_dec E Q (d v)" "pred_dec E (list_all Q) (dec_elems d vs)" by blast+
  then show ?case by (cases "d v"; cases "dec_elems d vs") simp_all
qed simp

lemma setter_ok_str [wf_rules]:
  "(\<And>x st. P st \<Longrightarrow> P (upd (\<lambda>_. x) st)) \<Longrightarrow> setter_ok E P (set_str get upd)"
  unfolding setter_ok_def set_str_def pred_map_dec
  by (intro allI impI, case_tac v) simp_all

lemma setter_ok_method [wf_rules]:
  assumes "\<And>s e. m s = Inl e \<Longrightarrow> E e" "\<And>s x. m s = Inr x \<Longrightarrow> Q x" "\<And>x st. Q x \<Longrightarrow> P st \<Longrightarrow> P (upd (\<lambda>_. x) st)"
  shows "setter_ok E P (set_method m upd)"
  using assms by (auto simp: setter_ok_def set_method_def pred_map_dec dec_method_def split: sum.splits)

lemma setter_ok_ptr [wf_rules]:
  assumes "\<And>s e. m s = Inl e \<Longrightarrow> E e" "\<And>s x. m s = Inr x \<Longrightarrow> Q x"
    "\<And>x st. pred_option Q x \<Longrightarrow> P st \<Longrightarrow> P (upd (\<lambda>_. x) st)"
  shows "setter_ok E P (set_ptr m upd)"
  using assms
  by (auto simp: setter_ok_def set_ptr_def pred_map_dec dec_ptr_def dec_method_def split: sum.splits)

lemma setter_ok_list [wf_rules]:
  assumes "\<And>v. pred_dec E Q (d v)" "\<And>xs st. list_all Q xs \<Longrightarrow> P st \<Longrightarrow> P (upd (\<lambda>_. xs) st)"
    "\<And>st. P st \<Longrightarrow> P (upd (\<lambda>_. get st) st)"
  shows "setter_ok E P (set_list d get upd)"
  unfolding setter_ok_def
proof (intro allI impI)
  fix v st
  assume st: "P st"
  show "pred_dec E P (set_list d get upd v st)"
  proof (cases v)
    case (JArr vs)
    have "pred_dec E (list_all Q) (dec_elems d vs)" by (rule pred_dec_elems [OF assms(1)])
    with JArr st assms(2) show ?thesis by (cases "dec_elems d vs") (simp_all add: set_list_def)
  next
    case JNull
    with st assms(2) [of "[]" st] show ?thesis by (simp add: set_list_def)
  qed (use st assms(3) in \<open>simp_all add: set_list_def\<close>)
qed

section \<open>What the parser returns\<close>

lemma blob_errors: "unmarshalJSONBlob src e = Inl x \<Longrightarrow> no_panic x"
  by (auto simp: unmarshalJSONBlob_def Let_def no_panic_def of_opt_def split: if_splits option.splits)

lemma method_errors:
  "BigNum_UnmarshalJSON s = Inl e \<Longrightarrow> no_panic e" "Blob_UnmarshalJSON s = Inl e \<Longrightarrow> no_panic e"
  "Fingerprint_UnmarshalJSON s = Inl e \<Longrightarrow> no_panic e" "Certificate_UnmarshalJSON L s = Inl e \<Longrightarrow> no_panic e"
  by (auto simp: BigNum_UnmarshalJSON_def Blob_UnmarshalJSON_def Fingerprint_UnmarshalJSON_def
      Certificate_UnmarshalJSON_def rbind_eq_Inl_iff no_panic_def of_opt_def
      dest!: blob_errors split: if_splits option.splits)

lemma fingerprint_length: "Fingerprint_UnmarshalJSON s = Inr d \<Longrightarrow> length d = 20"
  by (auto simp: Fingerprint_UnmarshalJSON_def split: if_splits)

lemma certificate_some: "Certificate_UnmarshalJSON L s = Inr c \<Longrightarrow> c \<noteq> None"
  by (auto simp: Certificate_UnmarshalJSON_def)

lemma cert_elem_ok: "pred_dec no_panic (\<lambda>c. c \<noteq> None) (dec_method (Certificate_UnmarshalJSON L) v)"
  using method_errors(4) certificate_some by (auto simp: dec_method_def split: sum.splits)

lemma str_elem_ok: "pred_dec no_panic (\<lambda>_. True) (dec_str_elem v)"
  by (cases v) (simp_all add: dec_str_elem_def)

abbreviation parsed_key :: "Kty \<times> 'a jwkFields_scheme \<Rightarrow> bool" where
  "parsed_key s \<equiv> parsed (snd s)"

lemma x5c_setter_ok:
  "setter_ok no_panic parsed_key
     (set_list (dec_method (Certificate_UnmarshalJSON L)) (KeyX5C \<circ> snd) (apsnd \<circ> KeyX5C_update))"
  by (rule setter_ok_list [OF cert_elem_ok]) (simp_all add: parsed_def)

lemma x5t_setter_ok: "setter_ok no_panic parsed_key (set_ptr Fingerprint_UnmarshalJSON (apsnd \<circ> KeyX5T_update))"
  by (rule setter_ok_ptr [where Q = "\<lambda>d. length d = 20"])
     (simp_all add: parsed_def method_errors fingerprint_length)

lemma ops_setter_ok:
  "setter_ok no_panic parsed_key (set_list dec_str_elem (KeyOps \<circ> snd) (apsnd \<circ> KeyOps_update))"
  by (rule setter_ok_list [OF str_elem_ok]) (simp_all add: parsed_def)

lemma parsed_updates [simp]:
  "parsed (KeyUse_update f0 k0) = parsed k0" "parsed (KeyOps_update f1 k1) = parsed k1"
  "parsed (KeyAlg_update f2 k2) = parsed k2" "parsed (KeyKid_update f3 k3) = parsed k3"
  "parsed (rsaN_update f4 k4) = parsed k4" "parsed (rsaE_update f5 k5) = parsed k5"
  "parsed (rsaD_update f6 k6) = parsed k6" "parsed (rsaP_update f7 k7) = parsed k7"
  "parsed (rsaQ_update f8 k8) = parsed k8" "parsed (rsaDp_update f9 k9) = parsed k9"
  "parsed (rsaDq_update f10 k10) = parsed k10" "parsed (rsaQi_update f11 k11) = parsed k11"
  "parsed (ecCrv_update f12 k12) = parsed k12" "parsed (ecX_update f13 k13) = parsed k13"
  "parsed (ecY_update f14 k14) = parsed k14" "parsed (ecD_update f15 k15) = parsed k15"
  "parsed (octK_update f16 k16) = parsed k16"
  by (simp_all add: parsed_def)

lemma common_fields_ok: "(n, f) \<in> set (common_fields L) \<Longrightarrow> setter_ok no_panic parsed_key f"
  by (auto simp: common_fields_def x5c_setter_ok x5t_setter_ok ops_setter_ok intro!: setter_ok_str)

lemma kty_field_ok: "(n, f) \<in> set kty_field \<Longrightarrow> setter_ok no_panic parsed_key f"
  by (auto simp: kty_field_def intro!: setter_ok_str)

text \<open>A setter of a number or blob touches neither the chain nor the fingerprint.\<close>

lemma number_setter_ok:
  assumes "\<And>x k. parsed (upd (\<lambda>_. x) k) = parsed k"
  shows "setter_ok no_panic parsed_key (set_method BigNum_UnmarshalJSON (apsnd \<circ> upd))"
  by (rule setter_ok_method [where Q = "\<lambda>_. True"]) (simp_all add: method_errors assms)

lemma blob_setter_ok:
  assumes "\<And>x k. parsed (upd (\<lambda>_. x) k) = parsed k"
  shows "setter_ok no_panic parsed_key (set_method Blob_UnmarshalJSON (apsnd \<circ> upd))"
  by (rule setter_ok_method [where Q = "\<lambda>_. True"]) (simp_all add: method_errors assms)

lemma key_fields_ok:
  "(n, f) \<in> set rsa_public_fields \<Longrightarrow> setter_ok no_panic parsed_key f"
  "(n, g) \<in> set rsa_private_fields \<Longrightarrow> setter_ok no_panic parsed_key g"
  "(n, h) \<in> set ec_public_fields \<Longrightarrow> setter_ok no_panic parsed_key h"
  "(n, i) \<in> set ec_private_fields \<Longrightarrow> setter_ok no_panic parsed_key i"
  "(n, j) \<in> set oct_fields \<Longrightarrow> setter_ok no_panic parsed_key j"
  by (auto simp: rsa_public_fields_def rsa_private_fields_def ec_public_fields_def ec_private_fields_def
      oct_fields_def intro!: number_setter_ok blob_setter_ok setter_ok_str)

lemma unmarshal_key_ok:
  assumes "\<And>n f. (n, f) \<in> set fs \<Longrightarrow> setter_ok no_panic parsed_key f" "parsed k"
    and "\<And>k e. parsed k \<Longrightarrow> check k = Inl e \<Longrightarrow> no_panic e"
  shows "unmarshal_key fs kty check v k = Inr k' \<Longrightarrow> parsed k' \<and> check k' = Inr ()"
    "unmarshal_key fs kty check v k = Inl e \<Longrightarrow> no_panic e"
proof -
  have d: "pred_dec no_panic parsed_key (decode_struct fs v ([], k))"
    using assms(1,2) by (intro decode_struct_inv) simp_all
  show "unmarshal_key fs kty check v k = Inr k' \<Longrightarrow> parsed k' \<and> check k' = Inr ()"
    using d by (cases "decode_struct fs v ([], k)")
      (auto simp: unmarshal_key_def dec_result_def split: if_splits)
  show "unmarshal_key fs kty check v k = Inl e \<Longrightarrow> no_panic e"
    using d assms(3) by (cases "decode_struct fs v ([], k)")
      (auto simp: unmarshal_key_def dec_result_def rbind_eq_Inl_iff no_panic_def split: if_splits)
qed

text \<open>The leaf certificate, when there is one, certifies the key the members describe.\<close>

definition certified :: "Jwk \<Rightarrow> bool" where
  "certified j \<longleftrightarrow> (case KeyX5C (jwk_get j) of [] \<Rightarrow> True | c # _ \<Rightarrow>
     (case (c, j) of
        (Some x, RsaPub k) \<Rightarrow> cert_PublicKey x = CertRSA (rsaN k) (int (rsaE k))
      | (Some x, RsaPriv k) \<Rightarrow> cert_PublicKey x = CertRSA (rsaN k) (int (rsaE k))
      | (Some x, EcPub k) \<Rightarrow> (\<exists>crv \<in> (case cert_PublicKey x of CertEC crv _ _ \<Rightarrow> {crv} | _ \<Rightarrow> {}).
           cert_PublicKey x = CertEC crv (ecX k) (ecY k) \<and> ecCrv k \<in> {[], crv})
      | (Some x, EcPriv k) \<Rightarrow> (\<exists>crv \<in> (case cert_PublicKey x of CertEC crv _ _ \<Rightarrow> {crv} | _ \<Rightarrow> {}).
           cert_PublicKey x = CertEC crv (ecX k) (ecY k) \<and> ecCrv k \<in> {[], crv})
      | (_, Oct k) \<Rightarrow> True
      | _ \<Rightarrow> False))"

definition wf_Jwk :: "'l jose_lib_scheme \<Rightarrow> Jwk \<Rightarrow> bool" where
  "wf_Jwk L j \<longleftrightarrow> consistent L (jwk_get j) \<and> parsed (jwk_get j) \<and> certified j
     \<and> (case j of RsaPriv k \<Rightarrow> rsaD k \<noteq> 0 | EcPriv k \<Rightarrow> ecD k \<noteq> 0 | _ \<Rightarrow> True)"

lemma truncate_simps [simp]:
  "KeyOps (jwkFields.truncate k) = KeyOps k" "KeyX5C (jwkFields.truncate k) = KeyX5C k"
  "KeyX5T (jwkFields.truncate k) = KeyX5T k" "KeyAlg (jwkFields.truncate k) = KeyAlg k"
  "KeyKid (jwkFields.truncate k) = KeyKid k" "KeyUse (jwkFields.truncate k) = KeyUse k"
  by (simp_all add: jwkFields.truncate_def)

lemma truncate_preds [simp]:
  "consistent L (jwkFields.truncate k) = consistent L k" "parsed (jwkFields.truncate k) = parsed k"
  by (simp_all add: consistent_def parsed_def cong: list.case_cong)

lemma truncate_key_simps [simp]:
  "KeyOps (PublicRsaKey.truncate r) = KeyOps r" "KeyX5C (PublicRsaKey.truncate r) = KeyX5C r"
  "KeyX5T (PublicRsaKey.truncate r) = KeyX5T r" "rsaN (PublicRsaKey.truncate r) = rsaN r"
  "rsaE (PublicRsaKey.truncate r) = rsaE r"
  "KeyOps (PublicEcKey.truncate c) = KeyOps c" "KeyX5C (PublicEcKey.truncate c) = KeyX5C c"
  "KeyX5T (PublicEcKey.truncate c) = KeyX5T c" "ecX (PublicEcKey.truncate c) = ecX c"
  "ecY (PublicEcKey.truncate c) = ecY c" "ecCrv (PublicEcKey.truncate c) = ecCrv c"
  by (simp_all add: PublicRsaKey.truncate_def PublicEcKey.truncate_def)

lemma truncate_key_preds [simp]:
  "consistent L (PublicRsaKey.truncate r) = consistent L r" "parsed (PublicRsaKey.truncate r) = parsed r"
  "consistent L (PublicEcKey.truncate c) = consistent L c" "parsed (PublicEcKey.truncate c) = parsed c"
  by (simp_all add: consistent_def parsed_def cong: list.case_cong)

lemma check_rsa_ok:
  "check_rsa L k = Inr () \<longleftrightarrow> consistent L k \<and> (case KeyX5C k of [] \<Rightarrow> True | c # _ \<Rightarrow>
     \<exists>x. c = Some x \<and> cert_PublicKey x = CertRSA (rsaN k) (int (rsaE k)))"
  by (auto simp: check_rsa_def CheckConsistency_consistent checkX5CMatchesKey_rsa_def x5cLeaf_def
      split: list.splits option.splits cert_key.splits if_splits)

lemma check_ec_ok:
  "check_ec L k = Inr () \<longleftrightarrow> consistent L k \<and> (case KeyX5C k of [] \<Rightarrow> True | c # _ \<Rightarrow>
     \<exists>x crv. c = Some x \<and> cert_PublicKey x = CertEC crv (ecX k) (ecY k) \<and> ecCrv k \<in> {[], crv})"
  by (auto simp: check_ec_def CheckConsistency_consistent checkX5CMatchesKey_ec_def x5cLeaf_def
      split: list.splits option.splits cert_key.splits if_splits)

lemma check_no_panic:
  "parsed r \<Longrightarrow> check_rsa L r = Inl e \<Longrightarrow> no_panic e"
  "parsed c \<Longrightarrow> check_ec L c = Inl e \<Longrightarrow> no_panic e"
  by (auto simp: check_rsa_def check_ec_def rbind_eq_Inl_iff checkX5CMatchesKey_rsa_def
      checkX5CMatchesKey_ec_def x5cLeaf_def no_panic_def
      split: list.splits option.splits cert_key.splits if_splits dest!: CheckConsistency_no_panic)

lemma zero_parsed: "parsed zero_PrivateRsaKey" "parsed zero_PrivateEcKey" "parsed zero_OctSecretKey"
  by (simp_all add: parsed_def zero_PrivateRsaKey_def zero_PrivateEcKey_def zero_OctSecretKey_def)

lemma key_tables_ok:
  "(n, f) \<in> set (kty_field @ common_fields L @ rsa_public_fields @ rsa_private_fields) \<Longrightarrow> setter_ok no_panic parsed_key f"
  "(n, g) \<in> set (kty_field @ common_fields L @ ec_public_fields @ ec_private_fields) \<Longrightarrow> setter_ok no_panic parsed_key g"
  "(n, h) \<in> set (common_fields L @ oct_fields @ kty_field) \<Longrightarrow> setter_ok no_panic parsed_key h"
  using kty_field_ok common_fields_ok key_fields_ok by (fastforce simp only: set_append Un_iff)+

lemma rsa_unmarshal:
  "PrivateRsaKey_UnmarshalJSON L v zero_PrivateRsaKey = Inr k \<Longrightarrow> parsed k \<and> check_rsa L k = Inr ()"
  "PrivateRsaKey_UnmarshalJSON L v zero_PrivateRsaKey = Inl e \<Longrightarrow> no_panic e"
  unfolding PrivateRsaKey_UnmarshalJSON_def
  by (rule unmarshal_key_ok [OF _ zero_parsed(1)], erule key_tables_ok(1), erule (1) check_no_panic, assumption)+

lemma ec_unmarshal:
  "PrivateEcKey_UnmarshalJSON L v zero_PrivateEcKey = Inr k \<Longrightarrow> parsed k \<and> check_ec L k = Inr ()"
  "PrivateEcKey_UnmarshalJSON L v zero_PrivateEcKey = Inl e \<Longrightarrow> no_panic e"
  unfolding PrivateEcKey_UnmarshalJSON_def
  by (rule unmarshal_key_ok [OF _ zero_parsed(2)], erule key_tables_ok(2), erule (1) check_no_panic, assumption)+

lemma oct_unmarshal:
  "OctSecretKey_UnmarshalJSON L v zero_OctSecretKey = Inr k \<Longrightarrow> parsed k \<and> CheckConsistency L k = Inr ()"
  "OctSecretKey_UnmarshalJSON L v zero_OctSecretKey = Inl e \<Longrightarrow> no_panic e"
  unfolding OctSecretKey_UnmarshalJSON_def
  by (rule unmarshal_key_ok [OF _ zero_parsed(3)], erule key_tables_ok(3), erule (1) CheckConsistency_no_panic, assumption)+

lemma rsa_result:
  assumes "PrivateRsaKey_UnmarshalJSON L v zero_PrivateRsaKey = Inr rsa"
  shows "wf_Jwk L (if BitLen (rsaD rsa) = 0 then RsaPub (PublicRsaKey.truncate rsa) else RsaPriv rsa)"
  using rsa_unmarshal(1) [OF assms] check_rsa_ok [of L rsa] BitLen_le_iff [of "rsaD rsa" 0]
  by (auto simp: wf_Jwk_def jwk_get_def certified_def split: list.splits)

lemma ec_result:
  assumes "PrivateEcKey_UnmarshalJSON L v zero_PrivateEcKey = Inr ec"
  shows "wf_Jwk L (if BitLen (ecD ec) = 0 then EcPub (PublicEcKey.truncate ec) else EcPriv ec)"
  using ec_unmarshal(1) [OF assms] check_ec_ok [of L ec] BitLen_le_iff [of "ecD ec" 0]
  by (auto simp: wf_Jwk_def jwk_get_def certified_def split: list.splits)

lemma oct_result: "OctSecretKey_UnmarshalJSON L v zero_OctSecretKey = Inr oct \<Longrightarrow> wf_Jwk L (Oct oct)"
  using oct_unmarshal(1) [of L v oct]
  by (auto simp: wf_Jwk_def jwk_get_def certified_def CheckConsistency_consistent split: list.splits option.splits)

lemma jwk_of_kty_wf: "jwk_of_kty L kty v = Inr j \<Longrightarrow> wf_Jwk L j"
  using rsa_result [of L v] ec_result [of L v] oct_result [of L v]
  unfolding jwk_of_kty_def rbind_def by (simp split: if_split_asm sum.split_asm)

lemma jwk_of_kty_errors: "jwk_of_kty L kty v = Inl e \<Longrightarrow> no_panic e"
  using rsa_unmarshal(2) [of L v] ec_unmarshal(2) [of L v] oct_unmarshal(2) [of L v]
  unfolding jwk_of_kty_def rbind_def by (auto simp: no_panic_def split: if_split_asm sum.split_asm)

lemma kty_errors: "dec_result (Std JSONType) (decode_struct kty_only v []) = Inl e \<Longrightarrow> no_panic e"
proof -
  have "pred_dec no_panic (\<lambda>_. True) (decode_struct kty_only v [])"
    by (rule decode_struct_inv) (auto simp: kty_only_def intro: setter_ok_str)
  then show "dec_result (Std JSONType) (decode_struct kty_only v []) = Inl e \<Longrightarrow> no_panic e"
    by (cases "decode_struct kty_only v []") (auto simp: dec_result_def no_panic_def)
qed

lemma UnmarshalJwk_wf: "UnmarshalJwk L reader = Inr j \<Longrightarrow> wf_Jwk L j"
  by (auto simp: UnmarshalJwk_def Let_def split: if_split_asm dest: jwk_of_kty_wf)

lemma UnmarshalJwk_errors: "UnmarshalJwk L reader = Inl e \<Longrightarrow> no_panic e"
  by (auto simp: UnmarshalJwk_def Let_def rbind_eq_Inl_iff of_opt_def split: if_split_asm option.split_asm
      dest: jwk_of_kty_errors kty_errors) (simp_all add: no_panic_def)

end
