(* ===== verification/Jwk_RoundTrip.thy ===== *)
theory Jwk_RoundTrip
  imports Jwk_Laws
begin

text \<open>
  Every encodable key is read back by \<open>UnmarshalJwk\<close> as the key it was, for the five key types:
  the members are consumed one by one by the decoder's tables.
\<close>

section \<open>Members\<close>

definition wf_cert :: "'l jose_lib_scheme \<Rightarrow> Certificate \<Rightarrow> bool" where
  "wf_cert L c \<longleftrightarrow> (case c of None \<Rightarrow> False | Some x \<Rightarrow>
     cert_Raw x \<noteq> [] \<and> length (cert_Raw x) + 2 \<le> MaxBlobSize \<and> ParseCertificate L (cert_Raw x) = Some x)"

definition wf_fields :: "'l jose_lib_scheme \<Rightarrow> 'a jwkFields_scheme \<Rightarrow> bool" where
  "wf_fields L j \<longleftrightarrow> list_all utf8_valid [KeyUse j, KeyAlg j, KeyKid j] \<and> list_all utf8_valid (KeyOps j)
     \<and> list_all (wf_cert L) (KeyX5C j) \<and> pred_option (\<lambda>d. length d = 20) (KeyX5T j)"

definition cert_json :: "Certificate \<Rightarrow> json" where
  "cert_json c = (case c of None \<Rightarrow> JNull | Some x \<Rightarrow> JStr (b64_encode StdEncoding (cert_Raw x)))"

definition x5c_members :: "Certificate list \<Rightarrow> (string \<times> json) list" where
  "x5c_members cs = omit_list ''x5c'' cert_json cs"

definition common_list :: "'a jwkFields_scheme \<Rightarrow> (string \<times> json) list" where
  "common_list j = omit_str ''use'' (KeyUse j) @ omit_list ''key_ops'' jstring (KeyOps j)
     @ omit_str ''alg'' (KeyAlg j) @ omit_str ''kid'' (KeyKid j) @ x5c_members (KeyX5C j)
     @ blob_members ''x5t'' (KeyX5T j)"

lemma DecodedLen_Std: "DecodedLen StdEncoding (EncodedLen StdEncoding n) \<le> n + 2"
  by (simp add: DecodedLen_def EncodedLen_def StdEncoding_def)

lemma json_parse_std: "json_parse (CHR 0x22 # b64_encode StdEncoding x @ [CHR 0x22])
    = Some (JStr (b64_encode StdEncoding x))"
  using json_parse_print [of "JStr (b64_encode StdEncoding x)"] by (simp add: max_nesting_def)

lemma enc_cert: "wf_cert L c \<Longrightarrow> enc_method (Certificate_MarshalJSON c) = Inr (cert_json c)"
  by (auto simp: wf_cert_def cert_json_def Certificate_MarshalJSON_def marshalJSONBlob_def enc_method_def
      json_parse_std split: option.splits)

lemma enc_x5c_ok: "list_all (wf_cert L) cs \<Longrightarrow> enc_x5c cs = Inr (x5c_members cs)"
proof -
  assume "list_all (wf_cert L) cs"
  then have "rmap (\<lambda>c. enc_method (Certificate_MarshalJSON c)) cs = Inr (map cert_json cs)"
    by (intro rmap_all_ok) (auto simp: list_all_iff intro: enc_cert)
  then show ?thesis by (simp add: enc_x5c_def x5c_members_def omit_list_def)
qed

lemma enc_x5t_ok: "pred_option (\<lambda>d. length d = 20) f \<Longrightarrow> enc_x5t f = Inr (blob_members ''x5t'' f)"
proof (cases f)
  case (Some d)
  moreover assume "pred_option (\<lambda>d. length d = 20) f"
  ultimately have "d \<noteq> []" "length d = 20" by auto
  with Some show ?thesis
    by (simp add: enc_x5t_def blob_members_def Fingerprint_MarshalJSON_def enc_method_blob)
qed (simp add: enc_x5t_def blob_members_def)

lemma common_members_ok: "wf_fields L j \<Longrightarrow> common_members j = Inr (common_list j)"
  by (simp add: wf_fields_def common_members_def common_list_def enc_x5c_ok [of L] enc_x5t_ok)

lemma dec_cert: "wf_cert L c \<Longrightarrow> dec_method (Certificate_UnmarshalJSON L) (cert_json c) = Fine c"
proof (cases c)
  case (Some x)
  assume wf: "wf_cert L c"
  have "unmarshalJSONBlob (CHR 0x22 # b64_encode StdEncoding (cert_Raw x) @ [CHR 0x22]) StdEncoding
      = Inr (cert_Raw x)"
    using wf Some DecodedLen_Std [of "length (cert_Raw x)"]
    by (intro unmarshal_marshal_enc) (auto simp: wf_cert_def)
  with wf Some show ?thesis
    by (simp add: dec_method_def cert_json_def Certificate_UnmarshalJSON_def wf_cert_def)
qed (simp add: wf_cert_def)

lemma dec_elems_certs:
  "list_all (wf_cert L) cs \<Longrightarrow> dec_elems (dec_method (Certificate_UnmarshalJSON L)) (map cert_json cs) = Fine cs"
  by (induction cs) (simp_all add: dec_cert)

lemma decode_x5c [dec_simps]:
  assumes "map_of fs ''x5c'' = Some (set_list (dec_method (Certificate_UnmarshalJSON L)) get upd)"
    "list_all (wf_cert L) cs" "cs = [] \<Longrightarrow> upd (\<lambda>_. []) st = st"
  shows "decode_members fs (x5c_members cs @ ms) b st = decode_members fs ms b (upd (\<lambda>_. cs) st)"
  unfolding x5c_members_def using assms(3)
  by (intro decode_omit_list [OF assms(1) _ dec_elems_certs [OF assms(2)]]) simp_all

lemma decode_x5t [dec_simps]:
  assumes "map_of fs n = Some (set_ptr Fingerprint_UnmarshalJSON upd)" "ascii n"
    "pred_option (\<lambda>d. length d = 20) x" and "x = None \<Longrightarrow> upd (\<lambda>_. None) st = st"
  shows "decode_members fs (blob_members n x @ ms) b st = decode_members fs ms b (upd (\<lambda>_. x) st)"
proof (cases x)
  case (Some d)
  then have "Fingerprint_UnmarshalJSON (CHR 0x22 # b64_encode RawURLEncoding d @ [CHR 0x22]) = Inr d"
    using assms(3) by (auto simp: Fingerprint_UnmarshalJSON_def unmarshal_marshal_blob MaxBlobSize_def
        intro!: unmarshal_marshal_blob)
  with Some assms show ?thesis
    by (simp add: blob_members_def decode_member set_ptr_def dec_ptr_def dec_method_def)
qed (use assms in \<open>simp add: blob_members_def\<close>)

lemma decode_big [dec_simps]:
  assumes "map_of fs n = Some (set_method BigNum_UnmarshalJSON upd)" "ascii n" "wf_big x"
  shows "decode_members fs (big_member n x # ms) b st = decode_members fs ms b (upd (\<lambda>_. x) st)"
  using assms BigNum_UnmarshalJSON_marshalled [of x]
  by (simp add: big_member_def decode_member set_method_def dec_method_def)

lemma decode_blob_value [dec_simps]:
  assumes "map_of fs n = Some (set_method Blob_UnmarshalJSON upd)" "ascii n" "x \<noteq> []" "length x \<le> MaxBlobSize"
  shows "decode_members fs (blob_members n (Some x) @ ms) b st = decode_members fs ms b (upd (\<lambda>_. x) st)"
  using assms
  by (simp add: blob_members_def decode_member set_method_def dec_method_def Blob_UnmarshalJSON_def unmarshal_marshal_blob)

section \<open>The key type\<close>

text \<open>The first pass over a document looks at \<open>kty\<close> only.\<close>

definition other_name :: "string \<Rightarrow> bool" where
  "other_name n \<longleftrightarrow> ascii n \<and> n \<noteq> ''kty'' \<and> fold_name n \<noteq> fold_name ''kty''"

lemma other_names [simp]:
  "other_name ''use''" "other_name ''key_ops''" "other_name ''alg''" "other_name ''kid''" "other_name ''x5c''"
  "other_name ''x5t''" "other_name ''n''" "other_name ''e''" "other_name ''d''" "other_name ''p''"
  "other_name ''q''" "other_name ''dp''" "other_name ''dq''" "other_name ''qi''" "other_name ''crv''"
  "other_name ''x''" "other_name ''y''" "other_name ''k''"
  by code_simp+

lemma kty_skip: "other_name n \<Longrightarrow> decode_members kty_only (jmember n v # ms) b st = decode_members kty_only ms b st"
  by (auto simp: kty_only_def jmember_def other_name_def unquote_quote_ascii_name find_field_def)

lemma kty_skips [simp]:
  "other_name n \<Longrightarrow> decode_members kty_only (omit_str n s @ ms) b st = decode_members kty_only ms b st"
  "other_name n \<Longrightarrow> decode_members kty_only (omit_list n f xs @ ms) b st = decode_members kty_only ms b st"
  "other_name n \<Longrightarrow> decode_members kty_only (blob_members n x @ ms) b st = decode_members kty_only ms b st"
  "other_name n \<Longrightarrow> decode_members kty_only (big_member n y # ms) b st = decode_members kty_only ms b st"
  "other_name n \<Longrightarrow> decode_members kty_only (jmember n v # ms) b st = decode_members kty_only ms b st"
  by (simp_all add: omit_str_def omit_list_def blob_members_def big_member_def kty_skip split: option.split)

lemma kty_skip_common [simp]:
  "decode_members kty_only (common_list j @ ms) b st = decode_members kty_only ms b st"
  by (simp add: common_list_def x5c_members_def)

lemma kty_found [simp]:
  "utf8_valid kty \<Longrightarrow> decode_members kty_only (jmember ''kty'' (jstring kty) # ms) b st = decode_members kty_only ms b kty"
  by (subst decode_str [of _ _ id "\<lambda>f. f"]) (simp_all add: kty_only_def)

lemma members_ok_common [simp]: "list_all (member_ok (Suc 0)) (common_list j)"
proof -
  have "list_all (member_ok (Suc 0)) (x5c_members (KeyX5C j))"
    unfolding x5c_members_def by (rule members_ok_omit_list) (simp add: cert_json_def split: option.splits)
  then show ?thesis by (simp add: common_list_def)
qed

lemma member_ok_big [simp]: "member_ok d (big_member n b)"
  by (simp add: big_member_def)

section \<open>The tables\<close>

definition rsa_table :: "'l jose_lib_scheme \<Rightarrow> (err, Kty \<times> PrivateRsaKey) fields" where
  "rsa_table L = kty_field @ common_fields L @ rsa_public_fields @ rsa_private_fields"

definition ec_table :: "'l jose_lib_scheme \<Rightarrow> (err, Kty \<times> PrivateEcKey) fields" where
  "ec_table L = kty_field @ common_fields L @ ec_public_fields @ ec_private_fields"

definition oct_table :: "'l jose_lib_scheme \<Rightarrow> (err, Kty \<times> OctSecretKey) fields" where
  "oct_table L = common_fields L @ oct_fields @ kty_field"

lemma rsa_table_lookup [dec_simps]:
  "map_of (rsa_table L) ''use'' = Some (set_str (KeyUse \<circ> snd) (apsnd \<circ> KeyUse_update))"
  "map_of (rsa_table L) ''key_ops'' = Some (set_list dec_str_elem (KeyOps \<circ> snd) (apsnd \<circ> KeyOps_update))"
  "map_of (rsa_table L) ''alg'' = Some (set_str (KeyAlg \<circ> snd) (apsnd \<circ> KeyAlg_update))"
  "map_of (rsa_table L) ''kid'' = Some (set_str (KeyKid \<circ> snd) (apsnd \<circ> KeyKid_update))"
  "map_of (rsa_table L) ''x5c'' = Some (set_list (dec_method (Certificate_UnmarshalJSON L)) (KeyX5C \<circ> snd) (apsnd \<circ> KeyX5C_update))"
  "map_of (rsa_table L) ''x5t'' = Some (set_ptr Fingerprint_UnmarshalJSON (apsnd \<circ> KeyX5T_update))"
  "map_of (rsa_table L) ''kty'' = Some (set_str fst apfst)"
  "map_of (rsa_table L) ''n'' = Some (set_method BigNum_UnmarshalJSON (apsnd \<circ> rsaN_update))"
  "map_of (rsa_table L) ''e'' = Some (set_method BigNum_UnmarshalJSON (apsnd \<circ> rsaE_update))"
  "map_of (rsa_table L) ''d'' = Some (set_method BigNum_UnmarshalJSON (apsnd \<circ> rsaD_update))"
  "map_of (rsa_table L) ''p'' = Some (set_method BigNum_UnmarshalJSON (apsnd \<circ> rsaP_update))"
  "map_of (rsa_table L) ''q'' = Some (set_method BigNum_UnmarshalJSON (apsnd \<circ> rsaQ_update))"
  "map_of (rsa_table L) ''dp'' = Some (set_method BigNum_UnmarshalJSON (apsnd \<circ> rsaDp_update))"
  "map_of (rsa_table L) ''dq'' = Some (set_method BigNum_UnmarshalJSON (apsnd \<circ> rsaDq_update))"
  "map_of (rsa_table L) ''qi'' = Some (set_method BigNum_UnmarshalJSON (apsnd \<circ> rsaQi_update))"
  by (simp_all add: rsa_table_def kty_field_def common_fields_def rsa_public_fields_def rsa_private_fields_def)

lemma ec_table_lookup [dec_simps]:
  "map_of (ec_table L) ''use'' = Some (set_str (KeyUse \<circ> snd) (apsnd \<circ> KeyUse_update))"
  "map_of (ec_table L) ''key_ops'' = Some (set_list dec_str_elem (KeyOps \<circ> snd) (apsnd \<circ> KeyOps_update))"
  "map_of (ec_table L) ''alg'' = Some (set_str (KeyAlg \<circ> snd) (apsnd \<circ> KeyAlg_update))"
  "map_of (ec_table L) ''kid'' = Some (set_str (KeyKid \<circ> snd) (apsnd \<circ> KeyKid_update))"
  "map_of (ec_table L) ''x5c'' = Some (set_list (dec_method (Certificate_UnmarshalJSON L)) (KeyX5C \<circ> snd) (apsnd \<circ> KeyX5C_update))"
  "map_of (ec_table L) ''x5t'' = Some (set_ptr Fingerprint_UnmarshalJSON (apsnd \<circ> KeyX5T_update))"
  "map_of (ec_table L) ''kty'' = Some (set_str fst apfst)"
  "map_of (ec_table L) ''crv'' = Some (set_str (ecCrv \<circ> snd) (apsnd \<circ> ecCrv_update))"
  "map_of (ec_table L) ''x'' = Some (set_method BigNum_UnmarshalJSON (apsnd \<circ> ecX_update))"
  "map_of (ec_table L) ''y'' = Some (set_method BigNum_UnmarshalJSON (apsnd \<circ> ecY_update))"
  "map_of (ec_table L) ''d'' = Some (set_method BigNum_UnmarshalJSON (apsnd \<circ> ecD_update))"
  by (simp_all add: ec_table_def kty_field_def common_fields_def ec_public_fields_def ec_private_fields_def)

lemma oct_table_lookup [dec_simps]:
  "map_of (oct_table L) ''use'' = Some (set_str (KeyUse \<circ> snd) (apsnd \<circ> KeyUse_update))"
  "map_of (oct_table L) ''key_ops'' = Some (set_list dec_str_elem (KeyOps \<circ> snd) (apsnd \<circ> KeyOps_update))"
  "map_of (oct_table L) ''alg'' = Some (set_str (KeyAlg \<circ> snd) (apsnd \<circ> KeyAlg_update))"
  "map_of (oct_table L) ''kid'' = Some (set_str (KeyKid \<circ> snd) (apsnd \<circ> KeyKid_update))"
  "map_of (oct_table L) ''x5c'' = Some (set_list (dec_method (Certificate_UnmarshalJSON L)) (KeyX5C \<circ> snd) (apsnd \<circ> KeyX5C_update))"
  "map_of (oct_table L) ''x5t'' = Some (set_ptr Fingerprint_UnmarshalJSON (apsnd \<circ> KeyX5T_update))"
  "map_of (oct_table L) ''kty'' = Some (set_str fst apfst)"
  "map_of (oct_table L) ''k'' = Some (set_method Blob_UnmarshalJSON (apsnd \<circ> octK_update))"
  by (simp_all add: oct_table_def kty_field_def common_fields_def oct_fields_def)

lemma rsa_decode_public:
  assumes "wf_fields L k" "wf_big (rsaN k)" "wf_big (rsaE k)"
  shows "decode_members (rsa_table L) (common_list k @ [big_member ''n'' (rsaN k), big_member ''e'' (rsaE k),
      jmember ''kty'' (jstring KtyRSA)]) False ([], zero_PrivateRsaKey)
    = Fine (KtyRSA, zero_PrivateRsaKey\<lparr>KeyUse := KeyUse k, KeyOps := KeyOps k, KeyAlg := KeyAlg k, KeyKid := KeyKid k,
        KeyX5C := KeyX5C k, KeyX5T := KeyX5T k, rsaN := rsaN k, rsaE := rsaE k\<rparr>)"
  using assms by (simp add: wf_fields_def common_list_def zero_PrivateRsaKey_def dec_simps)

lemma rsa_decode_private:
  assumes "wf_fields L k" "wf_big (rsaN k)" "wf_big (rsaE k)" "wf_big (rsaD k)" "wf_big (rsaP k)" "wf_big (rsaQ k)"
    "wf_big (rsaDp k)" "wf_big (rsaDq k)" "wf_big (rsaQi k)"
  shows "decode_members (rsa_table L) (jmember ''kty'' (jstring KtyRSA) # common_list k @
      [big_member ''n'' (rsaN k), big_member ''e'' (rsaE k), big_member ''d'' (rsaD k), big_member ''p'' (rsaP k),
       big_member ''q'' (rsaQ k), big_member ''dp'' (rsaDp k), big_member ''dq'' (rsaDq k), big_member ''qi'' (rsaQi k)])
      False ([], zero_PrivateRsaKey) = Fine (KtyRSA, k)"
  using assms by (simp add: wf_fields_def common_list_def zero_PrivateRsaKey_def dec_simps)

lemma ec_decode_public:
  assumes "wf_fields L k" "utf8_valid (ecCrv k)" "wf_big (ecX k)" "wf_big (ecY k)"
  shows "decode_members (ec_table L) (common_list k @ [jmember ''crv'' (jstring (ecCrv k)), big_member ''x'' (ecX k),
      big_member ''y'' (ecY k), jmember ''kty'' (jstring KtyEC)]) False ([], zero_PrivateEcKey)
    = Fine (KtyEC, zero_PrivateEcKey\<lparr>KeyUse := KeyUse k, KeyOps := KeyOps k, KeyAlg := KeyAlg k, KeyKid := KeyKid k,
        KeyX5C := KeyX5C k, KeyX5T := KeyX5T k, ecCrv := ecCrv k, ecX := ecX k, ecY := ecY k\<rparr>)"
  using assms by (simp add: wf_fields_def common_list_def zero_PrivateEcKey_def dec_simps)

lemma ec_decode_private:
  assumes "wf_fields L k" "utf8_valid (ecCrv k)" "wf_big (ecX k)" "wf_big (ecY k)" "wf_big (ecD k)"
  shows "decode_members (ec_table L) (jmember ''kty'' (jstring KtyEC) # common_list k @
      [jmember ''crv'' (jstring (ecCrv k)), big_member ''x'' (ecX k), big_member ''y'' (ecY k), big_member ''d'' (ecD k)])
      False ([], zero_PrivateEcKey) = Fine (KtyEC, k)"
  using assms by (simp add: wf_fields_def common_list_def zero_PrivateEcKey_def dec_simps)

lemma oct_decode:
  assumes "wf_fields L k" "octK k \<noteq> []" "length (octK k) \<le> MaxBlobSize"
  shows "decode_members (oct_table L) (common_list k @ blob_members ''k'' (Some (octK k)) @
      [jmember ''kty'' (jstring KtyOct)]) False ([], zero_OctSecretKey) = Fine (KtyOct, k)"
  using assms by (simp add: wf_fields_def common_list_def zero_OctSecretKey_def dec_simps)

section \<open>Whole keys\<close>

text \<open>Keys whose members the encoder accepts and the decoder's size bounds admit.\<close>

definition encodable :: "'l jose_lib_scheme \<Rightarrow> Jwk \<Rightarrow> bool" where
  "encodable L j \<longleftrightarrow> wf_fields L (jwk_get j) \<and> (case j of
     RsaPub k \<Rightarrow> list_all wf_big [rsaN k, rsaE k]
   | RsaPriv k \<Rightarrow> list_all wf_big [rsaN k, rsaE k, rsaD k, rsaP k, rsaQ k, rsaDp k, rsaDq k, rsaQi k]
   | EcPub k \<Rightarrow> utf8_valid (ecCrv k) \<and> list_all wf_big [ecX k, ecY k]
   | EcPriv k \<Rightarrow> utf8_valid (ecCrv k) \<and> list_all wf_big [ecX k, ecY k, ecD k]
   | Oct k \<Rightarrow> octK k \<noteq> [] \<and> length (octK k) \<le> MaxBlobSize)"

lemma wf_fields_truncate [simp]: "wf_fields L (jwkFields.truncate k) = wf_fields L k"
  by (simp add: wf_fields_def)

lemma UnmarshalJwk_text:
  assumes "list_all (member_ok 1) ms" "decode_members kty_only ms False [] = Fine kty" "jwk_of_kty L kty (JObj ms) = Inr j"
  shows "UnmarshalJwk L (json_print (JObj ms)) = (if length (json_print (JObj ms)) \<le> MaxJwksSize
    then Inr j else Inl (Jose jose_error.ErrInputTooLarge))"
proof -
  have "json_parse (json_print (JObj ms)) = Some (JObj ms)"
    using assms(1) by (rule json_parse_object) (simp add: max_nesting_def)
  with assms(2,3) show ?thesis
    by (simp add: UnmarshalJwk_def dec_result_def decode_struct_def del: json_print.simps)
qed

lemma BitLen_pos: "0 < n \<Longrightarrow> BitLen n \<noteq> 0"
  using BitLen_le_iff [of n 0] by simp

lemma rsa_public_kty:
  assumes "wf_Jwk L (RsaPub k)" "encodable L (RsaPub k)"
  shows "jwk_of_kty L KtyRSA (JObj (common_list k @ [big_member ''n'' (rsaN k), big_member ''e'' (rsaE k),
      jmember ''kty'' (jstring KtyRSA)])) = Inr (RsaPub k)"
proof -
  let ?k = "zero_PrivateRsaKey\<lparr>KeyUse := KeyUse k, KeyOps := KeyOps k, KeyAlg := KeyAlg k, KeyKid := KeyKid k,
        KeyX5C := KeyX5C k, KeyX5T := KeyX5T k, rsaN := rsaN k, rsaE := rsaE k\<rparr>"
  have "check_rsa L ?k = Inr ()"
    using assms(1) by (auto simp: check_rsa_ok wf_Jwk_def jwk_get_def certified_def consistent_def
        split: list.splits option.splits)
  moreover have "PublicRsaKey.truncate ?k = k"
    by (cases k) (simp add: PublicRsaKey.truncate_def zero_PrivateRsaKey_def)
  moreover have "BitLen (rsaD ?k) = 0" by (simp add: zero_PrivateRsaKey_def BitLen.simps)
  ultimately show ?thesis
    using rsa_decode_public [of L k] assms(2)
    by (simp add: jwk_of_kty_def PrivateRsaKey_UnmarshalJSON_def unmarshal_key_def decode_struct_def dec_result_def
        encodable_def jwk_get_def flip: rsa_table_def)
qed

lemma rsa_private_kty:
  assumes "wf_Jwk L (RsaPriv k)" "encodable L (RsaPriv k)"
  shows "jwk_of_kty L KtyRSA (JObj (jmember ''kty'' (jstring KtyRSA) # common_list k @
      [big_member ''n'' (rsaN k), big_member ''e'' (rsaE k), big_member ''d'' (rsaD k), big_member ''p'' (rsaP k),
       big_member ''q'' (rsaQ k), big_member ''dp'' (rsaDp k), big_member ''dq'' (rsaDq k), big_member ''qi'' (rsaQi k)]))
    = Inr (RsaPriv k)"
proof -
  have "check_rsa L k = Inr ()"
    using assms(1) by (auto simp: check_rsa_ok wf_Jwk_def jwk_get_def certified_def split: list.splits option.splits)
  moreover have "BitLen (rsaD k) \<noteq> 0" using assms(1) by (simp add: wf_Jwk_def BitLen_pos)
  ultimately show ?thesis
    using rsa_decode_private [of L k] assms(2)
    by (simp add: jwk_of_kty_def PrivateRsaKey_UnmarshalJSON_def unmarshal_key_def decode_struct_def dec_result_def
        encodable_def jwk_get_def flip: rsa_table_def)
qed

lemma ec_public_kty:
  assumes "wf_Jwk L (EcPub k)" "encodable L (EcPub k)"
  shows "jwk_of_kty L KtyEC (JObj (common_list k @ [jmember ''crv'' (jstring (ecCrv k)), big_member ''x'' (ecX k),
      big_member ''y'' (ecY k), jmember ''kty'' (jstring KtyEC)])) = Inr (EcPub k)"
proof -
  let ?k = "zero_PrivateEcKey\<lparr>KeyUse := KeyUse k, KeyOps := KeyOps k, KeyAlg := KeyAlg k, KeyKid := KeyKid k,
        KeyX5C := KeyX5C k, KeyX5T := KeyX5T k, ecCrv := ecCrv k, ecX := ecX k, ecY := ecY k\<rparr>"
  have "check_ec L ?k = Inr ()"
    using assms(1) by (auto simp: check_ec_ok wf_Jwk_def jwk_get_def certified_def consistent_def
        split: list.splits option.splits cert_key.splits)
  moreover have "PublicEcKey.truncate ?k = k"
    by (cases k) (simp add: PublicEcKey.truncate_def zero_PrivateEcKey_def)
  moreover have "BitLen (ecD ?k) = 0" by (simp add: zero_PrivateEcKey_def BitLen.simps)
  ultimately show ?thesis
    using ec_decode_public [of L k] assms(2)
    by (simp add: jwk_of_kty_def PrivateEcKey_UnmarshalJSON_def unmarshal_key_def decode_struct_def dec_result_def
        encodable_def jwk_get_def flip: ec_table_def)
qed

lemma ec_private_kty:
  assumes "wf_Jwk L (EcPriv k)" "encodable L (EcPriv k)"
  shows "jwk_of_kty L KtyEC (JObj (jmember ''kty'' (jstring KtyEC) # common_list k @
      [jmember ''crv'' (jstring (ecCrv k)), big_member ''x'' (ecX k), big_member ''y'' (ecY k), big_member ''d'' (ecD k)]))
    = Inr (EcPriv k)"
proof -
  have "check_ec L k = Inr ()"
    using assms(1) by (auto simp: check_ec_ok wf_Jwk_def jwk_get_def certified_def
        split: list.splits option.splits cert_key.splits)
  moreover have "BitLen (ecD k) \<noteq> 0" using assms(1) by (simp add: wf_Jwk_def BitLen_pos)
  ultimately show ?thesis
    using ec_decode_private [of L k] assms(2)
    by (simp add: jwk_of_kty_def PrivateEcKey_UnmarshalJSON_def unmarshal_key_def decode_struct_def dec_result_def
        encodable_def jwk_get_def flip: ec_table_def)
qed

lemma oct_kty:
  assumes "wf_Jwk L (Oct k)" "encodable L (Oct k)"
  shows "jwk_of_kty L KtyOct (JObj (common_list k @ blob_members ''k'' (Some (octK k)) @
      [jmember ''kty'' (jstring KtyOct)])) = Inr (Oct k)"
  using oct_decode [of L k] assms
  by (simp add: jwk_of_kty_def OctSecretKey_UnmarshalJSON_def unmarshal_key_def decode_struct_def dec_result_def
        encodable_def jwk_get_def wf_Jwk_def CheckConsistency_consistent flip: oct_table_def)

lemma Jwk_MarshalJSON_members:
  assumes "encodable L j"
  shows "Jwk_MarshalJSON j = Inr (json_print (JObj (case j of
     RsaPub k \<Rightarrow> common_list k @ [big_member ''n'' (rsaN k), big_member ''e'' (rsaE k), jmember ''kty'' (jstring KtyRSA)]
   | RsaPriv k \<Rightarrow> jmember ''kty'' (jstring KtyRSA) # common_list k @
      [big_member ''n'' (rsaN k), big_member ''e'' (rsaE k), big_member ''d'' (rsaD k), big_member ''p'' (rsaP k),
       big_member ''q'' (rsaQ k), big_member ''dp'' (rsaDp k), big_member ''dq'' (rsaDq k), big_member ''qi'' (rsaQi k)]
   | EcPub k \<Rightarrow> common_list k @ [jmember ''crv'' (jstring (ecCrv k)), big_member ''x'' (ecX k),
      big_member ''y'' (ecY k), jmember ''kty'' (jstring KtyEC)]
   | EcPriv k \<Rightarrow> jmember ''kty'' (jstring KtyEC) # common_list k @
      [jmember ''crv'' (jstring (ecCrv k)), big_member ''x'' (ecX k), big_member ''y'' (ecY k), big_member ''d'' (ecD k)]
   | Oct k \<Rightarrow> common_list k @ blob_members ''k'' (Some (octK k)) @ [jmember ''kty'' (jstring KtyOct)])))"
  using assms
  by (cases j) (simp_all add: encodable_def jwk_get_def Jwk_MarshalJSON_def PublicRsaKey_MarshalJSON_def
      PrivateRsaKey_MarshalJSON_def PublicEcKey_MarshalJSON_def PrivateEcKey_MarshalJSON_def
      OctSecretKey_MarshalJSON_def enc_seq_def kty_member_def rsa_public_members_def ec_public_members_def
      common_members_ok [of L] enc_bignum_ok enc_blob_ok wf_blob_def del: json_print.simps)

lemma key_text:
  assumes "Jwk_MarshalJSON j = Inr (json_print (JObj ms))" "list_all (member_ok 1) ms"
    "decode_members kty_only ms False [] = Fine kty" "jwk_of_kty L kty (JObj ms) = Inr j"
  shows "\<exists>t. Jwk_MarshalJSON j = Inr t \<and> UnmarshalJwk L t =
    (if length t \<le> MaxJwksSize then Inr j else Inl (Jose jose_error.ErrInputTooLarge))"
  using assms(1) UnmarshalJwk_text [OF assms(2-4)] by (intro exI conjI)

lemma Jwk_token_roundtrip:
  assumes "wf_Jwk L j" "encodable L j"
  shows "\<exists>t. Jwk_MarshalJSON j = Inr t \<and> UnmarshalJwk L t =
    (if length t \<le> MaxJwksSize then Inr j else Inl (Jose jose_error.ErrInputTooLarge))"
proof -
  note m = Jwk_MarshalJSON_members [OF assms(2)]
  show ?thesis
  proof (cases j)
    case (RsaPub k)
    with assms m show ?thesis
      unfolding RsaPub by (intro key_text [OF _ _ _ rsa_public_kty]) (simp_all del: json_print.simps)
  next
    case (RsaPriv k)
    with assms m show ?thesis
      unfolding RsaPriv by (intro key_text [OF _ _ _ rsa_private_kty]) (simp_all del: json_print.simps)
  next
    case (EcPub k)
    with assms m show ?thesis
      unfolding EcPub by (intro key_text [OF _ _ _ ec_public_kty]) (simp_all del: json_print.simps)
  next
    case (EcPriv k)
    with assms m show ?thesis
      unfolding EcPriv by (intro key_text [OF _ _ _ ec_private_kty]) (simp_all del: json_print.simps)
  next
    case (Oct k)
    with assms m show ?thesis
      unfolding Oct by (intro key_text [OF _ _ _ oct_kty]) (simp_all del: json_print.simps)
  qed
qed

lemma Jwk_MarshalJSON_object:
  assumes "encodable L j"
  shows "\<exists>ms. list_all (member_ok 1) ms \<and> Jwk_MarshalJSON j = Inr (json_print (JObj ms))"
  unfolding Jwk_MarshalJSON_members [OF assms]
  using assms by (cases j; intro exI conjI, rule_tac [2] refl) (simp_all add: encodable_def jwk_get_def del: json_print.simps)

section \<open>Properties\<close>

text \<open>A concrete key, and a library that parses no certificate.\<close>

definition no_x509 :: jose_lib where
  "no_x509 = \<lparr>ParseCertificate = (\<lambda>_. None), SHA1 = (\<lambda>_. replicate 20 CHR 0x00)\<rparr>"

definition demo_ec :: Jwk where
  "demo_ec = EcPub \<lparr>KeyUse = [], KeyOps = [''verify''], KeyAlg = ''ES256'', KeyKid = ''k1'', KeyX5C = [],
     KeyX5T = None, ecCrv = ''P-256'', ecX = 258, ecY = 3\<rparr>"

lemma demo_ec_wf: "wf_Jwk no_x509 demo_ec"
  by (simp add: wf_Jwk_def demo_ec_def jwk_get_def consistent_def parsed_def certified_def maxKeyOps_def)

lemma big_Bytes_demo: "big_Bytes 258 = [CHR 0x01, CHR 0x02]" "big_Bytes 3 = [CHR 0x03]"
  by code_simp+

lemma demo_ec_encodable: "encodable no_x509 demo_ec"
  by (simp add: encodable_def demo_ec_def jwk_get_def wf_fields_def wf_big_def big_Bytes_demo MaxBlobSize_def)

lemma demo_ec_text: "case_sum (\<lambda>_. 10000) length (Jwk_MarshalJSON demo_ec) < 200"
  unfolding Jwk_MarshalJSON_members [OF demo_ec_encodable] by code_simp

lemma demo_ec_size: "Jwk_MarshalJSON demo_ec = Inr t \<Longrightarrow> length t \<le> MaxJwksSize"
  using demo_ec_text by (simp add: MaxJwksSize_def)

lemma demo_ec_read: "\<exists>t. Jwk_MarshalJSON demo_ec = Inr t \<and> UnmarshalJwk no_x509 t = Inr demo_ec"
  using Jwk_token_roundtrip [OF demo_ec_wf demo_ec_encodable] demo_ec_size by auto

text \<open>
  C18: every well-formed key of the five types whose members are encodable is marshalled without
  error, and the document, unless it exceeds the size bound, is read back by \<open>UnmarshalJwk\<close> as the
  same key: private keys stay private, public keys public.
\<close>

theorem Jwk_roundtrip:
  assumes "wf_Jwk L j" "encodable L j"
  shows "\<exists>t. Jwk_MarshalJSON j = Inr t \<and> UnmarshalJwk L t =
    (if length t \<le> MaxJwksSize then Inr j else Inl (Jose jose_error.ErrInputTooLarge))"
  using assms by (rule Jwk_token_roundtrip)

theorem Jwk_roundtrip_witness:
  "\<exists>t. Jwk_MarshalJSON demo_ec = Inr t \<and> UnmarshalJwk no_x509 t = Inr demo_ec"
  using Jwk_roundtrip [OF demo_ec_wf demo_ec_encodable] demo_ec_size by auto

text \<open>
  C19: whatever document \<open>UnmarshalJwk\<close> accepts, the key it returns has at most 64 distinct
  operations, only parsed certificates, a 20-octet fingerprint that is the SHA-1 of the leaf
  certificate, a leaf that certifies exactly the key's own public numbers, and is returned as a
  private key only with a non-zero private exponent.
\<close>

theorem UnmarshalJwk_sound:
  assumes "UnmarshalJwk L reader = Inr j"
  shows "wf_Jwk L j"
  using assms by (rule UnmarshalJwk_wf)

theorem UnmarshalJwk_sound_witness: "wf_Jwk no_x509 demo_ec"
proof -
  obtain t where "UnmarshalJwk no_x509 t = Inr demo_ec" using demo_ec_read by blast
  then show ?thesis by (rule UnmarshalJwk_sound)
qed

text \<open>
  C25: parsing a JWK never panics, whatever the document and whatever the certificate parser
  answers: the nil-certificate dereference of the consistency check is unreachable from it.
\<close>

theorem UnmarshalJwk_no_panic: "UnmarshalJwk L reader \<noteq> Inl (GoPanic m)"
  using UnmarshalJwk_errors [of L reader "GoPanic m"] by (auto simp: no_panic_def)

text \<open>
  The linear consistency check accepts exactly the keys of the reference definition: at most 64
  pairwise distinct operations and a fingerprint, when there are both, equal to the digest of a
  present leaf certificate.
\<close>

theorem CheckConsistency_reference: "CheckConsistency L j = Inr () \<longleftrightarrow> consistent L j"
  by (rule CheckConsistency_consistent)

text \<open>
  Decoding a key set appends to the keys already there, in document order, and every key it
  adds is well formed; one malformed key rejects the whole set.
\<close>

theorem Jwks_UnmarshalJSON_sound:
  assumes "Jwks_UnmarshalJSON L data keys = Inr keys'"
  shows "take (length keys) keys' = keys \<and> list_all (wf_Jwk L) (drop (length keys) keys')"
proof -
  obtain ks blobs where "keys' = keys @ ks" "rmap (\<lambda>blob. UnmarshalJwk L (json_print blob)) blobs = Inr ks"
    using assms by (auto simp: Jwks_UnmarshalJSON_def split: if_splits)
  then show ?thesis
    by (auto simp: rmap_Inr_iff list_all_length list_all2_conv_all_nth UnmarshalJwk_wf)
qed

theorem Jwks_UnmarshalJSON_sound_witness:
  "take 1 [demo_ec] = [demo_ec] \<and> list_all (wf_Jwk no_x509) (drop 1 [demo_ec])"
proof -
  have "Jwks_UnmarshalJSON no_x509 ''{}'' [demo_ec] = Inr [demo_ec]"
    using json_parse_print [of "JObj []"]
    by (simp add: Jwks_UnmarshalJSON_def MaxJwksSize_def max_nesting_def decode_struct_def dec_result_def)
  from Jwks_UnmarshalJSON_sound [OF this] show ?thesis by simp
qed

end
