(* ===== verification/Helpers_Laws.thy ===== *)
theory Helpers_Laws
  imports Helpers Jwk_RoundTrip
begin

text \<open>
  Laws of \<open>helpers.go\<close>: the operation sets, what a loaded key satisfies, derived public keys and
  their identifiers, symmetric keys and the octet strings of JWE.
\<close>

section \<open>Operation sets\<close>

lemma foldl_or: "foldl (\<lambda>b x. b \<or> P x) b xs \<longleftrightarrow> b \<or> (\<exists>x \<in> set xs. P x)"
  by (induction xs arbitrary: b) auto

lemma foldl_and: "foldl (\<lambda>b x. b \<and> P x) b xs \<longleftrightarrow> b \<and> (\<forall>x \<in> set xs. P x)"
  by (induction xs arbitrary: b) auto

lemma isSubset_iff: "isSubset ops required \<longleftrightarrow> required \<noteq> [] \<and> set required \<subseteq> set ops"
  by (auto simp: isSubset_def foldl_or foldl_and)

lemma foldl_matches: "foldl (\<lambda>r b. if a = b then r @ [a] else r) r xs = r @ replicate (count_list xs a) a"
proof (induction xs arbitrary: r)
  case (Cons x xs)
  then show ?case by (simp add: replicate_app_Cons_same)
qed simp

lemma foldl_append_map: "foldl (\<lambda>r a. r @ f a) r xs = r @ concat (map f xs)"
  by (induction xs arbitrary: r) auto

lemma intersection_counts: "intersection first second = concat (map (\<lambda>a. replicate (count_list second a) a) first)"
  using foldl_append_map [of "\<lambda>a. replicate (count_list second a) a" "[]" first]
  by (simp add: intersection_def foldl_matches)

lemma set_intersection [simp]: "set (intersection first second) = set first \<inter> set second"
  by (auto simp: intersection_counts count_list_0_iff)

lemma intersection_empty_iff: "length (intersection first second) = 0 \<longleftrightarrow> set first \<inter> set second = {}"
  by (metis length_0_conv set_empty set_intersection)

lemma cloneOps_same [simp]: "cloneOps ops = ops"
  by (simp add: cloneOps_def map_nth)

text \<open>The test every key operation starts with.\<close>

lemma allowed_iff: "isSubset (intersection valid ops) [requested] \<longleftrightarrow> requested \<in> set valid \<inter> set ops"
  by (simp add: isSubset_iff)

section \<open>Loaded keys\<close>

definition rsa_in_bounds :: "nat \<Rightarrow> nat \<Rightarrow> bool" where
  "rsa_in_bounds n e \<longleftrightarrow> 2 ^ 2047 \<le> n \<and> 0 < e \<and> e < 2 ^ 32"

lemma rsa_bounds_checked:
  "\<not> (BitLen e > 32 \<or> e < 1) \<and> \<not> BitLen n < MinRsaModulusBits \<longleftrightarrow> rsa_in_bounds n e"
  by (auto simp: rsa_in_bounds_def BitLen_less_iff MinRsaModulusBits_def not_less BitLen_le_iff)

lemma exponent_exact: "rsa_in_bounds n e \<Longrightarrow> big_Int64 e = int e"
  by (rule big_Int64_small) (simp add: rsa_in_bounds_def)

definition granted :: "KeyOps list \<Rightarrow> Jwk \<Rightarrow> bool" where
  "granted required jwk \<longleftrightarrow> set required \<subseteq> set (Jwk_Ops jwk)"

lemma LoadPublicKey_RSA:
  assumes "LoadPublicKey jwk required = Inr (RsaPublic k)"
  obtains v where "jwk = RsaPub v" "rsa_in_bounds (rsaN v) (rsaE v)" "granted required jwk"
    "k = \<lparr>pub_N = rsaN v, pub_E = int (rsaE v)\<rparr>" "Jwk_Alg jwk \<in> set publicKeyAlgs"
proof (cases jwk)
  case (RsaPub v)
  with assms have b: "rsa_in_bounds (rsaN v) (rsaE v)"
    unfolding rsa_bounds_checked [symmetric] by (auto simp: LoadPublicKey_def split: if_splits)
  with assms RsaPub that show ?thesis
    by (auto simp: LoadPublicKey_def isSubset_iff granted_def exponent_exact split: if_splits)
qed (use assms in \<open>auto simp: LoadPublicKey_def split: if_splits\<close>)

lemma LoadPrivateKey_RSA:
  assumes "LoadPrivateKey C jwk required = Inr (RsaSigner k)"
  obtains v where "jwk = RsaPriv v" "rsa_in_bounds (rsaN v) (rsaE v)" "granted required jwk"
    "RsaValidate C (rsaN v) (int (rsaE v)) (rsaD v) [rsaP v, rsaQ v]"
    "RsaPrecompute C (rsaD v) [rsaP v, rsaQ v] = (rsaDp v, rsaDq v, rsaQi v)"
    "k = \<lparr>pub_N = rsaN v, pub_E = int (rsaE v), priv_D = rsaD v, priv_Primes = [rsaP v, rsaQ v],
       pre_Dp = rsaDp v, pre_Dq = rsaDq v, pre_Qinv = rsaQi v\<rparr>"
    "0 \<notin> {rsaD v, rsaP v, rsaQ v, rsaDp v, rsaDq v, rsaQi v}"
proof (cases jwk)
  case (RsaPriv v)
  with assms have b: "rsa_in_bounds (rsaN v) (rsaE v)"
    unfolding rsa_bounds_checked [symmetric] by (auto simp: LoadPrivateKey_def split: if_splits)
  show ?thesis
    using assms that [OF RsaPriv b] unfolding RsaPriv
    by (auto simp: LoadPrivateKey_def Let_def isSubset_iff granted_def exponent_exact [OF b]
        split: if_splits prod.splits)
qed (use assms in \<open>auto simp: LoadPrivateKey_def split: if_splits\<close>)

section \<open>Private to public\<close>

lemma CalculateKeyID_put [simp]: "CalculateKeyID C (jwk_put f j) = CalculateKeyID C j"
  by (cases j) (simp_all add: CalculateKeyID_def Jwk_Kty_def)

lemma CalculateKeyID_set [simp]: "CalculateKeyID C (Jwk_SetKid kid j) = CalculateKeyID C j"
  "CalculateKeyID C (Jwk_SetOps ops j) = CalculateKeyID C j" "CalculateKeyID C (Jwk_SetAlg a j) = CalculateKeyID C j"
  "CalculateKeyID C (Jwk_SetX5C cs j) = CalculateKeyID C j"
  by (simp_all add: jwk_setters)

lemma CalculateKeyID_EcPub:
  "CalculateKeyID C (EcPub k) = key_id C [''EC'', b64_encode RawURLEncoding (big_Bytes (ecX k)),
     b64_encode RawURLEncoding (big_Bytes (ecY k))]"
  by (simp add: CalculateKeyID_def Jwk_Kty_def)

text \<open>The numbers of the public key depend on the private key's numbers and algorithm only.\<close>

definition public_numbers :: "crypto_lib \<Rightarrow> Jwk \<Rightarrow> err + Jwk" where
  "public_numbers C jin = (case jin of
       RsaPriv k \<Rightarrow>
         if 0 \<in> {rsaD k, rsaQ k, rsaDq k, rsaP k, rsaDp k, rsaQi k, rsaN k, rsaE k}
         then Inl (Gose ErrInvalidKeyType)
         else Inr (RsaPub (public_rsa (rsaN k) (rsaE k)))
     | EcPriv k \<Rightarrow>
         rbind (ecdsaCurveForAlg (KeyAlg k)) (\<lambda>c.
         if ecD k = 0 then Inl (Gose ErrInvalidKeyType)
         else rbind (ecPointFromScalar C c (ecD k)) (\<lambda>(x, y).
              Inr (EcPub (public_ec (curve_Name c) x y))))
     | _ \<Rightarrow> Inl (Gose gose_error.ErrUnsupportedKeyType))"

lemma PublicFromPrivate_numbers:
  "PublicFromPrivate C jin = rbind (public_numbers C jin) (\<lambda>out. Inr (public_metadata jin out))"
  by (cases jin) (auto simp: PublicFromPrivate_def public_numbers_def)

lemma public_numbers_kid [simp]: "public_numbers C (Jwk_SetKid kid j) = public_numbers C j"
  by (cases j) (simp_all add: public_numbers_def Jwk_SetKid_def cong: if_cong)

lemma CalculateKeyID_metadata [simp]: "CalculateKeyID C (public_metadata jin out) = CalculateKeyID C out"
  by (simp add: public_metadata_def)

lemma public_metadata_fields [simp]:
  "Jwk_Kid (public_metadata jin out) = Jwk_Kid jin" "Jwk_Alg (public_metadata jin out) = Jwk_Alg jin"
  "Jwk_Ops (public_metadata jin out) = map inverse_op (Jwk_Ops jin)"
  by (simp_all add: public_metadata_def)

section \<open>Key identifiers\<close>

lemma hex_digit_inj: "hex_digit n = hex_digit m \<Longrightarrow> n mod 16 = m mod 16"
  unfolding hex_digit_def by (subst (asm) nth_eq_iff_index_eq) simp_all

lemma hex_octet_inj:
  assumes "hex_digit (of_char a div 16) = hex_digit (of_char b div 16)" "hex_digit (of_char a) = hex_digit (of_char b)"
  shows "a = b"
proof -
  let ?a = "of_char a :: nat" and ?b = "of_char b :: nat"
  have l: "?a div 16 < 16" "?b div 16 < 16"
    using nat_of_char_less_256 [of a] nat_of_char_less_256 [of b] by linarith+
  have "?a div 16 = ?b div 16" using hex_digit_inj [OF assms(1)] l by simp
  then have "?a = ?b" using hex_digit_inj [OF assms(2)] by (metis div_mult_mod_eq)
  then show ?thesis by simp
qed

lemma hex_bytes_inj: "hex_bytes xs = hex_bytes ys \<Longrightarrow> xs = ys"
proof (induction xs arbitrary: ys)
  case Nil
  then show ?case by (cases ys) (simp_all add: hex_bytes_def)
next
  case (Cons x xs)
  then show ?case by (cases ys) (auto simp: hex_bytes_def intro: hex_octet_inj)
qed

lemma count_join: "ps \<noteq> [] \<Longrightarrow> (\<And>p. p \<in> set ps \<Longrightarrow> c \<notin> set p) \<Longrightarrow> count_list (join [c] ps) c = length ps - 1"
  by (induction "[c]" ps rule: join.induct) (auto simp: count_list_0_iff)

lemma join_inj:
  assumes "join [c] ps = join [c] qs" "ps \<noteq> []" "qs \<noteq> []" "\<And>p. p \<in> set ps \<union> set qs \<Longrightarrow> c \<notin> set p"
  shows "ps = qs"
proof -
  have "length ps - 1 = length qs - 1"
    using count_join [of ps c] count_join [of qs c] assms by simp
  then have "length ps = length qs" using assms(2,3) by (cases ps; cases qs) simp_all
  moreover have "splitn c (length ps) (join [c] ps) = ps" "splitn c (length qs) (join [c] qs) = qs"
    using assms(2-4) by (intro splitn_join; auto)+
  ultimately show ?thesis using assms(1) by metis
qed

text \<open>The text a key identifier is the digest of, and the numbers it names.\<close>

definition key_id_parts :: "Jwk \<Rightarrow> bytes list" where
  "key_id_parts j = (case j of
     RsaPub k \<Rightarrow> [big_Bytes (rsaN k), big_Bytes (rsaE k)]
   | EcPub k \<Rightarrow> [big_Bytes (ecX k), big_Bytes (ecY k)]
   | Oct k \<Rightarrow> [octK k]
   | _ \<Rightarrow> [])"

definition key_id_input :: "Jwk \<Rightarrow> string" where
  "key_id_input j = join ''.'' ([''v1'', ''jwk'', Jwk_Kty j] @ map (b64_encode RawURLEncoding) (key_id_parts j))"

definition same_public_numbers :: "Jwk \<Rightarrow> Jwk \<Rightarrow> bool" where
  "same_public_numbers a b = (case (a, b) of
     (RsaPub k, RsaPub l) \<Rightarrow> rsaN k = rsaN l \<and> rsaE k = rsaE l
   | (EcPub k, EcPub l) \<Rightarrow> ecX k = ecX l \<and> ecY k = ecY l
   | (Oct k, Oct l) \<Rightarrow> octK k = octK l
   | _ \<Rightarrow> False)"

lemma CalculateKeyID_input:
  "CalculateKeyID C j = Inr i \<Longrightarrow> i = hex_bytes (Digest C SHA256_hash (key_id_input j)) \<and> key_id_parts j \<noteq> []"
  by (cases j) (auto simp: CalculateKeyID_def key_id_def key_id_input_def key_id_parts_def version1_def)

lemma big_Bytes_inj: "big_Bytes n = big_Bytes m \<Longrightarrow> n = m"
  by (metis be_nat_big_Bytes)

lemma map_encode_inj: "map (b64_encode RawURLEncoding) xs = map (b64_encode RawURLEncoding) ys \<Longrightarrow> xs = ys"
  by (erule map_injective) (metis b64_decode_encode good_RawURL injI option.inject)

lemma key_id_input_inj:
  assumes "key_id_input a = key_id_input b" "key_id_parts a \<noteq> []" "key_id_parts b \<noteq> []"
  shows "same_public_numbers a b"
proof -
  have "[''v1'', ''jwk'', Jwk_Kty a] @ map (b64_encode RawURLEncoding) (key_id_parts a)
      = [''v1'', ''jwk'', Jwk_Kty b] @ map (b64_encode RawURLEncoding) (key_id_parts b)"
    using assms(1) unfolding key_id_input_def
    by (rule join_inj) (auto simp: Jwk_Kty_def split: Jwk.splits)
  then have "Jwk_Kty a = Jwk_Kty b" "key_id_parts a = key_id_parts b" by (auto dest: map_encode_inj)
  then show ?thesis
    using assms(2,3)
    by (auto simp: same_public_numbers_def key_id_parts_def Jwk_Kty_def split: Jwk.splits dest!: big_Bytes_inj)
qed

section \<open>Octet strings\<close>

lemma nat_be_exact: "n < 256 ^ k \<Longrightarrow> be_nat (nat_be k n) = n"
  by (simp add: be_nat_nat_be)

lemma unat_64_less: "unat (w :: 64 word) < 256 ^ 8"
  using unsigned_less [of w, where 'a = nat] by simp

lemma GetALFromAAD_value: "be_nat (GetALFromAAD aad) = 8 * length aad mod 2 ^ 64"
proof -
  have "(of_nat (length aad) * 8 :: 64 word) = of_nat (8 * length aad)" by simp
  then have "unat (of_nat (length aad) * 8 :: 64 word) = 8 * length aad mod 2 ^ 64"
    by (simp only: unsigned_of_nat take_bit_eq_mod) simp
  then show ?thesis
    by (simp add: GetALFromAAD_def be_nat_nat_be)
qed

section \<open>Symmetric keys\<close>

definition gcm_key_length :: "Alg \<Rightarrow> nat option" where
  "gcm_key_length alg = (if alg = ''A128GCM'' then Some 16 else if alg = ''A192GCM'' then Some 24
     else if alg = ''A256GCM'' then Some 32 else None)"

lemma symmetricAlgs_length:
  "map_of symmetricAlgs alg = map_option (\<lambda>n. \<lparr>minLen = n, maxLen = n, confidentiality = True, integrity = True\<rparr>)
     (gcm_key_length alg)"
  by (simp add: symmetricAlgs_def gcm_key_length_def)

lemma loadSymmetricBytes_iff:
  "loadSymmetricBytes jwk required = Inr key \<longleftrightarrow>
     (\<exists>v. jwk = Oct v \<and> octK v = key \<and> granted required jwk \<and> gcm_key_length (KeyAlg v) = Some (length key))"
  by (cases jwk; cases "gcm_key_length (Jwk_Alg jwk)")
    (auto simp: loadSymmetricBytes_def symmetricAlgs_length granted_def isSubset_iff Jwk_Alg_def)

section \<open>Properties\<close>

text \<open>
  An RSA public key loaded from a JWK has a modulus of at least 2048 bits and a public exponent
  that is positive, fits 32 bits and is exactly the exponent of the JWK (the conversion through a
  64-bit integer never wraps); and every operation the caller required is among the key's
  \<open>key_ops\<close>.
\<close>

theorem LoadPublicKey_bounds:
  assumes "LoadPublicKey jwk required = Inr (RsaPublic k)"
  shows "2 ^ 2047 \<le> pub_N k \<and> 0 < pub_E k \<and> pub_E k < 2 ^ 32 \<and> set required \<subseteq> set (Jwk_Ops jwk)
    \<and> (\<exists>v. jwk = RsaPub v \<and> rsaN v = pub_N k \<and> int (rsaE v) = pub_E k)"
  using assms
  by (rule LoadPublicKey_RSA) (auto simp: rsa_in_bounds_def granted_def)

definition demo_rsa :: PrivateRsaKey where
  "demo_rsa = zero_PrivateRsaKey\<lparr>KeyOps := [''sign''], KeyAlg := ''PS256'', rsaN := 2 ^ 2047, rsaE := 65537,
     rsaD := 5, rsaP := 2, rsaQ := 2, rsaDp := 1, rsaDq := 1, rsaQi := 1\<rparr>"

definition demo_rsa_pub :: PublicRsaKey where
  "demo_rsa_pub = (public_rsa (2 ^ 2047) 65537)\<lparr>KeyOps := [''verify''], KeyAlg := ''PS256''\<rparr>"

lemma demo_bounds: "BitLen 65537 \<le> 32" "\<not> BitLen (2 ^ 2047) < 2048"
  by (simp_all only: BitLen_le_iff BitLen_less_iff) simp_all

lemma demo_rsa_pub_loads:
  "LoadPublicKey (RsaPub demo_rsa_pub) [''verify''] = Inr (RsaPublic \<lparr>pub_N = 2 ^ 2047, pub_E = 65537\<rparr>)"
  using demo_bounds
  by (simp add: LoadPublicKey_def demo_rsa_pub_def public_rsa_def zero_fields_def jwkFields.extend_def
      publicKeyAlgs_def privateKeyAlgs_def Jwk_Alg_def Jwk_Ops_def jwk_get_def jwkFields.truncate_def
      isSubset_def MinRsaModulusBits_def big_Int64_small not_less)

theorem LoadPublicKey_bounds_witness:
  "(2::nat) ^ 2047 \<le> pub_N \<lparr>pub_N = 2 ^ 2047, pub_E = 65537\<rparr> \<and> set [''verify''] \<subseteq> set (Jwk_Ops (RsaPub demo_rsa_pub))"
  using LoadPublicKey_bounds [OF demo_rsa_pub_loads] by blast

text \<open>
  An RSA private key loaded from a JWK obeys the same bounds, has passed the library's
  validation with the JWK's own numbers, and its CRT values are at once those of the JWK and those
  the library derives from the private exponent and the primes; none of its numbers is zero.
\<close>

theorem LoadPrivateKey_sound:
  assumes "LoadPrivateKey C jwk required = Inr (RsaSigner k)"
  shows "2 ^ 2047 \<le> pub_N k \<and> 0 < pub_E k \<and> pub_E k < 2 ^ 32 \<and> set required \<subseteq> set (Jwk_Ops jwk)
    \<and> RsaValidate C (pub_N k) (pub_E k) (priv_D k) (priv_Primes k)
    \<and> RsaPrecompute C (priv_D k) (priv_Primes k) = (pre_Dp k, pre_Dq k, pre_Qinv k)
    \<and> length (priv_Primes k) = 2 \<and> 0 \<notin> set (priv_D k # pre_Dp k # pre_Dq k # pre_Qinv k # priv_Primes k)"
  using assms
  by (rule LoadPrivateKey_RSA) (auto simp: rsa_in_bounds_def granted_def)

lemma demo_rsa_loads:
  "LoadPrivateKey demo_lib (RsaPriv demo_rsa) [''sign''] = Inr (RsaSigner \<lparr>pub_N = 2 ^ 2047, pub_E = 65537,
     priv_D = 5, priv_Primes = [2, 2], pre_Dp = 1, pre_Dq = 1, pre_Qinv = 1\<rparr>)"
  using demo_bounds
  by (simp add: LoadPrivateKey_def demo_rsa_def zero_PrivateRsaKey_def demo_lib_def
      privateKeyAlgs_def Jwk_Alg_def Jwk_Ops_def jwk_get_def jwkFields.truncate_def
      isSubset_def MinRsaModulusBits_def big_Int64_small not_less)

theorem LoadPrivateKey_sound_witness:
  "RsaValidate demo_lib (2 ^ 2047) 65537 5 [2, 2] \<and> RsaPrecompute demo_lib 5 [2, 2] = (1, 1, 1)"
  using LoadPrivateKey_sound [OF demo_rsa_loads] by simp

text \<open>
  The identifier given to a JWK made from a private key is the identifier of the public JWK
  derived from it, so a verifier that computes the identifier of the public half finds the key the
  signer names; and the derived public key carries the same identifier and algorithm.
\<close>

theorem JwkFromPrivateKey_kid:
  assumes "JwkFromPrivateKey C privateKey operations certs = Inr jwk"
  shows "\<exists>pub. PublicFromPrivate C jwk = Inr pub \<and> CalculateKeyID C pub = Inr (Jwk_Kid jwk)
    \<and> Jwk_Kid pub = Jwk_Kid jwk \<and> Jwk_Alg pub = Jwk_Alg jwk \<and> Jwk_Ops jwk = operations"
proof -
  obtain j kid n where j: "jwk = Jwk_SetKid kid j" "public_numbers C j = Inr n" "CalculateKeyID C n = Inr kid"
    "Jwk_Ops j = operations"
    using assms by (auto simp: JwkFromPrivateKey_def Let_def PublicFromPrivate_numbers)
  then show ?thesis by (simp add: PublicFromPrivate_numbers)
qed

theorem JwkFromPrivateKey_kid_witness:
  "\<exists>jwk pub. JwkFromPrivateKey demo_lib (EcSigner \<lparr>ec_Curve = P256, ec_X = 1, ec_Y = 1, ec_D = 1\<rparr>) [''sign''] [] = Inr jwk
    \<and> PublicFromPrivate demo_lib jwk = Inr pub \<and> CalculateKeyID demo_lib pub = Inr (Jwk_Kid jwk)"
proof -
  have "ecPointFromScalar demo_lib P256 1 = Inr (1, 1)"
    by (simp add: ecPointFromScalar_def ecdhCurveFor_def demo_lib_def curve_BitSize_def be_nat_nat_be)
  then obtain jwk where "JwkFromPrivateKey demo_lib (EcSigner \<lparr>ec_Curve = P256, ec_X = 1, ec_Y = 1, ec_D = 1\<rparr>)
    [''sign''] [] = Inr jwk"
    by (simp add: JwkFromPrivateKey_def PublicFromPrivate_numbers public_numbers_def zero_PrivateEcKey_def
        Jwk_SetOps_def curve_BitSize_def ecBitsToAlg_def ecdsaCurveForAlg_def algToOptsMap_def
        CalculateKeyID_EcPub key_id_def Let_def)
  from JwkFromPrivateKey_kid [OF this] this show ?thesis by blast
qed

text \<open>
  C34: two public or symmetric keys with the same identifier have the same key type and the same
  public numbers (respectively octets), provided SHA-256 does not collide on the two texts that
  were digested: the joined encoding of the members is unambiguous.
\<close>

theorem CalculateKeyID_binds:
  assumes "CalculateKeyID C a = Inr i" "CalculateKeyID C b = Inr i"
    "inj_on (Digest C SHA256_hash) {key_id_input a, key_id_input b}"
  shows "same_public_numbers a b"
proof -
  have a: "i = hex_bytes (Digest C SHA256_hash (key_id_input a))" "key_id_parts a \<noteq> []"
    using CalculateKeyID_input [OF assms(1)] by blast+
  have b: "i = hex_bytes (Digest C SHA256_hash (key_id_input b))" "key_id_parts b \<noteq> []"
    using CalculateKeyID_input [OF assms(2)] by blast+
  have "Digest C SHA256_hash (key_id_input a) = Digest C SHA256_hash (key_id_input b)"
    by (rule hex_bytes_inj) (simp only: a(1) [symmetric] b(1) [symmetric])
  then have "key_id_input a = key_id_input b" by (rule inj_onD [OF assms(3)]) simp_all
  then show ?thesis using a(2) b(2) by (rule key_id_input_inj)
qed

theorem CalculateKeyID_binds_witness:
  "\<exists>i. CalculateKeyID demo_lib demo_ec = Inr i \<and> CalculateKeyID demo_lib (Jwk_SetKid ''other'' demo_ec) = Inr i
    \<and> Jwk_SetKid ''other'' demo_ec \<noteq> demo_ec \<and> same_public_numbers demo_ec (Jwk_SetKid ''other'' demo_ec)"
proof -
  let ?other = "Jwk_SetKid ''other'' demo_ec"
  have ne: "?other \<noteq> demo_ec"
    by (simp add: Jwk_SetKid_def demo_ec_def put_fields_def jwk_get_def jwkFields.truncate_def jwkFields.extend_def)
  obtain i where i: "CalculateKeyID demo_lib demo_ec = Inr i" "CalculateKeyID demo_lib ?other = Inr i"
    by (simp add: CalculateKeyID_def key_id_def demo_ec_def Jwk_SetKid_def Jwk_Kty_def put_fields_def)
  with ne CalculateKeyID_binds [OF this] show ?thesis by (simp add: demo_lib_def)
qed

text \<open>
  A symmetric key can be wrapped as a JWK and loaded back, for any operations among those it
  is given, exactly when its length is the one its GCM algorithm names; loading then returns the
  same octets.
\<close>

theorem symmetric_roundtrip:
  assumes "set required \<subseteq> {''encrypt'', ''decrypt'', ''sign'', ''verify''}"
  shows "(\<exists>k. JwkFromSymmetric C key alg = Inr k \<and> loadSymmetricBytes (Oct k) required = Inr key)
    \<longleftrightarrow> (alg, length key) \<in> {(''A128GCM'', 16), (''A192GCM'', 24), (''A256GCM'', 32)}"
  using assms unfolding loadSymmetricBytes_iff
  by (cases "gcm_key_length alg")
    (auto simp: JwkFromSymmetric_def Let_def symmetricAlgs_length zero_OctSecretKey_def CalculateKeyID_def key_id_def
      granted_def Jwk_Ops_def jwk_get_def jwkFields.truncate_def gcm_key_length_def split: if_splits)

theorem symmetric_roundtrip_witness:
  "\<exists>k. JwkFromSymmetric demo_lib (replicate 16 CHR ''k'') ''A128GCM'' = Inr k
    \<and> loadSymmetricBytes (Oct k) [''encrypt''] = Inr (replicate 16 CHR ''k'')"
  by (subst symmetric_roundtrip) simp_all

text \<open>
  The length block of authenticated encryption is eight octets whose big-endian value is the
  bit length of the additional data modulo \<open>2^64\<close>, hence the exact bit length for any data a
  process can hold.
\<close>

theorem GetALFromAAD_bits:
  "length (GetALFromAAD aad) = 8 \<and> be_nat (GetALFromAAD aad) = 8 * length aad mod 2 ^ 64"
  using GetALFromAAD_value by (simp add: GetALFromAAD_def)

text \<open>
  An operation without an inverse becomes the empty operation in the derived public key. A
  private key for wrapping and unwrapping therefore yields a public key with two equal empty
  operations, which the JWK consistency check rejects.
\<close>

theorem PublicFromPrivate_wrap_ops:
  assumes "PublicFromPrivate C jwk = Inr pub" "Jwk_Ops jwk = [''wrapKey'', ''unwrapKey'']"
  shows "Jwk_Ops pub = [[], []] \<and> CheckConsistency C (jwk_get pub) = Inl (Jose ErrDuplicateKeyOps)"
proof -
  have "Jwk_Ops pub = [[], []]"
    using assms by (auto simp: PublicFromPrivate_numbers inverse_op_def inverseOps_def)
  then show ?thesis by (simp add: CheckConsistency_def Jwk_Ops_def maxKeyOps_def)
qed

theorem PublicFromPrivate_wrap_ops_witness:
  "\<exists>pub. PublicFromPrivate demo_lib (Jwk_SetOps [''wrapKey'', ''unwrapKey''] (RsaPriv demo_rsa)) = Inr pub
    \<and> Jwk_Ops pub = [[], []]"
proof -
  let ?j = "Jwk_SetOps [''wrapKey'', ''unwrapKey''] (RsaPriv demo_rsa)"
  obtain pub where "PublicFromPrivate demo_lib ?j = Inr pub"
    by (simp add: PublicFromPrivate_numbers public_numbers_def Jwk_SetOps_def demo_rsa_def)
  with PublicFromPrivate_wrap_ops [OF this] show ?thesis by simp
qed

text \<open>
  C35: every compact JWS the \<open>jose\<close> parser accepts, whatever its payload type, is accepted by \<open>LoadJws\<close>,
  which returns the same protected header, the same signing input and the same signature. A header
  segment that is the JSON literal \<open>null\<close> leaves the parser without a header and \<open>LoadJws\<close> with the
  empty one.
\<close>

theorem LoadJws_agrees:
  assumes "Jws_Unmarshal dec p0 (Some zero_JwsHeader) src = Inr (j, body)"
  shows "\<exists>l. LoadJws src = Inr l \<and> ljProtected l = (case jwsHeader j of Some h \<Rightarrow> h | None \<Rightarrow> zero_JwsHeader)
    \<and> ljPayload l = body \<and> ljSignature l = jwsSignature j"
proof -
  obtain a b where ab: "src = MarshalJws body (jwsSignature j)" "body = a @ ''.'' @ b"
    "CHR ''.'' \<notin> set a" "CHR ''.'' \<notin> set b"
    "unmarshalURLBase64 a (unmarshal_header (Some zero_JwsHeader)) = Inr (jwsHeader j)"
    "unmarshalURLBase64 b (\<lambda>v. if v = JNull then Inr None else rbind (dec v p0) (\<lambda>p. Inr (Some p)))
       = Inr (jwsPayload j)"
    using assms by (rule Jws_Unmarshal_Inr)
  have "splitn CHR ''.'' 3 src = [a, b, b64_encode RawURLEncoding (jwsSignature j)]"
    using splitn_three_iff [OF ab(3,4)] ab(1,2) by (simp add: MarshalJws_def)
  moreover obtain raw v where "b64_decode RawURLEncoding a = Some raw" "json_parse raw = Some v"
    and v: "unmarshal_header (Some zero_JwsHeader) v = Inr (jwsHeader j)"
    using ab(5) by (auto simp: unmarshalURLBase64_def split: if_splits)
  moreover have "dec_result (Std JSONType) (decode_struct jws_fields v zero_JwsHeader)
       = Inr (case jwsHeader j of Some h \<Rightarrow> h | None \<Rightarrow> zero_JwsHeader)"
  proof (cases "v = JNull")
    case True
    with v show ?thesis by (auto simp: unmarshal_header_def decode_struct_def dec_result_def split: option.split)
  next
    case False
    with v show ?thesis by (auto simp: unmarshal_header_def split: option.split)
  qed
  moreover obtain data where "b64_decode RawURLEncoding b = Some data"
    using ab(6) by (auto simp: unmarshalURLBase64_def)
  ultimately show ?thesis using ab(2) by (simp add: LoadJws_def)
qed

theorem LoadJws_agrees_witness:
  "\<exists>l. LoadJws tiny_token = Inr l \<and> ljProtected l = zero_JwsHeader \<and> ljPayload l = ''e30.e30''"
  using LoadJws_agrees [OF tiny_token_parse] by auto

end
