(* ===== verification/Keys_Laws.thy ===== *)
theory Keys_Laws
  imports Keys Helpers_Laws
begin

text \<open>
  Laws of the asymmetric keys. The locale \<open>guarded_operation\<close> is the contract of every key operation:
  it answers a request outside its captured policy with a fixed refusal, and does not read the
  JWK it keeps. It is interpreted on the five operations of \<open>Keys\<close>.
\<close>

section \<open>Authorisation\<close>

locale guarded_operation =
  fixes valid :: "KeyOps list" and ops :: "'k \<Rightarrow> KeyOps list" and relabel :: "Jwk \<Rightarrow> 'k \<Rightarrow> 'k"
    and run :: "'k \<Rightarrow> KeyOps \<Rightarrow> 'i \<Rightarrow> err + 'o" and refusal :: "err + 'o"
  assumes refused: "\<not> permits valid (ops k) requested \<Longrightarrow> run k requested x = refusal"
    and captured: "run (relabel j k) requested x = run k requested x"
begin

lemma authorised: "run k requested x \<noteq> refusal \<Longrightarrow> requested \<in> set valid \<and> requested \<in> set (ops k)"
  using refused [of k requested x] by (auto simp: permits_def allowed_iff)

lemma authorised_relabelled:
  "run (relabel j k) requested x \<noteq> refusal \<Longrightarrow> requested \<in> set valid \<and> requested \<in> set (ops k)"
  unfolding captured by (rule authorised)

end

interpretation rsa_sign: guarded_operation validSignerOps kOps "\<lambda>j. kJwk_update (\<lambda>_. j)"
    "SigningKeyImpl_Sign C rnd" "Inl (Gose ErrInvalidOperations)" for C rnd
  by unfold_locales (simp_all add: SigningKeyImpl_Sign_def)

interpretation ec_sign: guarded_operation validSignerOps kOps "\<lambda>j. kJwk_update (\<lambda>_. j)"
    "ECDSASigningKey_Sign C rnd" "Inl (Gose ErrInvalidOperations)" for C rnd
  by unfold_locales (simp_all add: ECDSASigningKey_Sign_def cong: if_cong option.case_cong Signer.case_cong)

interpretation rsa_decrypt: guarded_operation validDecryptionOps kOps "\<lambda>j. kJwk_update (\<lambda>_. j)"
    "\<lambda>k requested (h, c). RsaPrivateKeyImpl_Decrypt C k requested h c" "Inl (Gose ErrInvalidOperations)" for C
  by unfold_locales (auto simp: RsaPrivateKeyImpl_Decrypt_def)

interpretation rsa_encrypt: guarded_operation validEncryptionOps kOps "\<lambda>j. kJwk_update (\<lambda>_. j)"
    "\<lambda>k requested (h, m). RsaPublicKeyImpl_Encrypt C rnd k requested h m" "Inl (Gose ErrInvalidOperations)" for C rnd
  by unfold_locales (auto simp: RsaPublicKeyImpl_Encrypt_def)

interpretation rsa_verify: guarded_operation validVerificationOps kOps "\<lambda>j. kJwk_update (\<lambda>_. j)"
    "\<lambda>k requested (d, s). RsaPublicKeyImpl_Verify C k requested d s" "Inr False" for C
  by unfold_locales (auto simp: RsaPublicKeyImpl_Verify_def cong: if_cong option.case_cong SignerOpts.case_cong)

interpretation ec_verify: guarded_operation validVerificationOps kOps "\<lambda>j. kJwk_update (\<lambda>_. j)"
    "\<lambda>k requested (d, s). ECVerificationKeyImpl_Verify C k requested d s" "Inr False" for C
  by unfold_locales (auto simp: ECVerificationKeyImpl_Verify_def cong: if_cong option.case_cong SignerOpts.case_cong)

text \<open>A key whose JWK was changed by whoever else holds it.\<close>

definition SigningKey_relabel :: "Jwk \<Rightarrow> SigningKey \<Rightarrow> SigningKey" where
  "SigningKey_relabel j sk = (case sk of SkImpl k \<Rightarrow> SkImpl (k\<lparr>kJwk := j\<rparr>) | SkEcdsa k \<Rightarrow> SkEcdsa (k\<lparr>kJwk := j\<rparr>))"

definition VerificationKey_relabel :: "Jwk \<Rightarrow> VerificationKey \<Rightarrow> VerificationKey" where
  "VerificationKey_relabel j vk = (case vk of VkRsa k \<Rightarrow> VkRsa (k\<lparr>kJwk := j\<rparr>) | VkEc k \<Rightarrow> VkEc (k\<lparr>kJwk := j\<rparr>))"

definition SigningKey_ops :: "SigningKey \<Rightarrow> KeyOps list" where
  "SigningKey_ops sk = (case sk of SkImpl k \<Rightarrow> kOps k | SkEcdsa k \<Rightarrow> kOps k)"

definition VerificationKey_ops :: "VerificationKey \<Rightarrow> KeyOps list" where
  "VerificationKey_ops vk = (case vk of VkRsa k \<Rightarrow> kOps k | VkEc k \<Rightarrow> kOps k)"

interpretation signing: guarded_operation validSignerOps SigningKey_ops SigningKey_relabel
    "SigningKey_Sign C rnd" "Inl (Gose ErrInvalidOperations)" for C rnd
proof
  fix k :: SigningKey and requested x j
  show "\<not> permits validSignerOps (SigningKey_ops k) requested \<Longrightarrow>
      SigningKey_Sign C rnd k requested x = Inl (Gose ErrInvalidOperations)"
    by (cases k) (simp_all add: SigningKey_ops_def SigningKey_Sign_def rsa_sign.refused ec_sign.refused)
  show "SigningKey_Sign C rnd (SigningKey_relabel j k) requested x = SigningKey_Sign C rnd k requested x"
    by (cases k) (simp_all add: SigningKey_relabel_def SigningKey_Sign_def rsa_sign.captured ec_sign.captured)
qed

interpretation verification: guarded_operation validVerificationOps VerificationKey_ops VerificationKey_relabel
    "\<lambda>k requested (d, s). VerificationKey_Verify C k requested d s" "Inr False" for C
proof
  fix k :: VerificationKey and requested x j
  show "\<not> permits validVerificationOps (VerificationKey_ops k) requested \<Longrightarrow>
      (case x of (d, s) \<Rightarrow> VerificationKey_Verify C k requested d s) = Inr False"
    using rsa_verify.refused [of _ requested C x] ec_verify.refused [of _ requested C x]
    by (cases k) (simp_all add: VerificationKey_ops_def VerificationKey_Verify_def)
  show "(case x of (d, s) \<Rightarrow> VerificationKey_Verify C (VerificationKey_relabel j k) requested d s)
      = (case x of (d, s) \<Rightarrow> VerificationKey_Verify C k requested d s)"
    using rsa_verify.captured [of C j _ requested x] ec_verify.captured [of C j _ requested x]
    by (cases k) (simp_all add: VerificationKey_relabel_def VerificationKey_Verify_def)
qed

section \<open>Verification keys\<close>

definition rsa_algs :: "Alg set" where
  "rsa_algs = {AlgPS256, AlgPS384, AlgPS512, AlgRS256, AlgRS384, AlgRS512}"

definition verification_ops :: "Jwk \<Rightarrow> KeyOps list" where
  "verification_ops jwk = (if Jwk_Ops jwk \<noteq> [] then intersection validVerificationOps (Jwk_Ops jwk)
     else validVerificationOps)"

lemma NewVerificationKey_Inr:
  assumes "NewVerificationKey jwk = (jwk', Inr vk)"
  obtains (Rsa) v jwk1 where "jwk = RsaPub v" "fallback_alg jwk = Inr jwk1" "Jwk_Alg jwk1 \<in> rsa_algs"
      "rsa_in_bounds (rsaN v) (rsaE v)" "jwk' = Jwk_SetOps (verification_ops jwk) jwk1"
      "vk = VkRsa \<lparr>kJwk = jwk', kOps = verification_ops jwk, kAlg = Jwk_Alg jwk1,
         rkKey = \<lparr>pub_N = rsaN v, pub_E = int (rsaE v)\<rparr>\<rparr>" "verification_ops jwk \<noteq> []"
    | (Ec) v h n b c where "jwk = EcPub v" "jwk' = jwk"
      "map_of algToOptsMap (Jwk_Alg jwk) = Some (ECDSAOptions h n b c)"
      "vk = VkEc \<lparr>kJwk = jwk, kOps = verification_ops jwk, kAlg = Jwk_Alg jwk,
         ekKey = \<lparr>ec_Curve = c, ec_X = ecX v, ec_Y = ecY v\<rparr>\<rparr>" "verification_ops jwk \<noteq> []"
proof -
  have ops: "verification_ops jwk \<noteq> []"
    using assms by (auto simp: NewVerificationKey_def verification_ops_def validVerificationOps_def split: if_splits)
  show ?thesis
  proof (cases jwk)
    case (RsaPub v)
    then obtain jwk1 where j1: "fallback_alg jwk = Inr jwk1"
      using assms by (cases "fallback_alg jwk") (auto simp: NewVerificationKey_def Let_def split: if_splits)
    have b: "rsa_in_bounds (rsaN v) (rsaE v)"
      using assms j1 unfolding rsa_bounds_checked [symmetric] RsaPub
      by (auto simp: NewVerificationKey_def Let_def split: if_splits)
    show ?thesis
      using Rsa [OF RsaPub j1 _ b _ _ ops] assms j1 ops
      by (auto simp: NewVerificationKey_def RsaPub Let_def rsa_algs_def verification_ops_def policy_def
          key_policy.extend_def exponent_exact [OF b] split: if_splits)
  next
    case (EcPub v)
    then show ?thesis
      using Ec [OF EcPub _ _ _ ops] assms ops
      by (auto simp: NewVerificationKey_def EcPub Let_def verification_ops_def policy_def key_policy.extend_def
          split: if_splits option.splits SignerOpts.splits)
  qed (use assms in \<open>auto simp: NewVerificationKey_def Let_def split: if_splits\<close>)
qed

lemma verification_ops_only: "set (verification_ops jwk) \<subseteq> {''verify''}"
  by (auto simp: verification_ops_def validVerificationOps_def)

lemma verify_allowed: "verification_ops jwk \<noteq> [] \<Longrightarrow> permits validVerificationOps (verification_ops jwk) ''verify''"
  using verification_ops_only [of jwk]
  by (cases "verification_ops jwk") (auto simp: permits_def allowed_iff validVerificationOps_def)

lemma algToOptsMap_cases:
  assumes "map_of algToOptsMap alg = Some opts"
  shows "(opts = ECDSAOptions (HashFunc opts) 32 256 P256 \<or> opts = ECDSAOptions (HashFunc opts) 48 384 P384
      \<or> opts = ECDSAOptions (HashFunc opts) 66 521 P521) \<and> alg \<notin> rsa_algs
    \<or> (\<exists>salt. opts = PSSOptions salt (HashFunc opts)) \<and> alg \<in> set pssAlgs \<and> alg \<in> rsa_algs
    \<or> opts = HashOpts (HashFunc opts) \<and> alg \<notin> set pssAlgs \<and> alg \<in> rsa_algs"
  using assms by (auto simp: algToOptsMap_def pssAlgs_def rsa_algs_def split: if_splits)

lemma rsa_algs_mapped: "alg \<in> rsa_algs \<Longrightarrow> \<exists>opts. map_of algToOptsMap alg = Some opts"
  by (auto simp: algToOptsMap_def rsa_algs_def)

lemma ecdsa_entry:
  "map_of algToOptsMap alg = Some (ECDSAOptions h n b c) \<Longrightarrow> b = curve_BitSize c \<and> n = (curve_BitSize c + 7) div 8"
  using algToOptsMap_cases [of alg] by (fastforce simp: curve_BitSize_def)

lemma RsaPublicKeyImpl_Verify_opts:
  assumes "permits validVerificationOps (kOps k) requested" "map_of algToOptsMap (kAlg k) = Some opts"
    "kAlg k \<in> rsa_algs" "HashAvailable C (HashFunc opts)"
  shows "RsaPublicKeyImpl_Verify C k requested data sig = Inr (case opts of
     PSSOptions salt h \<Rightarrow> RsaVerifyPSS C (rkKey k) h salt (Digest C h data) sig
   | _ \<Rightarrow> RsaVerifyPKCS1v15 C (rkKey k) (HashFunc opts) (Digest C (HashFunc opts) data) sig)"
  using assms algToOptsMap_cases [OF assms(2)]
  by (auto simp: RsaPublicKeyImpl_Verify_def hash_sum_def split: SignerOpts.splits)

lemma NewVerificationKey_Ec:
  assumes "jwk = EcPub v" "map_of algToOptsMap (Jwk_Alg jwk) = Some (ECDSAOptions h n b c)" "verification_ops jwk \<noteq> []"
  shows "NewVerificationKey jwk = (jwk, Inr (VkEc \<lparr>kJwk = jwk, kOps = verification_ops jwk, kAlg = Jwk_Alg jwk,
         ekKey = \<lparr>ec_Curve = c, ec_X = ecX v, ec_Y = ecY v\<rparr>\<rparr>))"
proof -
  have "Jwk_Alg jwk \<in> {AlgES256, AlgES384, AlgES512}"
    using assms(2) by (auto simp: algToOptsMap_def split: if_splits)
  then show ?thesis
    using assms by (auto simp: NewVerificationKey_def verification_ops_def Let_def policy_def key_policy.extend_def)
qed

lemma NewVerificationKey_Rsa:
  assumes "jwk = RsaPub v" "fallback_alg jwk = Inr jwk1" "Jwk_Alg jwk1 \<in> rsa_algs" "rsa_in_bounds (rsaN v) (rsaE v)"
    "verification_ops jwk \<noteq> []"
  shows "NewVerificationKey jwk = (Jwk_SetOps (verification_ops jwk) jwk1,
    Inr (VkRsa \<lparr>kJwk = Jwk_SetOps (verification_ops jwk) jwk1, kOps = verification_ops jwk, kAlg = Jwk_Alg jwk1,
         rkKey = \<lparr>pub_N = rsaN v, pub_E = int (rsaE v)\<rparr>\<rparr>))"
proof -
  have "\<not> (BitLen (rsaE v) > 32 \<or> rsaE v < 1)" "\<not> BitLen (rsaN v) < MinRsaModulusBits"
    using assms(4) unfolding rsa_bounds_checked [symmetric] by blast+
  then show ?thesis
    using assms by (auto simp: NewVerificationKey_def verification_ops_def Let_def policy_def key_policy.extend_def
        rsa_algs_def exponent_exact)
qed

lemma count_replicate [simp]: "count_list (replicate n x) x = n"
  by (induction n) simp_all

lemma verification_ops_stable:
  "Jwk_Ops jwk' = verification_ops jwk \<Longrightarrow> verification_ops jwk \<noteq> [] \<Longrightarrow> verification_ops jwk' = verification_ops jwk"
  by (auto simp: verification_ops_def validVerificationOps_def intersection_counts)

lemma fallback_alg_Inr:
  assumes "fallback_alg (RsaPub v) = Inr jwk1"
  obtains f where "jwk1 = RsaPub (put_fields f v)"
proof -
  have "jwk1 = RsaPub v \<or> (\<exists>a. jwk1 = Jwk_SetAlg a (RsaPub v))"
    using assms by (auto simp: fallback_alg_def split: if_splits list.splits option.splits)
  then show ?thesis
    using that put_fields_self [of v] by (metis Jwk_SetAlg_def jwk_put_cases(1))
qed

section \<open>Signing keys\<close>

lemma LoadPrivateKey_RsaPriv:
  "LoadPrivateKey C (RsaPriv v) required = Inr s \<Longrightarrow> \<exists>k. s = RsaSigner k"
  by (auto simp: LoadPrivateKey_def Let_def split: if_splits prod.splits)

lemma LoadPrivateKey_EcPriv:
  "LoadPrivateKey C (EcPriv v) required = Inr s \<Longrightarrow> ecD v \<noteq> 0 \<and> granted required (EcPriv v)
     \<and> (\<exists>c. ecdsaCurveForAlg (KeyAlg v) = Inr c \<and> s = EcSigner \<lparr>ec_Curve = c, ec_X = ecX v, ec_Y = ecY v, ec_D = ecD v\<rparr>)"
  by (auto simp: LoadPrivateKey_def granted_def isSubset_iff split: if_splits)

lemma NewSigningKey_Inr:
  assumes "NewSigningKey C jwk required = Inr sk"
  obtains (Rsa) v k opts where "jwk = RsaPriv v" "LoadPrivateKey C jwk required = Inr (RsaSigner k)"
      "map_of algToOptsMap (Jwk_Alg jwk) = Some opts"
      "sk = SkImpl \<lparr>kJwk = jwk, kOps = Jwk_Ops jwk, kAlg = Jwk_Alg jwk, skKey = RsaSigner k, skCerts = Jwk_X5C jwk\<rparr>"
    | (Ec) v h n b c where "jwk = EcPriv v" "ecD v \<noteq> 0" "granted required jwk"
      "map_of algToOptsMap (Jwk_Alg jwk) = Some (ECDSAOptions h n b c)"
      "sk = SkEcdsa \<lparr>kJwk = jwk, kOps = Jwk_Ops jwk, kAlg = Jwk_Alg jwk,
        eskKey = EcSigner \<lparr>ec_Curve = c, ec_X = ecX v, ec_Y = ecY v, ec_D = ecD v\<rparr>, eskCerts = Jwk_X5C jwk\<rparr>"
proof -
  obtain s opts where s: "LoadPrivateKey C jwk required = Inr s" "map_of algToOptsMap (Jwk_Alg jwk) = Some opts"
    using assms by (auto simp: NewSigningKey_def Let_def signerOptsForAlg_def split: if_splits)
  show ?thesis
  proof (cases jwk)
    case (RsaPriv v)
    then obtain k where "s = RsaSigner k" using LoadPrivateKey_RsaPriv s(1) by blast
    then show ?thesis
      using Rsa [OF RsaPriv] assms s
      by (auto simp: NewSigningKey_def Let_def RsaPriv policy_def key_policy.extend_def split: if_splits)
  next
    case (EcPriv v)
    then show ?thesis
      using Ec [OF EcPriv] assms s LoadPrivateKey_EcPriv [of C v required s]
      by (auto simp: NewSigningKey_def Let_def EcPriv policy_def key_policy.extend_def ecdsaCurveForAlg_def
          Jwk_Alg_def split: if_splits option.splits SignerOpts.splits)
  qed (use assms s in \<open>auto simp: NewSigningKey_def Let_def split: if_splits\<close>)
qed

lemma NewRsaDecryptionKey_iff:
  "NewRsaDecryptionKey C jwk = Inr k \<longleftrightarrow> (\<exists>r. LoadPrivateKey C jwk [''decrypt''] = Inr (RsaSigner r)
     \<and> k = \<lparr>kJwk = jwk, kOps = Jwk_Ops jwk, kAlg = Jwk_Alg jwk, rpKey = r\<rparr>)"
  by (cases "LoadPrivateKey C jwk [''decrypt'']")
    (auto simp: NewRsaDecryptionKey_def policy_def key_policy.extend_def split: Signer.split)

lemma NewRsaPublicKeyImpl_iff:
  "NewRsaPublicKeyImpl jwk = Inr k \<longleftrightarrow> (\<exists>r. LoadPublicKey jwk [] = Inr (RsaPublic r)
     \<and> k = \<lparr>kJwk = jwk, kOps = Jwk_Ops jwk, kAlg = Jwk_Alg jwk, rkKey = r\<rparr>)"
  by (cases "LoadPublicKey jwk []")
    (auto simp: NewRsaPublicKeyImpl_def policy_def key_policy.extend_def split: PublicKey.split)

lemma be_nat_zeros: "be_nat (replicate k CHR 0x00 @ bs) = be_nat bs"
  by (induction k) simp_all

lemma pad_left_Inr: "pad_left n x = Inr b \<Longrightarrow> length b = n \<and> be_nat b = x"
  by (auto simp: pad_left_def Let_def be_nat_zeros split: if_splits)

section \<open>Signing and verifying\<close>

text \<open>What the library documents of its signature schemes: a signature made with a private key is
  accepted by the matching public key.\<close>

definition rsa_correct :: "crypto_lib \<Rightarrow> bool" where
  "rsa_correct C \<longleftrightarrow> (\<forall>rnd k h salt d sig.
     (RsaSignPSS C rnd k h salt d = Some sig \<longrightarrow> RsaVerifyPSS C (rsa_public.truncate k) h salt d sig)
   \<and> (RsaSignPKCS1v15 C rnd k h d = Some sig \<longrightarrow> RsaVerifyPKCS1v15 C (rsa_public.truncate k) h d sig))"

text \<open>The public key of a scalar is the point that \<open>crypto/ecdh\<close> derives from it, encoded uncompressed:
  \<open>0x04\<close>, then the two coordinates in the octet size of the curve.\<close>

definition ecdsa_correct :: "crypto_lib \<Rightarrow> bool" where
  "ecdsa_correct C \<longleftrightarrow> (\<forall>rnd k d r s pub. let n = (curve_BitSize (ec_Curve k) + 7) div 8 in
     EcdsaSign C rnd k d = Some (r, s) \<longrightarrow> EcdhPublic C (ec_Curve k) (nat_be n (ec_D k mod CurveOrder C (ec_Curve k))) = Some pub
       \<longrightarrow> (\<exists>x y. pub = CHR 0x04 # x @ y \<and> length x = n \<and> length y = n
             \<and> EcdsaVerify C \<lparr>ec_Curve = ec_Curve k, ec_X = be_nat x, ec_Y = be_nat y\<rparr> d r s))"

lemma ecdhCurveFor_Inr: "ecdhCurveFor c = Inr c' \<Longrightarrow> c' = c"
  by (cases c) (simp_all add: ecdhCurveFor_def)

lemma ecdsa_correctD:
  assumes "ecdsa_correct C" "EcdsaSign C rnd k d = Some (r, s)" "ecPointFromScalar C (ec_Curve k) (ec_D k) = Inr (x, y)"
  shows "EcdsaVerify C \<lparr>ec_Curve = ec_Curve k, ec_X = x, ec_Y = y\<rparr> d r s"
proof -
  define n where "n = (curve_BitSize (ec_Curve k) + 7) div 8"
  obtain pub where pub: "EcdhPublic C (ec_Curve k) (nat_be n (ec_D k mod CurveOrder C (ec_Curve k))) = Some pub"
    "x = be_nat (take n (drop 1 pub))" "y = be_nat (drop (1 + n) pub)"
    using assms(3) by (auto simp: ecPointFromScalar_def n_def Let_def dest!: ecdhCurveFor_Inr split: if_splits)
  then obtain xs ys where "pub = CHR 0x04 # xs @ ys" "length xs = n" "length ys = n"
    "EcdsaVerify C \<lparr>ec_Curve = ec_Curve k, ec_X = be_nat xs, ec_Y = be_nat ys\<rparr> d r s"
    using assms(1,2) unfolding ecdsa_correct_def n_def Let_def by blast
  with pub(2,3) show ?thesis by simp
qed

lemma public_metadata_put: "\<exists>f. public_metadata jin out = jwk_put f out"
  unfolding public_metadata_def jwk_setters by (simp add: jwk.put_put) blast

lemma public_RSA:
  assumes "PublicFromPrivate C (RsaPriv v) = Inr pub"
  obtains w where "pub = RsaPub w" "rsaN w = rsaN v" "rsaE w = rsaE v" "Jwk_Alg pub = Jwk_Alg (RsaPriv v)"
proof -
  have "pub = public_metadata (RsaPriv v) (RsaPub (public_rsa (rsaN v) (rsaE v)))"
    using assms by (auto simp: PublicFromPrivate_numbers public_numbers_def split: if_splits)
  moreover from this obtain f where "pub = RsaPub (put_fields f (public_rsa (rsaN v) (rsaE v)))"
    using public_metadata_put by (metis jwk_put_cases(1))
  ultimately show ?thesis
    using that [of "put_fields f (public_rsa (rsaN v) (rsaE v))"] public_metadata_fields(2) [of "RsaPriv v"]
    by (simp add: public_rsa_def jwkFields.extend_def)
qed

lemma public_EC:
  assumes "PublicFromPrivate C (EcPriv v) = Inr pub"
  obtains w c where "pub = EcPub w" "ecdsaCurveForAlg (KeyAlg v) = Inr c"
    "ecPointFromScalar C c (ecD v) = Inr (ecX w, ecY w)" "Jwk_Alg pub = Jwk_Alg (EcPriv v)"
proof -
  obtain c x y where c: "ecdsaCurveForAlg (KeyAlg v) = Inr c" "ecPointFromScalar C c (ecD v) = Inr (x, y)"
    "pub = public_metadata (EcPriv v) (EcPub (public_ec (curve_Name c) x y))"
    using assms by (auto simp: PublicFromPrivate_numbers public_numbers_def split: if_splits)
  moreover from c(3) obtain f where "pub = EcPub (put_fields f (public_ec (curve_Name c) x y))"
    using public_metadata_put by (metis jwk_put_cases(3))
  ultimately show ?thesis
    using that [of "put_fields f (public_ec (curve_Name c) x y)"] public_metadata_fields(2) [of "EcPriv v"]
    by (simp add: public_ec_def jwkFields.extend_def)
qed

lemma fallback_alg_named: "Jwk_Alg jwk \<noteq> [] \<Longrightarrow> fallback_alg jwk = Inr jwk"
  by (simp add: fallback_alg_def)

lemma algToOptsMap_named: "map_of algToOptsMap alg = Some opts \<Longrightarrow> alg \<noteq> []"
  by (auto simp: algToOptsMap_def)

lemma rsa_sign_verifies:
  assumes "NewSigningKey C jwk required = Inr (SkImpl sk)" "SigningKeyImpl_Sign C rnd sk requested data = Inr sig"
    "SigningKeyImpl_Verifier C sk = Inr vk" "rsa_correct C"
  shows "VerificationKey_Verify C vk ''verify'' data sig = Inr True"
proof -
  obtain v k opts where v: "jwk = RsaPriv v" "LoadPrivateKey C jwk required = Inr (RsaSigner k)"
      "map_of algToOptsMap (Jwk_Alg jwk) = Some opts" and
      sk: "sk = \<lparr>kJwk = jwk, kOps = Jwk_Ops jwk, kAlg = Jwk_Alg jwk, skKey = RsaSigner k, skCerts = Jwk_X5C jwk\<rparr>"
    using assms(1) by (cases rule: NewSigningKey_Inr) auto
  have h: "HashAvailable C (HashFunc opts)" and sig: "rsa_Sign C rnd k (Digest C (HashFunc opts) data) opts = Inr sig"
    using assms(2) v(3) unfolding sk
    by (auto simp: SigningKeyImpl_Sign_def signerOptsForAlg_def hash_sum_def Signer_Sign_def split: if_splits)
  obtain pub jwk' where pub: "PublicFromPrivate C (RsaPriv v) = Inr pub" "NewVerificationKey pub = (jwk', Inr vk)"
    using assms(3) unfolding sk v(1)
    by (auto simp: SigningKeyImpl_Verifier_def) (metis prod.collapse)
  obtain w where w: "pub = RsaPub w" "rsaN w = rsaN v" "rsaE w = rsaE v" "Jwk_Alg pub = Jwk_Alg jwk"
    using pub(1) v(1) by (auto elim: public_RSA)
  have trunc: "rsa_public.truncate k = \<lparr>pub_N = rsaN v, pub_E = int (rsaE v)\<rparr>"
    using v(2) by (rule LoadPrivateKey_RSA) (simp add: v(1) rsa_public.truncate_def)
  from pub(2) w obtain p where vk: "vk = VkRsa p" "kAlg p = Jwk_Alg jwk" "Jwk_Alg jwk \<in> rsa_algs"
      "rkKey p = rsa_public.truncate k" "permits validVerificationOps (kOps p) ''verify''"
    using algToOptsMap_named [OF v(3)]
    by (cases rule: NewVerificationKey_Inr) (auto simp: fallback_alg_named trunc intro: verify_allowed)
  show ?thesis
    using sig assms(4) RsaPublicKeyImpl_Verify_opts [OF vk(5) _ _ h, of data sig] v(3) vk
    by (auto simp: VerificationKey_Verify_def rsa_Sign_def rsa_correct_def split: SignerOpts.splits)
qed

lemma ec_sign_verifies:
  assumes "NewSigningKey C jwk required = Inr (SkEcdsa sk)" "ECDSASigningKey_Sign C rnd sk requested data = Inr sig"
    "ECDSASigningKey_Verifier C sk = Inr vk" "ecdsa_correct C"
  shows "VerificationKey_Verify C vk ''verify'' data sig = Inr True"
proof -
  obtain v h n b c where v: "jwk = EcPriv v" "map_of algToOptsMap (Jwk_Alg jwk) = Some (ECDSAOptions h n b c)" and
      sk: "sk = \<lparr>kJwk = jwk, kOps = Jwk_Ops jwk, kAlg = Jwk_Alg jwk,
        eskKey = EcSigner \<lparr>ec_Curve = c, ec_X = ecX v, ec_Y = ecY v, ec_D = ecD v\<rparr>, eskCerts = Jwk_X5C jwk\<rparr>"
    using assms(1) by (cases rule: NewSigningKey_Inr) auto
  note entry = ecdsa_entry [OF v(2)]
  obtain r s rb sb where sig: "HashAvailable C h" "sig = rb @ sb" "pad_left n r = Inr rb" "pad_left n s = Inr sb"
    "EcdsaSign C rnd \<lparr>ec_Curve = c, ec_X = ecX v, ec_Y = ecY v, ec_D = ecD v\<rparr> (Digest C h data) = Some (r, s)"
    using assms(2) v(2) entry unfolding sk
    by (auto simp: ECDSASigningKey_Sign_def signerOptsForAlg_def Let_def split: if_splits)
  obtain pub jwk' where pub: "PublicFromPrivate C (EcPriv v) = Inr pub" "NewVerificationKey pub = (jwk', Inr vk)"
    using assms(3) unfolding sk v(1)
    by (auto simp: ECDSASigningKey_Verifier_def) (metis prod.collapse)
  obtain w where w: "pub = EcPub w" "ecPointFromScalar C c (ecD v) = Inr (ecX w, ecY w)" "Jwk_Alg pub = Jwk_Alg jwk"
    using pub(1) v by (auto elim!: public_EC simp: ecdsaCurveForAlg_def Jwk_Alg_def)
  from pub(2) w v(2) obtain p where vk: "vk = VkEc p" "kAlg p = Jwk_Alg jwk"
      "ekKey p = \<lparr>ec_Curve = c, ec_X = ecX w, ec_Y = ecY w\<rparr>" "permits validVerificationOps (kOps p) ''verify''"
    by (cases rule: NewVerificationKey_Inr) (auto intro: verify_allowed)
  have "EcdsaVerify C (ekKey p) (Digest C h data) r s"
    using ecdsa_correctD [OF assms(4) sig(5)] w(2) vk(3) by simp
  then show ?thesis
    using v(2) vk sig(1,2) pad_left_Inr [OF sig(3)] pad_left_Inr [OF sig(4)]
    by (simp add: VerificationKey_Verify_def ECVerificationKeyImpl_Verify_def)
qed

lemma NewVerificationKey_again:
  assumes "NewVerificationKey jwk = (jwk', Inr vk)"
  shows "NewVerificationKey jwk' = (jwk', Inr vk)"
  using assms
proof (cases rule: NewVerificationKey_Inr)
  case (Rsa v jwk1)
  obtain f where f: "jwk1 = RsaPub (put_fields f v)" using Rsa(1,2) by (auto elim: fallback_alg_Inr)
  then obtain g where g: "jwk' = RsaPub (put_fields g v)" using Rsa(5) by (auto simp: Jwk_SetOps_def put_fields_twice)
  have alg: "Jwk_Alg jwk' = Jwk_Alg jwk1" and ops: "verification_ops jwk' = verification_ops jwk"
    "Jwk_SetOps (verification_ops jwk) jwk' = jwk'"
    using Rsa(5,7) by (simp_all add: verification_ops_stable)
  have "fallback_alg jwk' = Inr jwk'"
    using Rsa(3) alg by (intro fallback_alg_named) (auto simp: rsa_algs_def)
  from NewVerificationKey_Rsa [OF g this] show ?thesis using Rsa alg ops by simp
next
  case Ec
  then show ?thesis using assms by simp
qed

lemma NewVerificationKey_keeps:
  assumes "NewVerificationKey jwk = (jwk', r)"
  shows "Jwk_Kid jwk' = Jwk_Kid jwk" "r = Inr vk \<Longrightarrow> VerificationKey_Kid vk = Jwk_Kid jwk"
proof -
  have f: "fallback_alg j = Inr j1 \<Longrightarrow> Jwk_Kid j1 = Jwk_Kid j" for j j1
    by (auto simp: fallback_alg_def split: if_splits list.splits option.splits)
  show k: "Jwk_Kid jwk' = Jwk_Kid jwk"
    using assms f by (cases jwk) (auto simp: NewVerificationKey_def Let_def
        split: if_splits sum.splits option.splits SignerOpts.splits)
  show "VerificationKey_Kid vk = Jwk_Kid jwk" if "r = Inr vk"
    using assms k unfolding that by (cases rule: NewVerificationKey_Inr) (auto simp: VerificationKey_Kid_def)
qed

section \<open>Properties\<close>

lemma demo_lib_correct: "rsa_correct demo_lib" "ecdsa_correct demo_lib"
  by (simp_all add: rsa_correct_def ecdsa_correct_def demo_lib_def Let_def) (metis length_nat_be)

definition demo_ec_priv :: PrivateEcKey where
  "demo_ec_priv = zero_PrivateEcKey\<lparr>KeyOps := [''sign''], KeyAlg := ''ES256'', KeyKid := ''k1'', ecCrv := ''P-256'', ecX := 1, ecY := 1,
     ecD := 1\<rparr>"

definition demo_signer :: ECDSASigningKey where
  "demo_signer = \<lparr>kJwk = EcPriv demo_ec_priv, kOps = [''sign''], kAlg = ''ES256'',
     eskKey = EcSigner \<lparr>ec_Curve = P256, ec_X = 1, ec_Y = 1, ec_D = 1\<rparr>, eskCerts = []\<rparr>"

lemma demo_signer_made: "NewSigningKey demo_lib (EcPriv demo_ec_priv) [] = Inr (SkEcdsa demo_signer)"
  by (simp add: NewSigningKey_def demo_ec_priv_def demo_signer_def zero_PrivateEcKey_def Jwk_Ops_def Jwk_Alg_def
      Jwk_X5C_def X5C_def jwk_get_def jwkFields.truncate_def LoadPrivateKey_def privateKeyAlgs_def
      ecdsaCurveForAlg_def algToOptsMap_def signerOptsForAlg_def intersection_def validSignerOps_def policy_def
      key_policy.extend_def)

lemma demo_signer_signs: "\<exists>sig. ECDSASigningKey_Sign demo_lib [] demo_signer ''sign'' data = Inr sig"
  by (simp add: ECDSASigningKey_Sign_def demo_signer_def permits_def isSubset_def intersection_def validSignerOps_def
      signerOptsForAlg_def algToOptsMap_def demo_lib_def curve_BitSize_def pad_left_def big_Bytes.simps)

lemma demo_scalar: "ecPointFromScalar demo_lib P256 1 = Inr (1, 1)"
  by (simp add: ecPointFromScalar_def ecdhCurveFor_def demo_lib_def curve_BitSize_def be_nat_nat_be)

lemma demo_signer_verifier: "\<exists>vk. ECDSASigningKey_Verifier demo_lib demo_signer = Inr vk"
proof -
  let ?pub = "public_metadata (EcPriv demo_ec_priv) (EcPub (public_ec (curve_Name P256) 1 1))"
  have pub: "PublicFromPrivate demo_lib (EcPriv demo_ec_priv) = Inr ?pub"
    using demo_scalar by (simp add: PublicFromPrivate_numbers public_numbers_def demo_ec_priv_def
        ecdsaCurveForAlg_def algToOptsMap_def)
  obtain w where w: "?pub = EcPub w" using pub by (rule public_EC)
  have "Jwk_Alg ?pub = ''ES256''" "Jwk_Ops ?pub = [''verify'']"
    unfolding public_metadata_fields
    by (simp_all add: demo_ec_priv_def zero_PrivateEcKey_def Jwk_Alg_def Jwk_Ops_def jwk_get_def
        jwkFields.truncate_def inverse_op_def inverseOps_def)
  then have "\<exists>vk. snd (NewVerificationKey ?pub) = Inr vk"
    by (subst NewVerificationKey_Ec [OF w])
      (simp_all add: algToOptsMap_def verification_ops_def validVerificationOps_def intersection_def)
  then show ?thesis using pub by (simp add: ECDSASigningKey_Verifier_def demo_signer_def)
qed

text \<open>
  C3: whatever a signing key made by \<open>NewSigningKey\<close> signs is accepted, for the operation
  \<open>verify\<close>, by the verification key its \<open>Verifier\<close> method returns: the algorithm options, the
  fixed-length encoding of an ECDSA signature, the derived public numbers and the inverted key
  operations of both halves fit together. The primitives are assumed to accept their own
  signatures.
\<close>

theorem sign_then_verify:
  assumes "NewSigningKey C jwk required = Inr sk" "SigningKey_Sign C rnd sk requested data = Inr sig"
    "SigningKey_Verifier C sk = Inr vk" "rsa_correct C" "ecdsa_correct C"
  shows "VerificationKey_Verify C vk ''verify'' data sig = Inr True"
  using assms rsa_sign_verifies ec_sign_verifies
  by (cases sk) (auto simp: SigningKey_Sign_def SigningKey_Verifier_def)

theorem sign_then_verify_witness:
  "\<exists>sig vk. SigningKey_Sign demo_lib [] (SkEcdsa demo_signer) ''sign'' ''data'' = Inr sig
    \<and> VerificationKey_Verify demo_lib vk ''verify'' ''data'' sig = Inr True"
proof -
  obtain sig vk where "SigningKey_Sign demo_lib [] (SkEcdsa demo_signer) ''sign'' ''data'' = Inr sig"
    "SigningKey_Verifier demo_lib (SkEcdsa demo_signer) = Inr vk"
    using demo_signer_signs [of "''data''"] demo_signer_verifier
    by (auto simp: SigningKey_Sign_def SigningKey_Verifier_def)
  with sign_then_verify [OF demo_signer_made this demo_lib_correct] show ?thesis by blast
qed

text \<open>
  C29: a signing key signs only for the operation \<open>sign\<close>, only when the JWK it was made from granted
  that operation, and only under an algorithm of the signature table; a later change of that JWK,
  whatever it is, changes neither the decision nor the signature.
\<close>

theorem signing_authorised:
  assumes "NewSigningKey C jwk required = Inr sk"
    "SigningKey_Sign C rnd (SigningKey_relabel jwk' sk) requested data = Inr sig"
  shows "requested = ''sign'' \<and> ''sign'' \<in> set (Jwk_Ops jwk) \<and> set required \<subseteq> set (Jwk_Ops jwk)
    \<and> map_of algToOptsMap (Jwk_Alg jwk) \<noteq> None \<and> SigningKey_Sign C rnd sk requested data = Inr sig"
proof -
  have "requested \<in> set validSignerOps \<and> requested \<in> set (SigningKey_ops sk)"
    using signing.authorised_relabelled [of C rnd jwk' sk requested data] assms(2) by simp
  moreover have "SigningKey_ops sk = Jwk_Ops jwk" "set required \<subseteq> set (Jwk_Ops jwk)"
    "map_of algToOptsMap (Jwk_Alg jwk) \<noteq> None"
    using assms(1) by (cases rule: NewSigningKey_Inr;
        auto simp: SigningKey_ops_def granted_def elim!: LoadPrivateKey_RSA)+
  ultimately show ?thesis using assms(2) by (auto simp: validSignerOps_def signing.captured)
qed

theorem signing_authorised_witness:
  "\<exists>sig. SigningKey_Sign demo_lib [] (SigningKey_relabel (RsaPriv demo_rsa) (SkEcdsa demo_signer)) ''sign'' [] = Inr sig
    \<and> ''sign'' \<in> set (Jwk_Ops (EcPriv demo_ec_priv))"
proof -
  obtain sig where "SigningKey_Sign demo_lib [] (SigningKey_relabel (RsaPriv demo_rsa) (SkEcdsa demo_signer)) ''sign'' []
      = Inr sig"
    unfolding signing.captured using demo_signer_signs [of "[]"] by (auto simp: SigningKey_Sign_def)
  with signing_authorised [OF demo_signer_made this] show ?thesis by blast
qed

text \<open>
  C30: a verification key made by \<open>NewVerificationKey\<close> verifies nothing for any operation but
  \<open>verify\<close>, its RSA numbers are within bounds and are those of the JWK, its algorithm is never
  empty, and making a key again from the JWK as it was left gives the same JWK and the same key.
\<close>

theorem NewVerificationKey_sound:
  assumes "NewVerificationKey jwk = (jwk', Inr vk)"
  shows "(VerificationKey_Verify C vk requested data sig = Inr True \<longrightarrow> requested = ''verify'')
    \<and> NewVerificationKey jwk' = (jwk', Inr vk)
    \<and> (case vk of
         VkRsa k \<Rightarrow> kAlg k \<in> rsa_algs \<and> 2 ^ 2047 \<le> pub_N (rkKey k) \<and> 0 < pub_E (rkKey k) \<and> pub_E (rkKey k) < 2 ^ 32
       | VkEc k \<Rightarrow> ecdsaCurveForAlg (kAlg k) = Inr (ec_Curve (ekKey k)))"
proof -
  have "requested = ''verify''" if "VerificationKey_Verify C vk requested data sig = Inr True"
    using verification.authorised [of C vk requested "(data, sig)"] that by (simp add: validVerificationOps_def)
  moreover have "NewVerificationKey jwk' = (jwk', Inr vk)" using assms by (rule NewVerificationKey_again)
  moreover have "case vk of
         VkRsa k \<Rightarrow> kAlg k \<in> rsa_algs \<and> 2 ^ 2047 \<le> pub_N (rkKey k) \<and> 0 < pub_E (rkKey k) \<and> pub_E (rkKey k) < 2 ^ 32
       | VkEc k \<Rightarrow> ecdsaCurveForAlg (kAlg k) = Inr (ec_Curve (ekKey k))"
    using assms by (cases rule: NewVerificationKey_Inr) (auto simp: rsa_in_bounds_def ecdsaCurveForAlg_def)
  ultimately show ?thesis by blast
qed

lemma demo_rsa_vk:
  "\<exists>jwk' k. NewVerificationKey (RsaPub demo_rsa_pub) = (jwk', Inr (VkRsa k)) \<and> kAlg k = ''PS256'' \<and> kOps k = [''verify'']"
proof -
  have "Jwk_Alg (RsaPub demo_rsa_pub) = ''PS256''" "verification_ops (RsaPub demo_rsa_pub) = [''verify'']"
    "rsaN demo_rsa_pub = 2 ^ 2047" "rsaE demo_rsa_pub = 65537"
    by (simp_all add: demo_rsa_pub_def public_rsa_def zero_fields_def jwkFields.extend_def Jwk_Alg_def Jwk_Ops_def
        jwk_get_def jwkFields.truncate_def verification_ops_def intersection_def validVerificationOps_def)
  then show ?thesis
    by (subst NewVerificationKey_Rsa [OF refl fallback_alg_named])
      (simp_all add: rsa_algs_def rsa_in_bounds_def)
qed

theorem NewVerificationKey_sound_witness:
  "\<exists>jwk' k. NewVerificationKey jwk' = (jwk', Inr (VkRsa k)) \<and> 2 ^ 2047 \<le> pub_N (rkKey k)"
proof -
  obtain jwk' k where "NewVerificationKey (RsaPub demo_rsa_pub) = (jwk', Inr (VkRsa k))" using demo_rsa_vk by blast
  from NewVerificationKey_sound [OF this, of demo_lib "[]" "[]" "[]"] show ?thesis by auto
qed

text \<open>
  C31: with its digests linked in, verification never panics on a key made by \<open>NewVerificationKey\<close>,
  whatever the operation, the data and the signature: the unchecked conversion to ECDSA options
  in \<open>Verify\<close> always succeeds. And making the key never panics when every certificate of the JWK
  is present, as it is in every parsed JWK.
\<close>

theorem verification_no_panic:
  assumes "\<forall>h. HashAvailable C h"
  shows "(NewVerificationKey jwk = (jwk', Inr vk) \<longrightarrow> (\<exists>b. VerificationKey_Verify C vk requested data sig = Inr b))
    \<and> (None \<notin> set (Jwk_X5C jwk) \<longrightarrow> snd (NewVerificationKey jwk) \<noteq> Inl (GoPanic m))"
proof -
  have "\<exists>b. VerificationKey_Verify C vk requested data sig = Inr b" if "NewVerificationKey jwk = (jwk', Inr vk)"
    using that
  proof (cases rule: NewVerificationKey_Inr)
    case (Rsa v jwk1)
    obtain opts where opts: "map_of algToOptsMap (Jwk_Alg jwk1) = Some opts" using rsa_algs_mapped [OF Rsa(3)] by blast
    show ?thesis
    proof (cases "permits validVerificationOps (verification_ops jwk) requested")
      case True
      with opts assms Rsa(3) show ?thesis
        unfolding Rsa(6) by (simp add: VerificationKey_Verify_def RsaPublicKeyImpl_Verify_opts)
    next
      case False
      then show ?thesis unfolding Rsa(6) by (auto simp: VerificationKey_Verify_def RsaPublicKeyImpl_Verify_def)
    qed
  next
    case Ec
    then show ?thesis by (auto simp: VerificationKey_Verify_def ECVerificationKeyImpl_Verify_def Let_def)
  qed
  moreover have "snd (NewVerificationKey jwk) \<noteq> Inl (GoPanic m)" if "None \<notin> set (Jwk_X5C jwk)"
    using that
    by (cases jwk) (auto simp: NewVerificationKey_def Let_def fallback_alg_def algToOptsMap_def
        split: list.splits option.splits sum.splits)
  ultimately show ?thesis by blast
qed

theorem verification_no_panic_witness:
  "\<exists>jwk' k b. NewVerificationKey (RsaPub demo_rsa_pub) = (jwk', Inr (VkRsa k))
    \<and> VerificationKey_Verify demo_lib (VkRsa k) ''verify'' ''d'' ''s'' = Inr b"
proof -
  have "\<forall>h. HashAvailable demo_lib h" by (simp add: demo_lib_def)
  moreover obtain jwk' k where "NewVerificationKey (RsaPub demo_rsa_pub) = (jwk', Inr (VkRsa k))"
    using demo_rsa_vk by blast
  ultimately show ?thesis
    using verification_no_panic [of demo_lib "RsaPub demo_rsa_pub" jwk' "VkRsa k" "''verify''" "''d''" "''s''"] by blast
qed

definition oaep_correct :: "crypto_lib \<Rightarrow> bool" where
  "oaep_correct C \<longleftrightarrow> (\<forall>h rnd k m c. EncryptOAEP C h rnd (rsa_public.truncate k) m = Some c \<longrightarrow> DecryptOAEP C h k c = Some m)"

text \<open>
  A key decrypts what the encryption key derived from it encrypted, under the same digest; the
  derived key may encrypt only because the private key may decrypt. OAEP itself is assumed to
  invert.
\<close>

theorem oaep_roundtrip:
  assumes "NewRsaDecryptionKey C jwk = Inr k" "Encryptor C k = Inr pk" "oaep_correct C"
    "RsaPublicKeyImpl_Encrypt C rnd pk requested h m = Inr c"
  shows "requested = ''encrypt'' \<and> RsaPrivateKeyImpl_Decrypt C k ''decrypt'' h c = Inr m"
proof -
  have req: "requested = ''encrypt''"
    using rsa_encrypt.authorised [of C rnd pk requested "(h, m)"] assms(4) by (simp add: validEncryptionOps_def)
  obtain r where r: "LoadPrivateKey C jwk [''decrypt''] = Inr (RsaSigner r)" "kOps k = Jwk_Ops jwk" "rpKey k = r"
    using assms(1) by (auto simp: NewRsaDecryptionKey_iff)
  have "''decrypt'' \<in> set (Jwk_Ops jwk)" using r(1) by (rule LoadPrivateKey_RSA) (simp add: granted_def)
  moreover have "rkKey pk = rsa_public.truncate r"
    using assms(2) r(3) by (auto simp: Encryptor_def publicKey_def policy_def key_policy.extend_def rsa_public.truncate_def)
  ultimately show ?thesis
    using req assms(3,4) r
    by (auto simp: RsaPublicKeyImpl_Encrypt_def RsaPrivateKeyImpl_Decrypt_def hash_New_def oaep_correct_def
        permits_def allowed_iff validDecryptionOps_def split: if_splits)
qed

definition demo_decryption_jwk :: Jwk where
  "demo_decryption_jwk = RsaPriv (demo_rsa\<lparr>KeyOps := [''decrypt''], KeyAlg := ''RSA-OAEP''\<rparr>)"

lemma demo_decryption_loads:
  "LoadPrivateKey demo_lib demo_decryption_jwk [''decrypt''] = Inr (RsaSigner \<lparr>pub_N = 2 ^ 2047, pub_E = 65537,
     priv_D = 5, priv_Primes = [2, 2], pre_Dp = 1, pre_Dq = 1, pre_Qinv = 1\<rparr>)"
  using demo_bounds
  by (simp add: LoadPrivateKey_def demo_decryption_jwk_def demo_rsa_def zero_PrivateRsaKey_def demo_lib_def
      privateKeyAlgs_def Jwk_Alg_def Jwk_Ops_def jwk_get_def jwkFields.truncate_def
      isSubset_def MinRsaModulusBits_def big_Int64_small not_less)

lemma demo_decryption_key:
  "\<exists>k pk. NewRsaDecryptionKey demo_lib demo_decryption_jwk = Inr k \<and> Encryptor demo_lib k = Inr pk
    \<and> RsaPublicKeyImpl_Encrypt demo_lib [] pk ''encrypt'' h m = Inr m"
proof -
  obtain pub where pub: "PublicFromPrivate demo_lib demo_decryption_jwk = Inr pub" "Jwk_Ops pub = [''encrypt'']"
    by (simp add: PublicFromPrivate_numbers public_numbers_def demo_decryption_jwk_def demo_rsa_def
        zero_PrivateRsaKey_def Jwk_Ops_def [of "RsaPriv _"] jwk_get_def [of "RsaPriv _"] jwkFields.truncate_def
        inverse_op_def inverseOps_def)
  then show ?thesis
    by (simp add: NewRsaDecryptionKey_def demo_decryption_loads Encryptor_def publicKey_def policy_def
        key_policy.extend_def RsaPublicKeyImpl_Encrypt_def permits_def allowed_iff validEncryptionOps_def hash_New_def)
      (simp add: demo_lib_def)
qed

theorem oaep_roundtrip_witness:
  "\<exists>k. NewRsaDecryptionKey demo_lib demo_decryption_jwk = Inr k
    \<and> RsaPrivateKeyImpl_Decrypt demo_lib k ''decrypt'' SHA1_hash ''m'' = Inr ''m''"
proof -
  have "oaep_correct demo_lib" by (simp add: oaep_correct_def demo_lib_def)
  with demo_decryption_key [of SHA1_hash "''m''"] oaep_roundtrip [of demo_lib demo_decryption_jwk] show ?thesis by blast
qed

text \<open>
  C36: a public RSA JWK labelled with an elliptic-curve algorithm, any of the three, is accepted by
  \<open>NewRsaPublicKeyImpl\<close>, and the key then accepts PKCS#1 v1.5 signatures under that label: the
  algorithm table has entries for the elliptic-curve names, so the lookup that is meant to refuse
  them succeeds.
\<close>

theorem mislabelled_rsa_key_verifies:
  assumes "NewRsaPublicKeyImpl jwk = Inr k" "(Jwk_Alg jwk, h) \<in> {(''ES256'', SHA256_hash), (''ES384'', SHA384_hash), (''ES512'', SHA512_hash)}"
    "''verify'' \<in> set (Jwk_Ops jwk)" "HashAvailable C h"
  shows "RsaPublicKeyImpl_Verify C k ''verify'' data sig = Inr (RsaVerifyPKCS1v15 C (rkKey k) h (Digest C h data) sig)"
proof -
  have "(kAlg k, h) \<in> {(''ES256'', SHA256_hash), (''ES384'', SHA384_hash), (''ES512'', SHA512_hash)}" "kOps k = Jwk_Ops jwk"
    using assms(1,2) by (auto simp: NewRsaPublicKeyImpl_iff)
  then show ?thesis
    using assms(3,4) by (auto simp: RsaPublicKeyImpl_Verify_def permits_def allowed_iff validVerificationOps_def
        algToOptsMap_def hash_sum_def pssAlgs_def)
qed

theorem mislabelled_rsa_key_verifies_witness:
  "\<exists>k. NewRsaPublicKeyImpl (RsaPub (demo_rsa_pub\<lparr>KeyAlg := ''ES256''\<rparr>)) = Inr k
    \<and> RsaPublicKeyImpl_Verify demo_lib k ''verify'' ''d'' ''d'' = Inr True"
proof -
  let ?j = "RsaPub (demo_rsa_pub\<lparr>KeyAlg := ''ES256''\<rparr>)"
  have j: "Jwk_Alg ?j = ''ES256''" "''verify'' \<in> set (Jwk_Ops ?j)"
    by (simp_all add: demo_rsa_pub_def public_rsa_def zero_fields_def jwkFields.extend_def Jwk_Alg_def Jwk_Ops_def
        jwk_get_def jwkFields.truncate_def)
  obtain k where k: "NewRsaPublicKeyImpl ?j = Inr k"
    using j(1) demo_bounds
    by (simp add: NewRsaPublicKeyImpl_def LoadPublicKey_def publicKeyAlgs_def privateKeyAlgs_def demo_rsa_pub_def
        public_rsa_def zero_fields_def jwkFields.extend_def MinRsaModulusBits_def not_less)
  have "(Jwk_Alg ?j, SHA256_hash) \<in> {(''ES256'', SHA256_hash), (''ES384'', SHA384_hash), (''ES512'', SHA512_hash)}"
    using j(1) by simp
  from mislabelled_rsa_key_verifies [OF k this j(2), of demo_lib "''d''" "''d''"] k show ?thesis
    by (simp add: demo_lib_def)
qed

text \<open>
  The two tables of RSA-OAEP algorithms are inverse to each other, so the digest of a header's
  algorithm names that algorithm and the algorithm written for a digest selects that digest; only
  SHA-1 and SHA-256 have one.
\<close>

theorem oaep_tables_inverse:
  "OaepAlgFromHash h = Some alg \<longleftrightarrow> OaepHashFromAlg alg = Some h"
  by (cases h) (auto simp: OaepAlgFromHash_def OaepHashFromAlg_def oaepHashToAlg_def oaepAlgToHash_def)

end
