(* ===== verification/TrustStore_Laws.thy ===== *)
theory TrustStore_Laws
  imports TrustStore Keys_Laws
begin

text \<open>
  Laws of the trust store: it implements an abstract store in which every (issuer, kid) pair is
  unknown, trusted or revoked for good; its interpretation as a \<open>trust_store\<close>; and what holds of
  every store reached by calls from any number of goroutines.
\<close>

section \<open>The abstract store\<close>

datatype status = Unknown | Trusted Jwk | Revoked

type_synonym spec_store = "string set \<times> (string \<Rightarrow> string \<Rightarrow> status)"

definition abs_store :: "TrustKeyStoreImpl \<Rightarrow> spec_store" where
  "abs_store s = (dom (tksKeys s), \<lambda>i k. if is_revoked s i k then Revoked
     else (case stored s i k of None \<Rightarrow> Unknown | Some j \<Rightarrow> Trusted j))"

definition spec_set :: "string \<Rightarrow> string \<Rightarrow> status \<Rightarrow> (string \<Rightarrow> string \<Rightarrow> status) \<Rightarrow> string \<Rightarrow> string \<Rightarrow> status" where
  "spec_set i k x f = (\<lambda>i' k'. if i' = i \<and> k' = k then x else f i' k')"

definition spec_add :: "string \<Rightarrow> Jwk \<Rightarrow> spec_store \<Rightarrow> spec_store \<times> (err + unit)" where
  "spec_add i j s = (let (I, f) = s in
     if Jwk_Kid j = [] then (s, Inl (Gose ErrInvalidKey))
     else ((insert i I, if f i (Jwk_Kid j) = Unknown then spec_set i (Jwk_Kid j) (Trusted j) f else f), Inr ()))"

definition spec_remove :: "string \<Rightarrow> string \<Rightarrow> spec_store \<Rightarrow> spec_store \<times> bool" where
  "spec_remove i k s = (let (I, f) = s in if i \<in> I then ((I, spec_set i k Revoked f), True) else (s, False))"

definition spec_get :: "string \<Rightarrow> string \<Rightarrow> spec_store \<Rightarrow> spec_store \<times> (err + VerificationKey option)" where
  "spec_get i k s = (let (I, f) = s in
     case f i k of
       Trusted j \<Rightarrow> ((I, spec_set i k (Trusted (fst (NewVerificationKey j))) f), rbind (snd (NewVerificationKey j)) (\<lambda>v. Inr (Some v)))
     | _ \<Rightarrow> (s, Inl (Gose ErrUnknownKey)))"

lemmas store_defs = abs_store_def stored_def is_revoked_def spec_set_def

lemma stored_update: "stored (s\<lparr>tksKeys := (tksKeys s)(i \<mapsto> m)\<rparr>) i' k' = (if i' = i then m k' else stored s i' k')"
  by (simp add: stored_def)

lemma is_revoked_keys [simp]: "is_revoked (s\<lparr>tksKeys := m\<rparr>) = is_revoked s"
  by (simp add: is_revoked_def fun_eq_iff)

lemma stored_set: "stored s i = (case tksKeys s i of None \<Rightarrow> Map.empty | Some m \<Rightarrow> m)"
  by (auto simp: stored_def fun_eq_iff split: option.splits)

lemma add_refines: "map_prod abs_store id (TrustKeyStoreImpl_Add s i j) = spec_add i j (abs_store s)"
  by (auto simp: TrustKeyStoreImpl_Add_def spec_add_def Let_def abs_store_def spec_set_def fun_eq_iff stored_update
      simp flip: stored_set split: option.splits)

lemma remove_refines: "map_prod abs_store id (TrustKeyStoreImpl_Remove s i k) = spec_remove i k (abs_store s)"
  by (auto simp: TrustKeyStoreImpl_Remove_def spec_remove_def Let_def store_defs fun_eq_iff split: option.splits)

lemma get_refines: "map_prod abs_store id (TrustKeyStoreImpl_Get s i k) = spec_get i k (abs_store s)"
proof (cases "is_revoked s i k \<or> stored s i k = None")
  case True
  then show ?thesis
    by (auto simp: TrustKeyStoreImpl_Get_def spec_get_def abs_store_def stored_def split: option.splits)
next
  case False
  then obtain m j where "\<not> is_revoked s i k" "tksKeys s i = Some m" "m k = Some j"
    by (auto simp: stored_def split: option.splits)
  then show ?thesis
    by (auto simp: TrustKeyStoreImpl_Get_def spec_get_def abs_store_def spec_set_def stored_update stored_def
        fun_eq_iff split: prod.splits)
qed

section \<open>The interface\<close>

lemma Get_Some:
  assumes "TrustKeyStoreImpl_Get s i k = (s', Inr (Some vk))"
  shows "store_vouches s' i k vk" "\<exists>j j'. stored s i k = Some j \<and> NewVerificationKey j = (j', Inr vk) \<and> stored s' i k = Some j'"
proof -
  obtain m j j' where "\<not> is_revoked s i k" "tksKeys s i = Some m" "m k = Some j" "NewVerificationKey j = (j', Inr vk)"
    "s' = s\<lparr>tksKeys := (tksKeys s)(i \<mapsto> m(k \<mapsto> j'))\<rparr>"
    using assms by (auto simp: TrustKeyStoreImpl_Get_def split: if_splits option.splits prod.splits)
  then show "store_vouches s' i k vk"
    "\<exists>j j'. stored s i k = Some j \<and> NewVerificationKey j = (j', Inr vk) \<and> stored s' i k = Some j'"
    by (auto simp: store_vouches_def stored_update NewVerificationKey_again) (auto simp: stored_def)
qed

interpretation local_store: trust_store TrustKeyStoreImpl_Get store_vouches
  by unfold_locales (rule Get_Some(1))

section \<open>Reachable stores\<close>

text \<open>One call of a method, by whichever goroutine holds the mutex.\<close>

inductive store_step :: "TrustKeyStoreImpl \<Rightarrow> TrustKeyStoreImpl \<Rightarrow> bool" where
  add: "store_step s (fst (TrustKeyStoreImpl_Add s i j))"
| remove: "store_step s (fst (TrustKeyStoreImpl_Remove s i k))"
| get: "store_step s (fst (TrustKeyStoreImpl_Get s i k))"

definition wf_store :: "TrustKeyStoreImpl \<Rightarrow> bool" where
  "wf_store s \<longleftrightarrow> (\<forall>i k j. stored s i k = Some j \<longrightarrow> Jwk_Kid j = k \<and> k \<noteq> [])"

lemma Add_stored: "stored (fst (TrustKeyStoreImpl_Add s i j)) i' k' =
    (if i' = i \<and> k' = Jwk_Kid j \<and> k' \<noteq> [] \<and> stored s i k' = None then Some j else stored s i' k')"
  by (auto simp: TrustKeyStoreImpl_Add_def Let_def stored_update simp flip: stored_set)

lemma Remove_stored: "stored (fst (TrustKeyStoreImpl_Remove s i k)) i' k' =
    (if i' = i \<and> k' = k then None else stored s i' k')"
  by (auto simp: TrustKeyStoreImpl_Remove_def Let_def stored_def split: option.splits)

lemma Get_stored:
  "stored (fst (TrustKeyStoreImpl_Get s i k)) i' k' = stored s i' k'
   \<or> (i' = i \<and> k' = k \<and> (\<exists>j. stored s i k = Some j \<and> stored (fst (TrustKeyStoreImpl_Get s i k)) i k = Some (fst (NewVerificationKey j))))"
  by (auto simp: TrustKeyStoreImpl_Get_def stored_update split: option.splits prod.splits) (auto simp: stored_def)

lemma wf_store_step: "store_step s s' \<Longrightarrow> wf_store s \<Longrightarrow> wf_store s'"
proof (induction rule: store_step.induct)
  case (add s i j)
  then show ?case by (auto simp: wf_store_def Add_stored)
next
  case (remove s i k)
  then show ?case by (auto simp: wf_store_def Remove_stored)
next
  case (get s i k)
  show ?case
    unfolding wf_store_def
  proof (intro allI impI)
    fix i' k' j'
    assume st: "stored (fst (TrustKeyStoreImpl_Get s i k)) i' k' = Some j'"
    have "\<exists>j. stored s i' k' = Some j \<and> Jwk_Kid j' = Jwk_Kid j"
      using Get_stored [of s i k i' k']
    proof (rule disjE)
      assume "stored (fst (TrustKeyStoreImpl_Get s i k)) i' k' = stored s i' k'"
      with st show ?thesis by (metis (no_types))
    next
      assume "i' = i \<and> k' = k \<and> (\<exists>j. stored s i k = Some j
          \<and> stored (fst (TrustKeyStoreImpl_Get s i k)) i k = Some (fst (NewVerificationKey j)))"
      with st show ?thesis using NewVerificationKey_keeps(1) [OF prod.collapse [symmetric]] by auto
    qed
    then show "Jwk_Kid j' = k' \<and> k' \<noteq> []" using get by (auto simp: wf_store_def)
  qed
qed

lemma revoked_step: "store_step s s' \<Longrightarrow> is_revoked s i k \<Longrightarrow> is_revoked s' i k"
  by (induction rule: store_step.induct)
    (auto simp: TrustKeyStoreImpl_Add_def TrustKeyStoreImpl_Get_def TrustKeyStoreImpl_Remove_def Let_def
      is_revoked_def split: option.splits prod.splits)

lemma revoked_reachable: "store_step\<^sup>*\<^sup>* s s' \<Longrightarrow> is_revoked s i k \<Longrightarrow> is_revoked s' i k"
  by (induction rule: rtranclp_induct) (auto intro: revoked_step)

lemma wf_store_reachable: "store_step\<^sup>*\<^sup>* s s' \<Longrightarrow> wf_store s \<Longrightarrow> wf_store s'"
  by (induction rule: rtranclp_induct) (auto intro: wf_store_step)

lemma wf_empty [simp]: "wf_store empty_store"
  by (simp add: wf_store_def stored_def empty_store_def)

lemma add_all_steps: "add_all s es = Inr s' \<Longrightarrow> store_step\<^sup>*\<^sup>* s s'"
proof (induction s es rule: add_all.induct)
  case (2 s i j rest)
  obtain t where t: "TrustKeyStoreImpl_Add s i j = (t, Inr ())" "add_all t rest = Inr s'"
    using "2.prems" by (auto split: prod.splits sum.splits)
  then have "store_step s t" using store_step.add [of s i j] by simp
  then show ?case using "2.IH" t by (auto intro: converse_rtranclp_into_rtranclp)
qed simp

lemma Get_again:
  assumes "store_vouches s i k vk"
  shows "TrustKeyStoreImpl_Get s i k = (s, Inr (Some vk))"
proof -
  obtain m j where "\<not> is_revoked s i k" "tksKeys s i = Some m" "m k = Some j" "NewVerificationKey j = (j, Inr vk)"
    using assms by (auto simp: store_vouches_def stored_def split: option.splits)
  moreover from this have "s\<lparr>tksKeys := (tksKeys s)(i \<mapsto> m(k \<mapsto> j))\<rparr> = s"
    by (simp add: fun_upd_idem)
  ultimately show ?thesis by (simp add: TrustKeyStoreImpl_Get_def)
qed

section \<open>Properties\<close>

text \<open>
  C7: the trust store implements the abstract store in which a key of an issuer is unknown, trusted
  or revoked: adding trusts an unknown key and leaves a trusted or revoked one alone, removing
  revokes for good, and looking up answers for trusted keys only. Each method commutes with the
  abstraction, results included.
\<close>

theorem trust_store_refines:
  "map_prod abs_store id (TrustKeyStoreImpl_Add s i j) = spec_add i j (abs_store s)
   \<and> map_prod abs_store id (TrustKeyStoreImpl_Remove s i k) = spec_remove i k (abs_store s)
   \<and> map_prod abs_store id (TrustKeyStoreImpl_Get s i k) = spec_get i k (abs_store s)"
  by (intro conjI add_refines remove_refines get_refines)

text \<open>
  Once a key has been removed it is never handed out again, whatever calls follow and in
  whatever order, an explicit re-add of the same key included.
\<close>

theorem revocation_sticky:
  assumes "TrustKeyStoreImpl_Remove s i k = (s1, True)" "store_step\<^sup>*\<^sup>* s1 s2"
  shows "TrustKeyStoreImpl_Get s2 i k = (s2, Inl (Gose ErrUnknownKey))"
proof -
  have "is_revoked s1 i k"
    using assms(1) by (auto simp: TrustKeyStoreImpl_Remove_def is_revoked_def split: option.splits)
  then have "is_revoked s2 i k" using revoked_reachable assms(2) by blast
  then show ?thesis by (simp add: TrustKeyStoreImpl_Get_def)
qed

theorem revocation_sticky_witness:
  "let s1 = fst (TrustKeyStoreImpl_Remove (fst (TrustKeyStoreImpl_Add empty_store ''i'' demo_ec)) ''i'' ''k1'');
       s2 = fst (TrustKeyStoreImpl_Add s1 ''i'' demo_ec)
   in TrustKeyStoreImpl_Get s2 ''i'' ''k1'' = (s2, Inl (Gose ErrUnknownKey))"
proof -
  let ?s = "fst (TrustKeyStoreImpl_Add empty_store ''i'' demo_ec)"
  obtain s1 where s1: "TrustKeyStoreImpl_Remove ?s ''i'' ''k1'' = (s1, True)"
    by (simp add: TrustKeyStoreImpl_Remove_def TrustKeyStoreImpl_Add_def empty_store_def demo_ec_def Jwk_Kid_def
        jwk_get_def jwkFields.truncate_def)
  then show ?thesis
    using revocation_sticky [OF s1 r_into_rtranclp [of store_step, OF store_step.add [of s1 "''i''" demo_ec]]] by (simp add: Let_def)
qed

text \<open>
  C21: in every store reached by any sequence of calls from a freshly built one, a key handed out for
  an identifier is a key with that identifier, and asking again changes nothing and returns the
  same key: the writes \<open>Get\<close> makes through the stored JWK are idempotent.
\<close>

theorem Get_stable:
  assumes "NewTrustKeyStore rootData = Inr s0" "store_step\<^sup>*\<^sup>* s0 s"
    "TrustKeyStoreImpl_Get s i k = (s', Inr (Some vk))"
  shows "VerificationKey_Kid vk = k \<and> k \<noteq> [] \<and> TrustKeyStoreImpl_Get s' i k = (s', Inr (Some vk))"
proof -
  have "wf_store s"
    using add_all_steps [of empty_store rootData s0] assms(1,2) wf_store_reachable [OF _ wf_empty]
    unfolding NewTrustKeyStore_def by (meson rtranclp_trans)
  then have "VerificationKey_Kid vk = k \<and> k \<noteq> []"
    using Get_Some(2) [OF assms(3)] NewVerificationKey_keeps(2) by (auto simp: wf_store_def)
  moreover have "TrustKeyStoreImpl_Get s' i k = (s', Inr (Some vk))"
    using Get_Some(1) [OF assms(3)] by (rule Get_again)
  ultimately show ?thesis by simp
qed

lemma demo_ec_verifies: "\<exists>vk. NewVerificationKey demo_ec = (demo_ec, Inr vk)"
  by (simp add: demo_ec_def NewVerificationKey_def Jwk_Ops_def Jwk_Alg_def jwk_get_def jwkFields.truncate_def
      intersection_def validVerificationOps_def algToOptsMap_def Let_def)

lemma demo_store:
  "\<exists>s vk. NewTrustKeyStore [(''i'', demo_ec)] = Inr s \<and> TrustKeyStoreImpl_Get s ''i'' ''k1'' = (s, Inr (Some vk))"
proof -
  obtain vk where "NewVerificationKey demo_ec = (demo_ec, Inr vk)" using demo_ec_verifies by blast
  moreover have "Jwk_Kid demo_ec = ''k1''" by (simp add: demo_ec_def Jwk_Kid_def jwk_get_def jwkFields.truncate_def)
  ultimately show ?thesis
    by (simp add: NewTrustKeyStore_def TrustKeyStoreImpl_Add_def empty_store_def TrustKeyStoreImpl_Get_def
        is_revoked_def)
qed

theorem Get_stable_witness:
  "\<exists>s vk. NewTrustKeyStore [(''i'', demo_ec)] = Inr s \<and> TrustKeyStoreImpl_Get s ''i'' ''k1'' = (s, Inr (Some vk))
    \<and> VerificationKey_Kid vk = ''k1''"
proof -
  obtain s vk where s: "NewTrustKeyStore [(''i'', demo_ec)] = Inr s"
    "TrustKeyStoreImpl_Get s ''i'' ''k1'' = (s, Inr (Some vk))" using demo_store by blast
  from Get_stable [OF s(1) rtranclp.rtrancl_refl s(2)] s show ?thesis by blast
qed

end
