(* ===== verification/JwksStore_Laws.thy ===== *)
theory JwksStore_Laws
  imports JwksStore TrustStore_Laws
begin

text \<open>
  Laws of the fetching trust store: its interpretation as a \<open>trust_store\<close>, and invariants of
  concurrent lookups by rule induction: one fetch at a time, a bound on the number of requests,
  and progress.
\<close>

section \<open>Lookups\<close>

lemma lookup_Some_key:
  "lookup now s kid = Some (Inr (Some vk)) \<Longrightarrow> vk \<in> set (jsKeys s) \<and> VerificationKey_Kid vk = kid \<and> is_fresh now s"
  by (auto simp: lookup_def find_Some_iff split: option.splits if_splits)

lemma lookup_None: "lookup now s kid = None \<Longrightarrow> \<not> coolingDown now s"
  by (auto simp: lookup_def split: option.splits if_splits)

lemma not_done_key: "not_done r = Inr (Some vk) \<Longrightarrow> r = Some (Inr (Some vk))"
  by (auto simp: not_done_def split: option.splits)

lemma cooled: "\<not> coolingDown now s \<Longrightarrow> jsLastAttempt s = Some a \<Longrightarrow> a \<le> now \<Longrightarrow> jsMinRefreshInterval s \<le> now - a"
  by (auto simp: coolingDown_def time_Sub_def)

definition jwks_vouches :: "clock \<Rightarrow> JwksTrustStore \<Rightarrow> string \<Rightarrow> string \<Rightarrow> VerificationKey \<Rightarrow> bool" where
  "jwks_vouches t s issuer kid vk \<longleftrightarrow> issuer \<in> set (jsIssuers s) \<and> vk \<in> set (jsKeys s) \<and> VerificationKey_Kid vk = kid
     \<and> (is_fresh (c_first t) s \<or> is_fresh (c_locked t) s \<or> is_fresh (c_last t) s)"

lemma knownIssuer_True: "knownIssuer s issuer = (s', True) \<Longrightarrow> issuer \<in> set (jsIssuers s')"
  by (auto simp: knownIssuer_def Let_def list_ex_iff split: if_splits)

lemma refresh_issuers: "refresh C a ans b s = (s', r) \<Longrightarrow> jsIssuers s' = jsIssuers s"
  by (auto simp: refresh_def refresh_start_def refresh_install_def Let_def split: sum.splits)

lemma JwksTrustStore_Get_key:
  assumes "JwksTrustStore_Get C t answer s issuer kid = (s', Inr (Some vk))"
  shows "jwks_vouches t s' issuer kid vk"
proof -
  obtain s1 where s1: "knownIssuer s issuer = (s1, True)"
    using assms by (auto simp: JwksTrustStore_Get_def split: prod.splits if_splits)
  then have "issuer \<in> set (jsIssuers s1)" by (rule knownIssuer_True)
  moreover have "jsIssuers s' = jsIssuers s1"
    using assms s1
    by (auto simp: JwksTrustStore_Get_def split: option.splits prod.splits sum.splits dest: refresh_issuers)
  moreover have "\<exists>now \<in> {c_first t, c_locked t, c_last t}. lookup now s' kid = Some (Inr (Some vk))"
    using assms s1
    by (auto simp: JwksTrustStore_Get_def split: option.splits prod.splits sum.splits dest!: not_done_key)
  ultimately show ?thesis unfolding jwks_vouches_def by (auto dest: lookup_Some_key)
qed

interpretation remote_store: trust_store "JwksTrustStore_Get C t answer" "jwks_vouches t" for C t answer
  by unfold_locales (rule JwksTrustStore_Get_key)

section \<open>Invariants of concurrent lookups\<close>

definition exclusive :: "world \<Rightarrow> bool" where
  "exclusive w \<longleftrightarrow> (\<forall>t u p q. w_points w t = Some p \<longrightarrow> w_points w u = Some q \<longrightarrow> holds_lock p \<longrightarrow> holds_lock q \<longrightarrow> t = u)"

lemma knownIssuer_keeps:
  "knownIssuer s i = (s', b) \<Longrightarrow> jsLastAttempt s' = jsLastAttempt s \<and> jsMinRefreshInterval s' = jsMinRefreshInterval s"
  by (auto simp: knownIssuer_def Let_def split: if_splits)

lemma exclusive_other [simp]: "exclusive (w\<lparr>w_store := s\<rparr>) = exclusive w" "exclusive (w\<lparr>w_now := n\<rparr>) = exclusive w"
  "exclusive (w\<lparr>w_attempts := l\<rparr>) = exclusive w" "exclusive (w\<lparr>w_fetches := f\<rparr>) = exclusive w"
  by (simp_all add: exclusive_def)

lemma exclusive_goto:
  assumes "exclusive w" "holds_lock p \<Longrightarrow> \<exists>q. w_points w t = Some q \<and> holds_lock q"
  shows "exclusive (goto t p w)"
  using assms unfolding exclusive_def by (auto split: if_splits)

lemma exclusive_step: "get_step C w w' \<Longrightarrow> exclusive w \<Longrightarrow> exclusive w'"
proof (induction rule: get_step.induct)
  case (lock w t kid)
  then show ?case unfolding exclusive_def by auto
qed ((rule exclusive_goto, simp_all)[1] | simp)+

text \<open>Requests are spaced: after \<open>n + 1\<close> attempts at least \<open>n\<close> minimum intervals have passed.\<close>

definition paced :: "int \<Rightarrow> int \<Rightarrow> world \<Rightarrow> bool" where
  "paced m start w \<longleftrightarrow> start \<le> w_now w \<and> jsMinRefreshInterval (w_store w) = m
     \<and> (case w_attempts w of
          [] \<Rightarrow> jsLastAttempt (w_store w) = None
        | a # as \<Rightarrow> jsLastAttempt (w_store w) = Some a \<and> a \<le> w_now w \<and> int (length as) * m \<le> a - start
            \<and> (\<forall>t kid. w_points w t = Some (Decided kid) \<longrightarrow> m \<le> w_now w - a))"

lemma paced_step:
  assumes "get_step C w w'" "exclusive w" "paced m start w"
  shows "paced m start w'"
  using assms
proof (induction rule: get_step.induct)
  case (decide w t kid)
  then show ?case
    using lookup_None [OF decide(2)] cooled [of "w_now w" "w_store w"]
    by (auto simp: paced_def split: list.splits)
next
  case (request w t kid)
  have "t' = t" if "w_points w t' = Some (Decided kid')" for t' kid'
    using request(2) [unfolded exclusive_def, rule_format, OF that request(1)] by simp
  then have none: "((w_points w)(t \<mapsto> Requested kid)) t' \<noteq> Some (Decided kid')" for t' kid'
    by (cases "t' = t") auto
  show ?case
  proof (cases "w_attempts w")
    case Nil
    then show ?thesis using request(3) none by (simp add: paced_def refresh_start_def)
  next
    case (Cons a as)
    then have "int (length as) * m \<le> a - start" "m \<le> w_now w - a"
      using request(1,3) by (auto simp: paced_def)
    then have "(1 + int (length as)) * m \<le> w_now w - start" by (simp add: algebra_simps)
    then show ?thesis using request(3) none Cons by (simp add: paced_def refresh_start_def)
  qed
qed (auto simp: paced_def refresh_install_def dest!: knownIssuer_keeps split: list.splits)

lemma reachable_inv:
  assumes "(get_step C)\<^sup>*\<^sup>* (initial_world s start) w" "jsLastAttempt s = None"
  shows "exclusive w" "paced (jsMinRefreshInterval s) start w"
proof -
  have "exclusive w \<and> paced (jsMinRefreshInterval s) start w"
    using assms(1)
  proof (induction rule: rtranclp_induct)
    case base
    show ?case using assms(2) by (simp add: exclusive_def paced_def initial_world_def)
  next
    case step
    then show ?case using exclusive_step paced_step by blast
  qed
  then show "exclusive w" "paced (jsMinRefreshInterval s) start w" by simp_all
qed

section \<open>Progress\<close>

text \<open>How far a goroutine is from returning.\<close>

fun rank :: "point \<Rightarrow> nat" where
  "rank (Entered _ _) = 8"
| "rank (Looking _) = 7"
| "rank (Blocked _) = 6"
| "rank (Locked _) = 5"
| "rank (Decided _) = 4"
| "rank (Requested _) = 3"
| "rank (Answered _ _) = 2"
| "rank (Installed _) = 1"
| "rank (Returned _) = 0"

definition advances :: "crypto_lib \<Rightarrow> world \<Rightarrow> nat \<Rightarrow> bool" where
  "advances C w t \<longleftrightarrow> (\<exists>w' p p'. get_step C w w' \<and> w_points w t = Some p \<and> w_points w' = (w_points w)(t \<mapsto> p')
     \<and> rank p' < rank p)"

lemma advancesI:
  "get_step C w w' \<Longrightarrow> w_points w t = Some p \<Longrightarrow> w_points w' = (w_points w)(t \<mapsto> p') \<Longrightarrow> rank p' < rank p \<Longrightarrow> advances C w t"
  unfolding advances_def by blast

lemma advances_unblocked:
  assumes "w_points w t = Some p" "rank p > 0" "\<nexists>kid. p = Blocked kid"
  shows "advances C w t"
proof (cases p)
  case (Entered issuer kid)
  obtain s b where k: "knownIssuer (w_store w) issuer = (s, b)" by fastforce
  show ?thesis
    using get_step.known [of w t issuer kid s C] get_step.unknown [of w t issuer kid s C] k assms(1) Entered
    by (cases b) (auto intro: advancesI)
next
  case (Looking kid)
  show ?thesis
    using get_step.hit [of w t kid _ C] get_step.miss [of w t kid C] assms(1) Looking
    by (cases "lookup (w_now w) (w_store w) kid") (auto intro: advancesI)
next
  case (Locked kid)
  show ?thesis
    using get_step.hit_locked [of w t kid _ C] get_step.decide [of w t kid C] assms(1) Locked
    by (cases "lookup (w_now w) (w_store w) kid") (auto intro: advancesI)
next
  case (Requested kid)
  have "refresh_answer C BadRequest = Inl (Std (LibError ''http''))" by (simp add: refresh_answer_def)
  from get_step.failed [OF _ this, of w t kid] show ?thesis using assms(1) Requested by (auto intro: advancesI)
next
  case (Decided kid)
  then show ?thesis using get_step.request [of w t kid C] assms(1) by (auto intro: advancesI)
next
  case (Answered kid keys)
  then show ?thesis using get_step.install [of w t kid keys C] assms(1) by (auto intro: advancesI)
next
  case (Installed kid)
  then show ?thesis using get_step.finish [of w t kid C] assms(1) by (auto intro: advancesI)
qed (use assms in auto)

lemma some_advances:
  assumes "w_points w t = Some p" "rank p > 0"
  shows "\<exists>u. advances C w u"
proof (cases "\<exists>u q. w_points w u = Some q \<and> holds_lock q")
  case True
  then obtain u q where "w_points w u = Some q" "holds_lock q" by blast
  then have "advances C w u" using advances_unblocked [of w u q C] by (cases q) auto
  then show ?thesis by blast
next
  case False
  show ?thesis
  proof (cases "\<exists>kid. p = Blocked kid")
    case True
    then obtain kid where "p = Blocked kid" by blast
    then have "advances C w t"
      using get_step.lock [of w t kid C] assms(1) False by (auto intro: advancesI)
    then show ?thesis by blast
  next
    case False
    then show ?thesis using advances_unblocked assms by blast
  qed
qed

section \<open>Properties\<close>

text \<open>
  C8: lookups never amplify requests. However many goroutines look up however many keys, in every
  interleaving, at most one of them is fetching, and \<open>n\<close> requests take at least \<open>n - 1\<close> minimum
  refresh intervals from the creation of the store: a stream of made-up key identifiers is not a
  stream of requests.
\<close>

theorem requests_paced:
  assumes "(get_step C)\<^sup>*\<^sup>* (initial_world s start) w" "jsLastAttempt s = None"
  shows "exclusive w \<and> (w_attempts w = []
    \<or> (int (length (w_attempts w)) - 1) * jsMinRefreshInterval s \<le> w_now w - start)"
  using reachable_inv [OF assms]
  by (auto simp: paced_def split: list.splits)

text \<open>A first lookup of an unknown key, up to its request.\<close>

definition demo_jwks :: JwksTrustStore where
  "demo_jwks = NewJwksKeyStore ''i'' ''u'' []"

definition demo_world :: "point \<Rightarrow> world" where
  "demo_world p = (initial_world (demo_jwks\<lparr>jsIssuers := [''i'']\<rparr>) 5)\<lparr>w_points := [0 \<mapsto> p]\<rparr>"

lemma demo_lookup: "lookup now (demo_jwks\<lparr>jsIssuers := is\<rparr>) kid = None"
  by (simp add: lookup_def demo_jwks_def NewJwksKeyStore_def coolingDown_def)

lemma demo_known: "knownIssuer demo_jwks ''i'' = (demo_jwks\<lparr>jsIssuers := [''i'']\<rparr>, True)"
  by (simp add: knownIssuer_def demo_jwks_def NewJwksKeyStore_def)

definition demo_requested :: world where
  "demo_requested = (demo_world (Requested ''k''))\<lparr>w_store := (demo_jwks\<lparr>jsIssuers := [''i''], jsLastAttempt := Some 5\<rparr>),
     w_attempts := [5]\<rparr>"

lemma demo_steps:
  "get_step C (initial_world demo_jwks 5) ((initial_world demo_jwks 5)\<lparr>w_points := [0 \<mapsto> Entered ''i'' ''k'']\<rparr>)"
  "get_step C ((initial_world demo_jwks 5)\<lparr>w_points := [0 \<mapsto> Entered ''i'' ''k'']\<rparr>) (demo_world (Looking ''k''))"
  "get_step C (demo_world (Looking ''k'')) (demo_world (Blocked ''k''))"
  "get_step C (demo_world (Blocked ''k'')) (demo_world (Locked ''k''))"
  "get_step C (demo_world (Locked ''k'')) (demo_world (Decided ''k''))"
  "get_step C (demo_world (Decided ''k'')) demo_requested"
  using get_step.enter [of "initial_world demo_jwks 5" 0 C "''i''" "''k''"]
    get_step.known [of "(initial_world demo_jwks 5)\<lparr>w_points := [0 \<mapsto> Entered ''i'' ''k'']\<rparr>" 0 "''i''" "''k''" _ C]
    get_step.miss [of "demo_world (Looking ''k'')" 0 "''k''" C]
    get_step.lock [of "demo_world (Blocked ''k'')" 0 "''k''" C]
    get_step.decide [of "demo_world (Locked ''k'')" 0 "''k''" C]
    get_step.request [of "demo_world (Decided ''k'')" 0 "''k''" C]
  by (simp_all add: demo_world_def demo_requested_def initial_world_def demo_known demo_lookup refresh_start_def)

lemma demo_run: "(get_step C)\<^sup>*\<^sup>* (initial_world demo_jwks 5) demo_requested"
  using demo_steps [of C] by (meson converse_rtranclp_into_rtranclp rtranclp.rtrancl_refl)

theorem requests_paced_witness:
  "exclusive demo_requested \<and> (int (length (w_attempts demo_requested)) - 1) * jsMinRefreshInterval demo_jwks \<le> w_now demo_requested - 5"
proof -
  have "jsLastAttempt demo_jwks = None" "w_attempts demo_requested \<noteq> []"
    by (simp_all add: demo_jwks_def NewJwksKeyStore_def demo_requested_def)
  with requests_paced [OF demo_run [of demo_lib]] show ?thesis by blast
qed

text \<open>
  Lookups are free of deadlock: in every reachable state in which some goroutine has not
  returned, some goroutine can take a step that brings it closer to returning, whatever the others
  do; a goroutine has at most eight such steps.
\<close>

theorem lookups_progress:
  assumes "(get_step C)\<^sup>*\<^sup>* (initial_world s start) w" "w_points w t = Some p" "\<nexists>r. p = Returned r"
  shows "\<exists>u. advances C w u \<and> rank (the (w_points w u)) \<le> 8"
proof -
  have "rank p > 0" using assms(3) by (cases p) auto
  then obtain u where "advances C w u" using some_advances assms(2) by blast
  moreover have "rank q \<le> 8" for q by (cases q) simp_all
  ultimately show ?thesis by blast
qed

theorem lookups_progress_witness: "\<exists>u. advances demo_lib demo_requested u"
proof -
  have "w_points demo_requested 0 = Some (Requested ''k'')"
    by (simp add: demo_requested_def demo_world_def)
  from lookups_progress [OF demo_run this] show ?thesis by blast
qed

end
