(* ===== verification/JwtVerify.thy ===== *)
theory JwtVerify
  imports JwksStore_Laws
begin

text \<open>
  \<open>jwt_signer.go\<close> and \<open>jwt_verifier.go\<close>. The verifier's store is an interface value: its \<open>Get\<close>
  method is an argument of the model, and the store's state is threaded through the call. The
  clock, the random identifier and \<open>rand.Reader\<close> are arguments.
\<close>

record JwtSignerImpl =
  jsKey :: SigningKey
  jsIssuer :: string

definition Issuer :: "JwtSignerImpl \<Rightarrow> string" where
  "Issuer signer = jsIssuer signer"

text \<open>The claims a caller may set.\<close>

record settable =
  setSubject :: string
  setAudiences :: Audiences
  setExpiration :: int
  setNotBefore :: int

text \<open>The loop over the untyped claims: each value comes with what \<open>json.Marshal\<close> makes of it; a
  Go map has one value per name, and its entries come in the order of the iteration.\<close>

fun encode_untyped :: "(string \<times> (err + json)) list \<Rightarrow> err + raw_claims" where
  "encode_untyped [] = Inr []"
| "encode_untyped ((k, v) # rest) = rbind v (\<lambda>encoded. rbind (encode_untyped rest) (\<lambda>m. Inr ((k, encoded) # m)))"

definition signer_jwt :: "JwtSignerImpl \<Rightarrow> settable \<Rightarrow> int \<Rightarrow> string \<Rightarrow> raw_claims \<Rightarrow> Jwt" where
  "signer_jwt signer claims now jti untyped =
     \<lparr>jwtHeader = zero_JwsHeader\<lparr>hAlg := SigningKey_Algorithm (jsKey signer), hKid := SigningKey_Kid (jsKey signer),
        hTyp := JwtType\<rparr>,
      jwtClaims = \<lparr>cIssuer = jsIssuer signer, cIssuedAt = now, cJwtID = jti, cSubject = setSubject claims,
        cAudiences = setAudiences claims, cExpiration = setExpiration claims, cNotBefore = setNotBefore claims,
        cUntyped = untyped\<rparr>,
      jwtSignature = []\<rparr>"

definition JwtSignerImpl_Sign ::
    "crypto_lib \<Rightarrow> bytes \<Rightarrow> int \<Rightarrow> string \<Rightarrow> JwtSignerImpl \<Rightarrow> settable \<Rightarrow> (string \<times> (err + json)) list \<Rightarrow> err + string" where
  "JwtSignerImpl_Sign C rnd now jti signer claims untyped =
     rbind (encode_untyped untyped) (\<lambda>encodedUntyped.
     rbind (Jwt_MarshalBody (signer_jwt signer claims now jti encodedUntyped)) (\<lambda>toBeSigned.
     rbind (SigningKey_Sign C rnd (jsKey signer) KeyOpsSign toBeSigned) (\<lambda>signature.
     Inr (MarshalJws toBeSigned signature))))"

definition NewJwtSigner :: "string \<Rightarrow> SigningKey \<Rightarrow> JwtSignerImpl" where
  "NewJwtSigner issuer key = \<lparr>jsKey = key, jsIssuer = issuer\<rparr>"

text \<open>The two loops over the audiences: what was seen, and whether one was expected.\<close>

definition audience_loop :: "string list \<Rightarrow> string list \<Rightarrow> string list \<times> bool" where
  "audience_loop audience auds =
     foldl (\<lambda>s candidate. foldl (\<lambda>(seen, found) aud. (seen @ [aud], found \<or> candidate = aud)) s auds) ([], False) audience"

text \<open>\<open>fmt.Sprintf\<close> of the message; \<open>%s\<close> of a slice of strings joins them in brackets.\<close>

definition audience_message :: "string list \<Rightarrow> string list \<Rightarrow> string" where
  "audience_message expected seen = ''no expected audience | expected ['' @ join '' '' expected
     @ ''] | seen ['' @ join '' '' seen @ '']''"

text \<open>The checks before the store is asked.\<close>

definition check_token :: "int \<Rightarrow> string list \<Rightarrow> string \<Rightarrow> err + (Jwt \<times> string)" where
  "check_token now audience jwt =
     (if length jwt > MaxCompactSize then Inl (Gose gose_error.ErrInputTooLarge)
      else rbind (Jwt_Unmarshal jwt) (\<lambda>(token, body).
      let claims = jwtClaims token in
      if cNotBefore claims > now then Inl (Gose ErrInvalidJwtTimeframe)
      else if cExpiration claims \<le> now then Inl (Gose ErrInvalidJwtTimeframe)
      else if length (aud_list (cAudiences claims)) = 0 \<or> length audience = 0
        then Inl (InvalidFormat (audience_message audience []))
      else let (seen, found) = audience_loop audience (aud_list (cAudiences claims)) in
      if \<not> found then Inl (InvalidFormat (audience_message audience seen))
      else if length (hKid (jwtHeader token)) = 0 then Inl (Gose ErrInvalidKid)
      else Inr (token, body)))"

definition JwtVerifierImpl_Verify ::
    "crypto_lib \<Rightarrow> ('s \<Rightarrow> string \<Rightarrow> string \<Rightarrow> 's \<times> (err + VerificationKey option)) \<Rightarrow> 's \<Rightarrow> int \<Rightarrow> string \<Rightarrow> string list
     \<Rightarrow> 's \<times> (err + string \<times> JwtClaims)" where
  "JwtVerifierImpl_Verify C get store now jwt audience =
     (case check_token now audience jwt of
        Inl e \<Rightarrow> (store, Inl e)
      | Inr (token, body) \<Rightarrow>
          let (store', r) = get store (cIssuer (jwtClaims token)) (hKid (jwtHeader token)) in
          (store', case r of
             Inr (Some key) \<Rightarrow>
               if VerificationKey_Algorithm key \<noteq> hAlg (jwtHeader token) then Inl (Gose gose_error.ErrInvalidAlgorithm)
               else rbind (VerificationKey_Verify C key KeyOpsVerify body (jwtSignature token)) (\<lambda>ok.
                 if \<not> ok then Inl (Gose ErrInvalidSignature)
                 else Inr (VerificationKey_Kid key, jwtClaims token))
           | Inl (GoPanic m) \<Rightarrow> Inl (GoPanic m)
           | _ \<Rightarrow> Inl (Gose ErrUnknownKey)))"

end
