(* ===== verification/Jwe.thy ===== *)
theory Jwe
  imports Jws
begin

text \<open>
  \<open>jose/jwe.go\<close>: JWE headers and the two compact representations. \<open>JweHeader\<close> and
  \<open>JweProtectedHeader\<close> have the same members: those of \<open>JwsHeader\<close>, the private \<open>_thales_aad\<close>,
  \<open>enc\<close> and \<open>zip\<close>. The \<open>Unmarshal\<close> methods decode into their receiver, which is an argument here:
  members the input does not carry keep their value.
\<close>

definition supportedJweAlgs :: "Alg list" where
  "supportedJweAlgs = [AlgDir, AlgRSAOAEP, AlgRSAOAEPSHA2, AlgA128GCM, AlgA192GCM, AlgA256GCM, AlgA256CBC]"

definition supportedJweEncs :: "Enc list" where
  "supportedJweEncs = [EncA128GCM, EncA192GCM, EncA256GCM, EncA256CBC]"

record JweHeader = JwsHeader +
  hOtherAad :: "bytes option"
  hEnc :: Enc
  hZip :: Zip

type_synonym JweProtectedHeader = JweHeader

definition zero_JweHeader :: JweHeader where
  "zero_JweHeader = JwsHeader.extend zero_JwsHeader \<lparr>hOtherAad = None, hEnc = [], hZip = []\<rparr>"

record HeaderRfc7516 = JweHeader +
  hPlaintextLength :: int

record JweRfc7516Compact =
  ProtectedHeader :: JweProtectedHeader
  RawProtectedHeader :: bytes
  EncryptedKey :: bytes
  InitializationVector :: bytes
  Ciphertext :: bytes
  AuthenticationTag :: bytes

record JweRfc7516 =
  jHeader :: HeaderRfc7516
  jEncryptedKey :: bytes
  jInitializationVector :: bytes
  jCiphertext :: bytes
  jAuthenticationTag :: bytes
  jAAD :: bytes

record Jwe =
  jweHeader :: JweHeader
  MarshalledHeader :: bytes
  jweEncryptedKey :: bytes
  jweIv :: bytes
  jweCiphertext :: bytes
  jweTag :: bytes
  jwePlaintext :: bytes

section \<open>Headers\<close>

definition jwe_fields :: "(err, JweHeader) fields" where
  "jwe_fields = jws_fields @
     [(''_thales_aad'', set_ptr Blob_UnmarshalJSON hOtherAad_update),
      (''enc'', set_str hEnc hEnc_update),
      (''zip'', set_str hZip hZip_update)]"

definition jwe_members :: "'a JweHeader_scheme \<Rightarrow> err + (string \<times> json) list" where
  "jwe_members h =
     rbind (jws_members h) (\<lambda>ms.
     rbind (enc_blob ''_thales_aad'' (hOtherAad h)) (\<lambda>aad.
       Inr (ms @ aad @ [jmember ''enc'' (jstring (hEnc h))] @ omit_str ''zip'' (hZip h))))"

definition MarshalProtectedHeader :: "'a JweHeader_scheme \<Rightarrow> err + bytes" where
  "MarshalProtectedHeader h = rbind (jwe_members h) (\<lambda>ms. Inr (b64_encode RawURLEncoding (json_print (JObj ms))))"

definition JweHeader_MarshalHeader :: "JweHeader \<Rightarrow> err + bytes" where
  "JweHeader_MarshalHeader h = MarshalProtectedHeader h"

definition Jwe_MarshalHeader :: "Jwe \<Rightarrow> err + Jwe" where
  "Jwe_MarshalHeader jwe = rbind (JweHeader_MarshalHeader (jweHeader jwe)) (\<lambda>m. Inr (jwe\<lparr>MarshalledHeader := m\<rparr>))"

definition concatByteArrays :: "bytes list \<Rightarrow> bytes" where
  "concatByteArrays slices = foldl (\<lambda>tmp s. tmp @ s) [] slices"

text \<open>The protected part is base64url encoded twice, as in the source.\<close>

definition HeaderRfc7516_MarshallHeader :: "HeaderRfc7516 \<Rightarrow> err + bytes" where
  "HeaderRfc7516_MarshallHeader h = rbind (MarshalProtectedHeader h) (\<lambda>protectedHeaderBytes.
     let shared = json_print (JObj []);
         perRecipient = json_print (JObj [jmember ''plaintextLength'' (jint (hPlaintextLength h))])
     in Inr (concatByteArrays [b64_encode RawURLEncoding protectedHeaderBytes,
          b64_encode RawURLEncoding shared, b64_encode RawURLEncoding perRecipient]))"

section \<open>Compact serialisation\<close>

definition decode_segment :: "string \<Rightarrow> err + bytes" where
  "decode_segment s = of_opt (Std CorruptInput) (b64_decode RawURLEncoding s)"

text \<open>An absent encrypted key leaves the receiver's.\<close>

definition decode_key_segment :: "string \<Rightarrow> bytes \<Rightarrow> err + bytes" where
  "decode_key_segment s old = (if length s > 0 then decode_segment s else Inr old)"

definition decode_jwe_header :: "string \<Rightarrow> JweHeader \<Rightarrow> err + JweHeader" where
  "decode_jwe_header s h =
     rbind (decode_segment s) (\<lambda>raw.
     rbind (of_opt (Std JSONSyntax) (json_parse raw)) (\<lambda>v.
     dec_result (Std JSONType) (decode_struct jwe_fields v h)))"

definition Jwe_Unmarshal :: "Jwe \<Rightarrow> string \<Rightarrow> err + Jwe" where
  "Jwe_Unmarshal jwe src =
     (if length src > MaxCompactSize then Inl (Jose jose_error.ErrInputTooLarge)
      else let parts = splitn CHR ''.'' 5 src in
      if length parts \<noteq> 5 then Inl (Jose ErrJweFormat)
      else rbind (decode_jwe_header (parts ! 0) (jweHeader jwe)) (\<lambda>h.
      if length (hCrit h) > 0 then Inl (Jose ErrCritHeaderNotSupported)
      else rbind (decode_key_segment (parts ! 1) (jweEncryptedKey jwe)) (\<lambda>key.
           rbind (decode_segment (parts ! 2)) (\<lambda>iv.
           rbind (decode_segment (parts ! 3)) (\<lambda>ct.
           rbind (decode_segment (parts ! 4)) (\<lambda>tag.
           Inr (jwe\<lparr>jweHeader := h, MarshalledHeader := parts ! 0, jweEncryptedKey := key,
                   jweIv := iv, jweCiphertext := ct, jweTag := tag\<rparr>)))))))"

definition JweRfc7516Compact_Unmarshal :: "JweRfc7516Compact \<Rightarrow> string \<Rightarrow> err + JweRfc7516Compact" where
  "JweRfc7516Compact_Unmarshal jwe src =
     (if length src > MaxCompactSize then Inl (Jose jose_error.ErrInputTooLarge)
      else let parts = splitn CHR ''.'' 5 src in
      if length parts \<noteq> 5 then Inl (Jose ErrJweFormat)
      else rbind (decode_jwe_header (parts ! 0) (ProtectedHeader jwe)) (\<lambda>h.
      if length (hCrit h) > 0 then Inl (Jose ErrCritHeaderNotSupported)
      else if hAlg h \<notin> set supportedJweAlgs then Inl (Jose jose_error.ErrInvalidAlgorithm)
      else if hEnc h \<notin> set supportedJweEncs then Inl (Jose jose_error.ErrInvalidEncryption)
      else rbind (decode_key_segment (parts ! 1) (EncryptedKey jwe)) (\<lambda>key.
           rbind (decode_segment (parts ! 2)) (\<lambda>iv.
           rbind (decode_segment (parts ! 3)) (\<lambda>ct.
           rbind (decode_segment (parts ! 4)) (\<lambda>tag.
           Inr \<lparr>ProtectedHeader = h, RawProtectedHeader = parts ! 0, EncryptedKey = key,
                InitializationVector = iv, Ciphertext = ct, AuthenticationTag = tag\<rparr>))))))"

definition Jwe_Marshal :: "Jwe \<Rightarrow> string" where
  "Jwe_Marshal jwe = join ''.'' [MarshalledHeader jwe, b64_encode RawURLEncoding (jweEncryptedKey jwe),
     b64_encode RawURLEncoding (jweIv jwe), b64_encode RawURLEncoding (jweCiphertext jwe),
     b64_encode RawURLEncoding (jweTag jwe)]"

definition AAD :: "JweRfc7516Compact \<Rightarrow> err + bytes" where
  "AAD jwe = (if length (RawProtectedHeader jwe) > 0 then Inr (RawProtectedHeader jwe)
     else MarshalProtectedHeader (ProtectedHeader jwe))"

definition JweRfc7516Compact_Marshal :: "JweRfc7516Compact \<Rightarrow> err + string" where
  "JweRfc7516Compact_Marshal jwe = rbind (MarshalProtectedHeader (ProtectedHeader jwe)) (\<lambda>marshalledHeader.
     Inr (join ''.'' [marshalledHeader, b64_encode RawURLEncoding (EncryptedKey jwe),
       b64_encode RawURLEncoding (InitializationVector jwe), b64_encode RawURLEncoding (Ciphertext jwe),
       b64_encode RawURLEncoding (AuthenticationTag jwe)]))"

definition zero_compact :: JweRfc7516Compact where
  "zero_compact = \<lparr>ProtectedHeader = zero_JweHeader, RawProtectedHeader = [], EncryptedKey = [],
     InitializationVector = [], Ciphertext = [], AuthenticationTag = []\<rparr>"

definition zero_Jwe :: Jwe where
  "zero_Jwe = \<lparr>jweHeader = zero_JweHeader, MarshalledHeader = [], jweEncryptedKey = [], jweIv = [],
     jweCiphertext = [], jweTag = [], jwePlaintext = []\<rparr>"

section \<open>Headers survive encoding\<close>

definition wf_JweHeader :: "JweHeader \<Rightarrow> bool" where
  "wf_JweHeader h \<longleftrightarrow> wf_JwsHeader h \<and> wf_blob (hOtherAad h) \<and> utf8_valid (hEnc h) \<and> utf8_valid (hZip h)"

lemma jwe_fields_lookup [dec_simps]:
  "map_of jwe_fields ''alg'' = Some (set_str hAlg hAlg_update)"
  "map_of jwe_fields ''jku'' = Some (set_str hJku hJku_update)"
  "map_of jwe_fields ''kid'' = Some (set_str hKid hKid_update)"
  "map_of jwe_fields ''x5u'' = Some (set_str hX5U hX5U_update)"
  "map_of jwe_fields ''x5c'' = Some (set_list dec_bytes hX5C hX5C_update)"
  "map_of jwe_fields ''x5t'' = Some (set_ptr Blob_UnmarshalJSON hX5T_update)"
  "map_of jwe_fields ''x5t#S256'' = Some (set_ptr Blob_UnmarshalJSON hX5T256_update)"
  "map_of jwe_fields ''typ'' = Some (set_str hTyp hTyp_update)"
  "map_of jwe_fields ''cty'' = Some (set_str hCty hCty_update)"
  "map_of jwe_fields ''crit'' = Some (set_list dec_str_elem hCrit hCrit_update)"
  "map_of jwe_fields ''_thales_aad'' = Some (set_ptr Blob_UnmarshalJSON hOtherAad_update)"
  "map_of jwe_fields ''enc'' = Some (set_str hEnc hEnc_update)"
  "map_of jwe_fields ''zip'' = Some (set_str hZip hZip_update)"
  by (simp_all add: jwe_fields_def jws_fields_def)

lemma jwe_members_decode:
  assumes "wf_JweHeader h"
  shows "\<exists>ms. jwe_members h = Inr ms \<and> list_all (member_ok 1) ms
    \<and> decode_members jwe_fields ms False zero_JweHeader = Fine h"
  using assms
  by (simp add: wf_JweHeader_def wf_JwsHeader_def jwe_members_def jws_members_def zero_JweHeader_def
      zero_JwsHeader_def JwsHeader.extend_def dec_simps)

lemma jwe_header_segment:
  assumes "wf_JweHeader h"
  obtains raw where "MarshalProtectedHeader h = Inr raw" "CHR ''.'' \<notin> set raw" "raw \<noteq> []"
    "decode_jwe_header raw zero_JweHeader = Inr h"
proof -
  obtain ms where ms: "jwe_members h = Inr ms" "list_all (member_ok 1) ms"
    "decode_members jwe_fields ms False zero_JweHeader = Fine h"
    using jwe_members_decode [OF assms] by blast
  have "json_parse (json_print (JObj ms)) = Some (JObj ms)"
    using ms(2) by (rule json_parse_object) (simp add: max_nesting_def)
  then have "decode_jwe_header (b64_encode RawURLEncoding (json_print (JObj ms))) zero_JweHeader = Inr h"
    using ms(3) by (simp add: decode_jwe_header_def decode_segment_def decode_struct_def dec_result_def
        del: json_print.simps)
  moreover have "MarshalProtectedHeader h = Inr (b64_encode RawURLEncoding (json_print (JObj ms)))"
    using ms(1) by (simp add: MarshalProtectedHeader_def)
  ultimately show ?thesis using that by simp
qed

section \<open>Segments\<close>

lemma decode_segment_encode [simp]: "decode_segment (b64_encode RawURLEncoding x) = Inr x"
  by (simp add: decode_segment_def)

lemma decode_key_segment_encode [simp]: "decode_key_segment (b64_encode RawURLEncoding x) [] = Inr x"
  by (simp add: decode_key_segment_def)

lemma splitn_five:
  assumes "CHR ''.'' \<notin> set a"
  shows "splitn CHR ''.'' 5 (join ''.'' [a, b64_encode RawURLEncoding b, b64_encode RawURLEncoding c,
      b64_encode RawURLEncoding d, b64_encode RawURLEncoding e])
    = [a, b64_encode RawURLEncoding b, b64_encode RawURLEncoding c, b64_encode RawURLEncoding d,
       b64_encode RawURLEncoding e]" (is "splitn _ _ (join _ ?ps) = _")
proof -
  have "splitn CHR ''.'' (length ?ps) (join ''.'' ?ps) = ?ps"
    using assms by (intro splitn_join) auto
  then show ?thesis by (simp add: numeral_eq_Suc)
qed

lemma splitn_fiveE:
  assumes "length (splitn CHR ''.'' 5 s) = 5"
  obtains a r where "splitn CHR ''.'' 5 s ! 0 = a" "s = a @ CHR ''.'' # r" "CHR ''.'' \<notin> set a"
proof -
  obtain a b c where p: "splitn CHR ''.'' 5 s = a # b # c"
    using assms by (cases "splitn CHR ''.'' 5 s"; cases "tl (splitn CHR ''.'' 5 s)") auto
  have "s = join ''.'' (a # b # c)" using join_splitn [of 5 "CHR ''.''" s] p by simp
  moreover have "CHR ''.'' \<notin> set a" using splitn_parts [of a "CHR ''.''" 5 s] p by simp
  ultimately show ?thesis using that [of a "join ''.'' (b # c)"] p by simp
qed

definition acceptable_header :: "JweHeader \<Rightarrow> bool" where
  "acceptable_header h \<longleftrightarrow> hCrit h = [] \<and> hAlg h \<in> set supportedJweAlgs \<and> hEnc h \<in> set supportedJweEncs"

lemma compact_roundtrip:
  assumes "wf_JweHeader (ProtectedHeader j)" "acceptable_header (ProtectedHeader j)"
  shows "\<exists>t raw. JweRfc7516Compact_Marshal j = Inr t \<and> MarshalProtectedHeader (ProtectedHeader j) = Inr raw
    \<and> AAD (j\<lparr>RawProtectedHeader := raw\<rparr>) = Inr raw
    \<and> JweRfc7516Compact_Unmarshal zero_compact t = (if length t \<le> MaxCompactSize
        then Inr (j\<lparr>RawProtectedHeader := raw\<rparr>) else Inl (Jose jose_error.ErrInputTooLarge))"
proof -
  obtain raw where raw: "MarshalProtectedHeader (ProtectedHeader j) = Inr raw" "CHR ''.'' \<notin> set raw" "raw \<noteq> []"
    "decode_jwe_header raw zero_JweHeader = Inr (ProtectedHeader j)"
    using jwe_header_segment [OF assms(1)] .
  let ?t = "join ''.'' [raw, b64_encode RawURLEncoding (EncryptedKey j),
       b64_encode RawURLEncoding (InitializationVector j), b64_encode RawURLEncoding (Ciphertext j),
       b64_encode RawURLEncoding (AuthenticationTag j)]"
  have "JweRfc7516Compact_Unmarshal zero_compact ?t = Inr (j\<lparr>RawProtectedHeader := raw\<rparr>)"
    if "length ?t \<le> MaxCompactSize"
    using that raw(4) assms(2) splitn_five [OF raw(2)]
    by (simp add: JweRfc7516Compact_Unmarshal_def zero_compact_def acceptable_header_def not_less del: join.simps)
  moreover have "JweRfc7516Compact_Unmarshal zero_compact ?t = Inl (Jose jose_error.ErrInputTooLarge)"
    if "\<not> length ?t \<le> MaxCompactSize"
    using that by (simp add: JweRfc7516Compact_Unmarshal_def del: join.simps)
  ultimately show ?thesis
    using raw(1,3) by (intro exI [of _ ?t] exI [of _ raw])
      (simp add: JweRfc7516Compact_Marshal_def AAD_def del: join.simps)
qed

lemma compact_accepts:
  assumes "JweRfc7516Compact_Unmarshal jwe0 src = Inr jwe"
  shows "acceptable_header (ProtectedHeader jwe) \<and> AAD jwe = Inr (takeWhile (\<lambda>c. c \<noteq> CHR ''.'') src)"
proof -
  have n: "length (splitn CHR ''.'' 5 src) = 5"
    and hdr: "decode_jwe_header (splitn CHR ''.'' 5 src ! 0) (ProtectedHeader jwe0) = Inr (ProtectedHeader jwe)"
    and raw: "RawProtectedHeader jwe = splitn CHR ''.'' 5 src ! 0"
    and ok: "acceptable_header (ProtectedHeader jwe)"
    using assms by (auto simp: JweRfc7516Compact_Unmarshal_def Let_def acceptable_header_def split: if_splits)
  obtain a r where a: "splitn CHR ''.'' 5 src ! 0 = a" "src = a @ CHR ''.'' # r" "CHR ''.'' \<notin> set a"
    using splitn_fiveE [OF n] .
  have "json_parse [] = None" "b64_decode RawURLEncoding [] = Some []"
    using b64_decode_encode [OF good_RawURL, of "[]"] by (simp_all add: json_parse_def skip_ws_def)
  then have "a \<noteq> []"
    using hdr a(1) by (auto simp: decode_jwe_header_def decode_segment_def)
  then show ?thesis using ok raw a by (simp add: AAD_def)
qed

text \<open>A deprecated \<open>Jwe\<close> is parsed back with the parts it was given after its header was marshalled.\<close>

lemma Jwe_parts:
  assumes "wf_JweHeader (jweHeader j)" "hCrit (jweHeader j) = []" "Jwe_MarshalHeader j = Inr j1"
    "length (Jwe_Marshal (j1\<lparr>jweCiphertext := ct, jweIv := iv, jweTag := tag\<rparr>)) \<le> MaxCompactSize"
  shows "Jwe_Unmarshal zero_Jwe (Jwe_Marshal (j1\<lparr>jweCiphertext := ct, jweIv := iv, jweTag := tag\<rparr>))
    = Inr (j1\<lparr>jweCiphertext := ct, jweIv := iv, jweTag := tag, jwePlaintext := []\<rparr>)"
proof -
  obtain raw where raw: "MarshalProtectedHeader (jweHeader j) = Inr raw" "CHR ''.'' \<notin> set raw" "raw \<noteq> []"
    "decode_jwe_header raw zero_JweHeader = Inr (jweHeader j)"
    using jwe_header_segment [OF assms(1)] .
  then have j1: "j1 = j\<lparr>MarshalledHeader := raw\<rparr>"
    using assms(3) by (simp add: Jwe_MarshalHeader_def JweHeader_MarshalHeader_def)
  show ?thesis
    using assms(2,4) raw(4) splitn_five [OF raw(2)]
    by (simp add: j1 Jwe_Unmarshal_def Jwe_Marshal_def zero_Jwe_def not_less del: join.simps)
qed

text \<open>The header octets a parsed \<open>Jwe\<close> keeps are the text before the first dot.\<close>

lemma Jwe_Unmarshal_header:
  assumes "Jwe_Unmarshal jwe0 src = Inr jwe"
  shows "MarshalledHeader jwe = takeWhile (\<lambda>c. c \<noteq> CHR ''.'') src" "hCrit (jweHeader jwe) = []"
proof -
  have n: "length (splitn CHR ''.'' 5 src) = 5" and raw: "MarshalledHeader jwe = splitn CHR ''.'' 5 src ! 0"
    and "hCrit (jweHeader jwe) = []"
    using assms by (auto simp: Jwe_Unmarshal_def Let_def split: if_splits)
  moreover obtain a r where "splitn CHR ''.'' 5 src ! 0 = a" "src = a @ CHR ''.'' # r" "CHR ''.'' \<notin> set a"
    using splitn_fiveE [OF n] .
  ultimately show "MarshalledHeader jwe = takeWhile (\<lambda>c. c \<noteq> CHR ''.'') src" "hCrit (jweHeader jwe) = []"
    by simp_all
qed

section \<open>Properties\<close>

text \<open>A concrete JWE.\<close>

definition demo_jwe :: JweRfc7516Compact where
  "demo_jwe = \<lparr>ProtectedHeader = zero_JweHeader\<lparr>hAlg := ''dir'', hEnc := ''A256GCM''\<rparr>, RawProtectedHeader = [],
     EncryptedKey = [], InitializationVector = ''iv'', Ciphertext = ''c'', AuthenticationTag = ''t''\<rparr>"

lemma demo_jwe_ok: "wf_JweHeader (ProtectedHeader demo_jwe)" "acceptable_header (ProtectedHeader demo_jwe)"
  by (simp_all add: demo_jwe_def zero_JweHeader_def zero_JwsHeader_def JwsHeader.extend_def wf_JweHeader_def
      wf_JwsHeader_def wf_blob_def acceptable_header_def supportedJweAlgs_def supportedJweEncs_def)

lemma demo_jwe_text: "case_sum (\<lambda>_. 1000) length (JweRfc7516Compact_Marshal demo_jwe) < 100"
  by code_simp

lemma demo_jwe_size: "JweRfc7516Compact_Marshal demo_jwe = Inr t \<Longrightarrow> length t \<le> MaxCompactSize"
  using demo_jwe_text by (simp add: MaxCompactSize_def)

text \<open>
  C32: a compact JWE with a well-formed header naming a supported algorithm and encryption is
  serialised without error; unless the text exceeds the size bound it is parsed back to the same
  parts, keeping the received header octets, and the additional authenticated data of the parsed
  JWE is exactly the header segment that was sent.
\<close>

theorem JweCompact_roundtrip:
  assumes "wf_JweHeader (ProtectedHeader j)" "acceptable_header (ProtectedHeader j)"
  shows "\<exists>t raw. JweRfc7516Compact_Marshal j = Inr t \<and> MarshalProtectedHeader (ProtectedHeader j) = Inr raw
    \<and> AAD (j\<lparr>RawProtectedHeader := raw\<rparr>) = Inr raw
    \<and> JweRfc7516Compact_Unmarshal zero_compact t = (if length t \<le> MaxCompactSize
        then Inr (j\<lparr>RawProtectedHeader := raw\<rparr>) else Inl (Jose jose_error.ErrInputTooLarge))"
  using assms by (rule compact_roundtrip)

theorem JweCompact_roundtrip_witness:
  "\<exists>t raw. JweRfc7516Compact_Marshal demo_jwe = Inr t
    \<and> JweRfc7516Compact_Unmarshal zero_compact t = Inr (demo_jwe\<lparr>RawProtectedHeader := raw\<rparr>)"
  using JweCompact_roundtrip [OF demo_jwe_ok] demo_jwe_size by auto

text \<open>
  A compact JWE that parses names an algorithm and an encryption from the supported sets and
  lists no critical extension, and its additional authenticated data is the text before the first
  dot of the input, octet for octet, whatever the header's serialisation.
\<close>

theorem JweCompact_Unmarshal_accepts:
  assumes "JweRfc7516Compact_Unmarshal jwe0 src = Inr jwe"
  shows "acceptable_header (ProtectedHeader jwe) \<and> AAD jwe = Inr (takeWhile (\<lambda>c. c \<noteq> CHR ''.'') src)"
  using assms by (rule compact_accepts)

theorem JweCompact_Unmarshal_accepts_witness:
  "\<exists>t raw. JweRfc7516Compact_Marshal demo_jwe = Inr t \<and> acceptable_header (ProtectedHeader demo_jwe)
    \<and> AAD (demo_jwe\<lparr>RawProtectedHeader := raw\<rparr>) = Inr (takeWhile (\<lambda>c. c \<noteq> CHR ''.'') t)"
proof -
  obtain t raw where t: "JweRfc7516Compact_Marshal demo_jwe = Inr t"
    "JweRfc7516Compact_Unmarshal zero_compact t = Inr (demo_jwe\<lparr>RawProtectedHeader := raw\<rparr>)"
    using compact_roundtrip [OF demo_jwe_ok] demo_jwe_size by auto
  from JweCompact_Unmarshal_accepts [OF t(2)] t(1) show ?thesis by auto
qed

end
