(* ===== verification/Hmac.thy ===== *)
theory Hmac
  imports Helpers
begin

text \<open>
  \<open>hmac_sha_cryptor.go\<close>. A \<open>hash.Hash\<close> collects what is written to it since the last \<open>Reset\<close> and
  \<open>Sum\<close> is a function of that; for a keyed MAC the function is the MAC under its key, which is not
  part of the source. The dynamic type of the interface value is kept, because the constructor
  inspects it. \<open>HmacShaCryptor_Hash\<close> and \<open>HmacShaCryptor_Destroy\<close> are the methods as atomic
  operations; \<open>hmac_step\<close> interleaves concurrent calls statement by statement under the mutex.
\<close>

section \<open>Hashes and their types\<close>

datatype go_type = Named string string | PointerTo go_type | Unnamed

fun type_Name :: "go_type \<Rightarrow> string" where
  "type_Name (Named n p) = n"
| "type_Name _ = []"

fun type_PkgPath :: "go_type \<Rightarrow> string" where
  "type_PkgPath (Named n p) = p"
| "type_PkgPath _ = []"

fun type_Elem :: "go_type \<Rightarrow> go_type" where
  "type_Elem (PointerTo t) = t"
| "type_Elem t = t"

text \<open>\<open>strings.Contains\<close>.\<close>

definition str_contains :: "string \<Rightarrow> string \<Rightarrow> bool" where
  "str_contains s sub \<longleftrightarrow> list_ex (\<lambda>i. take (length sub) (drop i s) = sub) [0..<Suc (length s)]"

record hash_Hash =
  hhType :: "go_type option"
  hhKeyedHash :: bool
  hhSum :: "bytes \<Rightarrow> bytes"
  hhWritten :: bytes

definition hash_Reset :: "hash_Hash \<Rightarrow> hash_Hash" where
  "hash_Reset h = h\<lparr>hhWritten := []\<rparr>"

definition hash_Write :: "hash_Hash \<Rightarrow> bytes \<Rightarrow> hash_Hash" where
  "hash_Write h b = h\<lparr>hhWritten := hhWritten h @ b\<rparr>"

definition hash_Sum :: "hash_Hash \<Rightarrow> bytes" where
  "hash_Sum h = hhSum h (hhWritten h)"

text \<open>\<open>hhType\<close> is \<open>None\<close> for a nil interface; \<open>hhKeyedHash\<close> says that the type has the marker method.\<close>

definition isHmac :: "hash_Hash \<Rightarrow> bool" where
  "isHmac h = (if hhKeyedHash h then True
     else case hhType h of
       None \<Rightarrow> False
     | Some t \<Rightarrow> let t = type_Elem t in type_Name t = ''HMAC'' \<and> str_contains (type_PkgPath t) ''hmac'')"

section \<open>The cryptor\<close>

record HmacShaCryptor =
  hmacKid :: string
  hmacHash :: "hash_Hash option"
  hmacDestroyed :: bool

definition HmacShaCryptor_Kid :: "HmacShaCryptor \<Rightarrow> string" where
  "HmacShaCryptor_Kid h = hmacKid h"

definition NewHmacShaCryptor :: "string \<Rightarrow> hash_Hash \<Rightarrow> err + HmacShaCryptor" where
  "NewHmacShaCryptor kid h =
     (if \<not> isHmac h then Inl (GoPanic ''gose: NewHmacShaCryptor requires a keyed MAC'')
      else Inr \<lparr>hmacKid = kid, hmacHash = Some h, hmacDestroyed = False\<rparr>)"

definition destroyed_panic :: err where
  "destroyed_panic = GoPanic ''gose: Hash called on a destroyed HmacShaCryptor''"

definition HmacShaCryptor_Hash :: "HmacShaCryptor \<Rightarrow> bytes \<Rightarrow> HmacShaCryptor \<times> (err + bytes)" where
  "HmacShaCryptor_Hash h input =
     (if hmacDestroyed h then (h, Inl destroyed_panic)
      else case hmacHash h of
        None \<Rightarrow> (h, Inl (GoPanic ''nil pointer dereference''))
      | Some hh \<Rightarrow> let hh' = hash_Write (hash_Reset hh) input in (h\<lparr>hmacHash := Some hh'\<rparr>, Inr (hash_Sum hh')))"

definition HmacShaCryptor_Destroy :: "HmacShaCryptor \<Rightarrow> HmacShaCryptor" where
  "HmacShaCryptor_Destroy h = h\<lparr>hmacDestroyed := True, hmacHash := None\<rparr>"

lemma Hash_eq: "\<not> hmacDestroyed h \<Longrightarrow> hmacHash h = Some hh \<Longrightarrow> snd (HmacShaCryptor_Hash h input) = Inr (hhSum hh input)"
  by (simp add: HmacShaCryptor_Hash_def hash_Reset_def hash_Write_def hash_Sum_def)

lemma Hash_Inr:
  assumes "snd (HmacShaCryptor_Hash h input) = Inr tag"
  obtains hh where "\<not> hmacDestroyed h" "hmacHash h = Some hh" "tag = hhSum hh input"
  using assms Hash_eq [of h _ input]
  by (cases "hmacHash h") (auto simp: HmacShaCryptor_Hash_def split: if_splits)

text \<open>The octets a previous call left behind do not matter: calls on a shared instance do not disturb each other.\<close>

lemma Hash_repeated: "snd (HmacShaCryptor_Hash (fst (HmacShaCryptor_Hash h a)) b) = snd (HmacShaCryptor_Hash h b)"
  by (simp add: HmacShaCryptor_Hash_def hash_Reset_def hash_Write_def hash_Sum_def split: option.split)

section \<open>Concurrent calls\<close>

text \<open>
  Where a goroutine is: in \<open>Hash\<close> waiting for the mutex, before the test, before \<open>Reset\<close>, \<open>Write\<close>
  and \<open>Sum\<close>, and before the deferred unlock with its outcome; in \<open>Destroy\<close> waiting for the mutex,
  before each of the two assignments, and before the unlock.
\<close>

datatype hpoint =
    HWait bytes | HTest bytes | HReset bytes | HWrite bytes | HSum bytes | HUnlock bytes "err + bytes"
  | HReturned bytes "err + bytes"
  | DWait | DMark | DDrop | DUnlock | DReturned

fun in_section :: "hpoint \<Rightarrow> bool" where
  "in_section (HTest _) = True"
| "in_section (HReset _) = True"
| "in_section (HWrite _) = True"
| "in_section (HSum _) = True"
| "in_section (HUnlock _ _) = True"
| "in_section DMark = True"
| "in_section DDrop = True"
| "in_section DUnlock = True"
| "in_section _ = False"

record hworld =
  hwKey :: HmacShaCryptor
  hwMutex :: "nat option"
  hwPoints :: "nat \<rightharpoonup> hpoint"

definition hgoto :: "nat \<Rightarrow> hpoint \<Rightarrow> hworld \<Rightarrow> hworld" where
  "hgoto t p w = w\<lparr>hwPoints := (hwPoints w)(t \<mapsto> p)\<rparr>"

inductive hmac_step :: "hworld \<Rightarrow> hworld \<Rightarrow> bool" where
  call_hash: "hwPoints w t = None \<Longrightarrow> hmac_step w (hgoto t (HWait x) w)"
| call_destroy: "hwPoints w t = None \<Longrightarrow> hmac_step w (hgoto t DWait w)"
| hash_lock: "hwPoints w t = Some (HWait x) \<Longrightarrow> hwMutex w = None \<Longrightarrow>
    hmac_step w (hgoto t (HTest x) (w\<lparr>hwMutex := Some t\<rparr>))"
| hash_refuse: "hwPoints w t = Some (HTest x) \<Longrightarrow> hmacDestroyed (hwKey w) \<Longrightarrow>
    hmac_step w (hgoto t (HUnlock x (Inl destroyed_panic)) w)"
| hash_test: "hwPoints w t = Some (HTest x) \<Longrightarrow> \<not> hmacDestroyed (hwKey w) \<Longrightarrow> hmac_step w (hgoto t (HReset x) w)"
| hash_reset: "hwPoints w t = Some (HReset x) \<Longrightarrow> hmacHash (hwKey w) = Some hh \<Longrightarrow>
    hmac_step w (hgoto t (HWrite x) (w\<lparr>hwKey := (hwKey w)\<lparr>hmacHash := Some (hash_Reset hh)\<rparr>\<rparr>))"
| hash_nil: "hwPoints w t = Some (HReset x) \<Longrightarrow> hmacHash (hwKey w) = None \<Longrightarrow>
    hmac_step w (hgoto t (HUnlock x (Inl (GoPanic ''nil pointer dereference''))) w)"
| hash_write: "hwPoints w t = Some (HWrite x) \<Longrightarrow> hmacHash (hwKey w) = Some hh \<Longrightarrow>
    hmac_step w (hgoto t (HSum x) (w\<lparr>hwKey := (hwKey w)\<lparr>hmacHash := Some (hash_Write hh x)\<rparr>\<rparr>))"
| hash_sum: "hwPoints w t = Some (HSum x) \<Longrightarrow> hmacHash (hwKey w) = Some hh \<Longrightarrow>
    hmac_step w (hgoto t (HUnlock x (Inr (hash_Sum hh))) w)"
| hash_unlock: "hwPoints w t = Some (HUnlock x r) \<Longrightarrow> hmac_step w (hgoto t (HReturned x r) (w\<lparr>hwMutex := None\<rparr>))"
| destroy_lock: "hwPoints w t = Some DWait \<Longrightarrow> hwMutex w = None \<Longrightarrow>
    hmac_step w (hgoto t DMark (w\<lparr>hwMutex := Some t\<rparr>))"
| destroy_mark: "hwPoints w t = Some DMark \<Longrightarrow>
    hmac_step w (hgoto t DDrop (w\<lparr>hwKey := (hwKey w)\<lparr>hmacDestroyed := True\<rparr>\<rparr>))"
| destroy_drop: "hwPoints w t = Some DDrop \<Longrightarrow>
    hmac_step w (hgoto t DUnlock (w\<lparr>hwKey := (hwKey w)\<lparr>hmacHash := None\<rparr>\<rparr>))"
| destroy_unlock: "hwPoints w t = Some DUnlock \<Longrightarrow> hmac_step w (hgoto t DReturned (w\<lparr>hwMutex := None\<rparr>))"

definition initial_hworld :: "HmacShaCryptor \<Rightarrow> hworld" where
  "initial_hworld k = \<lparr>hwKey = k, hwMutex = None, hwPoints = Map.empty\<rparr>"

section \<open>The calls as atomic operations\<close>

datatype acall = AHash bytes | AHashed bytes "err + bytes" | ADestroy | ADestroyed

record aworld =
  awKey :: HmacShaCryptor
  awCalls :: "nat \<rightharpoonup> acall"

inductive atomic_step :: "aworld \<Rightarrow> aworld \<Rightarrow> bool" where
  begin_hash: "awCalls a t = None \<Longrightarrow> atomic_step a (a\<lparr>awCalls := (awCalls a)(t \<mapsto> AHash x)\<rparr>)"
| begin_destroy: "awCalls a t = None \<Longrightarrow> atomic_step a (a\<lparr>awCalls := (awCalls a)(t \<mapsto> ADestroy)\<rparr>)"
| run_hash: "awCalls a t = Some (AHash x) \<Longrightarrow> HmacShaCryptor_Hash (awKey a) x = (k, r) \<Longrightarrow>
    atomic_step a (a\<lparr>awKey := k\<lparr>hmacHash := map_option hash_Reset (hmacHash k)\<rparr>, awCalls := (awCalls a)(t \<mapsto> AHashed x r)\<rparr>)"
| run_destroy: "awCalls a t = Some ADestroy \<Longrightarrow>
    atomic_step a (a\<lparr>awKey := HmacShaCryptor_Destroy (awKey a), awCalls := (awCalls a)(t \<mapsto> ADestroyed)\<rparr>)"

text \<open>
  What a concrete state stands for: the octets written are forgotten, a cryptor marked as destroyed
  has lost its hash, and a call has happened as soon as its outcome is fixed.
\<close>

fun abs_point :: "hpoint \<Rightarrow> acall" where
  "abs_point (HUnlock x r) = AHashed x r"
| "abs_point (HReturned x r) = AHashed x r"
| "abs_point (HWait x) = AHash x"
| "abs_point (HTest x) = AHash x"
| "abs_point (HReset x) = AHash x"
| "abs_point (HWrite x) = AHash x"
| "abs_point (HSum x) = AHash x"
| "abs_point DWait = ADestroy"
| "abs_point DMark = ADestroy"
| "abs_point _ = ADestroyed"

definition abs_key :: "HmacShaCryptor \<Rightarrow> HmacShaCryptor" where
  "abs_key k = k\<lparr>hmacHash := if hmacDestroyed k then None else map_option hash_Reset (hmacHash k)\<rparr>"

definition abs_hworld :: "hworld \<Rightarrow> aworld" where
  "abs_hworld w = \<lparr>awKey = abs_key (hwKey w), awCalls = (\<lambda>t. map_option abs_point (hwPoints w t))\<rparr>"

text \<open>The invariant: at most the owner of the mutex is in the critical section, and what it found stays true there.\<close>

fun point_ok :: "HmacShaCryptor \<Rightarrow> hpoint \<Rightarrow> bool" where
  "point_ok k (HReset x) \<longleftrightarrow> \<not> hmacDestroyed k \<and> hmacHash k \<noteq> None"
| "point_ok k (HWrite x) \<longleftrightarrow> \<not> hmacDestroyed k \<and> (\<exists>hh. hmacHash k = Some hh \<and> hhWritten hh = [])"
| "point_ok k (HSum x) \<longleftrightarrow> \<not> hmacDestroyed k \<and> (\<exists>hh. hmacHash k = Some hh \<and> hhWritten hh = x)"
| "point_ok k DDrop \<longleftrightarrow> hmacDestroyed k"
| "point_ok k DUnlock \<longleftrightarrow> hmacDestroyed k"
| "point_ok k _ \<longleftrightarrow> True"

definition hworld_ok :: "hworld \<Rightarrow> bool" where
  "hworld_ok w \<longleftrightarrow> (\<forall>t p. hwPoints w t = Some p \<longrightarrow> (in_section p \<longrightarrow> hwMutex w = Some t) \<and> point_ok (hwKey w) p)
     \<and> (\<not> hmacDestroyed (hwKey w) \<longrightarrow> hmacHash (hwKey w) \<noteq> None)"

end
