(* ===== verification/JweCrypt.thy ===== *)
theory JweCrypt
  imports Keys Jwe Hmac
begin

text \<open>
  Encryption: \<open>aes_gcm_cryptor.go\<close>, \<open>aes_cbc_cryptor.go\<close>, \<open>jwe_hmac_verifier.go\<close> and the direct JWE
  encryptors and decryptors. A source of random octets is a function \<open>rng\<close> from the number of octets
  \<open>io.ReadFull\<close> asks for; \<open>None\<close> is its error. The block mode and the hash of the AES-CBC path keep
  state, so its methods return the receiver as they leave it, also when they fail.
\<close>

type_synonym rng = "nat \<Rightarrow> bytes option"

definition read_full :: "rng \<Rightarrow> nat \<Rightarrow> err + bytes" where
  "read_full rng n = of_opt (Std (LibError ''rand'')) (rng n)"

section \<open>AES-GCM\<close>

definition validEncryptionOpts :: "KeyOps list" where "validEncryptionOpts = [KeyOpsEncrypt]"
definition validDecryptionOpts :: "KeyOps list" where "validDecryptionOpts = [KeyOpsDecrypt]"
definition validCryptorOpts :: "KeyOps list" where "validCryptorOpts = [KeyOpsEncrypt, KeyOpsDecrypt]"

record AesGcmCryptor =
  gcmKid :: string
  gcmAlg :: Alg
  gcmAead :: AEAD
  gcmOpts :: "KeyOps list"
  gcmRng :: rng

definition AesGcmCryptor_GenerateNonce :: "AesGcmCryptor \<Rightarrow> err + bytes" where
  "AesGcmCryptor_GenerateNonce cryptor = read_full (gcmRng cryptor) (aead_NonceSize (gcmAead cryptor))"

definition AesGcmCryptor_Open ::
    "AesGcmCryptor \<Rightarrow> KeyOps \<Rightarrow> bytes \<Rightarrow> bytes \<Rightarrow> bytes \<Rightarrow> bytes \<Rightarrow> err + bytes" where
  "AesGcmCryptor_Open cryptor operation nonce ciphertext aad tag =
     (if \<not> permits validDecryptionOpts (gcmOpts cryptor) operation then Inl (Gose ErrInvalidOperations)
      else if length ciphertext > MaxPlaintextSize then Inl (Gose gose_error.ErrInputTooLarge)
      else if length nonce \<noteq> aead_NonceSize (gcmAead cryptor) then Inl (Gose ErrInvalidNonce)
      else if length tag \<noteq> aead_Overhead (gcmAead cryptor) then Inl (Gose ErrInvalidAuthenticationTag)
      else of_opt (Std (LibError ''cipher: message authentication failed''))
             (aead_Open (gcmAead cryptor) nonce (ciphertext @ tag) aad))"

definition sealAEAD :: "AEAD \<Rightarrow> bytes option \<Rightarrow> bytes \<Rightarrow> bytes \<Rightarrow> err + bytes" where
  "sealAEAD aead nonce plaintext aad = of_opt (Gose ErrSealFailed) (aead_Seal aead nonce plaintext aad)"

definition AesGcmCryptor_Seal ::
    "AesGcmCryptor \<Rightarrow> KeyOps \<Rightarrow> bytes option \<Rightarrow> bytes \<Rightarrow> bytes \<Rightarrow> err + bytes \<times> bytes" where
  "AesGcmCryptor_Seal cryptor operation nonce plaintext aad =
     (if \<not> permits validEncryptionOpts (gcmOpts cryptor) operation then Inl (Gose ErrInvalidOperations)
      else if length plaintext > MaxPlaintextSize then Inl (Gose gose_error.ErrInputTooLarge)
      else if nonce \<noteq> None \<and> length (the nonce) \<noteq> aead_NonceSize (gcmAead cryptor) then Inl (Gose ErrInvalidNonce)
      else let sz = aead_Overhead (gcmAead cryptor) + length plaintext
                 + (if nonce = None then aead_NonceSize (gcmAead cryptor) else 0) in
        rbind (sealAEAD (gcmAead cryptor) nonce plaintext aad) (\<lambda>dst.
        if length dst \<noteq> sz then Inl (Gose ErrSealFailed)
        else Inr (take (length plaintext) dst, drop (length plaintext) dst)))"

definition NewAesGcmCryptor :: "AEAD \<Rightarrow> rng \<Rightarrow> string \<Rightarrow> Alg \<Rightarrow> KeyOps list \<Rightarrow> AesGcmCryptor" where
  "NewAesGcmCryptor aead rng kid alg operations =
     \<lparr>gcmKid = kid, gcmAlg = alg, gcmAead = aead, gcmOpts = cloneOps operations, gcmRng = rng\<rparr>"

definition NewAesGcmCryptorFromJwk :: "crypto_lib \<Rightarrow> rng \<Rightarrow> Jwk \<Rightarrow> KeyOps list \<Rightarrow> err + AesGcmCryptor" where
  "NewAesGcmCryptorFromJwk C rng jwk required =
     (if length (intersection validCryptorOpts (Jwk_Ops jwk)) = 0 then Inl (Gose ErrInvalidOperations)
      else rbind (LoadSymmetricAEAD C jwk required) (\<lambda>aead.
        Inr \<lparr>gcmKid = Jwk_Kid jwk, gcmAlg = Jwk_Alg jwk, gcmAead = aead, gcmOpts = cloneOps (Jwk_Ops jwk), gcmRng = rng\<rparr>))"

section \<open>AES-CBC\<close>

text \<open>
  \<open>cipher.BlockMode\<close> keeps a chaining state: \<open>bm_Crypt\<close> maps state and whole blocks to the next
  state and as many octets. \<open>CryptBlocks\<close> panics on input that is not whole blocks or does not fit
  the destination; it leaves the rest of the destination alone.
\<close>

record 'b BlockMode =
  bm_State :: 'b
  bm_BlockSize :: nat
  bm_Crypt :: "'b \<Rightarrow> bytes \<Rightarrow> 'b \<times> bytes"

definition CryptBlocks :: "'b BlockMode \<Rightarrow> bytes \<Rightarrow> bytes \<Rightarrow> err + 'b BlockMode \<times> bytes" where
  "CryptBlocks mode dst src =
     (if length src mod bm_BlockSize mode \<noteq> 0 then Inl (GoPanic ''crypto/cipher: input not full blocks'')
      else if length dst < length src then Inl (GoPanic ''crypto/cipher: output smaller than input'')
      else let (s, out) = bm_Crypt mode (bm_State mode) src in
        Inr (mode\<lparr>bm_State := s\<rparr>, out @ drop (length out) dst))"

record 'b AesCbcCryptor =
  cbcKid :: string
  cbcAlg :: Alg
  cbcMode :: "'b BlockMode"

definition NewAesCbcCryptor :: "'b BlockMode \<Rightarrow> string \<Rightarrow> Alg \<Rightarrow> 'b AesCbcCryptor" where
  "NewAesCbcCryptor blockCipher kid alg = \<lparr>cbcKid = kid, cbcAlg = alg, cbcMode = blockCipher\<rparr>"

definition AesCbcCryptor_Kid :: "'b AesCbcCryptor \<Rightarrow> string" where
  [simp]: "AesCbcCryptor_Kid cryptor = cbcKid cryptor"

definition AesCbcCryptor_Algorithm :: "'b AesCbcCryptor \<Rightarrow> Alg" where
  [simp]: "AesCbcCryptor_Algorithm cryptor = cbcAlg cryptor"

definition zeros :: "nat \<Rightarrow> bytes" where
  "zeros n = replicate n CHR 0x00"

definition trimSize :: "'b AesCbcCryptor \<Rightarrow> bytes \<Rightarrow> bytes" where
  "trimSize cryptor input =
     (if length input > MaxPlaintextSize then []
      else let blockSize = bm_BlockSize (cbcMode cryptor) in
        if length input mod blockSize \<noteq> 0 then
          let multiplier = length input div blockSize in
          input @ zeros ((multiplier + 1) * blockSize - length input)
        else input)"

definition getDestinationSize :: "nat \<Rightarrow> nat \<Rightarrow> nat" where
  "getDestinationSize inputLength blockSize =
     (let multiplier = inputLength div blockSize in
      if multiplier > 0 then multiplier * blockSize + blockSize else blockSize)"

text \<open>The result \<open>None\<close> is a nil slice.\<close>

definition AesCbcCryptor_Seal :: "'b AesCbcCryptor \<Rightarrow> bytes \<Rightarrow> err + 'b AesCbcCryptor \<times> bytes option" where
  "AesCbcCryptor_Seal cryptor plaintext =
     (if length plaintext > MaxPlaintextSize then Inr (cryptor, None)
      else let src = trimSize cryptor plaintext;
               dst = zeros (getDestinationSize (length plaintext) (bm_BlockSize (cbcMode cryptor))) in
        rbind (CryptBlocks (cbcMode cryptor) dst src) (\<lambda>(mode, out).
        Inr (cryptor\<lparr>cbcMode := mode\<rparr>, Some out)))"

definition AesCbcCryptor_Open :: "'b AesCbcCryptor \<Rightarrow> bytes \<Rightarrow> err + 'b AesCbcCryptor \<times> bytes option" where
  "AesCbcCryptor_Open cryptor ciphertext =
     (if length ciphertext > MaxPlaintextSize then Inr (cryptor, None)
      else if length ciphertext mod bm_BlockSize (cbcMode cryptor) \<noteq> 0 then Inr (cryptor, None)
      else let dst = zeros (getDestinationSize (length ciphertext) (bm_BlockSize (cbcMode cryptor))) in
        rbind (CryptBlocks (cbcMode cryptor) dst ciphertext) (\<lambda>(mode, out).
        Inr (cryptor\<lparr>cbcMode := mode\<rparr>, Some out)))"

section \<open>The HMAC verifier\<close>

record JweHmacVerifierImpl =
  hvKey :: HmacShaCryptor

definition NewJweHmacVerifier :: "HmacShaCryptor \<Rightarrow> JweHmacVerifierImpl" where
  [simp]: "NewJweHmacVerifier hmacKey = \<lparr>hvKey = hmacKey\<rparr>"

text \<open>\<open>computeAL\<close> encodes the length in octets.\<close>

definition computeAL :: "bytes \<Rightarrow> bytes" where
  "computeAL aad = uintToBytesBigEndian (of_nat (length aad))"

definition verifier_Hash :: "JweHmacVerifierImpl \<Rightarrow> bytes \<Rightarrow> JweHmacVerifierImpl \<times> (err + bytes)" where
  "verifier_Hash verifier input =
     (let (hmacKey, r) = HmacShaCryptor_Hash (hvKey verifier) input in (verifier\<lparr>hvKey := hmacKey\<rparr>, r))"

definition VerifyCompact :: "JweHmacVerifierImpl \<Rightarrow> JweRfc7516Compact \<Rightarrow> JweHmacVerifierImpl \<times> (err + bool)" where
  "VerifyCompact verifier jwe = (case AAD jwe of
     Inl e \<Rightarrow> (verifier, Inl e)
   | Inr aad \<Rightarrow>
       let inputHmac = Helpers.concatByteArrays [aad, InitializationVector jwe, Ciphertext jwe, computeAL aad];
           (verifier, r) = verifier_Hash verifier inputHmac in
       (verifier, rbind r (\<lambda>outputHmac. Inr (outputHmac = AuthenticationTag jwe))))"

definition ComputeHash :: "JweHmacVerifierImpl \<Rightarrow> bytes \<Rightarrow> bytes \<Rightarrow> bytes \<Rightarrow> JweHmacVerifierImpl \<times> (err + bytes)" where
  "ComputeHash verifier aad iv ciphertext =
     verifier_Hash verifier (Helpers.concatByteArrays [aad, iv, ciphertext, computeAL aad])"

section \<open>Direct encryption with AES-GCM\<close>

definition gcmAlgToEncMap :: "(Alg \<times> Enc) list" where
  "gcmAlgToEncMap = [(AlgA128GCM, EncA128GCM), (AlgA192GCM, EncA192GCM), (AlgA256GCM, EncA256GCM)]"

text \<open>Indexing a map with an absent key yields the empty string.\<close>

definition enc_of :: "(Alg \<times> Enc) list \<Rightarrow> Alg \<Rightarrow> Enc" where
  "enc_of m alg = (case map_of m alg of Some e \<Rightarrow> e | None \<Rightarrow> [])"

record JweDirectEncryptorAead =
  deKey :: AesGcmCryptor
  deExternalIV :: bool

definition NewJweDirectEncryptorAead :: "AesGcmCryptor \<Rightarrow> bool \<Rightarrow> JweDirectEncryptorAead" where
  [simp]: "NewJweDirectEncryptorAead key externalIV = \<lparr>deKey = key, deExternalIV = externalIV\<rparr>"

definition direct_header :: "AesGcmCryptor \<Rightarrow> bytes \<Rightarrow> JweHeader" where
  "direct_header key aad = zero_JweHeader\<lparr>hAlg := AlgDir, hKid := gcmKid key,
     hEnc := enc_of gcmAlgToEncMap (gcmAlg key), hOtherAad := (if length aad > 0 then Some aad else None)\<rparr>"

definition JweDirectEncryptorAead_Encrypt :: "JweDirectEncryptorAead \<Rightarrow> bytes \<Rightarrow> bytes \<Rightarrow> err + string" where
  "JweDirectEncryptorAead_Encrypt encryptor plaintext aad = (let key = deKey encryptor in
     rbind (if deExternalIV encryptor then Inr None else rbind (AesGcmCryptor_GenerateNonce key) (\<lambda>n. Inr (Some n))) (\<lambda>nonce.
     let jwe = zero_Jwe\<lparr>jweHeader := direct_header key aad, jweIv := (case nonce of None \<Rightarrow> [] | Some n \<Rightarrow> n),
       jwePlaintext := plaintext\<rparr> in
     rbind (Jwe_MarshalHeader jwe) (\<lambda>jwe1.
     rbind (AesGcmCryptor_Seal key KeyOpsEncrypt nonce plaintext (MarshalledHeader jwe1)) (\<lambda>(ct, tag).
     if deExternalIV encryptor then
       rbind (AesGcmCryptor_GenerateNonce key) (\<lambda>throwaway.
       if length tag < length throwaway then Inl (Gose ErrInvalidAuthenticationTag)
       else Inr (Jwe_Marshal (jwe1\<lparr>jweCiphertext := ct, jweIv := drop (length tag - length throwaway) tag,
              jweTag := take (length tag - length throwaway) tag\<rparr>)))
     else Inr (Jwe_Marshal (jwe1\<lparr>jweCiphertext := ct, jweTag := tag\<rparr>))))))"

text \<open>\<open>NewJweDirectDecryptorAeadImpl\<close>: later keys of the list replace earlier ones with their identifier.\<close>

record JweDirectDecryptorAeadImpl =
  ddKeystore :: "string \<rightharpoonup> AesGcmCryptor"

definition NewJweDirectDecryptorAeadImpl :: "AesGcmCryptor list \<Rightarrow> JweDirectDecryptorAeadImpl" where
  "NewJweDirectDecryptorAeadImpl keys =
     foldl (\<lambda>decryptor key. decryptor\<lparr>ddKeystore := (ddKeystore decryptor)(gcmKid key \<mapsto> key)\<rparr>) \<lparr>ddKeystore = Map.empty\<rparr> keys"

definition JweDirectDecryptorAead_Decrypt ::
    "JweDirectDecryptorAeadImpl \<Rightarrow> string \<Rightarrow> err + bytes \<times> bytes option" where
  "JweDirectDecryptorAead_Decrypt decryptor jwe =
     (if length jwe > MaxCompactSize then Inl (Gose gose_error.ErrInputTooLarge)
      else rbind (Jwe_Unmarshal zero_Jwe jwe) (\<lambda>j.
      if hZip (jweHeader j) \<noteq> [] then Inl (Gose ErrZipCompressionNotSupported)
      else if length (hKid (jweHeader j)) = 0 then Inl (Gose ErrInvalidKid)
      else case ddKeystore decryptor (hKid (jweHeader j)) of
        None \<Rightarrow> Inl (Gose ErrUnknownKey)
      | Some key \<Rightarrow> (case map_of gcmAlgToEncMap (gcmAlg key) of
          None \<Rightarrow> Inl (Gose gose_error.ErrInvalidEncryption)
        | Some enc \<Rightarrow>
            if hAlg (jweHeader j) \<noteq> AlgDir \<or> hEnc (jweHeader j) \<noteq> enc then Inl (Gose gose_error.ErrInvalidAlgorithm)
            else rbind (AesGcmCryptor_Open key KeyOpsDecrypt (jweIv j) (jweCiphertext j) (MarshalledHeader j) (jweTag j))
                   (\<lambda>plaintext. Inr (plaintext, hOtherAad (jweHeader j))))))"

section \<open>Direct encryption with AES-CBC and HMAC\<close>

definition cbcAlgToEncMap :: "(Alg \<times> Enc) list" where
  "cbcAlgToEncMap = [(AlgA256CBC, EncA256CBC), (AlgA256GCM, EncA256GCM)]"

record 'b JweDirectEncryptorBlock =
  ebKey :: "'b AesCbcCryptor"
  ebIv :: bytes
  ebVerifier :: JweHmacVerifierImpl

definition NewJweDirectEncryptorBlock :: "'b AesCbcCryptor \<Rightarrow> HmacShaCryptor \<Rightarrow> bytes \<Rightarrow> 'b JweDirectEncryptorBlock" where
  "NewJweDirectEncryptorBlock aesKey hmacKey iv = \<lparr>ebKey = aesKey, ebIv = iv, ebVerifier = \<lparr>hvKey = hmacKey\<rparr>\<rparr>"

definition block_makeJweProtectedHeader :: "'b JweDirectEncryptorBlock \<Rightarrow> JweProtectedHeader" where
  "block_makeJweProtectedHeader encryptor = zero_JweHeader\<lparr>hAlg := AesCbcCryptor_Algorithm (ebKey encryptor),
     hKid := AesCbcCryptor_Kid (ebKey encryptor), hTyp := ''JWT'', hCty := ''JWT'',
     hEnc := enc_of cbcAlgToEncMap (AesCbcCryptor_Algorithm (ebKey encryptor))\<rparr>"

text \<open>The second argument of \<open>Encrypt\<close> is ignored. A nil slice is encoded like an empty one.\<close>

definition JweDirectEncryptorBlock_Encrypt ::
    "'b JweDirectEncryptorBlock \<Rightarrow> bytes \<Rightarrow> bytes \<Rightarrow> 'b JweDirectEncryptorBlock \<times> (err + string)" where
  "JweDirectEncryptorBlock_Encrypt encryptor plaintext _ =
     (let iv = ebIv encryptor;
          h = (block_makeJweProtectedHeader encryptor)\<lparr>hOtherAad := Some (uintToBytesBigEndian (of_nat (length plaintext)))\<rparr> in
      case MarshalProtectedHeader h of
        Inl e \<Rightarrow> (encryptor, Inl e)
      | Inr aad \<Rightarrow> (case AesCbcCryptor_Seal (ebKey encryptor) plaintext of
          Inl e \<Rightarrow> (encryptor, Inl e)
        | Inr (aesKey, sealed) \<Rightarrow>
            let ciphertext = (case sealed of None \<Rightarrow> [] | Some c \<Rightarrow> c);
                (verifier, r) = ComputeHash (ebVerifier encryptor) aad iv ciphertext in
            (encryptor\<lparr>ebKey := aesKey, ebVerifier := verifier\<rparr>, rbind r (\<lambda>tag.
             JweRfc7516Compact_Marshal \<lparr>ProtectedHeader = h, RawProtectedHeader = [], EncryptedKey = [],
               InitializationVector = iv, Ciphertext = ciphertext, AuthenticationTag = tag\<rparr>))))"

record 'b JweDirectDecryptorBlock =
  dbKey :: "'b AesCbcCryptor"
  dbVerifier :: JweHmacVerifierImpl

definition NewJweDirectDecryptorBlock :: "'b AesCbcCryptor \<Rightarrow> HmacShaCryptor \<Rightarrow> 'b JweDirectDecryptorBlock" where
  "NewJweDirectDecryptorBlock aesKey hmacKey = \<lparr>dbKey = aesKey, dbVerifier = \<lparr>hvKey = hmacKey\<rparr>\<rparr>"

text \<open>What \<open>Decrypt\<close> does with the opened blocks: the authenticated length selects the plaintext.\<close>

definition declared_plaintext :: "JweRfc7516Compact \<Rightarrow> bytes \<Rightarrow> err + bytes" where
  "declared_plaintext jwe plaintextBlock = (case hOtherAad (ProtectedHeader jwe) of
     None \<Rightarrow> Inl (Fmt ''error decoding plaintext length: missing length header'')
   | Some data \<Rightarrow>
       if length data < 8 then Inl (Fmt ''error decoding plaintext length: header field too short'')
       else let plaintextLength = be_nat (take 8 data) in
         if plaintextLength > length plaintextBlock then Inl (Fmt ''error decoding plaintext: declared length'')
         else Inr (take plaintextLength plaintextBlock))"

definition JweDirectDecryptorBlock_Decrypt ::
    "'b JweDirectDecryptorBlock \<Rightarrow> string \<Rightarrow> 'b JweDirectDecryptorBlock \<times> (err + bytes \<times> bytes option)" where
  "JweDirectDecryptorBlock_Decrypt decryptor marshalledJwe =
     (if length marshalledJwe > MaxCompactSize then (decryptor, Inl (Gose gose_error.ErrInputTooLarge))
      else case JweRfc7516Compact_Unmarshal zero_compact marshalledJwe of
        Inl e \<Rightarrow> (decryptor, Inl e)
      | Inr jwe \<Rightarrow>
          if hAlg (ProtectedHeader jwe) \<noteq> AesCbcCryptor_Algorithm (dbKey decryptor) then
            (decryptor, Inl (Fmt ''error checking the JWE protected header's algorithm''))
          else if hKid (ProtectedHeader jwe) \<noteq> AesCbcCryptor_Kid (dbKey decryptor) then
            (decryptor, Inl (Fmt ''error checking the Key ID for decryption''))
          else let (verifier, integrity) = VerifyCompact (dbVerifier decryptor) jwe;
                   decryptor = decryptor\<lparr>dbVerifier := verifier\<rparr> in
            case integrity of
              Inl e \<Rightarrow> (decryptor, Inl e)
            | Inr False \<Rightarrow> (decryptor, Inl (Fmt ''error corrupted jwe : integrity check failed''))
            | Inr True \<Rightarrow>
                if hZip (ProtectedHeader jwe) \<noteq> [] then (decryptor, Inl (Gose ErrZipCompressionNotSupported))
                else if length (Ciphertext jwe) mod 16 \<noteq> 0 then (decryptor, Inl (Fmt ''error decrypting: ciphertext length''))
                else case AesCbcCryptor_Open (dbKey decryptor) (Ciphertext jwe) of
                  Inl e \<Rightarrow> (decryptor, Inl e)
                | Inr (aesKey, opened) \<Rightarrow>
                    (decryptor\<lparr>dbKey := aesKey\<rparr>,
                     rbind (declared_plaintext jwe (case opened of None \<Rightarrow> [] | Some p \<Rightarrow> p)) (\<lambda>plaintext. Inr (plaintext, None))))"

end
