(* ===== verification/JweKeyEncryption.thy ===== *)
theory JweKeyEncryption
  imports JweCrypt
begin

text \<open>
  JWE with an encrypted content-encryption key: \<open>jwe_key_encryption_encryptor.go\<close>,
  \<open>jwe_key_encryption_decryptor.go\<close>, the stores of decryption keys, \<open>key_generator.go\<close> and the
  keys of \<open>hsm/\<close>, whose PKCS#11 token is not part of the source: what the token answers is part of
  the key's record. What the library's key generation returns is an argument of the generators.
\<close>

section \<open>Decryption keys\<close>

text \<open>A key pair of the token, and the context through which the token is reached.\<close>

record SignerDecrypter =
  sdDecrypt :: "hash \<Rightarrow> bytes \<Rightarrow> err + bytes"
  sdPublic :: PublicKey

record crypto11_Context =
  ctxNewRandomReader :: "err + unit"
  ctxFindCertificate :: "bytes \<Rightarrow> bytes \<Rightarrow> err + x509 option"
  ctxFindKeyPair :: "bytes \<Rightarrow> err + SignerDecrypter option"

record hsm_key =
  hsmKid :: bytes
  hsmKeylabel :: bytes
  hsmCtx :: crypto11_Context
  hsmKey :: SignerDecrypter

definition NewAsymmetricDecryptionKey ::
    "crypto11_Context \<Rightarrow> SignerDecrypter \<Rightarrow> bytes \<Rightarrow> bytes \<Rightarrow> err + hsm_key" where
  [simp]: "NewAsymmetricDecryptionKey pkcs11Context key kid keylabel =
     Inr \<lparr>hsmKid = kid, hsmKeylabel = keylabel, hsmCtx = pkcs11Context, hsmKey = key\<rparr>"

definition hsm_Kid :: "hsm_key \<Rightarrow> string" where
  "hsm_Kid a = hsmKid a"

definition hsm_Algorithm :: "hsm_key \<Rightarrow> Alg" where
  "hsm_Algorithm a = AlgRSAOAEP"

definition hsm_Certificates :: "hsm_key \<Rightarrow> x509 option list" where
  "hsm_Certificates a =
     (case ctxFindCertificate (hsmCtx a) (hsmKid a) (hsmKeylabel a) of Inl _ \<Rightarrow> [] | Inr cert \<Rightarrow> [cert])"

definition hsm_Decrypt :: "hsm_key \<Rightarrow> KeyOps \<Rightarrow> hash \<Rightarrow> bytes \<Rightarrow> err + bytes" where
  "hsm_Decrypt a requested h ciphertext =
     rbind (ctxNewRandomReader (hsmCtx a)) (\<lambda>_. sdDecrypt (hsmKey a) h ciphertext)"

definition hsm_Encryptor :: "crypto_lib \<Rightarrow> hsm_key \<Rightarrow> err + RsaPublicKeyImpl" where
  "hsm_Encryptor C a =
     rbind (JwkFromPublicKey C (sdPublic (hsmKey a)) [KeyOpsEncrypt] (hsm_Certificates a)) NewRsaPublicKeyImpl"

datatype AsymmetricDecryptionKey = AdkRsa RsaPrivateKeyImpl | AdkHsm hsm_key

definition Adk_Algorithm :: "AsymmetricDecryptionKey \<Rightarrow> Alg" where
  "Adk_Algorithm k = (case k of AdkRsa r \<Rightarrow> RsaPrivateKeyImpl_Algorithm r | AdkHsm a \<Rightarrow> hsm_Algorithm a)"

definition Adk_Decrypt :: "crypto_lib \<Rightarrow> AsymmetricDecryptionKey \<Rightarrow> KeyOps \<Rightarrow> hash \<Rightarrow> bytes \<Rightarrow> err + bytes" where
  "Adk_Decrypt C k = (case k of AdkRsa r \<Rightarrow> RsaPrivateKeyImpl_Decrypt C r | AdkHsm a \<Rightarrow> hsm_Decrypt a)"

text \<open>The store's Go map as an association list with distinct names.\<close>

record AsymmetricDecryptionKeyStoreImpl =
  adkKeys :: "(string \<times> AsymmetricDecryptionKey) list"

definition NewAsymmetricDecryptionKeyStoreImpl ::
    "(string \<times> AsymmetricDecryptionKey) list \<Rightarrow> err + AsymmetricDecryptionKeyStoreImpl" where
  [simp]: "NewAsymmetricDecryptionKeyStoreImpl keys = Inr \<lparr>adkKeys = keys\<rparr>"

definition AsymmetricDecryptionKeyStoreImpl_Get ::
    "AsymmetricDecryptionKeyStoreImpl \<Rightarrow> string \<Rightarrow> err + AsymmetricDecryptionKey" where
  "AsymmetricDecryptionKeyStoreImpl_Get a kid = (case map_of (adkKeys a) kid of
     Some key \<Rightarrow> Inr key
   | None \<Rightarrow> if length (adkKeys a) = 1 then Inr (snd (hd (adkKeys a))) else Inl (Gose ErrUnknownKey))"

text \<open>The HSM's store. A found key pair that cannot decrypt is \<open>None\<close>.\<close>

record hsm_store =
  hsCtx :: crypto11_Context

definition NewAsymmetricDecryptionKeyStore :: "crypto11_Context \<Rightarrow> hsm_store" where
  [simp]: "NewAsymmetricDecryptionKeyStore ctx = \<lparr>hsCtx = ctx\<rparr>"

definition hsm_store_Get :: "hsm_store \<Rightarrow> string \<Rightarrow> err + AsymmetricDecryptionKey" where
  "hsm_store_Get a kid = rbind (ctxFindKeyPair (hsCtx a) kid) (\<lambda>keyPair. case keyPair of
     None \<Rightarrow> Inl (Gose ErrInvalidKeyType)
   | Some rsaKeyPair \<Rightarrow> Inr (AdkHsm \<lparr>hsmKid = kid, hsmKeylabel = [], hsmCtx = hsCtx a, hsmKey = rsaKeyPair\<rparr>))"

section \<open>Encryption\<close>

definition cekSize :: nat where "cekSize = 32"
definition ivSize :: nat where "ivSize = 12"
definition cekAlgorithm :: Alg where "cekAlgorithm = AlgA256GCM"

record JweRsaKeyEncryptionEncryptorImpl =
  encKey :: rsa_public
  encKid :: string
  encAlg :: Alg

definition NewJweRsaKeyEncryptionEncryptorImpl :: "Jwk \<Rightarrow> err + JweRsaKeyEncryptionEncryptorImpl" where
  "NewJweRsaKeyEncryptionEncryptorImpl recipient =
     (if \<not> isSubset (Jwk_Ops recipient) [KeyOpsEncrypt] then Inl (Gose ErrInvalidOperations)
      else rbind (LoadPublicKey recipient validEncryptionOpts) (\<lambda>kek. case kek of
        RsaPublic rsaKek \<Rightarrow>
          if \<not> isRsaOaepAlg (Jwk_Alg recipient) then Inl (Gose gose_error.ErrInvalidAlgorithm)
          else Inr \<lparr>encKey = rsaKek, encKid = Jwk_Kid recipient, encAlg = Jwk_Alg recipient\<rparr>
      | _ \<Rightarrow> Inl (Gose ErrInvalidKeyType)))"

definition makeJweProtectedHeader :: "JweRsaKeyEncryptionEncryptorImpl \<Rightarrow> Alg \<Rightarrow> JweProtectedHeader" where
  "makeJweProtectedHeader e oaepAlg = zero_JweHeader\<lparr>hAlg := oaepAlg, hKid := encKid e, hTyp := ''JWT'', hCty := ''JWT'',
     hEnc := enc_of cbcAlgToEncMap cekAlgorithm\<rparr>"

text \<open>The octets drawn from the random source are arguments: the CEK, what OAEP draws, the IV.\<close>

definition JweRsaKeyEncryption_Encrypt ::
    "crypto_lib \<Rightarrow> JweRsaKeyEncryptionEncryptorImpl \<Rightarrow> rng \<Rightarrow> bytes \<Rightarrow> rng \<Rightarrow> bytes \<Rightarrow> hash \<Rightarrow> err + string" where
  "JweRsaKeyEncryption_Encrypt C e cekSource oaepRnd ivSource plaintext oaepHash =
     rbind (of_opt (Gose gose_error.ErrInvalidAlgorithm) (OaepAlgFromHash oaepHash)) (\<lambda>oaepAlg.
     let protectedHeader = makeJweProtectedHeader e oaepAlg in
     rbind (read_full cekSource cekSize) (\<lambda>cek.
     rbind (hash_New C oaepHash) (\<lambda>_.
     rbind (of_opt (Std (LibError ''rsa'')) (EncryptOAEP C oaepHash oaepRnd (encKey e) cek)) (\<lambda>encryptedCEK.
     rbind (read_full ivSource ivSize) (\<lambda>iv.
     rbind (MarshalProtectedHeader protectedHeader) (\<lambda>aad.
     rbind (of_opt (Std (LibError ''aes'')) (NewGCM C cek)) (\<lambda>aesGCM.
     rbind (AesGcmCryptor_Seal (NewAesGcmCryptor aesGCM ivSource [] cekAlgorithm [KeyOpsEncrypt]) KeyOpsEncrypt
       (Some iv) plaintext aad) (\<lambda>(ciphertext, tag).
     JweRfc7516Compact_Marshal \<lparr>ProtectedHeader = protectedHeader, RawProtectedHeader = [], EncryptedKey = encryptedCEK,
       InitializationVector = iv, Ciphertext = ciphertext, AuthenticationTag = tag\<rparr>))))))))"

section \<open>Decryption\<close>

definition encCekLength :: "(Enc \<times> nat) list" where
  "encCekLength = [(EncA128GCM, 16), (EncA192GCM, 24), (EncA256GCM, 32)]"

text \<open>A failed or misfitting unwrap continues with a random key of the right length; a panic is none.\<close>

definition unwrap_cek :: "(err + bytes) \<Rightarrow> nat \<Rightarrow> rng \<Rightarrow> err + bytes" where
  "unwrap_cek unwrapped cekLength rng = (case unwrapped of
     Inl (GoPanic m) \<Rightarrow> Inl (GoPanic m)
   | Inl _ \<Rightarrow> read_full rng cekLength
   | Inr cek \<Rightarrow> if length cek \<noteq> cekLength then read_full rng cekLength else Inr cek)"

definition open_with_cek :: "crypto_lib \<Rightarrow> JweRfc7516Compact \<Rightarrow> bytes \<Rightarrow> err + bytes \<times> bytes" where
  "open_with_cek C jwe cek =
     rbind (of_opt (Std (LibError ''aes'')) (NewGCM C cek)) (\<lambda>aead.
     if length (InitializationVector jwe) \<noteq> aead_NonceSize aead then Inl (Gose ErrInvalidNonce)
     else if length (AuthenticationTag jwe) \<noteq> aead_Overhead aead then Inl (Gose ErrInvalidAuthenticationTag)
     else rbind (AAD jwe) (\<lambda>aad.
          rbind (of_opt (Std (LibError ''cipher: message authentication failed''))
            (aead_Open aead (InitializationVector jwe) (Ciphertext jwe @ AuthenticationTag jwe) aad)) (\<lambda>plaintext.
          Inr (plaintext, aad))))"

text \<open>The key store is an interface: its value is its \<open>Get\<close>. The digest \<open>None\<close> is \<open>crypto.Hash(0)\<close>.\<close>

record JweRsaKeyEncryptionDecryptorImpl =
  kdKeystore :: "string \<Rightarrow> err + AsymmetricDecryptionKey"

definition NewJweRsaKeyEncryptionDecryptorImpl ::
    "(string \<Rightarrow> err + AsymmetricDecryptionKey) \<Rightarrow> JweRsaKeyEncryptionDecryptorImpl" where
  [simp]: "NewJweRsaKeyEncryptionDecryptorImpl keystore = \<lparr>kdKeystore = keystore\<rparr>"

definition JweRsaKeyEncryption_Decrypt ::
    "crypto_lib \<Rightarrow> JweRsaKeyEncryptionDecryptorImpl \<Rightarrow> rng \<Rightarrow> string \<Rightarrow> hash option \<Rightarrow> err + bytes \<times> bytes" where
  "JweRsaKeyEncryption_Decrypt C d rng jweRaw oaepHash =
     (if length jweRaw > MaxCompactSize then Inl (Gose gose_error.ErrInputTooLarge)
      else rbind (JweRfc7516Compact_Unmarshal zero_compact jweRaw) (\<lambda>jwe.
      if hZip (ProtectedHeader jwe) \<noteq> [] then Inl (Gose ErrZipCompressionNotSupported)
      else rbind (of_opt (Gose gose_error.ErrInvalidEncryption) (map_of encCekLength (hEnc (ProtectedHeader jwe)))) (\<lambda>cekLength.
      rbind (kdKeystore d (hKid (ProtectedHeader jwe))) (\<lambda>key.
      case OaepHashFromAlg (hAlg (ProtectedHeader jwe)) of
        None \<Rightarrow> Inl (Gose gose_error.ErrInvalidAlgorithm)
      | Some headerHash \<Rightarrow>
          if \<not> isRsaOaepAlg (Adk_Algorithm key) then Inl (Gose gose_error.ErrInvalidAlgorithm)
          else let h = (case oaepHash of None \<Rightarrow> headerHash | Some h \<Rightarrow> h) in
            rbind (unwrap_cek (Adk_Decrypt C key KeyOpsDecrypt h (EncryptedKey jwe)) cekLength rng) (\<lambda>cek.
            open_with_cek C jwe cek)))))"

section \<open>Key generation\<close>

definition minimumRsaKeySize :: int where "minimumRsaKeySize = 2048"

definition rsaSigningAlgs :: "Alg list" where
  "rsaSigningAlgs = [AlgRS256, AlgRS384, AlgRS512, AlgPS256, AlgPS384, AlgPS512]"

definition ecdsAlgs :: "(Alg \<times> curve) list" where
  "ecdsAlgs = [(AlgES256, P256), (AlgES384, P384), (AlgES512, P521)]"

definition authenticatedEncryptionAlgs :: "(Alg \<times> nat) list" where
  "authenticatedEncryptionAlgs = [(AlgA128GCM, 16), (AlgA192GCM, 24), (AlgA256GCM, 32)]"

definition rsaEncryptionAlgs :: "Alg list" where
  "rsaEncryptionAlgs = [AlgRSAOAEP, AlgRSAOAEPSHA2]"

definition generateRsaKey ::
    "crypto_lib \<Rightarrow> (int \<Rightarrow> rsa_private option) \<Rightarrow> Alg \<Rightarrow> int \<Rightarrow> KeyOps list \<Rightarrow> err + Jwk \<times> rsa_private" where
  "generateRsaKey C gen alg bitLen operations =
     (if bitLen < minimumRsaKeySize then Inl (Gose ErrInvalidKeySize)
      else rbind (of_opt (Std (LibError ''rsa'')) (gen bitLen)) (\<lambda>privateKey.
           rbind (JwkFromPrivateKey C (RsaSigner privateKey) (cloneOps operations) []) (\<lambda>jwk.
           Inr (Jwk_SetAlg alg jwk, privateKey))))"

definition RsaSigningKeyGenerator_Generate ::
    "crypto_lib \<Rightarrow> (int \<Rightarrow> rsa_private option) \<Rightarrow> Alg \<Rightarrow> int \<Rightarrow> KeyOps list \<Rightarrow> err + SigningKey" where
  "RsaSigningKeyGenerator_Generate C gen alg bitLen operations =
     (if alg \<notin> set rsaSigningAlgs then Inl (Gose gose_error.ErrInvalidAlgorithm)
      else rbind (generateRsaKey C gen alg bitLen operations) (\<lambda>(jwk, _). NewSigningKey C jwk operations))"

definition ECDSASigningKeyGenerator_Generate ::
    "crypto_lib \<Rightarrow> (curve \<Rightarrow> ec_private option) \<Rightarrow> Alg \<Rightarrow> KeyOps list \<Rightarrow> err + SigningKey" where
  "ECDSASigningKeyGenerator_Generate C gen alg operations =
     rbind (of_opt (Gose gose_error.ErrInvalidAlgorithm) (map_of ecdsAlgs alg)) (\<lambda>c.
     rbind (of_opt (Std (LibError ''ecdsa'')) (gen c)) (\<lambda>privateKey.
     rbind (JwkFromPrivateKey C (EcSigner privateKey) (cloneOps operations) []) (\<lambda>jwk.
     NewSigningKey C (Jwk_SetAlg alg jwk) (cloneOps operations))))"

definition AuthenticatedEncryptionKeyGenerator_Generate ::
    "crypto_lib \<Rightarrow> rng \<Rightarrow> rng \<Rightarrow> Alg \<Rightarrow> KeyOps list \<Rightarrow> err + AesGcmCryptor \<times> Jwk" where
  "AuthenticatedEncryptionKeyGenerator_Generate C keySource rng alg operations =
     rbind (of_opt (Gose gose_error.ErrInvalidAlgorithm) (map_of authenticatedEncryptionAlgs alg)) (\<lambda>sz.
     rbind (read_full keySource sz) (\<lambda>key.
     rbind (JwkFromSymmetric C key alg) (\<lambda>oct.
     let jwk = Jwk_SetOps (cloneOps operations) (Oct oct) in
     rbind (NewAesGcmCryptorFromJwk C rng jwk (cloneOps operations)) (\<lambda>cryptor.
     Inr (cryptor, jwk)))))"

definition RsaKeyDecryptionKeyGenerator_Generate ::
    "crypto_lib \<Rightarrow> (int \<Rightarrow> rsa_private option) \<Rightarrow> Alg \<Rightarrow> int \<Rightarrow> KeyOps list \<Rightarrow> err + RsaPrivateKeyImpl" where
  "RsaKeyDecryptionKeyGenerator_Generate C gen alg bitLen operations =
     (if alg \<notin> set rsaEncryptionAlgs then Inl (Gose gose_error.ErrInvalidAlgorithm)
      else rbind (generateRsaKey C gen alg bitLen operations) (\<lambda>(jwk, key).
        Inr (key_policy.extend (policy jwk (cloneOps operations) alg) \<lparr>rpKey = key\<rparr>)))"

end
