(* ===== verification/Interfaces.thy ===== *)
theory Interfaces
  imports JwtVerify JweKeyEncryption
begin

text \<open>
  The interfaces of \<open>interfaces.go\<close> that have several implementations, as datatypes of these, with a
  call through the interface as the dispatch on the dynamic type; and \<open>JwtVerifierImpl\<close>, whose store is
  such an interface value. The signing, verification and decryption keys are in their own theories. An
  interface with a single implementation is that implementation. A method that changes its receiver
  returns the changed value, through the interface too.
\<close>

section \<open>Trust stores\<close>

datatype TrustStore = TsImpl TrustKeyStoreImpl | TsJwks JwksTrustStore

definition TrustStore_Add :: "TrustStore \<Rightarrow> string \<Rightarrow> Jwk \<Rightarrow> TrustStore \<times> (err + unit)" where
  "TrustStore_Add store issuer jwk = (case store of
     TsImpl s \<Rightarrow> map_prod TsImpl id (TrustKeyStoreImpl_Add s issuer jwk)
   | TsJwks s \<Rightarrow> (TsJwks s, JwksTrustStore_Add s issuer jwk))"

definition TrustStore_Remove :: "TrustStore \<Rightarrow> string \<Rightarrow> string \<Rightarrow> TrustStore \<times> bool" where
  "TrustStore_Remove store issuer kid = (case store of
     TsImpl s \<Rightarrow> map_prod TsImpl id (TrustKeyStoreImpl_Remove s issuer kid)
   | TsJwks s \<Rightarrow> (TsJwks s, JwksTrustStore_Remove s issuer kid))"

text \<open>The clock and the HTTP answer are those of the call; the local store uses neither.\<close>

definition TrustStore_Get ::
    "crypto_lib \<Rightarrow> clock \<Rightarrow> http_answer \<Rightarrow> TrustStore \<Rightarrow> string \<Rightarrow> string \<Rightarrow> TrustStore \<times> (err + VerificationKey option)" where
  "TrustStore_Get C t answer store issuer kid = (case store of
     TsImpl s \<Rightarrow> map_prod TsImpl id (TrustKeyStoreImpl_Get s issuer kid)
   | TsJwks s \<Rightarrow> map_prod TsJwks id (JwksTrustStore_Get C t answer s issuer kid))"

section \<open>The JWT verifier\<close>

text \<open>The field \<open>now\<close> of the source is \<open>time.Now\<close>; what it returns is an argument of \<open>Verify\<close>.\<close>

record JwtVerifierImpl =
  jvStore :: TrustStore

definition NewJwtVerifier :: "TrustStore \<Rightarrow> JwtVerifierImpl" where
  "NewJwtVerifier ks = \<lparr>jvStore = ks\<rparr>"

definition JwtVerifier_Verify ::
    "crypto_lib \<Rightarrow> clock \<Rightarrow> http_answer \<Rightarrow> int \<Rightarrow> JwtVerifierImpl \<Rightarrow> string \<Rightarrow> string list
     \<Rightarrow> JwtVerifierImpl \<times> (err + string \<times> JwtClaims)" where
  "JwtVerifier_Verify C t answer now verifier jwt audience =
     map_prod (\<lambda>s. verifier\<lparr>jvStore := s\<rparr>) id
       (JwtVerifierImpl_Verify C (TrustStore_Get C t answer) (jvStore verifier) now jwt audience)"

text \<open>Through the interface, the local store is asked as it is directly.\<close>

lemma Verify_local:
  "JwtVerifierImpl_Verify C (TrustStore_Get C t answer) (TsImpl s) now jwt audience
    = map_prod TsImpl id (JwtVerifierImpl_Verify C TrustKeyStoreImpl_Get s now jwt audience)"
  by (simp add: JwtVerifierImpl_Verify_def TrustStore_Get_def split_beta split: sum.split)

lemma Verify_new_local:
  "snd (JwtVerifier_Verify C t answer now (NewJwtVerifier (TsImpl s)) jwt audience)
    = snd (JwtVerifierImpl_Verify C TrustKeyStoreImpl_Get s now jwt audience)"
  by (simp add: JwtVerifier_Verify_def NewJwtVerifier_def Verify_local)

section \<open>Decryption keys and their stores\<close>

definition Adk_Kid :: "AsymmetricDecryptionKey \<Rightarrow> string" where
  "Adk_Kid k = (case k of AdkRsa r \<Rightarrow> RsaPrivateKeyImpl_Kid r | AdkHsm a \<Rightarrow> hsm_Kid a)"

definition Adk_Encryptor :: "crypto_lib \<Rightarrow> AsymmetricDecryptionKey \<Rightarrow> err + RsaPublicKeyImpl" where
  "Adk_Encryptor C k = (case k of AdkRsa r \<Rightarrow> Encryptor C r | AdkHsm a \<Rightarrow> hsm_Encryptor C a)"

datatype AsymmetricDecryptionKeyStore = AdksImpl AsymmetricDecryptionKeyStoreImpl | AdksHsm hsm_store

definition Adks_Get :: "AsymmetricDecryptionKeyStore \<Rightarrow> string \<Rightarrow> err + AsymmetricDecryptionKey" where
  "Adks_Get store kid = (case store of
     AdksImpl a \<Rightarrow> AsymmetricDecryptionKeyStoreImpl_Get a kid | AdksHsm a \<Rightarrow> hsm_store_Get a kid)"

section \<open>JWE encryptors and decryptors\<close>

datatype 'b JweEncryptor = JeAead JweDirectEncryptorAead | JeBlock "'b JweDirectEncryptorBlock"

datatype 'b JweDecryptor = JdAead JweDirectDecryptorAeadImpl | JdBlock "'b JweDirectDecryptorBlock"

definition JweEncryptor_Encrypt :: "'b JweEncryptor \<Rightarrow> bytes \<Rightarrow> bytes \<Rightarrow> 'b JweEncryptor \<times> (err + string)" where
  "JweEncryptor_Encrypt encryptor plaintext aad = (case encryptor of
     JeAead e \<Rightarrow> (encryptor, JweDirectEncryptorAead_Encrypt e plaintext aad)
   | JeBlock e \<Rightarrow> map_prod JeBlock id (JweDirectEncryptorBlock_Encrypt e plaintext aad))"

definition JweDecryptor_Decrypt :: "'b JweDecryptor \<Rightarrow> string \<Rightarrow> 'b JweDecryptor \<times> (err + bytes \<times> bytes option)" where
  "JweDecryptor_Decrypt decryptor jwe = (case decryptor of
     JdAead d \<Rightarrow> (decryptor, JweDirectDecryptorAead_Decrypt d jwe)
   | JdBlock d \<Rightarrow> map_prod JdBlock id (JweDirectDecryptorBlock_Decrypt d jwe))"

end
