(* ===== verification/Examples.thy ===== *)
theory Examples
  imports Interfaces
begin

text \<open>
  The example programs \<open>examples/jwt/jwt.go\<close> and \<open>examples/jwe/jwe.go\<close>, which put the parts of the library
  together. A run is the list of the lines printed before the program ends and the error that \<open>fail\<close>
  reports, if any. The clock, the random octets and what the key generation of the standard library
  returns are arguments.
\<close>

type_synonym run = "string list \<times> err option"

definition println :: "string \<Rightarrow> run \<Rightarrow> run" where
  "println line rest = (line # fst rest, snd rest)"

definition or_fail :: "err + 'a \<Rightarrow> ('a \<Rightarrow> run) \<Rightarrow> run" where
  "or_fail r rest = (case r of Inl e \<Rightarrow> ([], Some e) | Inr x \<Rightarrow> rest x)"

lemma or_fail_Inr [simp]: "or_fail (Inr x) rest = rest x"
  by (simp add: or_fail_def)

lemma println_simp [simp]: "println line (lines, e) = (line # lines, e)"
  by (simp add: println_def)

section \<open>Encrypting and decrypting a JWE\<close>

definition keyOps :: "KeyOps list" where "keyOps = [KeyOpsDecrypt, KeyOpsEncrypt]"

definition secretData :: string where "secretData = ''This is a really secret thing''"
definition authenticatedData :: string where "authenticatedData = ''This data is authenticated and publicly readable''"

definition jwe_main :: "crypto_lib \<Rightarrow> rng \<Rightarrow> rng \<Rightarrow> run" where
  "jwe_main C keySource rng =
     or_fail (AuthenticatedEncryptionKeyGenerator_Generate C keySource rng AlgA256GCM keyOps) (\<lambda>(key, jwk).
     println (''Created encryption key with kid '' @ gcmKid key) (
     let encryptor = NewJweDirectEncryptorAead key False in
     or_fail (JweDirectEncryptorAead_Encrypt encryptor secretData authenticatedData) (\<lambda>jwe.
     println (''Created JWE: '' @ jwe) (
     or_fail (NewAesGcmCryptorFromJwk C rng jwk [KeyOpsDecrypt]) (\<lambda>key.
     let decryptor = NewJweDirectDecryptorAeadImpl [key] in
     or_fail (JweDirectDecryptorAead_Decrypt decryptor jwe) (\<lambda>(plaintext, aad).
     println (''Decrypted JWE plaintext: '' @ plaintext) (
     println (''JWE Authenticated Data: '' @ (case aad of None \<Rightarrow> [] | Some a \<Rightarrow> a)) (
     ([], None)))))))))"

section \<open>Signing and verifying a JWT\<close>

definition houseNumberClaim :: string where "houseNumberClaim = ''house_number''"
definition streetClaim :: string where "streetClaim = ''street''"

definition signingOperations :: "KeyOps list" where "signingOperations = [KeyOpsSign]"

definition standardClaims :: "int \<Rightarrow> settable" where
  "standardClaims now = \<lparr>setSubject = ''my subject'', setAudiences = Some [''my audience''],
     setExpiration = now + 60, setNotBefore = now\<rparr>"

text \<open>A Go map, in one order of its entries; the encoder sorts them.\<close>

definition customClaims :: "(string \<times> (err + json)) list" where
  "customClaims = [(houseNumberClaim, Inr (jint 29)), (streetClaim, Inr (jstring ''Acacia Road''))]"

text \<open>What is printed of the verified claims; the custom claims are decoded from their raw JSON.\<close>

definition report_claims :: "JwtClaims \<Rightarrow> run" where
  "report_claims claims =
     println (''JWT Subject: '' @ cSubject claims) (
     println (''JWT Audiences: ['' @ join '' '' (aud_list (cAudiences claims)) @ '']'') (
     println (''JWT Expiry: '' @ dec_int (cExpiration claims)) (
     println (''JWT Not Before: '' @ dec_int (cNotBefore claims)) (
     println (''JWT Issued At: '' @ dec_int (cIssuedAt claims)) (
     println (''JWT Issuer: '' @ cIssuer claims) (
     println (''JWT unique ID: '' @ cJwtID claims) (
     case map_of (cUntyped claims) houseNumberClaim of
       None \<Rightarrow> ([], Some (Fmt ''missing house number claim''))
     | Some rawClaim \<Rightarrow>
     or_fail (dec_result (Std JSONType) (dec_int64 rawClaim 0)) (\<lambda>houseNumber.
     println (''JWT custom claim house number: '' @ dec_int houseNumber) (
     case map_of (cUntyped claims) streetClaim of
       None \<Rightarrow> ([], Some (Fmt ''missing street claim''))
     | Some rawClaim \<Rightarrow>
     or_fail (dec_result (Std JSONType) (dec_string rawClaim [])) (\<lambda>street.
     println (''JWT custom claim street: '' @ street) ([], None)))))))))))"

text \<open>\<open>now\<close> is the time the example reads, \<open>iat\<close> and \<open>jti\<close> what the signer reads and draws, \<open>now'\<close> the time of the
  verifier; the clock and the HTTP answer of the call of the trust store are not used by the local one.\<close>

definition jwt_main ::
    "crypto_lib \<Rightarrow> (int \<Rightarrow> rsa_private option) \<Rightarrow> bytes \<Rightarrow> int \<Rightarrow> int \<Rightarrow> string \<Rightarrow> int \<Rightarrow> clock \<Rightarrow> http_answer \<Rightarrow> run" where
  "jwt_main C gen rnd now iat jti now' t answer =
     or_fail (RsaSigningKeyGenerator_Generate C gen AlgRS256 2048 signingOperations) (\<lambda>signingKey.
     println (''Created signing key with kid '' @ SigningKey_Kid signingKey) (
     let jwtSigner = NewJwtSigner ''issuer'' signingKey in
     or_fail (JwtSignerImpl_Sign C rnd iat jti jwtSigner (standardClaims now) customClaims) (\<lambda>jwt.
     println (''Created signed JWT: '' @ jwt) (
     or_fail (SigningKey_Verifier C signingKey) (\<lambda>verificationKey.
     or_fail (VerificationKey_Jwk C verificationKey) (\<lambda>jwk.
     or_fail (JwkToString jwk) (\<lambda>marshalled.
     println (''Created verification key JWK: '' @ marshalled) (
     or_fail (NewTrustKeyStore [(''issuer'', jwk)]) (\<lambda>keyStore.
     let jwtVerifier = NewJwtVerifier (TsImpl keyStore) in
     or_fail (snd (JwtVerifier_Verify C t answer now' jwtVerifier jwt [''my audience''])) (\<lambda>(kid, claims).
     println (''Successfully verified JWT signed with key '' @ kid) (
     report_claims claims)))))))))))"

end
