(* ===== verification/JwksStore_Fresh.thy ===== *)
theory JwksStore_Fresh
  imports JwksStore_Laws
begin

text \<open>
  What the fetching trust store answers, against the history of its fetches. The store keeps no more than
  the last key set it fetched and the moment it did: by rule induction over all interleavings the cache is
  the latest entry of the history. A returned key is then a key of the last set that the endpoint published,
  no older than the refresh interval, and a key of a set that is still fresh is always answered.
\<close>

section \<open>Published key sets\<close>

text \<open>A document publishes the verification keys of its JWKs, all of them and in their order.\<close>

definition published :: "crypto_lib \<Rightarrow> string \<Rightarrow> VerificationKey list \<Rightarrow> bool" where
  "published C body keys \<longleftrightarrow> (\<exists>jwks. decode_first C body = Inr jwks
     \<and> list_all2 (\<lambda>jwk vk. snd (NewVerificationKey jwk) = Inr vk) jwks keys)"

lemma refresh_answer_published:
  "refresh_answer C answer = Inr keys \<longleftrightarrow> (\<exists>body. answer = Response 200 body \<and> published C body keys)"
  by (cases answer) (auto simp: refresh_answer_def published_def rmap_Inr_iff split: sum.splits)

definition key_set :: "json list \<Rightarrow> json" where
  "key_set vs = JObj [jmember ''keys'' (JArr vs)]"

lemma dec_elems_Fine: "dec_elems Fine vs = Fine vs"
  by (induction vs) simp_all

text \<open>A key set made of the encodings of JWKs is decoded to these JWKs.\<close>

lemma decode_key_set:
  assumes "list_all2 (\<lambda>v j. wf_json v \<and> jdepth v \<le> 2 \<and> UnmarshalJwk C (json_print v) = Inr j) vs js"
    "length (json_print (key_set vs)) \<le> MaxJwksSize"
  shows "decode_first C (json_print (key_set vs)) = Inr js"
proof -
  have vs: "\<forall>v \<in> set vs. wf_json v \<and> jdepth v \<le> 2" using assms(1) by (auto simp: list_all2_conv_all_nth in_set_conv_nth)
  then have wf: "wf_json (key_set vs)" using raw_ok_quote [of "''keys''"] by (simp add: key_set_def jmember_def list_all_iff)
  have "jdepth (JArr vs) \<le> 3" using vs by (simp add: foldr_max_le)
  then have depth: "jdepth (key_set vs) \<le> max_nesting" by (simp add: key_set_def jmember_def max_nesting_def del: jdepth.simps(1))
  have "parse_value max_nesting (json_print (key_set vs) @ []) = Some (key_set vs, [])"
    using reads_print [OF wf depth] num_end_delims(4) unfolding reads_def by blast
  moreover have "rmap (\<lambda>blob. UnmarshalJwk C (json_print blob)) vs = Inr js"
    using assms(1) by (auto simp: rmap_Inr_iff elim: list_all2_mono)
  moreover have "decode_struct [(''keys'', set_list Fine id (\<lambda>f. f))] (key_set vs) [] = Fine vs"
    by (simp add: key_set_def decode_struct_def decode_member set_list_def dec_elems_Fine)
  ultimately show ?thesis
    using assms(2) skip_ws_print [OF wf, of "[]"] json_parse_print [OF wf depth]
    by (simp add: decode_first_def Jwks_UnmarshalJSON_def dec_result_def maxJwksBytes_def MaxJwksSize_def)
qed

section \<open>The cache is the last fetch\<close>

text \<open>A store made for a list of issuers with chosen intervals.\<close>

abbreviation configured :: "string \<Rightarrow> string \<Rightarrow> int \<Rightarrow> int \<Rightarrow> JwksTrustStore" where
  "configured issuers url r m \<equiv> NewJwksKeyStore issuers url [WithJwksRefreshInterval r, WithJwksMinRefreshInterval m]"

definition settings :: "string \<Rightarrow> int \<Rightarrow> JwksTrustStore \<Rightarrow> bool" where
  "settings issuers r s \<longleftrightarrow> jsRefreshInterval s = r \<and> jsInputIssuers s = issuers
     \<and> jsIssuers s \<in> {[], split_on CHR '','' issuers}"

definition cached :: "crypto_lib \<Rightarrow> world \<Rightarrow> bool" where
  "cached C w \<longleftrightarrow> (case w_fetches w of
       [] \<Rightarrow> jsKeys (w_store w) = [] \<and> jsFetchedAt (w_store w) = None
     | (at, keys) # _ \<Rightarrow> jsKeys (w_store w) = keys \<and> jsFetchedAt (w_store w) = Some at \<and> at \<le> w_now w
         \<and> (\<exists>body. published C body keys))
   \<and> (\<forall>t kid keys. w_points w t = Some (Answered kid keys) \<longrightarrow> (\<exists>body. published C body keys))"

lemma knownIssuer_cache:
  assumes "knownIssuer s issuer = (s', b)"
  shows "jsKeys s' = jsKeys s" "jsFetchedAt s' = jsFetchedAt s" "jsRefreshInterval s' = jsRefreshInterval s"
  using assms by (auto simp: knownIssuer_def Let_def)

lemma knownIssuer_settings:
  assumes "knownIssuer s issuer = (s', b)" "settings issuers r s"
  shows "settings issuers r s'" "b \<longleftrightarrow> issuer \<in> set (split_on CHR '','' issuers)"
  using assms by (auto simp: knownIssuer_def settings_def Let_def list_ex_iff split: if_splits)

lemma settings_step:
  assumes "get_step C w w'" "settings issuers r (w_store w)"
  shows "settings issuers r (w_store w')"
  using assms by (induction rule: get_step.induct)
    (simp_all add: knownIssuer_settings, simp_all add: settings_def refresh_start_def refresh_install_def)

lemma cached_goto:
  assumes "cached C w" "jsKeys (w_store w') = jsKeys (w_store w)" "jsFetchedAt (w_store w') = jsFetchedAt (w_store w)" "w_now w \<le> w_now w'" "w_fetches w' = w_fetches w"
    "\<And>t kid keys. w_points w' t = Some (Answered kid keys) \<Longrightarrow> w_points w t \<noteq> Some (Answered kid keys) \<Longrightarrow> \<exists>body. published C body keys"
  shows "cached C w'"
  using assms unfolding cached_def by (fastforce split: list.splits)

lemma cached_step:
  assumes "get_step C w w'" "cached C w"
  shows "cached C w'"
  using assms
proof (induction rule: get_step.induct)
  case (known w t issuer kid s)
  then show ?case using knownIssuer_cache [OF known(2)] by (intro cached_goto [OF known(3)]) (auto split: if_splits)
next
  case (unknown w t issuer kid s)
  then show ?case using knownIssuer_cache [OF unknown(2)] by (intro cached_goto [OF unknown(3)]) (auto split: if_splits)
next
  case (request w t kid)
  then show ?case by (intro cached_goto [OF request(2)]) (auto simp: refresh_start_def split: if_splits)
next
  case (answered w t kid answer keys)
  then show ?case by (intro cached_goto [OF answered(3)]) (auto simp: refresh_answer_published split: if_splits)
next
  case (install w t kid keys)
  then show ?case unfolding cached_def by (auto simp: refresh_install_def)
qed (auto intro: cached_goto split: if_splits)

lemma reachable_cached:
  assumes "(get_step C)\<^sup>*\<^sup>* (initial_world (configured issuers url r m) start) w"
  shows "settings issuers r (w_store w)" "cached C w"
proof -
  have "settings issuers r (w_store w) \<and> cached C w"
    using assms
  proof (induction rule: rtranclp_induct)
    case base
    show ?case by (simp add: cached_def settings_def initial_world_def NewJwksKeyStore_def WithJwksRefreshInterval_def
          WithJwksMinRefreshInterval_def)
  qed (blast intro: settings_step cached_step)
  then show "settings issuers r (w_store w)" "cached C w" by simp_all
qed

text \<open>The code's test of freshness, in plain arithmetic: \<open>Sub\<close> saturates at the largest duration.\<close>

lemma is_fresh_age:
  assumes "is_fresh now s" "jsRefreshInterval s < 2 ^ 63 - 1"
  shows "\<exists>at. jsFetchedAt s = Some at \<and> (jsRefreshInterval s = 0 \<or> now - at \<le> jsRefreshInterval s)"
  using assms by (auto simp: is_fresh_def time_Sub_def split: option.splits)

lemma young_is_fresh:
  assumes "jsFetchedAt s = Some at" "at \<le> now" "jsRefreshInterval s = 0 \<or> now - at \<le> jsRefreshInterval s"
  shows "is_fresh now s"
  using assms by (auto simp: is_fresh_def time_Sub_def)

lemma cached_key:
  assumes "cached C w" "jsRefreshInterval (w_store w) = r" "r < 2 ^ 63 - 1" "lookup now (w_store w) kid = Some (Inr (Some vk))"
  shows "\<exists>at keys older body. w_fetches w = (at, keys) # older \<and> published C body keys \<and> vk \<in> set keys
    \<and> VerificationKey_Kid vk = kid \<and> at \<le> w_now w \<and> (r = 0 \<or> now - at \<le> r)"
proof -
  have vk: "vk \<in> set (jsKeys (w_store w))" "VerificationKey_Kid vk = kid" "is_fresh now (w_store w)"
    using lookup_Some_key [OF assms(4)] by blast+
  then obtain at where "jsFetchedAt (w_store w) = Some at" "r = 0 \<or> now - at \<le> r"
    using is_fresh_age assms(2,3) by blast
  then show ?thesis using assms(1) vk(1,2) by (auto simp: cached_def split: list.splits)
qed

section \<open>Where a key comes from\<close>

text \<open>
  A call of \<open>Get\<close> from a reachable state answers with a key of the last fetch before it, seen by one of its
  first two lookups, or with a key of the answer to its own request, seen by its last lookup.
\<close>

definition comes_from :: "crypto_lib \<Rightarrow> int \<Rightarrow> world \<Rightarrow> clock \<Rightarrow> http_answer \<Rightarrow> VerificationKey \<Rightarrow> bool" where
  "comes_from C r w t answer vk \<longleftrightarrow> (\<exists>at keys doc moment. published C doc keys \<and> vk \<in> set keys \<and> (r = 0 \<or> moment - at \<le> r)
     \<and> ((\<exists>older. w_fetches w = (at, keys) # older) \<and> moment \<in> {c_first t, c_locked t}
        \<or> answer = Response 200 doc \<and> at = c_install t \<and> moment = c_last t))"

lemma comes_from_cache:
  assumes "cached C w" "jsRefreshInterval (w_store w) = r" "r < 2 ^ 63 - 1" "moment \<in> {c_first t, c_locked t}"
    "lookup moment (w_store w) kid = Some (Inr (Some vk))"
  shows "comes_from C r w t answer vk"
  using cached_key [OF assms(1-3,5)] assms(4) unfolding comes_from_def by blast

lemma comes_from_answer:
  assumes "refresh C a answer (c_install t) s = (s', Inr u)" "jsRefreshInterval s = r" "r < 2 ^ 63 - 1"
    "lookup (c_last t) s' kid = Some (Inr (Some vk))"
  shows "comes_from C r w t answer vk"
proof -
  obtain doc keys where k: "answer = Response 200 doc" "published C doc keys" "s' = refresh_install (c_install t) keys (refresh_start a s)"
    using assms(1) by (auto simp: refresh_def refresh_answer_published Let_def split: sum.splits)
  then have s': "jsKeys s' = keys" "jsFetchedAt s' = Some (c_install t)" "jsRefreshInterval s' = r"
    using assms(2) by (simp_all add: refresh_install_def refresh_start_def)
  have "vk \<in> set keys" "is_fresh (c_last t) s'" using lookup_Some_key [OF assms(4)] s'(1) by simp_all
  moreover from this have "r = 0 \<or> c_last t - c_install t \<le> r" using is_fresh_age [of "c_last t" s'] s'(2,3) assms(3) by simp
  ultimately show ?thesis using k(1,2) unfolding comes_from_def by blast
qed

lemma JwksTrustStore_Get_source:
  assumes "settings issuers r (w_store w)" "cached C w" "r < 2 ^ 63 - 1"
    "JwksTrustStore_Get C t answer (w_store w) issuer kid = (s', Inr (Some vk))"
  shows "issuer \<in> set (split_on CHR '','' issuers) \<and> VerificationKey_Kid vk = kid \<and> comes_from C r w t answer vk"
proof -
  obtain s1 where s1: "knownIssuer (w_store w) issuer = (s1, True)"
    using assms(4) by (auto simp: JwksTrustStore_Get_def split: prod.splits if_splits)
  note known = knownIssuer_settings [OF s1 assms(1)]
  let ?w = "w\<lparr>w_store := s1\<rparr>"
  have c: "cached C ?w" using knownIssuer_cache [OF s1] by (intro cached_goto [OF assms(2)]) simp_all
  have r: "jsRefreshInterval (w_store ?w) = r" "jsRefreshInterval s1 = r" using known(1) by (simp_all add: settings_def)
  consider moment where "moment \<in> {c_first t, c_locked t}" "lookup moment s1 kid = Some (Inr (Some vk))"
    | s2 u where "refresh C (c_attempt t) answer (c_install t) s1 = (s2, Inr u)" "lookup (c_last t) s2 kid = Some (Inr (Some vk))"
    using assms(4) s1 by (auto simp: JwksTrustStore_Get_def split: option.splits prod.splits sum.splits dest!: not_done_key)
  then have "comes_from C r w t answer vk"
  proof cases
    case 1
    with comes_from_cache [OF c r(1) assms(3)] show ?thesis by (simp add: comes_from_def)
  next
    case 2
    with comes_from_answer r(2) assms(3) show ?thesis by blast
  qed
  then show ?thesis using known(2) JwksTrustStore_Get_key [OF assms(4)] by (simp add: jwks_vouches_def)
qed

section \<open>A concrete fetch\<close>

text \<open>The endpoint publishes one key; goroutine 0 has installed it, and goroutine 1 then asks for it.\<close>

definition demo_vk :: VerificationKey where
  "demo_vk = VkEc \<lparr>kJwk = demo_ec, kOps = [''verify''], kAlg = ''ES256'', ekKey = \<lparr>ec_Curve = P256, ec_X = 258, ec_Y = 3\<rparr>\<rparr>"

lemma demo_vk_kid: "VerificationKey_Kid demo_vk = ''k1''"
  by (simp add: demo_vk_def VerificationKey_Kid_def demo_ec_def Jwk_Kid_def jwk_get_def)

lemma demo_vk_made: "snd (NewVerificationKey demo_ec) = Inr demo_vk"
proof -
  have "Jwk_Alg demo_ec = ''ES256''" "verification_ops demo_ec = [''verify'']"
    by (simp_all add: demo_ec_def Jwk_Alg_def Jwk_Ops_def jwk_get_def verification_ops_def validVerificationOps_def intersection_def)
  then show ?thesis using NewVerificationKey_Ec [OF demo_ec_def] by (simp add: algToOptsMap_def demo_vk_def)
qed

lemma demo_published: "\<exists>body. published demo_lib body [demo_vk]"
proof -
  have j: "wf_Jwk demo_lib demo_ec" "encodable demo_lib demo_ec"
    by (simp_all add: wf_Jwk_def encodable_def demo_ec_def jwk_get_def consistent_def parsed_def certified_def maxKeyOps_def
        wf_fields_def wf_big_def big_Bytes_demo MaxBlobSize_def)
  obtain ms where ms: "list_all (member_ok 1) ms" "Jwk_MarshalJSON demo_ec = Inr (json_print (JObj ms))"
    using Jwk_MarshalJSON_object [OF j(2)] by blast
  have name: "length (quote ''keys'') = 4" by code_simp
  have len: "length (json_print (JObj ms)) < 200" using demo_ec_text ms(2) by simp
  then have "UnmarshalJwk demo_lib (json_print (JObj ms)) = Inr demo_ec"
    using Jwk_token_roundtrip [OF j] ms(2) by (simp add: MaxJwksSize_def del: json_print.simps)
  moreover have "wf_json (JObj ms)" "jdepth (JObj ms) \<le> 2"
    using members_ok_object [OF ms(1)] by (simp_all add: numeral_2_eq_2)
  moreover have "length (json_print (key_set [JObj ms])) \<le> MaxJwksSize"
    using len name by (simp add: key_set_def jmember_def MaxJwksSize_def)
  ultimately have "decode_first demo_lib (json_print (key_set [JObj ms])) = Inr [demo_ec]"
    by (intro decode_key_set) (simp_all del: json_print.simps jdepth.simps)
  then show ?thesis using demo_vk_made by (auto simp: published_def)
qed

definition demo_fetched :: JwksTrustStore where
  "demo_fetched = demo_jwks\<lparr>jsIssuers := [''i''], jsLastAttempt := Some 5, jsKeys := [demo_vk], jsFetchedAt := Some 5\<rparr>"

definition demo_asking :: "point \<Rightarrow> world" where
  "demo_asking p = \<lparr>w_store = demo_fetched, w_now = 5, w_points = [0 \<mapsto> Installed ''k'', 1 \<mapsto> p], w_attempts = [5],
     w_fetches = [(5, [demo_vk])]\<rparr>"

lemma demo_jwks_configured: "configured ''i'' ''u'' DefaultJwksRefreshInterval DefaultJwksMinRefreshInterval = demo_jwks"
  by (simp add: demo_jwks_def NewJwksKeyStore_def WithJwksRefreshInterval_def WithJwksMinRefreshInterval_def)

lemma demo_asking_reached: "(get_step demo_lib)\<^sup>*\<^sup>* (initial_world demo_jwks 5) (demo_asking (Entered ''i'' ''k1''))"
proof -
  obtain body where "refresh_answer demo_lib (Response 200 body) = Inr [demo_vk]"
    using demo_published by (auto simp: refresh_answer_published)
  from get_step.answered [OF _ this, of demo_requested 0 "''k''"]
  have "get_step demo_lib demo_requested (goto 0 (Answered ''k'' [demo_vk]) demo_requested)"
    by (simp add: demo_requested_def demo_world_def)
  moreover have "get_step demo_lib (goto 0 (Answered ''k'' [demo_vk]) demo_requested)
      ((demo_asking undefined)\<lparr>w_points := [0 \<mapsto> Installed ''k'']\<rparr>)"
    using get_step.install [of "goto 0 (Answered ''k'' [demo_vk]) demo_requested" 0 "''k''" "[demo_vk]" demo_lib]
    by (simp add: demo_requested_def demo_world_def demo_asking_def demo_fetched_def initial_world_def refresh_install_def)
  moreover have "get_step demo_lib ((demo_asking undefined)\<lparr>w_points := [0 \<mapsto> Installed ''k'']\<rparr>) (demo_asking (Entered ''i'' ''k1''))"
    using get_step.enter [of "(demo_asking undefined)\<lparr>w_points := [0 \<mapsto> Installed ''k'']\<rparr>" 1 demo_lib "''i''" "''k1''"]
    by (simp add: demo_asking_def)
  ultimately show ?thesis using demo_run by (meson rtranclp.rtrancl_into_rtrancl)
qed

lemma demo_asking_known: "get_step demo_lib (demo_asking (Entered ''i'' ''k1'')) (demo_asking (Looking ''k1''))"
proof -
  have "knownIssuer demo_fetched ''i'' = (demo_fetched, True)" by (simp add: knownIssuer_def demo_fetched_def)
  then show ?thesis
    using get_step.known [of "demo_asking (Entered ''i'' ''k1'')" 1 "''i''" "''k1''" demo_fetched demo_lib]
    by (simp add: demo_asking_def)
qed

lemma demo_asking_hit: "get_step demo_lib (demo_asking (Looking ''k1'')) (demo_asking (Returned (Inr (Some demo_vk))))"
proof -
  have "lookup 5 demo_fetched ''k1'' = Some (Inr (Some demo_vk))"
    by (simp add: lookup_def demo_fetched_def demo_vk_kid is_fresh_def demo_jwks_def NewJwksKeyStore_def time_Sub_def
        DefaultJwksRefreshInterval_def)
  then show ?thesis
    using get_step.hit [of "demo_asking (Looking ''k1'')" 1 "''k1''" "Inr (Some demo_vk)" demo_lib]
    by (simp add: demo_asking_def)
qed

section \<open>Properties\<close>

text \<open>
  C22: in every interleaving, a goroutine returns a key only if the key is in the last key set that was
  fetched, which the endpoint published, and that fetch is no older than the refresh interval, unless the
  interval is zero, which turns the limit off; and the key has the identifier that was asked for. A key that
  the issuer withdrew is not returned after the next fetch, and not for longer than the interval whether or
  not the endpoint answers. The interval must be below the largest duration, at which \<open>Sub\<close> saturates.
\<close>

theorem returned_key_fresh:
  assumes "(get_step C)\<^sup>*\<^sup>* (initial_world (configured issuers url r m) start) w" "r < 2 ^ 63 - 1"
    "get_step C w w'" "w_points w' t = Some (Returned (Inr (Some vk)))" "w_points w t \<noteq> w_points w' t"
  shows "\<exists>at keys older body. w_fetches w = (at, keys) # older \<and> published C body keys \<and> vk \<in> set keys
    \<and> at \<le> w_now w \<and> (r = 0 \<or> w_now w - at \<le> r)
    \<and> w_points w t \<in> {Some (Looking (VerificationKey_Kid vk)), Some (Locked (VerificationKey_Kid vk)),
        Some (Installed (VerificationKey_Kid vk))}"
proof -
  obtain kid where kid: "lookup (w_now w) (w_store w) kid = Some (Inr (Some vk))"
    "w_points w t \<in> {Some (Looking kid), Some (Locked kid), Some (Installed kid)}"
    using assms(3-5) by cases (auto split: if_splits dest!: not_done_key)
  have "jsRefreshInterval (w_store w) = r" using reachable_cached(1) [OF assms(1)] by (simp add: settings_def)
  from cached_key [OF reachable_cached(2) [OF assms(1)] this assms(2) kid(1)] kid(2) show ?thesis by blast
qed

theorem returned_key_fresh_witness:
  "get_step demo_lib (demo_asking (Looking ''k1'')) (demo_asking (Returned (Inr (Some demo_vk))))
   \<and> (\<exists>at keys older body. w_fetches (demo_asking (Looking ''k1'')) = (at, keys) # older \<and> published demo_lib body keys
      \<and> demo_vk \<in> set keys \<and> w_now (demo_asking (Looking ''k1'')) - at \<le> DefaultJwksRefreshInterval)"
proof -
  have "(get_step demo_lib)\<^sup>*\<^sup>* (initial_world (configured ''i'' ''u'' DefaultJwksRefreshInterval DefaultJwksMinRefreshInterval) 5)
      (demo_asking (Looking ''k1''))"
    using demo_asking_reached demo_asking_known unfolding demo_jwks_configured by (rule rtranclp.rtrancl_into_rtrancl)
  from returned_key_fresh [OF this _ demo_asking_hit, of 1 demo_vk] demo_asking_hit show ?thesis
    by (fastforce simp: demo_asking_def DefaultJwksRefreshInterval_def)
qed

text \<open>
  C26: a lookup that the last fetch can answer is never held up. In every reachable state, whoever is
  fetching and however long the endpoint takes, a goroutine that asks for a configured issuer and a key of a
  set no older than the refresh interval, or of any age when the interval is zero, returns the first key of
  that identifier in two steps of its own, with no request and without any other goroutine moving.
\<close>

theorem fresh_key_served:
  assumes "(get_step C)\<^sup>*\<^sup>* (initial_world (configured issuers url r m) start) w"
    "w_points w g = Some (Entered issuer kid)" "issuer \<in> set (split_on CHR '','' issuers)"
    "w_fetches w = (at, keys) # older" "find (\<lambda>vk. VerificationKey_Kid vk = kid) keys = Some vk" "r = 0 \<or> w_now w - at \<le> r"
  shows "\<exists>w'. (get_step C ^^ 2) w w' \<and> w_points w' = (w_points w)(g \<mapsto> Returned (Inr (Some vk)))
    \<and> w_attempts w' = w_attempts w \<and> w_fetches w' = w_fetches w \<and> w_now w' = w_now w"
proof -
  note inv = reachable_cached [OF assms(1)]
  have c: "jsKeys (w_store w) = keys" "jsFetchedAt (w_store w) = Some at" "at \<le> w_now w" "jsRefreshInterval (w_store w) = r"
    using inv assms(4) by (simp_all add: cached_def settings_def)
  obtain s b where s: "knownIssuer (w_store w) issuer = (s, b)" by fastforce
  have b: "b" using knownIssuer_settings(2) [OF s inv(1)] assms(3) by simp
  note k = knownIssuer_cache [OF s]
  have "is_fresh (w_now w) s" using c(2-) k assms(6) by (intro young_is_fresh [of _ at]) simp_all
  then have look: "lookup (w_now w) s kid = Some (Inr (Some vk))"
    using c(1) k(1) assms(5) by (simp add: lookup_def)
  let ?v = "goto g (Looking kid) (w\<lparr>w_store := s\<rparr>)"
  have "get_step C w ?v" using s b assms(2) by (intro get_step.known) simp_all
  moreover have "get_step C ?v (goto g (Returned (Inr (Some vk))) ?v)" using look by (intro get_step.hit) simp_all
  ultimately have "(get_step C ^^ 2) w (goto g (Returned (Inr (Some vk))) ?v)" by (auto simp: numeral_2_eq_2)
  then show ?thesis by (intro exI [of _ "goto g (Returned (Inr (Some vk))) ?v"] conjI) simp_all
qed

theorem fresh_key_served_witness:
  "\<exists>w'. (get_step demo_lib ^^ 2) (demo_asking (Entered ''i'' ''k1'')) w' \<and> w_points w' 1 = Some (Returned (Inr (Some demo_vk)))
    \<and> w_points w' 0 = Some (Installed ''k'')"
proof -
  have r: "(get_step demo_lib)\<^sup>*\<^sup>* (initial_world (configured ''i'' ''u'' DefaultJwksRefreshInterval DefaultJwksMinRefreshInterval) 5)
      (demo_asking (Entered ''i'' ''k1''))"
    using demo_asking_reached unfolding demo_jwks_configured .
  from fresh_key_served [OF r, of 1 "''i''" "''k1''" 5 "[demo_vk]" "[]" demo_vk] show ?thesis
    by (auto simp: demo_asking_def demo_vk_kid DefaultJwksRefreshInterval_def)
qed

end
