(* ===== verification/JwtVerify_Laws.thy ===== *)
theory JwtVerify_Laws
  imports JwtVerify JwksStore_Fresh
begin

text \<open>
  Laws of signing and verifying JWTs. What an accepted token satisfies is proved once from the
  contract of a trust store and holds of both stores through their interpretations.
\<close>

section \<open>Accepted tokens\<close>

lemma inner_audience_loop:
  "foldl (\<lambda>(seen, found) aud. (seen @ [aud], found \<or> candidate = aud)) (seen, b) auds
    = (seen @ auds, b \<or> candidate \<in> set auds)"
  by (induction auds arbitrary: seen b) auto

lemma audience_loop_result:
  "audience_loop audience auds = (concat (replicate (length audience) auds), set audience \<inter> set auds \<noteq> {})"
proof -
  have "foldl (\<lambda>s candidate. foldl (\<lambda>(seen, found) aud. (seen @ [aud], found \<or> candidate = aud)) s auds) (seen, b) audience
      = (seen @ concat (replicate (length audience) auds), b \<or> set audience \<inter> set auds \<noteq> {})" for seen b
    by (induction audience arbitrary: seen b) (auto simp: inner_audience_loop)
  then show ?thesis by (simp add: audience_loop_def)
qed

text \<open>What a token must say to be considered, apart from its signature.\<close>

definition acceptable :: "int \<Rightarrow> string list \<Rightarrow> Jwt \<Rightarrow> bool" where
  "acceptable now audience token \<longleftrightarrow> cNotBefore (jwtClaims token) \<le> now \<and> now < cExpiration (jwtClaims token)
     \<and> set audience \<inter> set (aud_list (cAudiences (jwtClaims token))) \<noteq> {} \<and> hKid (jwtHeader token) \<noteq> []"

lemma check_token_iff:
  "check_token now audience jwt = Inr (token, body) \<longleftrightarrow>
     Jwt_Unmarshal jwt = Inr (token, body) \<and> length jwt \<le> MaxCompactSize \<and> acceptable now audience token"
  by (cases "Jwt_Unmarshal jwt")
    (auto simp: check_token_def Let_def acceptable_def audience_loop_result split: if_splits)

lemma Verify_Inr:
  assumes "JwtVerifierImpl_Verify C get s now jwt audience = (s', Inr (kid, claims))"
  obtains token body vk where "Jwt_Unmarshal jwt = Inr (token, body)" "acceptable now audience token"
    "length jwt \<le> MaxCompactSize" "claims = jwtClaims token" "get s (cIssuer claims) (hKid (jwtHeader token)) = (s', Inr (Some vk))"
    "kid = VerificationKey_Kid vk" "VerificationKey_Algorithm vk = hAlg (jwtHeader token)"
    "VerificationKey_Verify C vk ''verify'' body (jwtSignature token) = Inr True"
  using assms
  by (auto simp: JwtVerifierImpl_Verify_def check_token_iff split: sum.splits prod.splits option.splits err.splits if_splits)

context trust_store
begin

lemma verified_by_vouched_key:
  assumes "JwtVerifierImpl_Verify C get s now jwt audience = (s', Inr (kid, claims))"
  shows "\<exists>token body vk. Jwt_Unmarshal jwt = Inr (token, body) \<and> claims = jwtClaims token \<and> length jwt \<le> MaxCompactSize
    \<and> acceptable now audience token \<and> vouches s' (cIssuer claims) (hKid (jwtHeader token)) vk \<and> kid = VerificationKey_Kid vk
    \<and> VerificationKey_Algorithm vk = hAlg (jwtHeader token)
    \<and> VerificationKey_Verify C vk ''verify'' body (jwtSignature token) = Inr True"
  using assms by (rule Verify_Inr) (metis get_vouched)

end

section \<open>Signed tokens\<close>

lemma SigningKey_of_jwk:
  assumes "NewSigningKey C jwk required = Inr sk"
  shows "SigningKey_Algorithm sk = Jwk_Alg jwk" "SigningKey_Kid sk = Jwk_Kid jwk"
    "SigningKey_Verifier C sk = rbind (PublicFromPrivate C jwk) (\<lambda>pub. snd (NewVerificationKey pub))"
    "map_of algToOptsMap (Jwk_Alg jwk) \<noteq> None"
  using assms
  by (cases rule: NewSigningKey_Inr; simp add: SigningKey_Algorithm_def SigningKey_Kid_def SigningKey_Verifier_def
      SigningKeyImpl_Verifier_def ECDSASigningKey_Verifier_def)+

lemma SigningKey_sign_verifies:
  assumes "NewSigningKey C jwk required = Inr sk" "SigningKey_Sign C rnd sk requested data = Inr sig"
    "SigningKey_Verifier C sk = Inr vk" "rsa_correct C" "ecdsa_correct C"
  shows "VerificationKey_Verify C vk ''verify'' data sig = Inr True"
  using assms rsa_sign_verifies ec_sign_verifies
  by (cases sk) (auto simp: SigningKey_Sign_def SigningKey_Verifier_def)

lemma public_alg:
  assumes "PublicFromPrivate C jwk = Inr pub" "NewVerificationKey pub = (pub', Inr vk)" "Jwk_Alg jwk \<noteq> []"
  shows "VerificationKey_Algorithm vk = Jwk_Alg jwk" "VerificationKey_Kid vk = Jwk_Kid jwk"
proof -
  have pub: "Jwk_Alg pub = Jwk_Alg jwk" "Jwk_Kid pub = Jwk_Kid jwk"
    using assms(1) by (auto simp: PublicFromPrivate_numbers)
  then show "VerificationKey_Kid vk = Jwk_Kid jwk" using NewVerificationKey_keeps(2) [OF assms(2) refl] by simp
  show "VerificationKey_Algorithm vk = Jwk_Alg jwk"
    using assms(2,3) pub(1) by (cases rule: NewVerificationKey_Inr) (auto simp: VerificationKey_Algorithm_def fallback_alg_named)
qed

lemma table_algs_ascii: "map_of algToOptsMap alg \<noteq> None \<Longrightarrow> utf8_valid alg"
  by (auto simp: algToOptsMap_def split: if_splits)

lemma signer_header:
  assumes "NewSigningKey C jwk required = Inr sk" "utf8_valid (Jwk_Kid jwk)"
  shows "signable_header (jwtHeader (signer_jwt (NewJwtSigner issuer sk) claims now jti u))"
  using SigningKey_of_jwk [OF assms(1)] assms(2) table_algs_ascii
  by (simp add: signable_header_def signer_jwt_def NewJwtSigner_def zero_JwsHeader_def wf_JwsHeader_def wf_blob_def)

lemma Get_stored_key:
  assumes "stored s issuer kid = Some pub" "\<not> is_revoked s issuer kid" "NewVerificationKey pub = (pub', Inr vk)"
  shows "snd (TrustKeyStoreImpl_Get s issuer kid) = Inr (Some vk)"
  using assms by (auto simp: TrustKeyStoreImpl_Get_def stored_def split: option.splits)

lemma Verify_ok:
  assumes "Jwt_Unmarshal jwt = Inr (token, body)" "length jwt \<le> MaxCompactSize" "acceptable now audience token"
    "snd (get s (cIssuer (jwtClaims token)) (hKid (jwtHeader token))) = Inr (Some vk)"
    "VerificationKey_Algorithm vk = hAlg (jwtHeader token)"
    "VerificationKey_Verify C vk ''verify'' body (jwtSignature token) = Inr True"
  shows "snd (JwtVerifierImpl_Verify C get s now jwt audience) = Inr (VerificationKey_Kid vk, jwtClaims token)"
proof -
  have "check_token now audience jwt = Inr (token, body)" using assms(1-3) by (simp add: check_token_iff)
  moreover obtain s' where "get s (cIssuer (jwtClaims token)) (hKid (jwtHeader token)) = (s', Inr (Some vk))"
    using assms(4) prod.collapse by metis
  ultimately show ?thesis
    using assms(5-) by (simp add: JwtVerifierImpl_Verify_def)
qed

text \<open>A signed token, for any store that answers with a key that accepts the signer's signatures.\<close>

lemma signed_token_accepted:
  assumes key: "NewSigningKey C jwk required = Inr sk"
    and kid: "utf8_valid (Jwk_Kid jwk)" "Jwk_Kid jwk \<noteq> []"
    and claims: "wf_JwtClaims (jwtClaims token)" "setAudiences claims = Some xs" "xs \<noteq> []"
      "token = signer_jwt (NewJwtSigner issuer sk) claims now jti u" "encode_untyped untyped = Inr u"
    and signed: "JwtSignerImpl_Sign C rnd now jti (NewJwtSigner issuer sk) claims untyped = Inr t"
    and store: "snd (get s issuer (Jwk_Kid jwk)) = Inr (Some vk)" "VerificationKey_Algorithm vk = Jwk_Alg jwk"
      "\<And>body sig. SigningKey_Sign C rnd sk ''sign'' body = Inr sig \<Longrightarrow> VerificationKey_Verify C vk ''verify'' body sig = Inr True"
    and checks: "length t \<le> MaxCompactSize" "setNotBefore claims \<le> now'" "now' < setExpiration claims"
      "set audience \<inter> set xs \<noteq> {}"
  shows "snd (JwtVerifierImpl_Verify C get s now' t audience)
    = Inr (VerificationKey_Kid vk, (jwtClaims token)\<lparr>cUntyped := sort_key fst u\<rparr>)"
proof -
  note of_jwk = SigningKey_of_jwk [OF key]
  obtain body sig where body: "Jwt_MarshalBody token = Inr body" "SigningKey_Sign C rnd sk ''sign'' body = Inr sig"
    "t = MarshalJws body sig"
    using signed claims(4,5) by (auto simp: JwtSignerImpl_Sign_def NewJwtSigner_def)
  let ?token = "\<lparr>jwtHeader = jwtHeader token, jwtClaims = (jwtClaims token)\<lparr>cUntyped := sort_key fst u\<rparr>,
    jwtSignature = sig\<rparr>"
  have fields: "jwtSignature token = []" "cAudiences (jwtClaims token) = Some xs" "cUntyped (jwtClaims token) = u"
    "cIssuer (jwtClaims token) = issuer" "hKid (jwtHeader token) = Jwk_Kid jwk" "hAlg (jwtHeader token) = Jwk_Alg jwk"
    "cNotBefore (jwtClaims token) = setNotBefore claims" "cExpiration (jwtClaims token) = setExpiration claims"
    using of_jwk claims(2,4) by (simp_all add: signer_jwt_def NewJwtSigner_def)
  then have self: "\<lparr>jwtHeader = jwtHeader token, jwtClaims = jwtClaims token, jwtSignature = []\<rparr> = token" by (cases token) simp
  have "signable_header (jwtHeader token)" using signer_header [OF key kid(1)] claims(4) by simp
  from Jwt_token_roundtrip [OF this claims(1) fields(2) claims(3), of "[]" sig]
  have parsed: "Jwt_Unmarshal t = Inr (?token, body)"
    using body(1,3) checks(1) fields(3) unfolding self by auto
  show ?thesis
    using Verify_ok [OF parsed checks(1), of now' audience get s vk C] store(1,2) store(3) [OF body(2)] fields checks kid(2)
    by (simp add: acceptable_def aud_list_def)
qed

lemma signed_token_verifies:
  assumes key: "NewSigningKey C jwk required = Inr sk" "PublicFromPrivate C jwk = Inr pub"
      "NewVerificationKey pub = (pub', Inr vk)" "rsa_correct C" "ecdsa_correct C"
    and kid: "utf8_valid (Jwk_Kid jwk)" "Jwk_Kid jwk \<noteq> []"
    and claims: "wf_JwtClaims (jwtClaims token)" "setAudiences claims = Some xs" "xs \<noteq> []"
      "token = signer_jwt (NewJwtSigner issuer sk) claims now jti u" "encode_untyped untyped = Inr u"
    and signed: "JwtSignerImpl_Sign C rnd now jti (NewJwtSigner issuer sk) claims untyped = Inr t"
    and store: "stored s issuer (Jwk_Kid jwk) = Some pub" "\<not> is_revoked s issuer (Jwk_Kid jwk)"
    and checks: "length t \<le> MaxCompactSize" "setNotBefore claims \<le> now'" "now' < setExpiration claims"
      "set audience \<inter> set xs \<noteq> {}"
  shows "snd (JwtVerifierImpl_Verify C TrustKeyStoreImpl_Get s now' t audience)
    = Inr (Jwk_Kid jwk, (jwtClaims token)\<lparr>cUntyped := sort_key fst u\<rparr>)"
proof -
  note of_jwk = SigningKey_of_jwk [OF key(1)]
  obtain opts where "map_of algToOptsMap (Jwk_Alg jwk) = Some opts" using of_jwk(4) by blast
  then have alg: "VerificationKey_Algorithm vk = Jwk_Alg jwk" "VerificationKey_Kid vk = Jwk_Kid jwk"
    using public_alg [OF key(2,3)] algToOptsMap_named by blast+
  have "VerificationKey_Verify C vk ''verify'' body sig = Inr True" if "SigningKey_Sign C rnd sk ''sign'' body = Inr sig" for body sig
    using SigningKey_sign_verifies [OF key(1) that _ key(4,5)] of_jwk(3) key(2,3) by simp
  from signed_token_accepted [where get = TrustKeyStoreImpl_Get and s = s, OF key(1) kid claims signed Get_stored_key [OF store key(3)] alg(1) this checks] alg(2)
  show ?thesis by simp
qed

section \<open>A concrete run\<close>

definition demo_untyped_values :: "(string \<times> (err + json)) list" where
  "demo_untyped_values = [(''z'', Inr (JBool True)), (''r'', Inr (JArr [jint 7]))]"

definition demo_settable :: settable where
  "demo_settable = \<lparr>setSubject = [], setAudiences = Some [''a''], setExpiration = 2000, setNotBefore = 0\<rparr>"

abbreviation demo_jwt_signer :: JwtSignerImpl where
  "demo_jwt_signer \<equiv> NewJwtSigner ''i'' (SkEcdsa demo_signer)"

lemma demo_token: "signer_jwt demo_jwt_signer demo_settable 0 [] (cUntyped demo_claims) = demo_jwt []"
  by (simp add: signer_jwt_def NewJwtSigner_def SigningKey_Algorithm_def SigningKey_Kid_def demo_signer_def demo_ec_priv_def
      zero_PrivateEcKey_def Jwk_Kid_def jwk_get_def jwkFields.truncate_def demo_header_def demo_claims_def
      zero_JwtClaims_def demo_settable_def)

lemma demo_encoded: "encode_untyped demo_untyped_values = Inr (cUntyped demo_claims)"
  by (simp add: demo_untyped_values_def demo_claims_def)

lemma demo_signature: "\<exists>sig. SigningKey_Sign demo_lib [] (SkEcdsa demo_signer) ''sign'' d = Inr sig \<and> length sig \<le> 200"
  by (simp add: SigningKey_Sign_def ECDSASigningKey_Sign_def demo_signer_def permits_def isSubset_def intersection_def
      validSignerOps_def signerOptsForAlg_def algToOptsMap_def demo_lib_def curve_BitSize_def pad_left_def big_Bytes.simps)

lemma demo_signed_token:
  "\<exists>t. JwtSignerImpl_Sign demo_lib [] 0 [] demo_jwt_signer demo_settable demo_untyped_values = Inr t
    \<and> length t \<le> MaxCompactSize"
proof -
  obtain body where body: "Jwt_MarshalBody (demo_jwt []) = Inr body" using demo_roundtrip by blast
  obtain sig where sig: "SigningKey_Sign demo_lib [] (SkEcdsa demo_signer) ''sign'' body = Inr sig" "length sig \<le> 200"
    using demo_signature by blast
  show ?thesis
    using body sig demo_body_length [OF body sig(2)]
    by (simp add: JwtSignerImpl_Sign_def demo_encoded demo_token) (simp add: NewJwtSigner_def)
qed

lemma demo_public:
  "\<exists>pub pub' vk. PublicFromPrivate demo_lib (EcPriv demo_ec_priv) = Inr pub \<and> NewVerificationKey pub = (pub', Inr vk)
    \<and> Jwk_Kid pub = ''k1''"
proof -
  obtain vk where "ECDSASigningKey_Verifier demo_lib demo_signer = Inr vk" using demo_signer_verifier by blast
  then obtain pub pub' where "PublicFromPrivate demo_lib (EcPriv demo_ec_priv) = Inr pub" "NewVerificationKey pub = (pub', Inr vk)"
    by (auto simp: ECDSASigningKey_Verifier_def demo_signer_def) (metis prod.collapse)
  moreover from this have "Jwk_Kid pub = Jwk_Kid (EcPriv demo_ec_priv)" by (auto simp: PublicFromPrivate_numbers)
  ultimately show ?thesis
    by (simp add: demo_ec_priv_def zero_PrivateEcKey_def Jwk_Kid_def jwk_get_def jwkFields.truncate_def)
qed

definition store_of :: "Jwk \<Rightarrow> TrustKeyStoreImpl" where
  "store_of pub = \<lparr>tksKeys = [''i'' \<mapsto> [''k1'' \<mapsto> pub]], tksRevoked = Map.empty\<rparr>"

lemma demo_kid: "Jwk_Kid (EcPriv demo_ec_priv) = ''k1''"
  by (simp add: demo_ec_priv_def zero_PrivateEcKey_def Jwk_Kid_def jwk_get_def jwkFields.truncate_def)

section \<open>Properties\<close>

text \<open>
  C1: a token made by a JWT signer is accepted by a JWT verifier whose trust store holds, for the
  signer's issuer and the key's identifier, the public key derived from the signing key: within its
  time frame and for one of its audiences, verification returns the key's identifier and the claims
  that were signed. The hypotheses on the primitives say that they accept their own signatures.
\<close>

theorem signed_jwt_accepted:
  assumes "NewSigningKey C jwk required = Inr sk" "PublicFromPrivate C jwk = Inr pub"
      "NewVerificationKey pub = (pub', Inr vk)" "rsa_correct C" "ecdsa_correct C"
      "utf8_valid (Jwk_Kid jwk)" "Jwk_Kid jwk \<noteq> []"
      "wf_JwtClaims (jwtClaims token)" "setAudiences claims = Some xs" "xs \<noteq> []"
      "token = signer_jwt (NewJwtSigner issuer sk) claims now jti u" "encode_untyped untyped = Inr u"
      "JwtSignerImpl_Sign C rnd now jti (NewJwtSigner issuer sk) claims untyped = Inr t"
      "stored s issuer (Jwk_Kid jwk) = Some pub" "\<not> is_revoked s issuer (Jwk_Kid jwk)"
      "length t \<le> MaxCompactSize" "setNotBefore claims \<le> now'" "now' < setExpiration claims"
      "set audience \<inter> set xs \<noteq> {}"
  shows "snd (JwtVerifierImpl_Verify C TrustKeyStoreImpl_Get s now' t audience)
    = Inr (Jwk_Kid jwk, (jwtClaims token)\<lparr>cUntyped := sort_key fst u\<rparr>)"
  using assms by (rule signed_token_verifies)

theorem signed_jwt_accepted_witness:
  "\<exists>t pub c. JwtSignerImpl_Sign demo_lib [] 0 [] demo_jwt_signer demo_settable demo_untyped_values = Inr t
    \<and> snd (JwtVerifierImpl_Verify demo_lib TrustKeyStoreImpl_Get (store_of pub) 1000 t [''a'']) = Inr (''k1'', c)"
proof -
  obtain t where t: "JwtSignerImpl_Sign demo_lib [] 0 [] demo_jwt_signer demo_settable demo_untyped_values = Inr t"
    "length t \<le> MaxCompactSize" using demo_signed_token by blast
  obtain pub pub' vk where pub: "PublicFromPrivate demo_lib (EcPriv demo_ec_priv) = Inr pub"
    "NewVerificationKey pub = (pub', Inr vk)" using demo_public by blast
  have "snd (JwtVerifierImpl_Verify demo_lib TrustKeyStoreImpl_Get (store_of pub) 1000 t [''a''])
    = Inr (Jwk_Kid (EcPriv demo_ec_priv), (jwtClaims (demo_jwt []))\<lparr>cUntyped := sort_key fst (cUntyped demo_claims)\<rparr>)"
    by (rule signed_jwt_accepted [OF demo_signer_made pub demo_lib_correct _ _ _ _ _ demo_token [symmetric] demo_encoded t(1)
          _ _ t(2), where xs = "[''a'']"])
      (use demo_claims_wf in \<open>simp_all add: demo_kid store_of_def stored_def is_revoked_def demo_settable_def\<close>)
  then show ?thesis using t(1) by (auto simp: demo_kid)
qed

text \<open>
  C2: a verifier over the local trust store accepts a token only if the token that the text parses to is
  already valid, unexpired, meant for one of the expected audiences and signed by the key that the store
  holds, unrevoked, for the token's own issuer and the key identifier of its header, under the algorithm its
  header names; it answers with the token's claims and the key's identifier. The text is within the size
  bound and is the canonical serialisation of what was signed.
\<close>

theorem Verify_sound:
  assumes "JwtVerifierImpl_Verify C TrustKeyStoreImpl_Get s now jwt audience = (s', Inr (kid, claims))"
  shows "\<exists>token body vk jwk. Jwt_Unmarshal jwt = Inr (token, body) \<and> jwt = MarshalJws body (jwtSignature token)
    \<and> length jwt \<le> MaxCompactSize \<and> claims = jwtClaims token \<and> kid = VerificationKey_Kid vk
    \<and> cNotBefore claims \<le> now \<and> now < cExpiration claims
    \<and> set audience \<inter> set (aud_list (cAudiences claims)) \<noteq> {}
    \<and> \<not> is_revoked s' (cIssuer claims) (hKid (jwtHeader token))
    \<and> stored s' (cIssuer claims) (hKid (jwtHeader token)) = Some jwk \<and> NewVerificationKey jwk = (jwk, Inr vk)
    \<and> VerificationKey_Algorithm vk = hAlg (jwtHeader token)
    \<and> VerificationKey_Verify C vk ''verify'' body (jwtSignature token) = Inr True"
proof -
  obtain token body vk where v: "Jwt_Unmarshal jwt = Inr (token, body)" "claims = jwtClaims token" "length jwt \<le> MaxCompactSize"
    "acceptable now audience token" "store_vouches s' (cIssuer claims) (hKid (jwtHeader token)) vk" "kid = VerificationKey_Kid vk"
    "VerificationKey_Algorithm vk = hAlg (jwtHeader token)"
    "VerificationKey_Verify C vk ''verify'' body (jwtSignature token) = Inr True"
    using local_store.verified_by_vouched_key [OF assms] by blast
  have "jwt = MarshalJws body (jwtSignature token)"
    using v(1) by (auto simp: Jwt_Unmarshal_def Let_def elim: Jws_Unmarshal_Inr)
  moreover obtain jwk where "\<not> is_revoked s' (cIssuer claims) (hKid (jwtHeader token))"
    "stored s' (cIssuer claims) (hKid (jwtHeader token)) = Some jwk" "NewVerificationKey jwk = (jwk, Inr vk)"
    using v(5) unfolding store_vouches_def by blast
  moreover have "cNotBefore claims \<le> now" "now < cExpiration claims" "set audience \<inter> set (aud_list (cAudiences claims)) \<noteq> {}"
    using v(2,4) by (simp_all add: acceptable_def)
  ultimately show ?thesis using v(1-3,6-) by blast
qed

lemma demo_verified:
  "\<exists>t pub s' kid claims. Jwk_Kid pub = ''k1''
    \<and> JwtVerifierImpl_Verify demo_lib TrustKeyStoreImpl_Get (store_of pub) 1000 t [''a''] = (s', Inr (kid, claims))"
proof -
  obtain t where t: "JwtSignerImpl_Sign demo_lib [] 0 [] demo_jwt_signer demo_settable demo_untyped_values = Inr t"
    "length t \<le> MaxCompactSize" using demo_signed_token by blast
  obtain pub pub' vk where pub: "PublicFromPrivate demo_lib (EcPriv demo_ec_priv) = Inr pub"
    "NewVerificationKey pub = (pub', Inr vk)" "Jwk_Kid pub = ''k1''" using demo_public by blast
  have "snd (JwtVerifierImpl_Verify demo_lib TrustKeyStoreImpl_Get (store_of pub) 1000 t [''a''])
    = Inr (Jwk_Kid (EcPriv demo_ec_priv), (jwtClaims (demo_jwt []))\<lparr>cUntyped := sort_key fst (cUntyped demo_claims)\<rparr>)"
    by (rule signed_token_verifies [OF demo_signer_made pub(1,2) demo_lib_correct _ _ _ _ _ demo_token [symmetric] demo_encoded t(1)
          _ _ t(2), where xs = "[''a'']"])
      (use demo_claims_wf in \<open>simp_all add: demo_kid store_of_def stored_def is_revoked_def demo_settable_def\<close>)
  then show ?thesis using pub(3) by (metis prod.collapse)
qed

theorem Verify_sound_witness:
  "\<exists>t pub s' kid claims token body. JwtVerifierImpl_Verify demo_lib TrustKeyStoreImpl_Get (store_of pub) 1000 t [''a'']
      = (s', Inr (kid, claims)) \<and> Jwt_Unmarshal t = Inr (token, body) \<and> claims = jwtClaims token \<and> 1000 < cExpiration claims
      \<and> stored s' (cIssuer claims) (hKid (jwtHeader token)) \<noteq> None"
proof -
  obtain t pub s' kid claims where
    v: "JwtVerifierImpl_Verify demo_lib TrustKeyStoreImpl_Get (store_of pub) 1000 t [''a''] = (s', Inr (kid, claims))"
    using demo_verified by blast
  from Verify_sound [OF v] obtain token body jwk where "Jwt_Unmarshal t = Inr (token, body)" "claims = jwtClaims token"
    "1000 < cExpiration claims" "stored s' (cIssuer claims) (hKid (jwtHeader token)) = Some jwk"
    by blast
  with v show ?thesis by blast
qed

text \<open>
  C10: a verifier over the fetching trust store, in any state that concurrent lookups can have brought the
  store to, accepts a token only if the token that the text parses to is within its time frame, for an
  expected audience and for an issuer the store was made for, and is signed under its header's key identifier
  and algorithm by a key of the last key set fetched before the call or of the set the call itself fetched.
  In either case that set was published in full by the endpoint, and was no older than the refresh interval
  when the key was looked up, unless the interval is zero, which turns the limit off.
\<close>

theorem Verify_jwks_sound:
  assumes "(get_step C)\<^sup>*\<^sup>* (initial_world (configured issuers url r m) start) w" "r < 2 ^ 63 - 1"
    "JwtVerifierImpl_Verify C (JwksTrustStore_Get C t answer) (w_store w) now jwt audience = (s', Inr (kid, claims))"
  shows "\<exists>token body vk. Jwt_Unmarshal jwt = Inr (token, body) \<and> claims = jwtClaims token
    \<and> cNotBefore claims \<le> now \<and> now < cExpiration claims \<and> set audience \<inter> set (aud_list (cAudiences claims)) \<noteq> {}
    \<and> cIssuer claims \<in> set (split_on CHR '','' issuers) \<and> kid = hKid (jwtHeader token)
    \<and> VerificationKey_Kid vk = hKid (jwtHeader token) \<and> VerificationKey_Algorithm vk = hAlg (jwtHeader token)
    \<and> VerificationKey_Verify C vk ''verify'' body (jwtSignature token) = Inr True
    \<and> (\<exists>at keys doc moment. published C doc keys \<and> vk \<in> set keys \<and> (r = 0 \<or> moment - at \<le> r)
        \<and> ((\<exists>older. w_fetches w = (at, keys) # older) \<and> moment \<in> {c_first t, c_locked t}
           \<or> answer = Response 200 doc \<and> at = c_install t \<and> moment = c_last t))"
proof -
  obtain token body vk where v: "Jwt_Unmarshal jwt = Inr (token, body)" "acceptable now audience token" "claims = jwtClaims token"
    "JwksTrustStore_Get C t answer (w_store w) (cIssuer claims) (hKid (jwtHeader token)) = (s', Inr (Some vk))"
    "kid = VerificationKey_Kid vk" "VerificationKey_Algorithm vk = hAlg (jwtHeader token)"
    "VerificationKey_Verify C vk ''verify'' body (jwtSignature token) = Inr True"
    using assms(3) by (rule Verify_Inr)
  note src = JwksTrustStore_Get_source [OF reachable_cached [OF assms(1)] assms(2) v(4)]
  have "cNotBefore claims \<le> now" "now < cExpiration claims" "set audience \<inter> set (aud_list (cAudiences claims)) \<noteq> {}"
    using v(2,3) by (simp_all add: acceptable_def)
  with v(1,3,5-) src [unfolded comes_from_def] show ?thesis by (intro exI [of _ token] exI [of _ body] exI [of _ vk] conjI) simp_all
qed

definition demo_clock :: clock where
  "demo_clock = \<lparr>c_first = 6, c_locked = 6, c_attempt = 6, c_install = 6, c_last = 6\<rparr>"

lemma demo_vk_verifies:
  assumes "SigningKey_Sign demo_lib [] (SkEcdsa demo_signer) ''sign'' d = Inr sig"
  shows "VerificationKey_Verify demo_lib demo_vk ''verify'' d sig = Inr True"
proof -
  obtain rb sb where "pad_left 32 1 = Inr rb" "pad_left 32 2 = Inr sb" "sig = rb @ sb"
    using assms by (auto simp: SigningKey_Sign_def ECDSASigningKey_Sign_def demo_signer_def permits_def isSubset_def intersection_def
        validSignerOps_def signerOptsForAlg_def algToOptsMap_def demo_lib_def curve_BitSize_def Let_def)
  then show ?thesis
    using pad_left_Inr [of 32 1 rb] pad_left_Inr [of 32 2 sb]
    by (simp add: VerificationKey_Verify_def ECVerificationKeyImpl_Verify_def demo_vk_def permits_def isSubset_def intersection_def
        validVerificationOps_def algToOptsMap_def demo_lib_def)
qed

lemma demo_asking_get:
  "JwksTrustStore_Get C demo_clock answer demo_fetched ''i'' ''k1''
    = (demo_fetched, Inr (Some demo_vk))"
  by (simp add: JwksTrustStore_Get_def demo_clock_def demo_fetched_def demo_jwks_def NewJwksKeyStore_def knownIssuer_def lookup_def is_fresh_def
      demo_vk_kid time_Sub_def DefaultJwksRefreshInterval_def)

lemma demo_jwks_verified:
  "\<exists>t kid claims. snd (JwtVerifierImpl_Verify demo_lib
      (JwksTrustStore_Get demo_lib demo_clock BadRequest) demo_fetched
      1000 t [''a'']) = Inr (kid, claims)"
proof -
  obtain t where t: "JwtSignerImpl_Sign demo_lib [] 0 [] demo_jwt_signer demo_settable demo_untyped_values = Inr t"
    "length t \<le> MaxCompactSize" using demo_signed_token by blast
  have alg: "VerificationKey_Algorithm demo_vk = Jwk_Alg (EcPriv demo_ec_priv)"
    by (simp add: demo_vk_def VerificationKey_Algorithm_def demo_ec_priv_def zero_PrivateEcKey_def Jwk_Alg_def jwk_get_def)
  show ?thesis
    by (intro exI, rule signed_token_accepted [OF demo_signer_made _ _ _ _ _ demo_token [symmetric] demo_encoded t(1) _ _ _ t(2),
          where xs = "[''a'']" and vk = demo_vk])
      (use alg demo_claims_wf demo_asking_get demo_vk_verifies in \<open>simp_all add: demo_kid demo_settable_def\<close>)
qed

theorem Verify_jwks_sound_witness:
  "\<exists>t s' kid claims (token :: Jwt) body vk. JwtVerifierImpl_Verify demo_lib
      (JwksTrustStore_Get demo_lib demo_clock BadRequest)
      (w_store (demo_asking (Entered ''i'' ''k1''))) 1000 t [''a''] = (s', Inr (kid, claims))
    \<and> Jwt_Unmarshal t = Inr (token, body) \<and> cIssuer claims = ''i''
    \<and> VerificationKey_Verify demo_lib vk ''verify'' body (jwtSignature token) = Inr True"
proof -
  have w: "(get_step demo_lib)\<^sup>*\<^sup>* (initial_world (configured ''i'' ''u'' DefaultJwksRefreshInterval DefaultJwksMinRefreshInterval) 5)
      (demo_asking (Entered ''i'' ''k1''))"
    using demo_asking_reached unfolding demo_jwks_configured .
  obtain t s' kid claims where v: "JwtVerifierImpl_Verify demo_lib
      (JwksTrustStore_Get demo_lib demo_clock BadRequest)
      (w_store (demo_asking (Entered ''i'' ''k1''))) 1000 t [''a''] = (s', Inr (kid, claims))"
    using demo_jwks_verified by (auto simp: demo_asking_def) (metis prod.collapse)
  have "DefaultJwksRefreshInterval < 2 ^ 63 - 1" "set (split_on CHR '','' ''i'') = {''i''}" by (simp_all add: DefaultJwksRefreshInterval_def)
  with Verify_jwks_sound [OF w _ v] v show ?thesis by (metis singletonD)
qed

text \<open>
  Whatever error a store reports, short of a panic, verification reports the key as unknown: a
  stale key set, a failed fetch and a stored but unusable key are not told apart from a key that
  was never there.
\<close>

theorem store_errors_masked:
  assumes "check_token now audience jwt = Inr (token, body)"
    "get s (cIssuer (jwtClaims token)) (hKid (jwtHeader token)) = (s', Inl e)" "\<nexists>m. e = GoPanic m"
  shows "JwtVerifierImpl_Verify C get s now jwt audience = (s', Inl (Gose ErrUnknownKey))"
  using assms by (cases e) (simp_all add: JwtVerifierImpl_Verify_def)

theorem store_errors_masked_witness:
  "\<exists>t. snd (JwtVerifierImpl_Verify demo_lib (\<lambda>s i k. (s, Inl (Gose ErrJwksStale))) () 1000 t [''a'']) = Inl (Gose ErrUnknownKey)"
proof -
  obtain t pub s' kid claims where
    v: "JwtVerifierImpl_Verify demo_lib TrustKeyStoreImpl_Get (store_of pub) 1000 t [''a''] = (s', Inr (kid, claims))"
    using demo_verified by blast
  then obtain token body where "check_token 1000 [''a''] t = Inr (token, body)"
    by (auto simp: JwtVerifierImpl_Verify_def split: sum.splits)
  from store_errors_masked [OF this, of "\<lambda>s i k. (s, Inl (Gose ErrJwksStale))" "()" "()" "Gose ErrJwksStale" demo_lib]
  show ?thesis by (intro exI [of _ t]) simp
qed

end
