(* ===== verification/JweCrypt_Laws.thy ===== *)
theory JweCrypt_Laws
  imports JweKeyEncryption Keys_Laws
begin

text \<open>
  Laws of encryption: authorisation of the AES-GCM key, round trips of the three kinds of JWE, what
  a decrypted JWE satisfies, and that a failed unwrap is not observable.
\<close>

section \<open>AES-GCM\<close>

interpretation gcm_open: guarded_operation validDecryptionOpts gcmOpts "\<lambda>j k. k"
    "\<lambda>k requested (nonce, ct, aad, tag). AesGcmCryptor_Open k requested nonce ct aad tag" "Inl (Gose ErrInvalidOperations)"
  by unfold_locales (auto simp: AesGcmCryptor_Open_def)

interpretation gcm_seal: guarded_operation validEncryptionOpts gcmOpts "\<lambda>j k. k"
    "\<lambda>k requested (nonce, pt, aad). AesGcmCryptor_Seal k requested nonce pt aad" "Inl (Gose ErrInvalidOperations)"
  by unfold_locales (auto simp: AesGcmCryptor_Seal_def)

text \<open>What an AEAD documents: opening inverts sealing, also when it chose the nonce and appended it.\<close>

definition aead_correct :: "AEAD \<Rightarrow> bool" where
  "aead_correct A \<longleftrightarrow>
     (\<forall>n p a c. aead_Seal A (Some n) p a = Some c \<longrightarrow> length n = aead_NonceSize A \<longrightarrow> aead_Open A n c a = Some p)
   \<and> (\<forall>p a d. aead_Seal A None p a = Some d \<longrightarrow>
        aead_Open A (drop (length d - aead_NonceSize A) d) (take (length d - aead_NonceSize A) d) a = Some p)"

lemma aead_correctD:
  assumes "aead_correct A" "aead_Seal A None p a = Some d"
  shows "aead_Open A (drop (length d - aead_NonceSize A) d) (take (length d - aead_NonceSize A) d) a = Some p"
  using assms by (simp add: aead_correct_def)

definition rng_exact :: "rng \<Rightarrow> bool" where
  "rng_exact rng \<longleftrightarrow> (\<forall>n b. rng n = Some b \<longrightarrow> length b = n)"

lemma Seal_Inr:
  assumes "AesGcmCryptor_Seal k requested nonce pt aad = Inr (ct, tag)"
  shows "requested = ''encrypt''" "''encrypt'' \<in> set (gcmOpts k)" "length ct = length pt" "length pt \<le> MaxPlaintextSize"
    "aead_Seal (gcmAead k) nonce pt aad = Some (ct @ tag)"
    "length tag = aead_Overhead (gcmAead k) + (if nonce = None then aead_NonceSize (gcmAead k) else 0)"
    "nonce = Some n \<Longrightarrow> length n = aead_NonceSize (gcmAead k)"
  using gcm_seal.authorised [of k requested "(nonce, pt, aad)"] assms
  by (auto simp: AesGcmCryptor_Seal_def sealAEAD_def Let_def validEncryptionOpts_def split: if_splits)

text \<open>Opening what was sealed; \<open>body\<close> and \<open>tag'\<close> are the nonce and the tag as they are sent.\<close>

lemma Open_sealed:
  assumes "AesGcmCryptor_Seal k ''encrypt'' (Some n) pt aad = Inr (ct, tag)" "aead_correct (gcmAead k)"
    "''decrypt'' \<in> set (gcmOpts k)"
  shows "AesGcmCryptor_Open k ''decrypt'' n ct aad tag = Inr pt"
  using Seal_Inr [OF assms(1)] assms(2,3)
  by (simp add: AesGcmCryptor_Open_def permits_def allowed_iff validDecryptionOpts_def aead_correct_def)

lemma Open_sealed_external:
  assumes "AesGcmCryptor_Seal k ''encrypt'' None pt aad = Inr (ct, tag)" "aead_correct (gcmAead k)"
    "''decrypt'' \<in> set (gcmOpts k)" "m = length tag - aead_NonceSize (gcmAead k)"
  shows "AesGcmCryptor_Open k ''decrypt'' (drop m tag) ct aad (take m tag) = Inr pt"
proof -
  note s = Seal_Inr [OF assms(1)]
  have "aead_Open (gcmAead k) (drop (length (ct @ tag) - aead_NonceSize (gcmAead k)) (ct @ tag))
      (take (length (ct @ tag) - aead_NonceSize (gcmAead k)) (ct @ tag)) aad = Some pt"
    using aead_correctD [OF assms(2)] s(5) by blast
  then have "aead_Open (gcmAead k) (drop m tag) (ct @ take m tag) aad = Some pt"
    using s(6) assms(4) by simp
  then show ?thesis
    using s assms(3,4) by (simp add: AesGcmCryptor_Open_def permits_def allowed_iff validDecryptionOpts_def)
qed

section \<open>Direct encryption with AES-GCM\<close>

lemma gcm_enc_utf8:
  assumes "map_of gcmAlgToEncMap a = Some enc"
  shows "utf8_valid enc"
  using map_of_SomeD [OF assms] by (auto simp: gcmAlgToEncMap_def)

lemma direct_header_wf:
  assumes "utf8_valid (gcmKid k)" "map_of gcmAlgToEncMap (gcmAlg k) = Some enc" "length aad \<le> MaxBlobSize"
  shows "wf_JweHeader (direct_header k aad)" "hCrit (direct_header k aad) = []" "hEnc (direct_header k aad) = enc"
    "hAlg (direct_header k aad) = ''dir''" "hKid (direct_header k aad) = gcmKid k" "hZip (direct_header k aad) = []"
    "hOtherAad (direct_header k aad) = (if aad = [] then None else Some aad)"
  using assms gcm_enc_utf8 [OF assms(2)]
  by (simp_all add: direct_header_def zero_JweHeader_def zero_JwsHeader_def JwsHeader.extend_def wf_JweHeader_def
      wf_JwsHeader_def wf_blob_def enc_of_def)

lemma direct_decrypt_sealed:
  assumes "utf8_valid (gcmKid k)" "gcmKid k \<noteq> []" "map_of gcmAlgToEncMap (gcmAlg k) = Some enc"
    "length aad \<le> MaxBlobSize" "ddKeystore d (gcmKid k) = Some k"
    "jweHeader j = direct_header k aad" "Jwe_MarshalHeader j = Inr j1"
    "t = Jwe_Marshal (j1\<lparr>jweCiphertext := ct, jweIv := iv, jweTag := tag\<rparr>)" "length t \<le> MaxCompactSize"
    "AesGcmCryptor_Open k ''decrypt'' iv ct (MarshalledHeader j1) tag = Inr pt"
  shows "JweDirectDecryptorAead_Decrypt d t = Inr (pt, if aad = [] then None else Some aad)"
proof -
  note h = direct_header_wf [OF assms(1,3,4)]
  have "jweHeader j1 = direct_header k aad"
    using assms(6,7) by (auto simp: Jwe_MarshalHeader_def rbind_def split: sum.splits)
  moreover have "Jwe_Unmarshal zero_Jwe t = Inr (j1\<lparr>jweCiphertext := ct, jweIv := iv, jweTag := tag, jwePlaintext := []\<rparr>)"
    using Jwe_parts [where j = j and ct = ct and tag = tag] h(1,2) assms(6,7,8,9) by simp
  ultimately show ?thesis
    using h assms(2,3,5,9,10) by (simp add: JweDirectDecryptorAead_Decrypt_def)
qed

lemma direct_encrypt_Inr:
  assumes "JweDirectEncryptorAead_Encrypt (NewJweDirectEncryptorAead k externalIV) pt aad = Inr t" "rng_exact (gcmRng k)"
    "aead_correct (gcmAead k)" "''decrypt'' \<in> set (gcmOpts k)"
  obtains j j1 ct iv tag where "jweHeader j = direct_header k aad" "Jwe_MarshalHeader j = Inr j1"
    "t = Jwe_Marshal (j1\<lparr>jweCiphertext := ct, jweIv := iv, jweTag := tag\<rparr>)"
    "AesGcmCryptor_Open k ''decrypt'' iv ct (MarshalledHeader j1) tag = Inr pt"
proof -
  define j where "j n = zero_Jwe\<lparr>jweHeader := direct_header k aad, jweIv := n, jwePlaintext := pt\<rparr>" for n
  have j: "jweHeader (j n) = direct_header k aad" "Jwe_MarshalHeader (j n) = Inr j1 \<Longrightarrow> jweIv j1 = n" for n j1
    by (auto simp: j_def Jwe_MarshalHeader_def rbind_def split: sum.splits)
  show ?thesis
  proof (cases externalIV)
    case False
    then obtain n j1 ct tag where p: "Jwe_MarshalHeader (j n) = Inr j1" "t = Jwe_Marshal (j1\<lparr>jweCiphertext := ct, jweTag := tag\<rparr>)"
      "AesGcmCryptor_Seal k ''encrypt'' (Some n) pt (MarshalledHeader j1) = Inr (ct, tag)"
      using assms(1) by (auto simp: JweDirectEncryptorAead_Encrypt_def j_def Let_def)
    then have "t = Jwe_Marshal (j1\<lparr>jweCiphertext := ct, jweIv := n, jweTag := tag\<rparr>)"
      using j(2) [OF p(1)] by (cases j1) simp
    with that [OF j(1) p(1)] Open_sealed [OF p(3) assms(3,4)] show ?thesis by blast
  next
    case True
    then obtain j1 ct tag n where p: "Jwe_MarshalHeader (j []) = Inr j1" "AesGcmCryptor_GenerateNonce k = Inr n"
      "t = Jwe_Marshal (j1\<lparr>jweCiphertext := ct, jweIv := drop (length tag - length n) tag, jweTag := take (length tag - length n) tag\<rparr>)"
      "AesGcmCryptor_Seal k ''encrypt'' None pt (MarshalledHeader j1) = Inr (ct, tag)"
      using assms(1) by (auto simp: JweDirectEncryptorAead_Encrypt_def j_def Let_def split: if_splits)
    have "length n = aead_NonceSize (gcmAead k)"
      using p(2) assms(2) by (simp add: AesGcmCryptor_GenerateNonce_def read_full_def rng_exact_def of_opt_def split: option.splits)
    with p show ?thesis
      using that [of "j []" j1] j Open_sealed_external [OF p(4) assms(3,4)] by simp
  qed
qed

definition demo_gcm :: AesGcmCryptor where
  "demo_gcm = \<lparr>gcmKid = ''k'', gcmAlg = ''A256GCM'', gcmAead = demo_aead, gcmOpts = [''encrypt'', ''decrypt''],
     gcmRng = (\<lambda>n. Some (replicate n CHR ''n''))\<rparr>"

lemma demo_gcm_ok: "aead_correct (gcmAead demo_gcm)" "rng_exact (gcmRng demo_gcm)"
  by (auto simp: demo_gcm_def demo_aead_def aead_correct_def rng_exact_def)

lemma demo_gcm_header: "case_sum (\<lambda>_. 1000) length (MarshalProtectedHeader (direct_header demo_gcm ''a'')) < 200"
  by code_simp

lemma demo_gcm_text:
  "\<exists>t. JweDirectEncryptorAead_Encrypt (NewJweDirectEncryptorAead demo_gcm False) ''m'' ''a'' = Inr t \<and> length t \<le> MaxCompactSize"
proof -
  obtain raw where raw: "MarshalProtectedHeader (direct_header demo_gcm ''a'') = Inr raw" "length raw < 200"
    using demo_gcm_header by (auto split: sum.splits)
  then show ?thesis
    by (simp add: JweDirectEncryptorAead_Encrypt_def Jwe_MarshalHeader_def JweHeader_MarshalHeader_def)
      (simp add: demo_gcm_def demo_aead_def AesGcmCryptor_GenerateNonce_def read_full_def AesGcmCryptor_Seal_def
        sealAEAD_def permits_def allowed_iff validEncryptionOpts_def MaxPlaintextSize_def Jwe_Marshal_def
        zero_Jwe_def length_b64_encode EncodedLen_def RawURLEncoding_def pad_def MaxCompactSize_def)
qed

lemma direct_roundtrip:
  assumes "JweDirectEncryptorAead_Encrypt (NewJweDirectEncryptorAead k externalIV) pt aad = Inr t"
    "aead_correct (gcmAead k)" "rng_exact (gcmRng k)" "''decrypt'' \<in> set (gcmOpts k)"
    "utf8_valid (gcmKid k)" "gcmKid k \<noteq> []" "map_of gcmAlgToEncMap (gcmAlg k) = Some enc"
    "length aad \<le> MaxBlobSize" "length t \<le> MaxCompactSize" "ddKeystore d (gcmKid k) = Some k"
  shows "JweDirectDecryptorAead_Decrypt d t = Inr (pt, if aad = [] then None else Some aad)"
proof -
  obtain j j1 ct iv tag where "jweHeader j = direct_header k aad" "Jwe_MarshalHeader j = Inr j1"
    "t = Jwe_Marshal (j1\<lparr>jweCiphertext := ct, jweIv := iv, jweTag := tag\<rparr>)"
    "AesGcmCryptor_Open k ''decrypt'' iv ct (MarshalledHeader j1) tag = Inr pt"
    using direct_encrypt_Inr [OF assms(1,3,2,4)] .
  then show ?thesis using direct_decrypt_sealed assms by blast
qed

text \<open>
  What a direct AES-GCM encryptor produces, the decryptor holding the key under its identifier
  decrypts to the plaintext and the additional data, both when the encryptor draws the nonce and
  when the backend chooses it and returns it behind the tag. The cipher is assumed to open what it
  sealed and the random source to deliver the octets asked for; the key must permit decryption and
  its label must be one of the three AES-GCM names.
\<close>

theorem direct_encryption_roundtrip:
  assumes "JweDirectEncryptorAead_Encrypt (NewJweDirectEncryptorAead k externalIV) pt aad = Inr t"
    "aead_correct (gcmAead k)" "rng_exact (gcmRng k)" "''decrypt'' \<in> set (gcmOpts k)"
    "utf8_valid (gcmKid k)" "gcmKid k \<noteq> []" "map_of gcmAlgToEncMap (gcmAlg k) = Some enc"
    "length aad \<le> MaxBlobSize" "length t \<le> MaxCompactSize" "ddKeystore d (gcmKid k) = Some k"
  shows "JweDirectDecryptorAead_Decrypt d t = Inr (pt, if aad = [] then None else Some aad)"
  using assms by (rule direct_roundtrip)

theorem direct_encryption_roundtrip_witness:
  "\<exists>t. JweDirectEncryptorAead_Encrypt (NewJweDirectEncryptorAead demo_gcm False) ''m'' ''a'' = Inr t
    \<and> JweDirectDecryptorAead_Decrypt (NewJweDirectDecryptorAeadImpl [demo_gcm]) t = Inr (''m'', Some ''a'')"
proof -
  obtain t where t: "JweDirectEncryptorAead_Encrypt (NewJweDirectEncryptorAead demo_gcm False) ''m'' ''a'' = Inr t" "length t \<le> MaxCompactSize"
    using demo_gcm_text by blast
  have "ddKeystore (NewJweDirectDecryptorAeadImpl [demo_gcm]) (gcmKid demo_gcm) = Some demo_gcm"
    by (simp add: NewJweDirectDecryptorAeadImpl_def)
  from direct_encryption_roundtrip [OF t(1) demo_gcm_ok _ _ _ _ _ t(2), where d = "NewJweDirectDecryptorAeadImpl [demo_gcm]"]
    this t(1) show ?thesis
    by (simp add: demo_gcm_def gcmAlgToEncMap_def MaxBlobSize_def)
qed

text \<open>
  C16: what the direct AES-GCM decryptor returns, the key registered under the header's identifier opened:
  the key permits decryption, its label determines the header's \<open>enc\<close>, the header's algorithm is \<open>dir\<close>,
  and the additional data given to the cipher is the received text before the first dot.
\<close>

theorem direct_decrypt_authenticated:
  assumes "JweDirectDecryptorAead_Decrypt d t = Inr (pt, aad)"
  shows "\<exists>(j :: Jwe) k. Jwe_Unmarshal zero_Jwe t = Inr j \<and> hKid (jweHeader j) \<noteq> [] \<and> ddKeystore d (hKid (jweHeader j)) = Some k
    \<and> ''decrypt'' \<in> set (gcmOpts k) \<and> hAlg (jweHeader j) = ''dir''
    \<and> map_of gcmAlgToEncMap (gcmAlg k) = Some (hEnc (jweHeader j)) \<and> hCrit (jweHeader j) = [] \<and> hZip (jweHeader j) = []
    \<and> length (jweIv j) = aead_NonceSize (gcmAead k) \<and> length (jweTag j) = aead_Overhead (gcmAead k)
    \<and> aead_Open (gcmAead k) (jweIv j) (jweCiphertext j @ jweTag j) (takeWhile (\<lambda>c. c \<noteq> CHR ''.'') t) = Some pt"
proof -
  obtain j :: Jwe and k where j: "Jwe_Unmarshal zero_Jwe t = Inr j" "hKid (jweHeader j) \<noteq> []" "ddKeystore d (hKid (jweHeader j)) = Some k"
    "hAlg (jweHeader j) = ''dir''" "map_of gcmAlgToEncMap (gcmAlg k) = Some (hEnc (jweHeader j))" "hZip (jweHeader j) = []"
    "AesGcmCryptor_Open k ''decrypt'' (jweIv j) (jweCiphertext j) (MarshalledHeader j) (jweTag j) = Inr pt"
    using assms by (auto simp: JweDirectDecryptorAead_Decrypt_def split: if_splits option.splits)
  moreover have "''decrypt'' \<in> set (gcmOpts k)"
    using gcm_open.authorised [of k "''decrypt''" "(jweIv j, jweCiphertext j, MarshalledHeader j, jweTag j)"] j(7)
    by (simp add: validDecryptionOpts_def)
  ultimately show ?thesis
    using Jwe_Unmarshal_header [OF j(1)]
    by (auto simp: AesGcmCryptor_Open_def of_opt_def split: if_splits option.splits)
qed

theorem direct_decrypt_authenticated_witness:
  "\<exists>t (j :: Jwe) k. JweDirectDecryptorAead_Decrypt (NewJweDirectDecryptorAeadImpl [demo_gcm]) t = Inr (''m'', Some ''a'')
    \<and> Jwe_Unmarshal zero_Jwe t = Inr j \<and> ddKeystore (NewJweDirectDecryptorAeadImpl [demo_gcm]) (hKid (jweHeader j)) = Some k
    \<and> length (jweIv j) = aead_NonceSize (gcmAead k)"
proof -
  obtain t where t: "JweDirectEncryptorAead_Encrypt (NewJweDirectEncryptorAead demo_gcm False) ''m'' ''a'' = Inr t" "length t \<le> MaxCompactSize"
    using demo_gcm_text by blast
  have "JweDirectDecryptorAead_Decrypt (NewJweDirectDecryptorAeadImpl [demo_gcm]) t = Inr (''m'', Some ''a'')"
    using direct_roundtrip [OF t(1) demo_gcm_ok _ _ _ _ _ t(2), where d = "NewJweDirectDecryptorAeadImpl [demo_gcm]"]
    by (simp add: demo_gcm_def gcmAlgToEncMap_def MaxBlobSize_def NewJweDirectDecryptorAeadImpl_def)
  with direct_decrypt_authenticated [OF this] show ?thesis by blast
qed

end
