(* ===== verification/JweKeyEncryption_Laws.thy ===== *)
theory JweKeyEncryption_Laws
  imports JweCrypt_Laws
begin

text \<open>
  Laws of JWE with an encrypted content-encryption key: decryption inverts encryption, a failed unwrap
  is not observable, and key generation respects the minimum size and the requested algorithm.
\<close>

section \<open>Round trip\<close>

lemma key_header_wf:
  assumes "utf8_valid (encKid e)" "OaepAlgFromHash h = Some alg"
  shows "wf_JweHeader (makeJweProtectedHeader e alg)" "acceptable_header (makeJweProtectedHeader e alg)"
    "OaepHashFromAlg alg = Some h"
proof -
  have "alg = ''RSA-OAEP'' \<and> h = SHA1_hash \<or> alg = ''RSA-OAEP-256'' \<and> h = SHA256_hash"
    using map_of_SomeD [of oaepHashToAlg h alg] assms(2) by (auto simp: OaepAlgFromHash_def oaepHashToAlg_def)
  then show "wf_JweHeader (makeJweProtectedHeader e alg)" "acceptable_header (makeJweProtectedHeader e alg)"
    "OaepHashFromAlg alg = Some h"
    using assms(1)
    by (auto simp: makeJweProtectedHeader_def zero_JweHeader_def zero_JwsHeader_def JwsHeader.extend_def wf_JweHeader_def
        wf_JwsHeader_def wf_blob_def enc_of_def cbcAlgToEncMap_def cekAlgorithm_def acceptable_header_def
        supportedJweAlgs_def supportedJweEncs_def OaepHashFromAlg_def oaepAlgToHash_def)
qed

lemma key_header_fields:
  "hAlg (makeJweProtectedHeader e alg) = alg" "hKid (makeJweProtectedHeader e alg) = encKid e"
  "hZip (makeJweProtectedHeader e alg) = []" "hEnc (makeJweProtectedHeader e alg) = EncA256GCM"
  by (simp_all add: makeJweProtectedHeader_def zero_JweHeader_def zero_JwsHeader_def JwsHeader.extend_def
      enc_of_def cbcAlgToEncMap_def cekAlgorithm_def)

text \<open>What was produced: a parsed JWE, the key that was wrapped and the cipher that sealed.\<close>

lemma key_encrypt_Inr:
  assumes "JweRsaKeyEncryption_Encrypt C e cekSource rnd ivSource pt h = Inr t" "length t \<le> MaxCompactSize"
    "utf8_valid (encKid e)"
  obtains alg cek aead jwe raw where "OaepAlgFromHash h = Some alg" "cekSource 32 = Some cek" "NewGCM C cek = Some aead"
    "HashAvailable C h" "EncryptOAEP C h rnd (encKey e) cek = Some (EncryptedKey jwe)"
    "JweRfc7516Compact_Unmarshal zero_compact t = Inr jwe" "ProtectedHeader jwe = makeJweProtectedHeader e alg"
    "AAD jwe = Inr raw"
    "AesGcmCryptor_Seal (NewAesGcmCryptor aead ivSource [] cekAlgorithm [''encrypt'']) ''encrypt''
       (Some (InitializationVector jwe)) pt raw = Inr (Ciphertext jwe, AuthenticationTag jwe)"
proof -
  obtain alg cek wrapped iv raw aead ct tag where p: "OaepAlgFromHash h = Some alg" "cekSource 32 = Some cek"
    "HashAvailable C h" "EncryptOAEP C h rnd (encKey e) cek = Some wrapped" "NewGCM C cek = Some aead"
    "MarshalProtectedHeader (makeJweProtectedHeader e alg) = Inr raw"
    "AesGcmCryptor_Seal (NewAesGcmCryptor aead ivSource [] cekAlgorithm [''encrypt'']) ''encrypt'' (Some iv) pt raw = Inr (ct, tag)"
    "JweRfc7516Compact_Marshal \<lparr>ProtectedHeader = makeJweProtectedHeader e alg, RawProtectedHeader = [], EncryptedKey = wrapped,
       InitializationVector = iv, Ciphertext = ct, AuthenticationTag = tag\<rparr> = Inr t"
    using assms(1)
    by (auto simp: JweRsaKeyEncryption_Encrypt_def Let_def of_opt_def read_full_def cekSize_def hash_New_def
        split: option.splits if_splits)
  note rt = compact_roundtrip [of "\<lparr>ProtectedHeader = makeJweProtectedHeader e alg, RawProtectedHeader = [], EncryptedKey = wrapped,
       InitializationVector = iv, Ciphertext = ct, AuthenticationTag = tag\<rparr>"]
  show ?thesis
    using rt key_header_wf [OF assms(3) p(1)] p assms(2)
    by (intro that [OF p(1,2,5,3)]) auto
qed

lemma key_roundtrip:
  assumes "JweRsaKeyEncryption_Encrypt C e cekSource rnd ivSource pt h = Inr t" "length t \<le> MaxCompactSize"
    "oaep_correct C" "\<forall>cek A. NewGCM C cek = Some A \<longrightarrow> aead_correct A" "rng_exact cekSource"
    "utf8_valid (encKid e)" "get (encKid e) = Inr (AdkRsa k)" "rsa_public.truncate (rpKey k) = encKey e"
    "''decrypt'' \<in> set (kOps k)" "isRsaOaepAlg (kAlg k)" "oaepHash = None \<or> oaepHash = Some h"
  shows "JweRsaKeyEncryption_Decrypt C (NewJweRsaKeyEncryptionDecryptorImpl get) rng t oaepHash = Inr (pt, takeWhile (\<lambda>c. c \<noteq> CHR ''.'') t)"
proof -
  obtain alg cek aead jwe raw where p: "OaepAlgFromHash h = Some alg" "cekSource 32 = Some cek" "NewGCM C cek = Some aead"
    "HashAvailable C h" "EncryptOAEP C h rnd (encKey e) cek = Some (EncryptedKey jwe)"
    "JweRfc7516Compact_Unmarshal zero_compact t = Inr jwe" "ProtectedHeader jwe = makeJweProtectedHeader e alg"
    "AAD jwe = Inr raw"
    "AesGcmCryptor_Seal (NewAesGcmCryptor aead ivSource [] cekAlgorithm [''encrypt'']) ''encrypt''
       (Some (InitializationVector jwe)) pt raw = Inr (Ciphertext jwe, AuthenticationTag jwe)"
    using key_encrypt_Inr [OF assms(1,2,6)] .
  have "DecryptOAEP C h (rpKey k) (EncryptedKey jwe) = Some cek"
    using assms(3,8) p(5) unfolding oaep_correct_def by metis
  then have "Adk_Decrypt C (AdkRsa k) ''decrypt'' h (EncryptedKey jwe) = Inr cek"
    using p(4) assms(9) by (simp add: Adk_Decrypt_def RsaPrivateKeyImpl_Decrypt_def permits_def allowed_iff
        validDecryptionOps_def hash_New_def)
  moreover have "length cek = 32" using p(2) assms(5) by (simp add: rng_exact_def)
  moreover have "open_with_cek C jwe cek = Inr (pt, raw)"
    using Seal_Inr [OF p(9)] p(3,8) assms(4)
    by (simp add: open_with_cek_def NewAesGcmCryptor_def aead_correct_def)
  moreover have "raw = takeWhile (\<lambda>c. c \<noteq> CHR ''.'') t" using compact_accepts [OF p(6)] p(8) by simp
  ultimately show ?thesis
    using p(6,7) assms(2,7,10,11) key_header_wf(3) [OF assms(6) p(1)]
    by (auto simp: JweRsaKeyEncryption_Decrypt_def key_header_fields encCekLength_def Adk_Algorithm_def unwrap_cek_def)
qed

text \<open>The random octets a demonstration draws, and the RSA pair of the demonstration key.\<close>

definition demo_rng :: rng where
  "demo_rng n = Some (replicate n CHR ''r'')"

definition demo_recipient :: JweRsaKeyEncryptionEncryptorImpl where
  "demo_recipient = \<lparr>encKey = \<lparr>pub_N = 33, pub_E = 3\<rparr>, encKid = ''k'', encAlg = ''RSA-OAEP''\<rparr>"

definition demo_rsa_decryptor :: RsaPrivateKeyImpl where
  "demo_rsa_decryptor = \<lparr>kJwk = demo_decryption_jwk, kOps = [''decrypt''], kAlg = ''RSA-OAEP'',
     rpKey = \<lparr>pub_N = 33, pub_E = 3, priv_D = 7, priv_Primes = [3, 11], pre_Dp = 1, pre_Dq = 1, pre_Qinv = 1\<rparr>\<rparr>"

lemma demo_key_header:
  "case_sum (\<lambda>_. 1000) length (MarshalProtectedHeader (makeJweProtectedHeader demo_recipient ''RSA-OAEP'')) < 300"
  by code_simp

lemma demo_key_text:
  "\<exists>t. JweRsaKeyEncryption_Encrypt demo_lib demo_recipient demo_rng [] demo_rng ''m'' SHA1_hash = Inr t \<and> length t \<le> MaxCompactSize"
proof -
  obtain raw where raw: "MarshalProtectedHeader (makeJweProtectedHeader demo_recipient ''RSA-OAEP'') = Inr raw" "length raw < 300"
    using demo_key_header by (auto split: sum.splits)
  have "\<not> padded RawURLEncoding" by (simp add: RawURLEncoding_def)
  with raw show ?thesis
    by (simp add: JweRsaKeyEncryption_Encrypt_def OaepAlgFromHash_def oaepHashToAlg_def read_full_def demo_rng_def
        cekSize_def ivSize_def hash_New_def demo_lib_def NewAesGcmCryptor_def AesGcmCryptor_Seal_def permits_def allowed_iff
        validEncryptionOpts_def cloneOps_def demo_aead_def sealAEAD_def MaxPlaintextSize_def JweRfc7516Compact_Marshal_def
        MaxCompactSize_def length_b64_encode EncodedLen_def pad_def)
qed

lemma demo_primitives: "oaep_correct demo_lib" "\<forall>cek A. NewGCM demo_lib cek = Some A \<longrightarrow> aead_correct A" "rng_exact demo_rng"
  using demo_gcm_ok(1) by (auto simp: oaep_correct_def demo_lib_def demo_gcm_def rng_exact_def demo_rng_def)

text \<open>
  C4: what the RSA key-encryption encryptor produces for a recipient, a decryptor whose store holds the
  recipient's private key under the recipient's identifier decrypts to the plaintext, returning the
  received header segment as additional data; the digest may be given or left to the header. OAEP and
  AES-GCM are assumed to invert, and the random source to deliver the octets asked for.
\<close>

theorem key_encryption_roundtrip:
  assumes "JweRsaKeyEncryption_Encrypt C e cekSource rnd ivSource pt h = Inr t" "length t \<le> MaxCompactSize"
    "oaep_correct C" "\<forall>cek A. NewGCM C cek = Some A \<longrightarrow> aead_correct A" "rng_exact cekSource"
    "utf8_valid (encKid e)" "get (encKid e) = Inr (AdkRsa k)" "rsa_public.truncate (rpKey k) = encKey e"
    "''decrypt'' \<in> set (kOps k)" "isRsaOaepAlg (kAlg k)" "oaepHash = None \<or> oaepHash = Some h"
  shows "JweRsaKeyEncryption_Decrypt C (NewJweRsaKeyEncryptionDecryptorImpl get) rng t oaepHash = Inr (pt, takeWhile (\<lambda>c. c \<noteq> CHR ''.'') t)"
  using assms by (rule key_roundtrip)

theorem key_encryption_roundtrip_witness:
  "\<exists>t. JweRsaKeyEncryption_Encrypt demo_lib demo_recipient demo_rng [] demo_rng ''m'' SHA1_hash = Inr t
    \<and> JweRsaKeyEncryption_Decrypt demo_lib (NewJweRsaKeyEncryptionDecryptorImpl (AsymmetricDecryptionKeyStoreImpl_Get \<lparr>adkKeys = [(''k'', AdkRsa demo_rsa_decryptor)]\<rparr>)) demo_rng t None
      = Inr (''m'', takeWhile (\<lambda>c. c \<noteq> CHR ''.'') t)"
proof -
  obtain t where t: "JweRsaKeyEncryption_Encrypt demo_lib demo_recipient demo_rng [] demo_rng ''m'' SHA1_hash = Inr t"
    "length t \<le> MaxCompactSize"
    using demo_key_text by blast
  from key_encryption_roundtrip [OF t demo_primitives, of "AsymmetricDecryptionKeyStoreImpl_Get \<lparr>adkKeys = [(''k'', AdkRsa demo_rsa_decryptor)]\<rparr>"
      demo_rsa_decryptor None] t(1)
  show ?thesis
    by (simp add: AsymmetricDecryptionKeyStoreImpl_Get_def)
      (simp add: demo_recipient_def demo_rsa_decryptor_def rsa_public.truncate_def isRsaOaepAlg_def oaepAlgToHash_def)
qed

section \<open>A failed unwrap is hidden\<close>

definition unwrap_fails :: "nat \<Rightarrow> err + bytes \<Rightarrow> bool" where
  "unwrap_fails n r = (case r of Inl (GoPanic _) \<Rightarrow> False | Inl _ \<Rightarrow> True | Inr cek \<Rightarrow> length cek \<noteq> n)"

lemma unwrap_cek_substitutes:
  assumes "unwrap_fails n r" "rng n = Some cek" "length cek = n"
  shows "unwrap_cek r n rng = unwrap_cek (Inr cek) n rng'"
  using assms by (auto simp: unwrap_fails_def unwrap_cek_def read_full_def split: sum.splits err.splits)

text \<open>
  C11: when the key cannot unwrap the content-encryption key of a JWE, by an error of any kind or by a result
  of the wrong length, the decryptor answers exactly as it would with a key that unwraps to the octets drawn
  from the random source: nothing in the answer tells that the unwrap failed.
\<close>

theorem unwrap_failure_hidden:
  assumes "JweRfc7516Compact_Unmarshal zero_compact t = Inr jwe"
    "map_of encCekLength (hEnc (ProtectedHeader jwe)) = Some n"
    "\<And>h. unwrap_fails n (Adk_Decrypt C bad ''decrypt'' h (EncryptedKey jwe))"
    "\<And>h. Adk_Decrypt C good ''decrypt'' h (EncryptedKey jwe) = Inr cek"
    "isRsaOaepAlg (Adk_Algorithm bad) \<longleftrightarrow> isRsaOaepAlg (Adk_Algorithm good)"
    "rng n = Some cek" "length cek = n"
  shows "JweRsaKeyEncryption_Decrypt C (NewJweRsaKeyEncryptionDecryptorImpl (\<lambda>_. Inr bad)) rng t oaepHash = JweRsaKeyEncryption_Decrypt C (NewJweRsaKeyEncryptionDecryptorImpl (\<lambda>_. Inr good)) rng' t oaepHash"
  using assms(1,2,4,5) unwrap_cek_substitutes [OF assms(3), where rng = rng and rng' = rng' and cek = cek] assms(6,7)
  by (simp add: JweRsaKeyEncryption_Decrypt_def Let_def cong: option.case_cong if_cong)

definition demo_token :: "(err + bytes) \<Rightarrow> AsymmetricDecryptionKey" where
  "demo_token answer = AdkHsm \<lparr>hsmKid = ''k'', hsmKeylabel = [],
     hsmCtx = \<lparr>ctxNewRandomReader = Inr (), ctxFindCertificate = (\<lambda>_ _. Inr None), ctxFindKeyPair = (\<lambda>_. Inr None)\<rparr>,
     hsmKey = \<lparr>sdDecrypt = (\<lambda>_ _. answer), sdPublic = RsaPublic \<lparr>pub_N = 33, pub_E = 3\<rparr>\<rparr>\<rparr>"

theorem unwrap_failure_hidden_witness:
  "\<exists>t. JweRsaKeyEncryption_Encrypt demo_lib demo_recipient demo_rng [] demo_rng ''m'' SHA1_hash = Inr t
    \<and> JweRsaKeyEncryption_Decrypt demo_lib (NewJweRsaKeyEncryptionDecryptorImpl (\<lambda>_. Inr (demo_token (Inl (Std (LibError ''rsa'')))))) demo_rng t None
      = JweRsaKeyEncryption_Decrypt demo_lib (NewJweRsaKeyEncryptionDecryptorImpl (\<lambda>_. Inr (demo_token (Inr (replicate 32 CHR ''r''))))) demo_rng t None"
proof -
  obtain t where t: "JweRsaKeyEncryption_Encrypt demo_lib demo_recipient demo_rng [] demo_rng ''m'' SHA1_hash = Inr t"
    "length t \<le> MaxCompactSize"
    using demo_key_text by blast
  obtain jwe alg where j: "JweRfc7516Compact_Unmarshal zero_compact t = Inr jwe"
    "ProtectedHeader jwe = makeJweProtectedHeader demo_recipient alg"
    by (rule key_encrypt_Inr [OF t]) (auto simp: demo_recipient_def)
  have "map_of encCekLength (hEnc (ProtectedHeader jwe)) = Some 32" by (simp add: j(2) key_header_fields encCekLength_def)
  from unwrap_failure_hidden [OF j(1) this, of demo_lib "demo_token (Inl (Std (LibError ''rsa'')))"
      "demo_token (Inr (replicate 32 CHR ''r''))" "replicate 32 CHR ''r''" demo_rng None demo_rng] t(1)
  show ?thesis
    by (simp add: demo_token_def Adk_Decrypt_def Adk_Algorithm_def hsm_Algorithm_def hsm_Decrypt_def unwrap_fails_def demo_rng_def)
qed

section \<open>Key generation\<close>

text \<open>
  A generated AES-GCM key has the length its algorithm names, its JWK carries the requested algorithm and
  operations and holds exactly the octets drawn, and the cryptor is the one the JWK loads to: a cryptor
  rebuilt from the returned JWK is the same cryptor.
\<close>

theorem generated_aead_key:
  assumes "AuthenticatedEncryptionKeyGenerator_Generate C keySource rng alg ops = Inr (cryptor, jwk)" "rng_exact keySource"
  shows "\<exists>n key. map_of authenticatedEncryptionAlgs alg = Some n \<and> keySource n = Some key \<and> length key = n
    \<and> Jwk_Alg jwk = alg \<and> Jwk_Ops jwk = ops \<and> gcmOpts cryptor = ops \<and> gcmAlg cryptor = alg
    \<and> NewGCM C key = Some (gcmAead cryptor) \<and> NewAesGcmCryptorFromJwk C rng jwk ops = Inr cryptor"
proof -
  obtain n key k where p: "map_of authenticatedEncryptionAlgs alg = Some n" "keySource n = Some key"
    "JwkFromSymmetric C key alg = Inr k" "jwk = Jwk_SetOps ops (Oct k)" "NewAesGcmCryptorFromJwk C rng jwk ops = Inr cryptor"
    using assms(1)
    by (auto simp: AuthenticatedEncryptionKeyGenerator_Generate_def of_opt_def read_full_def Let_def cloneOps_def split: option.splits)
  have "octK k = key" "KeyAlg k = alg"
    using p(3) by (auto simp: JwkFromSymmetric_def Let_def split: option.splits if_splits)
  then have j: "Jwk_Alg jwk = alg" "Jwk_Ops jwk = ops" "\<exists>v. jwk = Oct v \<and> octK v = key"
    by (simp_all add: p(4) Jwk_SetOps_def Jwk_Alg_def Jwk_Ops_def jwk_get_def put_fields_def jwkFields.truncate_def jwkFields.extend_def)
  have c: "LoadSymmetricAEAD C jwk ops = Inr (gcmAead cryptor)" "gcmAlg cryptor = Jwk_Alg jwk" "gcmOpts cryptor = Jwk_Ops jwk"
    using p(5) by (auto simp: NewAesGcmCryptorFromJwk_def cloneOps_def split: if_splits)
  then have "NewGCM C key = Some (gcmAead cryptor)"
    using j(3) by (auto simp: LoadSymmetricAEAD_def loadSymmetricBytes_def of_opt_def split: option.splits if_splits)
  then show ?thesis using p(1,2,5) c(2,3) j(1,2) assms(2) by (simp add: rng_exact_def)
qed

theorem generated_aead_key_witness:
  "\<exists>cryptor jwk. AuthenticatedEncryptionKeyGenerator_Generate demo_lib demo_rng demo_rng ''A256GCM'' [''encrypt''] = Inr (cryptor, jwk)
    \<and> Jwk_Ops jwk = [''encrypt''] \<and> NewAesGcmCryptorFromJwk demo_lib demo_rng jwk [''encrypt''] = Inr cryptor"
proof -
  have "\<exists>cryptor jwk. AuthenticatedEncryptionKeyGenerator_Generate demo_lib demo_rng demo_rng ''A256GCM'' [''encrypt''] = Inr (cryptor, jwk)"
    by (simp add: AuthenticatedEncryptionKeyGenerator_Generate_def authenticatedEncryptionAlgs_def read_full_def demo_rng_def
        JwkFromSymmetric_def symmetricAlgs_def CalculateKeyID_def key_id_def NewAesGcmCryptorFromJwk_def LoadSymmetricAEAD_def
        loadSymmetricBytes_def cloneOps_def Jwk_SetOps_def Jwk_Alg_def Jwk_Ops_def jwk_get_def put_fields_def
        jwkFields.truncate_def validCryptorOpts_def intersection_def isSubset_def demo_lib_def zero_OctSecretKey_def Let_def)
  then obtain cryptor jwk where
    "AuthenticatedEncryptionKeyGenerator_Generate demo_lib demo_rng demo_rng ''A256GCM'' [''encrypt''] = Inr (cryptor, jwk)"
    by blast
  from generated_aead_key [OF this demo_primitives(3)] this show ?thesis by blast
qed

end
