(* ===== verification/Key_Export.thy ===== *)
theory Key_Export
  imports Keys_Laws
begin

text \<open>
  Exporting and importing keys with \<open>helpers.go\<close>: what \<open>JwkFromPrivateKey\<close> and \<open>JwkFromPublicKey\<close>
  make of a key, \<open>JwkToString\<close> writes as text, \<open>LoadJwk\<close> reads back, and \<open>LoadPrivateKey\<close> and
  \<open>LoadPublicKey\<close> turn into the key one started with.
\<close>

section \<open>Key identifiers as text\<close>

lemma hex_digit_ascii: "(of_char (hex_digit n) :: nat) < 128"
proof -
  have "hex_digit n \<in> set ''0123456789abcdef''"
    unfolding hex_digit_def by (rule nth_mem) simp
  then show ?thesis by auto
qed

lemma CalculateKeyID_utf8:
  assumes "CalculateKeyID C j = Inr kid"
  shows "utf8_valid kid"
  using CalculateKeyID_input [OF assms]
  by (auto simp: hex_bytes_def list_all_iff hex_digit_ascii intro!: utf8_valid_plain)

lemma CalculateKeyID_text:
  assumes "CalculateKeyID C j = Inr kid" "\<And>m. Digest C SHA256_hash m \<noteq> []"
  shows "utf8_valid kid" "kid \<noteq> []"
proof -
  show "utf8_valid kid" using CalculateKeyID_utf8 [OF assms(1)] .
  show "kid \<noteq> []"
    using CalculateKeyID_input [OF assms(1)] assms(2) by (auto simp: hex_bytes_def neq_Nil_conv)
qed

section \<open>The text of a key\<close>

lemma JwkToString_text:
  assumes "encodable L j"
  shows "JwkToString j = Jwk_MarshalJSON j"
proof -
  obtain ms where ms: "list_all (member_ok 1) ms" "Jwk_MarshalJSON j = Inr (json_print (JObj ms))"
    using Jwk_MarshalJSON_object [OF assms] by blast
  have "json_parse (json_print (JObj ms)) = Some (JObj ms)" using ms(1) by (rule json_parse_object) (simp add: max_nesting_def)
  moreover have "json_compact (JObj ms) = JObj ms"
    using ms(1) by (auto simp: list_all_iff member_ok_def intro!: map_idI)
  ultimately show ?thesis
    using ms(2) by (simp add: JwkToString_def enc_method_def del: json_print.simps json_compact.simps)
qed

lemma LoadJwk_text:
  assumes "wf_Jwk C j" "encodable C j" "JwkToString j = Inr doc" "length doc \<le> MaxJwksSize" "granted required j"
  shows "LoadJwk C doc required = Inr j"
proof -
  have "UnmarshalJwk C doc = Inr j"
    using Jwk_token_roundtrip [OF assms(1,2)] assms(3,4) JwkToString_text [OF assms(2)] by auto
  with assms(5) show ?thesis by (auto simp: LoadJwk_def granted_def isSubset_iff)
qed

section \<open>Keys that can be exported\<close>

text \<open>
  What \<open>crypto/rsa\<close> and \<open>crypto/ecdsa\<close> guarantee of the keys they generate: an RSA key of at least 2048
  bits with two primes that passes validation and carries its precomputed values, numbers that are not
  zero, and none longer than the parser takes.
\<close>

definition exportable :: "crypto_lib \<Rightarrow> Signer \<Rightarrow> bool" where
  "exportable C k \<longleftrightarrow> (case k of
     RsaSigner v \<Rightarrow> 0 < pub_E v \<and> rsa_in_bounds (pub_N v) (nat (pub_E v)) \<and> length (priv_Primes v) = 2
       \<and> RsaValidate C (pub_N v) (pub_E v) (priv_D v) (priv_Primes v)
       \<and> RsaPrecompute C (priv_D v) (priv_Primes v) = (pre_Dp v, pre_Dq v, pre_Qinv v)
       \<and> list_all wf_big (pub_N v # priv_D v # pre_Dp v # pre_Dq v # pre_Qinv v # priv_Primes v)
   | EcSigner v \<Rightarrow> list_all wf_big [ec_X v, ec_Y v, ec_D v]
   | OtherSigner \<Rightarrow> True)"

definition exportable_public :: "PublicKey \<Rightarrow> bool" where
  "exportable_public k \<longleftrightarrow> (case k of
     RsaPublic v \<Rightarrow> 0 < pub_E v \<and> rsa_in_bounds (pub_N v) (nat (pub_E v)) \<and> wf_big (pub_N v)
   | EcPublic v \<Rightarrow> ec_Curve v \<noteq> P224 \<and> list_all wf_big [ec_X v, ec_Y v]
   | OtherPublic \<Rightarrow> True)"

text \<open>Operations a key can be exported with: those the parser of JWKs accepts.\<close>

definition exportable_ops :: "KeyOps list \<Rightarrow> bool" where
  "exportable_ops ops \<longleftrightarrow> distinct ops \<and> length ops \<le> maxKeyOps \<and> list_all utf8_valid ops"

lemma BigNum_Set_nonneg: "0 \<le> e \<Longrightarrow> BigNum_Set e = nat e"
  by (simp add: BigNum_Set_def BigNum_SetBytes_def)

lemma length_big_Bytes: "n < 256 ^ k \<Longrightarrow> length (big_Bytes n) \<le> k"
proof (induction k arbitrary: n)
  case 0
  then show ?case by (simp add: big_Bytes.simps)
next
  case (Suc k)
  have "n div 256 < 256 ^ k" using Suc.prems by (simp add: less_mult_imp_div_less mult.commute)
  with Suc.IH show ?case by (subst big_Bytes.simps) simp
qed

lemma wf_big_exponent: "rsa_in_bounds n e \<Longrightarrow> wf_big e"
  using length_big_Bytes [of e 4] by (simp add: rsa_in_bounds_def wf_big_def MaxBlobSize_def)

lemma rsaAlgFromOps_listed: "rsaAlgFromOps b ops \<in> {AlgRSAOAEP, AlgPS256, AlgPS384, AlgPS512}"
  by (induction b ops rule: rsaAlgFromOps.induct) (auto simp: rsaBitsToAlg_def)

lemma curve_of_ec_alg:
  "ecdsaCurveForAlg (ecBitsToAlg (curve_BitSize c)) = (if c = P224 then Inl (Gose ErrInvalidKeyType) else Inr c)"
  by (cases c) (simp_all add: ecBitsToAlg_def curve_BitSize_def ecdsaCurveForAlg_def algToOptsMap_def)

section \<open>The exported JWKs\<close>

lemma Jwk_SetOps_simps:
  "Jwk_SetOps ops (RsaPriv v) = RsaPriv (v\<lparr>KeyOps := ops\<rparr>)" "Jwk_SetOps ops (EcPriv w) = EcPriv (w\<lparr>KeyOps := ops\<rparr>)"
  "Jwk_SetOps ops (RsaPub x) = RsaPub (x\<lparr>KeyOps := ops\<rparr>)" "Jwk_SetOps ops (EcPub y) = EcPub (y\<lparr>KeyOps := ops\<rparr>)"
  by (simp_all add: Jwk_SetOps_def put_fields_def jwk_get_def jwkFields.defs)

lemma Jwk_SetKid_simps:
  "Jwk_SetKid kid (RsaPriv v) = RsaPriv (v\<lparr>KeyKid := kid\<rparr>)" "Jwk_SetKid kid (EcPriv w) = EcPriv (w\<lparr>KeyKid := kid\<rparr>)"
  "Jwk_SetKid kid (RsaPub x) = RsaPub (x\<lparr>KeyKid := kid\<rparr>)" "Jwk_SetKid kid (EcPub y) = EcPub (y\<lparr>KeyKid := kid\<rparr>)"
  by (simp_all add: Jwk_SetKid_def put_fields_def jwk_get_def jwkFields.defs)

lemma JwkFromPrivateKey_RSA:
  assumes "JwkFromPrivateKey C (RsaSigner v) ops [] = Inr jwk" "exportable C (RsaSigner v)"
  obtains kid p q where "priv_Primes v = [p, q]" "utf8_valid kid"
    "jwk = RsaPriv (zero_PrivateRsaKey\<lparr>KeyOps := ops, KeyKid := kid, KeyAlg := rsaAlgFromOps (BitLen (pub_N v)) ops,
       rsaN := pub_N v, rsaE := nat (pub_E v), rsaD := priv_D v, rsaP := p, rsaQ := q,
       rsaDp := pre_Dp v, rsaDq := pre_Dq v, rsaQi := pre_Qinv v\<rparr>)"
proof -
  obtain p q where pq: "priv_Primes v = [p, q]"
    using assms(2) by (auto simp: exportable_def numeral_2_eq_2 length_Suc_conv)
  with assms obtain kid where kid: "\<exists>pub. CalculateKeyID C pub = Inr kid"
    "jwk = RsaPriv (zero_PrivateRsaKey\<lparr>KeyOps := ops, KeyKid := kid, KeyAlg := rsaAlgFromOps (BitLen (pub_N v)) ops,
       rsaN := pub_N v, rsaE := nat (pub_E v), rsaD := priv_D v, rsaP := p, rsaQ := q,
       rsaDp := pre_Dp v, rsaDq := pre_Dq v, rsaQi := pre_Qinv v\<rparr>)"
    by (auto simp: JwkFromPrivateKey_def exportable_def BigNum_Set_nonneg Let_def Jwk_SetOps_simps Jwk_SetKid_simps zero_PrivateRsaKey_def split: if_splits)
  with that pq CalculateKeyID_utf8 show ?thesis by blast
qed

lemma JwkFromPrivateKey_EC:
  assumes "JwkFromPrivateKey C (EcSigner v) ops [] = Inr jwk"
  obtains kid where "ec_Curve v \<noteq> P224" "ec_D v \<noteq> 0" "utf8_valid kid"
    "jwk = EcPriv (zero_PrivateEcKey\<lparr>KeyOps := ops, KeyKid := kid, KeyAlg := ecBitsToAlg (curve_BitSize (ec_Curve v)),
       ecCrv := curve_Name (ec_Curve v), ecX := ec_X v, ecY := ec_Y v, ecD := ec_D v\<rparr>)"
proof -
  obtain kid where kid: "\<exists>pub. CalculateKeyID C pub = Inr kid" "ec_Curve v \<noteq> P224" "ec_D v \<noteq> 0"
    "jwk = EcPriv (zero_PrivateEcKey\<lparr>KeyOps := ops, KeyKid := kid, KeyAlg := ecBitsToAlg (curve_BitSize (ec_Curve v)),
       ecCrv := curve_Name (ec_Curve v), ecX := ec_X v, ecY := ec_Y v, ecD := ec_D v\<rparr>)"
    using assms by (auto simp: JwkFromPrivateKey_def Let_def Jwk_SetOps_simps Jwk_SetKid_simps PublicFromPrivate_def curve_of_ec_alg
        BigNum_Empty_def zero_PrivateEcKey_def split: if_splits)
  with that CalculateKeyID_utf8 show ?thesis by blast
qed

lemma JwkFromPublicKey_RSA:
  assumes "JwkFromPublicKey C (RsaPublic v) ops [] = Inr jwk" "exportable_public (RsaPublic v)"
  obtains kid where "utf8_valid kid"
    "jwk = RsaPub ((public_rsa (pub_N v) (nat (pub_E v)))\<lparr>KeyOps := ops, KeyKid := kid,
       KeyAlg := rsaAlgFromOps (BitLen (pub_N v)) ops\<rparr>)"
proof -
  obtain kid where "\<exists>pub. CalculateKeyID C pub = Inr kid"
    "jwk = RsaPub ((public_rsa (pub_N v) (nat (pub_E v)))\<lparr>KeyOps := ops, KeyKid := kid,
       KeyAlg := rsaAlgFromOps (BitLen (pub_N v)) ops\<rparr>)"
    using assms by (auto simp: JwkFromPublicKey_def exportable_public_def BigNum_Set_nonneg Let_def Jwk_SetOps_simps
        Jwk_SetKid_simps public_rsa_def jwkFields.defs zero_fields_def split: if_splits)
  with that CalculateKeyID_utf8 show ?thesis by blast
qed

lemma JwkFromPublicKey_EC:
  assumes "JwkFromPublicKey C (EcPublic v) ops [] = Inr jwk"
  obtains kid where "utf8_valid kid"
    "jwk = EcPub ((public_ec (curve_Name (ec_Curve v)) (ec_X v) (ec_Y v))\<lparr>KeyOps := ops, KeyKid := kid,
       KeyAlg := ecBitsToAlg (curve_BitSize (ec_Curve v))\<rparr>)"
proof -
  obtain kid where "\<exists>pub. CalculateKeyID C pub = Inr kid"
    "jwk = EcPub ((public_ec (curve_Name (ec_Curve v)) (ec_X v) (ec_Y v))\<lparr>KeyOps := ops, KeyKid := kid,
       KeyAlg := ecBitsToAlg (curve_BitSize (ec_Curve v))\<rparr>)"
    using assms by (auto simp: JwkFromPublicKey_def Let_def Jwk_SetOps_simps
        Jwk_SetKid_simps public_ec_def jwkFields.defs zero_fields_def split: if_splits)
  with that CalculateKeyID_utf8 show ?thesis by blast
qed

text \<open>An exported JWK is well-formed, can be written, and loads as the key it was made from.\<close>

lemmas exported_simps = wf_Jwk_def encodable_def consistent_def parsed_def certified_def wf_fields_def exportable_ops_def
  jwk_get_def Jwk_Alg_def Jwk_Ops_def zero_PrivateRsaKey_def zero_PrivateEcKey_def public_rsa_def public_ec_def zero_fields_def
  jwkFields.defs wf_big_exponent

lemma alg_names_utf8: "utf8_valid (rsaAlgFromOps b ops)" "utf8_valid (ecBitsToAlg n)" "utf8_valid (curve_Name c)"
  using rsaAlgFromOps_listed [of b ops] by (auto simp: ecBitsToAlg_def curve_Name_def split: curve.splits)

lemma exported_private_wf:
  assumes "JwkFromPrivateKey C k ops [] = Inr jwk" "exportable C k" "exportable_ops ops"
  shows "wf_Jwk C jwk" "encodable C jwk" "Jwk_Ops jwk = ops"
proof -
  have "wf_Jwk C jwk \<and> encodable C jwk \<and> Jwk_Ops jwk = ops"
  proof (cases k)
    case (RsaSigner v)
    then obtain kid p q where "priv_Primes v = [p, q]" "utf8_valid kid"
      "jwk = RsaPriv (zero_PrivateRsaKey\<lparr>KeyOps := ops, KeyKid := kid, KeyAlg := rsaAlgFromOps (BitLen (pub_N v)) ops,
         rsaN := pub_N v, rsaE := nat (pub_E v), rsaD := priv_D v, rsaP := p, rsaQ := q,
         rsaDp := pre_Dp v, rsaDq := pre_Dq v, rsaQi := pre_Qinv v\<rparr>)"
      using JwkFromPrivateKey_RSA assms(1,2) by metis
    with assms(2,3) RsaSigner show ?thesis
      by (auto simp: exported_simps exportable_def alg_names_utf8) (simp add: wf_big_def)
  next
    case (EcSigner v)
    then obtain kid where "ec_Curve v \<noteq> P224" "ec_D v \<noteq> 0" "utf8_valid kid"
      "jwk = EcPriv (zero_PrivateEcKey\<lparr>KeyOps := ops, KeyKid := kid, KeyAlg := ecBitsToAlg (curve_BitSize (ec_Curve v)),
         ecCrv := curve_Name (ec_Curve v), ecX := ec_X v, ecY := ec_Y v, ecD := ec_D v\<rparr>)"
      using JwkFromPrivateKey_EC assms(1) by metis
    with assms(2,3) EcSigner show ?thesis by (auto simp: exported_simps exportable_def alg_names_utf8)
  qed (use assms(1) in \<open>simp add: JwkFromPrivateKey_def\<close>)
  then show "wf_Jwk C jwk" "encodable C jwk" "Jwk_Ops jwk = ops" by blast+
qed

lemma exported_private_loads:
  assumes "JwkFromPrivateKey C k ops [] = Inr jwk" "exportable C k" "set required \<subseteq> set ops"
  shows "LoadPrivateKey C jwk required = Inr k"
proof (cases k)
  case (RsaSigner v)
  then obtain kid p q where j: "priv_Primes v = [p, q]" "utf8_valid kid"
    "jwk = RsaPriv (zero_PrivateRsaKey\<lparr>KeyOps := ops, KeyKid := kid, KeyAlg := rsaAlgFromOps (BitLen (pub_N v)) ops,
       rsaN := pub_N v, rsaE := nat (pub_E v), rsaD := priv_D v, rsaP := p, rsaQ := q,
       rsaDp := pre_Dp v, rsaDq := pre_Dq v, rsaQi := pre_Qinv v\<rparr>)"
    using JwkFromPrivateKey_RSA assms(1,2) by metis
  have b: "rsa_in_bounds (pub_N v) (nat (pub_E v))" "0 < pub_E v" using assms(2) RsaSigner by (simp_all add: exportable_def)
  have "rsaAlgFromOps (BitLen (pub_N v)) ops \<in> set privateKeyAlgs"
    using rsaAlgFromOps_listed [of "BitLen (pub_N v)" ops] by (auto simp: privateKeyAlgs_def)
  with assms(2,3) j RsaSigner b exponent_exact [OF b(1)] rsa_bounds_checked [of "nat (pub_E v)" "pub_N v"] show ?thesis
    by (auto simp: LoadPrivateKey_def exportable_def Jwk_Alg_def Jwk_Ops_def jwk_get_def jwkFields.defs zero_PrivateRsaKey_def
        isSubset_iff BigNum_Empty_def wf_big_def rsa_in_bounds_def)
next
  case (EcSigner v)
  then obtain kid where j: "ec_Curve v \<noteq> P224" "ec_D v \<noteq> 0" "utf8_valid kid"
    "jwk = EcPriv (zero_PrivateEcKey\<lparr>KeyOps := ops, KeyKid := kid, KeyAlg := ecBitsToAlg (curve_BitSize (ec_Curve v)),
       ecCrv := curve_Name (ec_Curve v), ecX := ec_X v, ecY := ec_Y v, ecD := ec_D v\<rparr>)"
    using JwkFromPrivateKey_EC assms(1) by metis
  then have "ecBitsToAlg (curve_BitSize (ec_Curve v)) \<in> set privateKeyAlgs"
    by (cases "ec_Curve v") (simp_all add: ecBitsToAlg_def curve_BitSize_def privateKeyAlgs_def)
  with assms(3) j EcSigner show ?thesis
    by (auto simp: LoadPrivateKey_def Jwk_Alg_def Jwk_Ops_def jwk_get_def jwkFields.defs zero_PrivateEcKey_def
        isSubset_iff BigNum_Empty_def curve_of_ec_alg)
qed (use assms(1) in \<open>simp add: JwkFromPrivateKey_def\<close>)

lemma exported_public_wf:
  assumes "JwkFromPublicKey C k ops [] = Inr jwk" "exportable_public k" "exportable_ops ops"
  shows "wf_Jwk C jwk" "encodable C jwk" "Jwk_Ops jwk = ops"
proof -
  have "wf_Jwk C jwk \<and> encodable C jwk \<and> Jwk_Ops jwk = ops"
  proof (cases k)
    case (RsaPublic v)
    then obtain kid where "utf8_valid kid" "jwk = RsaPub ((public_rsa (pub_N v) (nat (pub_E v)))\<lparr>KeyOps := ops,
        KeyKid := kid, KeyAlg := rsaAlgFromOps (BitLen (pub_N v)) ops\<rparr>)"
      using JwkFromPublicKey_RSA assms(1,2) by metis
    with assms(2,3) RsaPublic show ?thesis by (auto simp: exported_simps exportable_public_def alg_names_utf8)
  next
    case (EcPublic v)
    then obtain kid where "utf8_valid kid" "jwk = EcPub ((public_ec (curve_Name (ec_Curve v)) (ec_X v) (ec_Y v))
        \<lparr>KeyOps := ops, KeyKid := kid, KeyAlg := ecBitsToAlg (curve_BitSize (ec_Curve v))\<rparr>)"
      using JwkFromPublicKey_EC assms(1) by metis
    with assms(2,3) EcPublic show ?thesis by (auto simp: exported_simps exportable_public_def alg_names_utf8)
  qed (use assms(1) in \<open>simp add: JwkFromPublicKey_def\<close>)
  then show "wf_Jwk C jwk" "encodable C jwk" "Jwk_Ops jwk = ops" by blast+
qed

lemma exported_public_loads:
  assumes "JwkFromPublicKey C k ops [] = Inr jwk" "exportable_public k" "set required \<subseteq> set ops"
  shows "LoadPublicKey jwk required = Inr k"
proof (cases k)
  case (RsaPublic v)
  then obtain kid where j: "jwk = RsaPub ((public_rsa (pub_N v) (nat (pub_E v)))\<lparr>KeyOps := ops,
      KeyKid := kid, KeyAlg := rsaAlgFromOps (BitLen (pub_N v)) ops\<rparr>)"
    using JwkFromPublicKey_RSA assms(1,2) by metis
  have b: "rsa_in_bounds (pub_N v) (nat (pub_E v))" "0 < pub_E v" using assms(2) RsaPublic by (simp_all add: exportable_public_def)
  have "rsaAlgFromOps (BitLen (pub_N v)) ops \<in> set publicKeyAlgs"
    using rsaAlgFromOps_listed [of "BitLen (pub_N v)" ops] by (auto simp: privateKeyAlgs_def publicKeyAlgs_def)
  with assms(2,3) j RsaPublic b exponent_exact [OF b(1)] rsa_bounds_checked [of "nat (pub_E v)" "pub_N v"] show ?thesis
    by (auto simp: LoadPublicKey_def Jwk_Alg_def Jwk_Ops_def jwk_get_def jwkFields.defs public_rsa_def zero_fields_def
        isSubset_iff BigNum_Empty_def wf_big_def rsa_in_bounds_def)
next
  case (EcPublic v)
  then obtain kid where j: "jwk = EcPub ((public_ec (curve_Name (ec_Curve v)) (ec_X v) (ec_Y v))
      \<lparr>KeyOps := ops, KeyKid := kid, KeyAlg := ecBitsToAlg (curve_BitSize (ec_Curve v))\<rparr>)"
    using JwkFromPublicKey_EC assms(1) by metis
  have "ecBitsToAlg (curve_BitSize (ec_Curve v)) \<in> set publicKeyAlgs" "ec_Curve v \<noteq> P224"
    using assms(2) EcPublic by (cases "ec_Curve v";
      simp add: ecBitsToAlg_def curve_BitSize_def privateKeyAlgs_def publicKeyAlgs_def exportable_public_def)+
  with assms(2,3) j EcPublic show ?thesis
    by (auto simp: LoadPublicKey_def Jwk_Alg_def Jwk_Ops_def jwk_get_def jwkFields.defs public_ec_def zero_fields_def
        isSubset_iff BigNum_Empty_def curve_of_ec_alg exportable_public_def wf_big_def)
qed (use assms(1) in \<open>simp add: JwkFromPublicKey_def\<close>)

section \<open>Properties\<close>

text \<open>
  C14: a private key survives export and import. The JWK made from an RSA or ECDSA private key as the
  library generates them is written as text without an error, and the text, unless it exceeds the
  parser's bound, is read back, for any of the operations the key was exported with, as a JWK that loads
  as the same private key.
\<close>

theorem exported_private_key_reloads:
  assumes "JwkFromPrivateKey C k ops [] = Inr jwk" "exportable C k" "exportable_ops ops" "set required \<subseteq> set ops"
  shows "\<exists>doc. JwkToString jwk = Inr doc \<and> (length doc \<le> MaxJwksSize \<longrightarrow>
    LoadJwk C doc required = Inr jwk \<and> LoadPrivateKey C jwk required = Inr k)"
proof -
  note wf = exported_private_wf [OF assms(1-3)]
  obtain doc where "JwkToString jwk = Inr doc"
    using JwkToString_text [OF wf(2)] Jwk_token_roundtrip [OF wf(1,2)] by auto
  with LoadJwk_text [OF wf(1,2)] wf(3) exported_private_loads [OF assms(1,2,4)] assms(4) show ?thesis
    by (auto simp: granted_def)
qed

text \<open>A concrete key, exported with primitives whose digests are one octet long.\<close>

definition demo_ecdsa :: ec_private where
  "demo_ecdsa = \<lparr>ec_Curve = P256, ec_X = 258, ec_Y = 3, ec_D = 3\<rparr>"

definition export_lib :: crypto_lib where
  "export_lib = demo_lib\<lparr>Digest := \<lambda>_ _. ''d''\<rparr>"

definition demo_exported :: PrivateEcKey where
  "demo_exported = \<lparr>KeyUse = [], KeyOps = [''sign''], KeyAlg = ''ES256'', KeyKid = ''64'', KeyX5C = [], KeyX5T = None,
     ecCrv = ''P-256'', ecX = 258, ecY = 3, ecD = 3\<rparr>"

lemma demo_exports: "JwkFromPrivateKey export_lib (EcSigner demo_ecdsa) [''sign''] [] = Inr (EcPriv demo_exported)"
proof -
  have "ecPointFromScalar export_lib P256 3 = Inr (3, 3)"
    by (simp add: ecPointFromScalar_def ecdhCurveFor_def export_lib_def demo_lib_def curve_BitSize_def be_nat_nat_be)
  moreover have "hex_bytes ''d'' = ''64''" by code_simp
  ultimately show ?thesis
    by (simp add: JwkFromPrivateKey_def PublicFromPrivate_numbers public_numbers_def zero_PrivateEcKey_def
        Jwk_SetOps_simps Jwk_SetKid_simps curve_BitSize_def curve_Name_def ecBitsToAlg_def ecdsaCurveForAlg_def algToOptsMap_def
        CalculateKeyID_EcPub key_id_def Let_def demo_ecdsa_def demo_exported_def export_lib_def)
qed

lemma demo_exportable: "exportable export_lib (EcSigner demo_ecdsa)" "exportable_ops [''sign'']"
  by (simp_all add: exportable_def exportable_ops_def demo_ecdsa_def wf_big_def big_Bytes_demo MaxBlobSize_def maxKeyOps_def)

lemma demo_exported_size: "case_sum (\<lambda>_. 10000) length (Jwk_MarshalJSON (EcPriv demo_exported)) < 200"
  unfolding Jwk_MarshalJSON_members [OF exported_private_wf(2) [OF demo_exports demo_exportable]] by code_simp

theorem exported_private_key_reloads_witness:
  "\<exists>doc. JwkToString (EcPriv demo_exported) = Inr doc \<and> LoadJwk export_lib doc [''sign''] = Inr (EcPriv demo_exported)
    \<and> LoadPrivateKey export_lib (EcPriv demo_exported) [''sign''] = Inr (EcSigner demo_ecdsa)"
proof -
  have "length doc \<le> MaxJwksSize" if "JwkToString (EcPriv demo_exported) = Inr doc" for doc
    using that demo_exported_size JwkToString_text [OF exported_private_wf(2) [OF demo_exports demo_exportable]]
    by (simp add: MaxJwksSize_def)
  with exported_private_key_reloads [OF demo_exports demo_exportable, of "[''sign'']"] show ?thesis by auto
qed

text \<open>
  A public key survives export and import likewise: the JWK made from an RSA or ECDSA public key is
  written as text and read back as a JWK that loads as the same public key.
\<close>

theorem exported_public_key_reloads:
  assumes "JwkFromPublicKey C k ops [] = Inr jwk" "exportable_public k" "exportable_ops ops" "set required \<subseteq> set ops"
  shows "\<exists>doc. JwkToString jwk = Inr doc \<and> (length doc \<le> MaxJwksSize \<longrightarrow>
    LoadJwk C doc required = Inr jwk \<and> LoadPublicKey jwk required = Inr k)"
proof -
  note wf = exported_public_wf [OF assms(1-3)]
  obtain doc where "JwkToString jwk = Inr doc"
    using JwkToString_text [OF wf(2)] Jwk_token_roundtrip [OF wf(1,2)] by auto
  with LoadJwk_text [OF wf(1,2)] wf(3) exported_public_loads [OF assms(1,2,4)] assms(4) show ?thesis
    by (auto simp: granted_def)
qed

lemma demo_public_exports:
  "JwkFromPublicKey export_lib (EcPublic \<lparr>ec_Curve = P256, ec_X = 258, ec_Y = 3\<rparr>) [''verify''] []
    = Inr (Jwk_SetKid ''64'' demo_ec)"
proof -
  have "hex_bytes ''d'' = ''64''" by code_simp
  then show ?thesis
    by (simp add: JwkFromPublicKey_def public_ec_def jwkFields.defs zero_fields_def Jwk_SetOps_simps Jwk_SetKid_simps
        curve_BitSize_def curve_Name_def ecBitsToAlg_def CalculateKeyID_EcPub key_id_def Let_def demo_ec_def export_lib_def)
qed

lemma demo_public_exportable: "exportable_public (EcPublic \<lparr>ec_Curve = P256, ec_X = 258, ec_Y = 3\<rparr>)" "exportable_ops [''verify'']"
  by (simp_all add: exportable_public_def exportable_ops_def wf_big_def big_Bytes_demo MaxBlobSize_def maxKeyOps_def)

lemma demo_public_size: "case_sum (\<lambda>_. 10000) length (Jwk_MarshalJSON (Jwk_SetKid ''64'' demo_ec)) < 200"
  unfolding Jwk_MarshalJSON_members [OF exported_public_wf(2) [OF demo_public_exports demo_public_exportable]] by code_simp

theorem exported_public_key_reloads_witness:
  "\<exists>doc. JwkToString (Jwk_SetKid ''64'' demo_ec) = Inr doc
    \<and> LoadJwk export_lib doc [''verify''] = Inr (Jwk_SetKid ''64'' demo_ec)
    \<and> LoadPublicKey (Jwk_SetKid ''64'' demo_ec) [''verify''] = Inr (EcPublic \<lparr>ec_Curve = P256, ec_X = 258, ec_Y = 3\<rparr>)"
proof -
  have "length doc \<le> MaxJwksSize" if "JwkToString (Jwk_SetKid ''64'' demo_ec) = Inr doc" for doc
    using that demo_public_size JwkToString_text [OF exported_public_wf(2) [OF demo_public_exports demo_public_exportable]]
    by (simp add: MaxJwksSize_def)
  with exported_public_key_reloads [OF demo_public_exports demo_public_exportable, of "[''verify'']"] show ?thesis by auto
qed

end
