(* ===== verification/Examples_Laws.thy ===== *)
theory Examples_Laws
  imports Examples JwtVerify_Laws JweKeyEncryption_Laws Key_Export
begin

text \<open>
  The example programs run to their end: what the generator makes, the signer, the verification key,
  the trust store and the verifier accept, and what is printed is what went in.
\<close>

section \<open>The JWE example\<close>

lemma cryptor_of_generated:
  assumes gen: "AuthenticatedEncryptionKeyGenerator_Generate C keySource rng alg ops = Inr (cryptor, jwk)"
    and required: "set required \<subseteq> set ops"
  shows "NewAesGcmCryptorFromJwk C rng jwk required = Inr cryptor" "gcmRng cryptor = rng"
    "\<exists>v. CalculateKeyID C (Oct v) = Inr (gcmKid cryptor)" "gcmAlg cryptor = alg" "gcmOpts cryptor = ops"
    "\<exists>key. NewGCM C key = Some (gcmAead cryptor)"
proof -
  obtain n key k where p: "map_of authenticatedEncryptionAlgs alg = Some n" "keySource n = Some key"
    "JwkFromSymmetric C key alg = Inr k" "jwk = Jwk_SetOps ops (Oct k)" "NewAesGcmCryptorFromJwk C rng jwk ops = Inr cryptor"
    using gen
    by (auto simp: AuthenticatedEncryptionKeyGenerator_Generate_def of_opt_def read_full_def Let_def cloneOps_def split: option.splits)
  obtain v where kid: "CalculateKeyID C (Oct v) = Inr (KeyKid k)" "KeyAlg k = alg"
    using p(3) by (auto simp: JwkFromSymmetric_def Let_def split: option.splits if_splits)
  have j: "Jwk_Kid jwk = KeyKid k" "Jwk_Alg jwk = alg" "Jwk_Ops jwk = ops"
    using kid(2) by (simp_all add: p(4)) (simp_all add: Jwk_Kid_def Jwk_Alg_def jwk_get_def)
  obtain aead where a: "LoadSymmetricAEAD C jwk ops = Inr aead" "cryptor = \<lparr>gcmKid = KeyKid k, gcmAlg = alg, gcmAead = aead, gcmOpts = ops, gcmRng = rng\<rparr>"
    "length (intersection validCryptorOpts ops) \<noteq> 0"
    using p(5) j by (auto simp: NewAesGcmCryptorFromJwk_def cloneOps_def split: if_splits)
  have "loadSymmetricBytes jwk required = loadSymmetricBytes jwk ops"
    using required by (simp add: loadSymmetricBytes_def isSubset_iff j(3) cong: option.case_cong)
  then have "LoadSymmetricAEAD C jwk required = Inr aead"
    using a(1) by (simp add: LoadSymmetricAEAD_def)
  then show "NewAesGcmCryptorFromJwk C rng jwk required = Inr cryptor"
    using a j by (simp add: NewAesGcmCryptorFromJwk_def cloneOps_def)
  show "\<exists>key. NewGCM C key = Some (gcmAead cryptor)"
    using a(1,2) by (auto simp: LoadSymmetricAEAD_def of_opt_def split: if_splits option.splits)
  show "gcmRng cryptor = rng" "\<exists>v. CalculateKeyID C (Oct v) = Inr (gcmKid cryptor)" "gcmAlg cryptor = alg" "gcmOpts cryptor = ops"
    using kid(1) a(2) by auto
qed

text \<open>
  C40: the JWE example does what it shows. When the key generation and the encryption return, the program
  prints four lines and ends without an error: the identifier of the key, the JWE, and the secret and the
  authenticated data as they went in, decrypted by a cryptor rebuilt from the returned JWK. The cipher is
  assumed to open what it sealed and the random source to deliver the octets asked for.
\<close>

theorem jwe_example_runs:
  assumes "AuthenticatedEncryptionKeyGenerator_Generate C keySource rng ''A256GCM'' keyOps = Inr (key, jwk)"
    "JweDirectEncryptorAead_Encrypt (NewJweDirectEncryptorAead key False) secretData authenticatedData = Inr jwe"
    "length jwe \<le> MaxCompactSize" "rng_exact rng" "\<forall>cek A. NewGCM C cek = Some A \<longrightarrow> aead_correct A"
    "\<forall>m. Digest C SHA256_hash m \<noteq> []"
  shows "jwe_main C keySource rng = ([''Created encryption key with kid '' @ gcmKid key, ''Created JWE: '' @ jwe,
     ''Decrypted JWE plaintext: This is a really secret thing'',
     ''JWE Authenticated Data: This data is authenticated and publicly readable''], None)"
proof -
  note g = cryptor_of_generated [OF assms(1), of "[''decrypt'']"]
  have ops: "set [''decrypt''] \<subseteq> set keyOps" by (simp add: keyOps_def)
  note g = g [OF ops]
  have kid: "utf8_valid (gcmKid key)" "gcmKid key \<noteq> []"
    using g(3) CalculateKeyID_text [of C _ "gcmKid key"] assms(6) by blast+
  have "JweDirectDecryptorAead_Decrypt (NewJweDirectDecryptorAeadImpl [key]) jwe = Inr (secretData, Some authenticatedData)"
    using direct_roundtrip [OF assms(2), of EncA256GCM "NewJweDirectDecryptorAeadImpl [key]"] g assms(3-5) kid
    by (auto simp: keyOps_def gcmAlgToEncMap_def authenticatedData_def MaxBlobSize_def NewJweDirectDecryptorAeadImpl_def)
  then show ?thesis
    using assms(1,2) g(1) by (simp add: jwe_main_def secretData_def authenticatedData_def)
qed

text \<open>Concrete primitives whose digests are 32 octets, and the key the example then makes.\<close>

definition example_lib :: crypto_lib where
  "example_lib = demo_lib\<lparr>Digest := (\<lambda>_ _. replicate 32 CHR ''d'')\<rparr>"

definition example_cryptor :: AesGcmCryptor where
  "example_cryptor = \<lparr>gcmKid = concat (replicate 32 ''64''), gcmAlg = ''A256GCM'', gcmAead = demo_aead,
     gcmOpts = keyOps, gcmRng = demo_rng\<rparr>"

lemma example_kid: "hex_bytes (replicate 32 CHR ''d'') = concat (replicate 32 ''64'')"
  by code_simp

lemma example_generates:
  "\<exists>jwk. AuthenticatedEncryptionKeyGenerator_Generate example_lib demo_rng demo_rng ''A256GCM'' keyOps = Inr (example_cryptor, jwk)"
  by (simp add: AuthenticatedEncryptionKeyGenerator_Generate_def authenticatedEncryptionAlgs_def read_full_def demo_rng_def
      JwkFromSymmetric_def symmetricAlgs_def CalculateKeyID_def key_id_def NewAesGcmCryptorFromJwk_def LoadSymmetricAEAD_def
      loadSymmetricBytes_def cloneOps_def Jwk_SetOps_def Jwk_Alg_def Jwk_Kid_def Jwk_Ops_def jwk_get_def put_fields_def
      jwkFields.truncate_def validCryptorOpts_def intersection_def isSubset_def example_lib_def demo_lib_def zero_OctSecretKey_def
      Let_def keyOps_def example_cryptor_def example_kid fun_eq_iff)

lemma example_header: "case_sum (\<lambda>_. 1000) length (MarshalProtectedHeader (direct_header example_cryptor authenticatedData)) < 400"
  by code_simp

lemma example_encrypts:
  "\<exists>t. JweDirectEncryptorAead_Encrypt (NewJweDirectEncryptorAead example_cryptor False) secretData authenticatedData = Inr t
    \<and> length t \<le> MaxCompactSize"
proof -
  obtain raw where raw: "MarshalProtectedHeader (direct_header example_cryptor authenticatedData) = Inr raw" "length raw < 400"
    using example_header by (auto split: sum.splits)
  have "length secretData = 29" by (simp add: secretData_def)
  with raw show ?thesis
    by (simp add: JweDirectEncryptorAead_Encrypt_def Jwe_MarshalHeader_def JweHeader_MarshalHeader_def)
      (simp add: example_cryptor_def demo_rng_def demo_aead_def AesGcmCryptor_GenerateNonce_def read_full_def AesGcmCryptor_Seal_def
        sealAEAD_def permits_def allowed_iff validEncryptionOpts_def MaxPlaintextSize_def Jwe_Marshal_def keyOps_def
        zero_Jwe_def length_b64_encode EncodedLen_def RawURLEncoding_def pad_def MaxCompactSize_def)
qed

lemma example_primitives: "\<forall>cek A. NewGCM example_lib cek = Some A \<longrightarrow> aead_correct A" "\<forall>m. Digest example_lib SHA256_hash m \<noteq> []"
  using demo_primitives(2) by (auto simp: example_lib_def)

theorem jwe_example_runs_witness:
  "\<exists>kid jwe. jwe_main example_lib demo_rng demo_rng = ([kid, jwe, ''Decrypted JWE plaintext: This is a really secret thing'',
     ''JWE Authenticated Data: This data is authenticated and publicly readable''], None)"
proof -
  obtain jwk t where t: "AuthenticatedEncryptionKeyGenerator_Generate example_lib demo_rng demo_rng ''A256GCM'' keyOps = Inr (example_cryptor, jwk)"
    "JweDirectEncryptorAead_Encrypt (NewJweDirectEncryptorAead example_cryptor False) secretData authenticatedData = Inr t"
    "length t \<le> MaxCompactSize"
    using example_generates example_encrypts by blast
  from jwe_example_runs [OF t demo_primitives(3) example_primitives] show ?thesis by blast
qed

section \<open>A generated RSA signing key\<close>

text \<open>What \<open>rsa.GenerateKey\<close> documents: a modulus of the requested size and the exponent 65537.\<close>

definition rsa_generator :: "(int \<Rightarrow> rsa_private option) \<Rightarrow> bool" where
  "rsa_generator gen \<longleftrightarrow> (\<forall>b r. gen b = Some r \<longrightarrow> BitLen (pub_N r) = nat b \<and> pub_E r = 65537)"

text \<open>What the generator returns: a signing key made from the JWK of an RSA key, under the identifier of its public half.\<close>

lemma generated_signing_key:
  assumes "RsaSigningKeyGenerator_Generate C gen ''RS256'' 2048 [''sign''] = Inr sk" "rsa_generator gen"
  obtains jwk v where "NewSigningKey C jwk [''sign''] = Inr sk" "jwk = RsaPriv v" "Jwk_Alg jwk = ''RS256''" "Jwk_Ops jwk = [''sign'']"
    "Jwk_X5C jwk = []" "BitLen (rsaN v) = 2048" "rsaE v = 65537"
    "CalculateKeyID C (RsaPub (public_rsa (rsaN v) 65537)) = Inr (Jwk_Kid jwk)"
proof -
  obtain r j0 where r: "gen 2048 = Some r" "JwkFromPrivateKey C (RsaSigner r) [''sign''] [] = Inr j0"
    "NewSigningKey C (Jwk_SetAlg ''RS256'' j0) [''sign''] = Inr sk"
    using assms(1) by (auto simp: RsaSigningKeyGenerator_Generate_def generateRsaKey_def cloneOps_def of_opt_def
        split: if_splits option.splits)
  then have g: "BitLen (pub_N r) = 2048" "pub_E r = 65537" using assms(2) by (simp_all add: rsa_generator_def)
  define v0 where "v0 = (let (dp, dq, qinv) = RsaPrecompute C (priv_D r) (priv_Primes r) in
    zero_PrivateRsaKey\<lparr>KeyAlg := rsaAlgFromOps (BitLen (pub_N r)) [''sign''],
             rsaQ := priv_Primes r ! 1, rsaQi := qinv, rsaDq := dq, rsaP := priv_Primes r ! 0, rsaDp := dp,
             rsaN := pub_N r, rsaE := BigNum_Set (pub_E r), rsaD := priv_D r\<rparr>)"
  have v0: "rsaN v0 = pub_N r" "rsaE v0 = 65537" "KeyX5C v0 = []"
    by (simp_all add: v0_def Let_def split_beta g(2) BigNum_Set_def BigNum_SetBytes_def zero_PrivateRsaKey_def)
  obtain kid n where j0: "j0 = Jwk_SetKid kid (Jwk_SetOps [''sign''] (RsaPriv v0))"
    "public_numbers C (Jwk_SetOps [''sign''] (RsaPriv v0)) = Inr n" "CalculateKeyID C n = Inr kid"
    using r(2) by (auto simp: JwkFromPrivateKey_def PublicFromPrivate_numbers v0_def Let_def split_beta split: if_splits)
  have n: "n = RsaPub (public_rsa (pub_N r) 65537)"
    using j0(2) v0 by (auto simp: Jwk_SetOps_def public_numbers_def split: if_splits)
  have "\<exists>f. Jwk_SetAlg ''RS256'' j0 = jwk_put f (RsaPriv v0)"
    unfolding j0(1) jwk_setters jwk.put_put by blast
  then obtain f where f: "Jwk_SetAlg ''RS256'' j0 = RsaPriv (put_fields f v0)" by auto
  have "Jwk_X5C (RsaPriv v0) = []" using v0(3) by (simp add: Jwk_X5C_def jwk_get_def X5C_def jwkFields.truncate_def)
  then show ?thesis
    using that [OF r(3) f] f [symmetric] j0(1,3) v0(1,2) n g(1) by (simp del: jwk_put_cases)
qed

text \<open>A verification key made from a public RSA JWK labelled RS256 for verification.\<close>

definition rs256_key :: "Jwk \<Rightarrow> nat \<Rightarrow> RsaPublicKeyImpl" where
  "rs256_key jwk n = \<lparr>kJwk = Jwk_SetOps [''verify''] jwk, kOps = [''verify''], kAlg = ''RS256'', rkKey = \<lparr>pub_N = n, pub_E = 65537\<rparr>\<rparr>"

lemma rs256_verification_key:
  assumes "jwk = RsaPub w" "rsaE w = 65537" "2 ^ 2047 \<le> rsaN w" "Jwk_Alg jwk = ''RS256''" "Jwk_Ops jwk = [''verify'']"
  shows "NewVerificationKey jwk = (Jwk_SetOps [''verify''] jwk, Inr (VkRsa (rs256_key jwk (rsaN w))))"
proof -
  have "verification_ops jwk = [''verify'']"
    by (simp add: verification_ops_def assms(5) validVerificationOps_def intersection_def)
  with NewVerificationKey_Rsa [OF assms(1) fallback_alg_named] assms show ?thesis
    by (simp add: rsa_in_bounds_def rsa_algs_def rs256_key_def)
qed

lemma RsaPublicKeyImpl_Verify_same:
  assumes "kOps a = kOps b" "kAlg a = kAlg b" "rkKey a = rkKey b"
  shows "RsaPublicKeyImpl_Verify C a = RsaPublicKeyImpl_Verify C b"
  unfolding fun_eq_iff RsaPublicKeyImpl_Verify_def assms by simp

lemma rs256_key_verifies: "VerificationKey_Verify C (VkRsa (rs256_key jwk n)) = VerificationKey_Verify C (VkRsa (rs256_key jwk' n))"
  using RsaPublicKeyImpl_Verify_same [of "rs256_key jwk n" "rs256_key jwk' n"]
  by (simp add: VerificationKey_Verify_def) (simp add: rs256_key_def)

text \<open>The JWK that the verification key describes itself with.\<close>

definition rs256_jwk :: "string \<Rightarrow> nat \<Rightarrow> Jwk" where
  "rs256_jwk kid n = RsaPub \<lparr>KeyUse = [], KeyOps = [''verify''], KeyAlg = ''RS256'', KeyKid = kid, KeyX5C = [], KeyX5T = None,
     rsaN = n, rsaE = 65537\<rparr>"

lemma rs256_jwk_fields [simp]: "Jwk_Kid (rs256_jwk kid n) = kid" "Jwk_Alg (rs256_jwk kid n) = ''RS256''"
  "Jwk_Ops (rs256_jwk kid n) = [''verify'']"
  by (simp_all add: rs256_jwk_def Jwk_Kid_def Jwk_Alg_def Jwk_Ops_def jwk_get_def jwkFields.truncate_def)

lemma rs256_key_Jwk:
  assumes "CalculateKeyID C (RsaPub (public_rsa n 65537)) = Inr kid" "Jwk_X5C jwk = []"
  shows "VerificationKey_Jwk C (VkRsa (rs256_key jwk n)) = Inr (rs256_jwk kid n)"
proof -
  have "CalculateKeyID C (RsaPub ((public_rsa n 65537)\<lparr>KeyAlg := a\<rparr>)) = Inr kid" for a
    using assms(1) by (simp add: CalculateKeyID_def Jwk_Kty_def)
  then show ?thesis
    using assms(2)
    by (simp add: VerificationKey_Jwk_def RsaPublicKeyImpl_Jwk_def JwkFromPublicKey_def rs256_key_def MaxInt32_def cloneOps_def Let_def
        BigNum_Set_def BigNum_SetBytes_def)
      (simp add: jwk_setters jwk_get_def put_fields_def jwkFields.truncate_def public_rsa_def zero_fields_def jwkFields.extend_def
        rs256_jwk_def)
qed

lemma rs256_jwk_key:
  assumes "2 ^ 2047 \<le> n"
  shows "NewVerificationKey (rs256_jwk kid n) = (Jwk_SetOps [''verify''] (rs256_jwk kid n), Inr (VkRsa (rs256_key (rs256_jwk kid n) n)))"
proof -
  obtain w where w: "rs256_jwk kid n = RsaPub w" "rsaN w = n" "rsaE w = 65537" by (simp add: rs256_jwk_def)
  show ?thesis
    using rs256_verification_key [OF w(1,3), unfolded w(2), OF assms] by simp
qed

lemma rs256_jwk_text:
  assumes "utf8_valid kid" "BitLen n = 2048"
  shows "\<exists>m. JwkToString (rs256_jwk kid n) = Inr m"
proof -
  have "n < 256 ^ 256" using BitLen_le_iff [of n 2048] assms(2) by (simp flip: power_mult [of 2 8 256, simplified])
  then have "length (big_Bytes n) \<le> 256" "length (big_Bytes 65537) \<le> 3" by (auto intro: length_big_Bytes)
  moreover have "0 < n" using assms(2) by (cases "n = 0") (simp_all add: BitLen.simps)
  ultimately have e: "encodable no_x509 (rs256_jwk kid n)"
    using assms(1) by (simp add: encodable_def rs256_jwk_def wf_fields_def wf_big_def MaxBlobSize_def jwk_get_def)
  show ?thesis
    unfolding JwkToString_text [OF e] Jwk_MarshalJSON_members [OF e] by blast
qed

text \<open>From the signing key to its verification key.\<close>

lemma rs256_verifier:
  assumes sk: "NewSigningKey C jwk [''sign''] = Inr sk" "jwk = RsaPriv v" "Jwk_Alg jwk = ''RS256''" "Jwk_Ops jwk = [''sign'']"
      "Jwk_X5C jwk = []" "rsaE v = 65537"
  obtains pub where "SigningKey_Verifier C sk = Inr (VkRsa (rs256_key pub (rsaN v)))" "Jwk_X5C pub = []" "2 ^ 2047 \<le> rsaN v"
proof -
  obtain k where "LoadPrivateKey C jwk [''sign''] = Inr (RsaSigner k)"
    using sk(1,2) by (cases rule: NewSigningKey_Inr) auto
  then have b: "rsa_in_bounds (rsaN v) (rsaE v)" "0 \<notin> {rsaD v, rsaP v, rsaQ v, rsaDp v, rsaDq v, rsaQi v}"
    using sk(2) by (auto elim: LoadPrivateKey_RSA)
  then have pub: "PublicFromPrivate C jwk = Inr (public_metadata jwk (RsaPub (public_rsa (rsaN v) (rsaE v))))"
    by (auto simp: PublicFromPrivate_numbers public_numbers_def sk(2) rsa_in_bounds_def)
  then obtain w where w: "public_metadata jwk (RsaPub (public_rsa (rsaN v) (rsaE v))) = RsaPub w" "rsaN w = rsaN v" "rsaE w = rsaE v"
    using public_RSA [of C v] sk(2) by metis
  have "Jwk_X5C (RsaPub w) = []"
    unfolding w(1) [symmetric] public_metadata_def
    by (simp add: sk(5)) (simp add: Jwk_X5C_def jwk_get_def X5C_def jwkFields.truncate_def public_rsa_def jwkFields.extend_def zero_fields_def)
  moreover have "Jwk_Alg (RsaPub w) = ''RS256''" "Jwk_Ops (RsaPub w) = [''verify'']"
    unfolding w(1) [symmetric] by (simp_all add: sk(3,4) inverse_op_def inverseOps_def)
  ultimately show ?thesis
    using that [of "RsaPub w"] rs256_verification_key [of "RsaPub w" w] w b(1) pub SigningKey_of_jwk(3) [OF sk(1)] sk(6)
    by (simp add: rsa_in_bounds_def)
qed

section \<open>The JWT example\<close>

definition example_claims :: raw_claims where
  "example_claims = [(''house_number'', jint 29), (''street'', jstring ''Acacia Road'')]"

lemma example_encoded: "encode_untyped customClaims = Inr example_claims"
  by (simp add: customClaims_def example_claims_def houseNumberClaim_def streetClaim_def)

lemma example_claims_sorted: "sort_key fst example_claims = example_claims"
  by (simp add: example_claims_def)

lemma example_untyped: "wf_untyped example_claims"
  by (simp add: wf_untyped_def example_claims_def reservedJwtClaims_def max_nesting_def)

lemma example_wf:
  assumes "utf8_valid jti" "int64 iat" "int64 now" "int64 (now + 60)"
  shows "wf_JwtClaims (jwtClaims (signer_jwt (NewJwtSigner ''issuer'' sk) (standardClaims now) iat jti example_claims))"
  using assms example_untyped by (simp add: wf_JwtClaims_def signer_jwt_def NewJwtSigner_def standardClaims_def)

text \<open>What the program prints of the claims.\<close>

lemma decode_string: "utf8_valid s \<Longrightarrow> dec_string (jstring s) old = Fine s"
  by (simp add: jstring_def unquote_quote)

lemma decode_example: "dec_int64 (jint 29) 0 = Fine 29" "dec_string (jstring ''Acacia Road'') [] = Fine ''Acacia Road''"
  by (simp_all add: jint_def parse_int64_dec_int decode_string)

lemma report_example:
  "report_claims (jwtClaims (signer_jwt (NewJwtSigner ''issuer'' sk) (standardClaims now) iat jti example_claims)) =
    ([''JWT Subject: my subject'', ''JWT Audiences: [my audience]'', ''JWT Expiry: '' @ dec_int (now + 60),
      ''JWT Not Before: '' @ dec_int now, ''JWT Issued At: '' @ dec_int iat, ''JWT Issuer: issuer'', ''JWT unique ID: '' @ jti,
      ''JWT custom claim house number: '' @ dec_int 29, ''JWT custom claim street: Acacia Road''], None)"
  by (simp add: report_claims_def signer_jwt_def NewJwtSigner_def standardClaims_def aud_list_def example_claims_def
      houseNumberClaim_def streetClaim_def dec_result_def decode_example)

lemma store_of_one:
  assumes "Jwk_Kid jwk \<noteq> []"
  obtains s where "NewTrustKeyStore [(issuer, jwk)] = Inr s" "stored s issuer (Jwk_Kid jwk) = Some jwk" "\<not> is_revoked s issuer (Jwk_Kid jwk)"
  using assms by (simp add: NewTrustKeyStore_def TrustKeyStoreImpl_Add_def empty_store_def stored_def is_revoked_def Let_def)

text \<open>
  C39: the JWT example does what it shows. When the key generation and the signing return and the verifier's
  clock is within the minute for which the token is valid, the program ends without an error: the public
  JWK is printed and accepted by the trust store, the token verifies under the identifier of the signing
  key, and the standard and custom claims are printed as they went in. The signature scheme is assumed to
  accept its own signatures and the key generation to return the size asked for.
\<close>

theorem jwt_example_runs:
  assumes gen: "RsaSigningKeyGenerator_Generate C gen ''RS256'' 2048 [''sign''] = Inr sk" "rsa_generator gen"
    and sign: "JwtSignerImpl_Sign C rnd iat jti (NewJwtSigner ''issuer'' sk) (standardClaims now) customClaims = Inr t"
      "length t \<le> MaxCompactSize"
    and prim: "rsa_correct C" "\<forall>m. Digest C SHA256_hash m \<noteq> []"
    and vals: "utf8_valid jti" "int64 iat" "int64 now" "int64 (now + 60)" "now \<le> now'" "now' < now + 60"
  shows "\<exists>m. jwt_main C gen rnd now iat jti now' ck answer = ([''Created signing key with kid '' @ SigningKey_Kid sk, ''Created signed JWT: '' @ t,
      ''Created verification key JWK: '' @ m, ''Successfully verified JWT signed with key '' @ SigningKey_Kid sk]
     @ [''JWT Subject: my subject'', ''JWT Audiences: [my audience]'', ''JWT Expiry: '' @ dec_int (now + 60),
      ''JWT Not Before: '' @ dec_int now, ''JWT Issued At: '' @ dec_int iat, ''JWT Issuer: issuer'', ''JWT unique ID: '' @ jti,
      ''JWT custom claim house number: '' @ dec_int 29, ''JWT custom claim street: Acacia Road''], None)"
proof -
  obtain jwk v where k: "NewSigningKey C jwk [''sign''] = Inr sk" "jwk = RsaPriv v" "Jwk_Alg jwk = ''RS256''" "Jwk_Ops jwk = [''sign'']"
    "Jwk_X5C jwk = []" "BitLen (rsaN v) = 2048" "rsaE v = 65537"
    "CalculateKeyID C (RsaPub (public_rsa (rsaN v) 65537)) = Inr (Jwk_Kid jwk)"
    using generated_signing_key [OF gen] .
  have kid: "utf8_valid (Jwk_Kid jwk)" "Jwk_Kid jwk \<noteq> []"
    using CalculateKeyID_text [OF k(8)] prim(2) by blast+
  let ?pub = "rs256_jwk (Jwk_Kid jwk) (rsaN v)"
  let ?vk = "VkRsa (rs256_key ?pub (rsaN v))"
  obtain pub where vk: "SigningKey_Verifier C sk = Inr (VkRsa (rs256_key pub (rsaN v)))" "Jwk_X5C pub = []" "2 ^ 2047 \<le> rsaN v"
    using rs256_verifier [OF k(1-5,7)] .
  note pub = rs256_key_Jwk [OF k(8) vk(2)]
  obtain m where m: "JwkToString ?pub = Inr m" using rs256_jwk_text [OF kid(1) k(6)] by blast
  obtain s where s: "NewTrustKeyStore [(''issuer'', ?pub)] = Inr s" "stored s ''issuer'' (Jwk_Kid jwk) = Some ?pub"
    "\<not> is_revoked s ''issuer'' (Jwk_Kid jwk)"
    using store_of_one [of ?pub "''issuer''"] kid(2) by auto
  note get = Get_stored_key [OF s(2,3) rs256_jwk_key [OF vk(3)]]
  have alg: "VerificationKey_Algorithm ?vk = Jwk_Alg jwk" "VerificationKey_Kid ?vk = Jwk_Kid jwk"
    using k(3) by (simp_all add: VerificationKey_Algorithm_def VerificationKey_Kid_def rs256_key_def)
  have ver: "VerificationKey_Verify C ?vk ''verify'' body sig = Inr True" if "SigningKey_Sign C rnd sk ''sign'' body = Inr sig" for body sig
  proof -
    obtain impl where "sk = SkImpl impl" using k(1,2) by (cases rule: NewSigningKey_Inr) auto
    then show ?thesis
      using rsa_sign_verifies [of C jwk _ impl rnd _ body sig] k(1) that vk(1) prim(1) rs256_key_verifies
      by (metis SigningKey_Sign_def SigningKey_Verifier_def SigningKey.simps(5))
  qed
  have "snd (JwtVerifierImpl_Verify C TrustKeyStoreImpl_Get s now' t [''my audience''])
    = Inr (Jwk_Kid jwk, jwtClaims (signer_jwt (NewJwtSigner ''issuer'' sk) (standardClaims now) iat jti example_claims))"
    using signed_token_accepted [where get = TrustKeyStoreImpl_Get and s = s, OF k(1) kid example_wf [OF vals(1-4)] _ _ refl example_encoded sign(1)
        get alg(1) ver sign(2), of "[''my audience'']" now' "[''my audience'']"] vals(5,6) alg(2)
    by (simp add: standardClaims_def example_claims_sorted) (simp add: signer_jwt_def)
  moreover have "SigningKey_Kid sk = Jwk_Kid jwk" using SigningKey_of_jwk(2) [OF k(1)] .
  ultimately show ?thesis
    using gen(1) sign(1) vk(1) pub m s(1) report_example
    by (simp add: jwt_main_def signingOperations_def Verify_new_local)
qed

section \<open>A run of the JWT example\<close>

lemma jwt_text_length:
  assumes h: "signable_header (jwtHeader token)" "JwsHeader_Marshal (jwtHeader token) = Inr v" "length (json_print v) < 400"
    and c: "wf_untyped (cUntyped (jwtClaims token))"
      "length (json_print (JObj (map (\<lambda>(k, v). jmember k v) (all_claims (jwtClaims token))))) < 400"
    and b: "Jwt_MarshalBody token = Inr body" "length sig \<le> 200"
  shows "length (MarshalJws body sig) \<le> MaxCompactSize"
proof -
  obtain s0 where token: "token = \<lparr>jwtHeader = jwtHeader token, jwtClaims = jwtClaims token, jwtSignature = s0\<rparr>"
    by (cases token) auto
  have body: "body = b64_encode RawURLEncoding (json_print v) @ ''.'' @ b64_encode RawURLEncoding
      (json_print (JObj (map (\<lambda>(k, v). jmember k v) (all_claims (jwtClaims token)))))"
    using b(1) h claims_encoding(1) [OF c(1)] c(1)
    by (subst (asm) token) (auto simp: Jwt_MarshalBody_def Jws_MarshalBody_def Jwt_Verify_ok signable_header_def
        simp del: json_print.simps)
  have le: "EncodedLen RawURLEncoding n \<le> 2 * n + 2" for n
    by (simp add: EncodedLen_def RawURLEncoding_def)
  show ?thesis
    using h(3) c(2) le [of "length (json_print v)"] b(2)
      le [of "length (json_print (JObj (map (\<lambda>(k, v). jmember k v) (all_claims (jwtClaims token)))))"] le [of "length sig"]
    by (simp add: body MarshalJws_def length_b64_encode MaxCompactSize_def pad_def del: json_print.simps b64_encode.simps)
qed

definition example_rsa :: rsa_private where
  "example_rsa = \<lparr>pub_N = 2 ^ 2047, pub_E = 65537, priv_D = 5, priv_Primes = [2, 2], pre_Dp = 1, pre_Dq = 1, pre_Qinv = 1\<rparr>"

definition example_gen :: "int \<Rightarrow> rsa_private option" where
  "example_gen b = (if b = 2048 then Some example_rsa else None)"

lemma BitLen_power: "BitLen (2 ^ k) = Suc k"
  using BitLen_le_iff [of "2 ^ k" "Suc k"] BitLen_le_iff [of "2 ^ k" k] by simp

lemma example_modulus: "BitLen (2 ^ 2047) = 2048"
  by (simp only: BitLen_power)

lemma example_rsa_fields: "BitLen (pub_N example_rsa) = 2048" "pub_N example_rsa \<noteq> 0" "pub_E example_rsa = 65537"
  "priv_D example_rsa = 5" "priv_Primes example_rsa = [2, 2]"
  unfolding example_rsa_def using example_modulus by simp_all

lemma example_rsa_generator: "rsa_generator example_gen"
  using example_rsa_fields by (simp add: rsa_generator_def example_gen_def)

lemma BigNum_Set_nat: "BigNum_Set (int n) = n"
  by (simp add: BigNum_Set_def BigNum_SetBytes_def)

lemma example_loads:
  assumes "rsaN v = pub_N example_rsa" "rsaE v = 65537" "rsaD v = 5" "rsaP v = 2" "rsaQ v = 2" "rsaDp v = 1" "rsaDq v = 1" "rsaQi v = 1"
    "Jwk_Alg (RsaPriv v) = ''RS256''" "Jwk_Ops (RsaPriv v) = [''sign'']"
  shows "\<exists>k. LoadPrivateKey example_lib (RsaPriv v) [''sign''] = Inr (RsaSigner k)"
  using assms example_rsa_fields(1,2) demo_bounds(1)
  by (simp add: LoadPrivateKey_def privateKeyAlgs_def isSubset_def MinRsaModulusBits_def example_lib_def demo_lib_def not_less)

lemma example_key_id: "CalculateKeyID example_lib (RsaPub k) = Inr (concat (replicate 32 ''64''))"
  by (simp add: CalculateKeyID_def key_id_def example_kid example_lib_def)

lemma example_precompute: "RsaPrecompute example_lib d ps = (1, 1, 1)"
  by (simp add: example_lib_def demo_lib_def)

lemma example_signing_key: "\<exists>sk. RsaSigningKeyGenerator_Generate example_lib example_gen ''RS256'' 2048 [''sign''] = Inr sk"
proof -
  define v where "v = zero_PrivateRsaKey\<lparr>KeyOps := [''sign''], KeyAlg := ''RS256'', KeyKid := concat (replicate 32 ''64''), rsaQ := 2, rsaQi := 1,
     rsaDq := 1, rsaP := 2, rsaDp := 1, rsaN := pub_N example_rsa, rsaE := 65537, rsaD := 5\<rparr>"
  define v0 where "v0 = zero_PrivateRsaKey\<lparr>KeyAlg := rsaBitsToAlg 2048, rsaQ := 2, rsaQi := Suc 0,
     rsaDq := Suc 0, rsaP := 2, rsaDp := Suc 0, rsaN := pub_N example_rsa, rsaE := 65537, rsaD := 5\<rparr>"
  have "public_numbers example_lib (Jwk_SetOps [''sign''] (RsaPriv v0)) = Inr (RsaPub (public_rsa (pub_N example_rsa) 65537))"
    using example_rsa_fields(2) by (simp add: Jwk_SetOps_def public_numbers_def v0_def)
  then have "JwkFromPrivateKey example_lib (RsaSigner example_rsa) [''sign''] []
      = Inr (Jwk_SetKid (concat (replicate 32 ''64'')) (Jwk_SetOps [''sign''] (RsaPriv v0)))"
    using example_rsa_fields BigNum_Set_nat [of 65537]
    by (simp add: JwkFromPrivateKey_def MaxInt32_def Let_def example_precompute PublicFromPrivate_numbers example_key_id
        v0_def [symmetric])
  moreover have "Jwk_SetAlg ''RS256'' (Jwk_SetKid (concat (replicate 32 ''64'')) (Jwk_SetOps [''sign''] (RsaPriv v0))) = RsaPriv v"
    by (simp add: jwk_setters jwk_get_def put_fields_def jwkFields.truncate_def v_def v0_def zero_PrivateRsaKey_def)
  ultimately have "generateRsaKey example_lib example_gen ''RS256'' 2048 [''sign''] = Inr (RsaPriv v, example_rsa)"
    by (simp add: generateRsaKey_def minimumRsaKeySize_def example_gen_def cloneOps_def)
  moreover have ja: "Jwk_Alg (RsaPriv v) = ''RS256''" "Jwk_Ops (RsaPriv v) = [''sign'']"
    by (simp_all add: v_def Jwk_Alg_def Jwk_Ops_def jwk_get_def jwkFields.truncate_def)
  moreover obtain k where "LoadPrivateKey example_lib (RsaPriv v) [''sign''] = Inr (RsaSigner k)"
    using example_loads [of v] ja by (auto simp: v_def)
  ultimately show ?thesis
    by (simp add: RsaSigningKeyGenerator_Generate_def rsaSigningAlgs_def NewSigningKey_def validSignerOps_def intersection_def
        signerOptsForAlg_def algToOptsMap_def)
qed

lemma example_rsa_sign: "rsa_Sign example_lib rnd k d opts = Inr d"
  by (simp add: rsa_Sign_def example_lib_def demo_lib_def split: SignerOpts.split)

lemma example_signs:
  assumes "NewSigningKey example_lib jwk [''sign''] = Inr sk" "jwk = RsaPriv v" "Jwk_Alg jwk = ''RS256''" "Jwk_Ops jwk = [''sign'']"
  shows "SigningKey_Sign example_lib rnd sk ''sign'' body = Inr (replicate 32 CHR ''d'')"
  using assms(1)
proof (cases rule: NewSigningKey_Inr)
  case (Rsa w k opts)
  then show ?thesis
    using assms(3,4)
    by (simp add: SigningKey_Sign_def SigningKeyImpl_Sign_def permits_def allowed_iff validSignerOps_def signerOptsForAlg_def
        hash_sum_def Signer_Sign_def example_rsa_sign) (simp add: example_lib_def demo_lib_def)
qed (use assms(2) in simp)

definition example_header :: JwsHeader where
  "example_header = zero_JwsHeader\<lparr>hAlg := ''RS256'', hKid := concat (replicate 32 ''64''), hTyp := ''JWT''\<rparr>"

definition example_token_claims :: JwtClaims where
  "example_token_claims = \<lparr>cIssuer = ''issuer'', cIssuedAt = 0, cJwtID = ''id'', cSubject = ''my subject'',
     cAudiences = Some [''my audience''], cExpiration = 60, cNotBefore = 0, cUntyped = example_claims\<rparr>"

lemma example_lengths:
  "length (json_print (JObj (map (\<lambda>(k, v). jmember k v) (all_claims example_token_claims)))) < 400"
  "pred_sum (\<lambda>_. False) (\<lambda>v. length (json_print v) < 400) (JwsHeader_Marshal example_header)"
  by code_simp+

lemma example_signed:
  "\<exists>sk t. RsaSigningKeyGenerator_Generate example_lib example_gen ''RS256'' 2048 [''sign''] = Inr sk
    \<and> JwtSignerImpl_Sign example_lib [] 0 ''id'' (NewJwtSigner ''issuer'' sk) (standardClaims 0) customClaims = Inr t
    \<and> length t \<le> MaxCompactSize"
proof -
  obtain sk where sk: "RsaSigningKeyGenerator_Generate example_lib example_gen ''RS256'' 2048 [''sign''] = Inr sk"
    using example_signing_key by blast
  obtain jwk v where k: "NewSigningKey example_lib jwk [''sign''] = Inr sk" "jwk = RsaPriv v" "Jwk_Alg jwk = ''RS256''"
    "Jwk_Ops jwk = [''sign'']" "CalculateKeyID example_lib (RsaPub (public_rsa (rsaN v) 65537)) = Inr (Jwk_Kid jwk)"
    using generated_signing_key [OF sk example_rsa_generator] .
  have jk: "Jwk_Kid jwk = concat (replicate 32 ''64'')" using k(5) unfolding example_key_id by (rule Inr_inject [symmetric])
  define token where "token = signer_jwt (NewJwtSigner ''issuer'' sk) (standardClaims 0) 0 ''id'' example_claims"
  have tok: "jwtHeader token = example_header" "jwtClaims token = example_token_claims" "jwtSignature token = []"
    using SigningKey_of_jwk [OF k(1)] k(3) jk
    by (simp_all add: token_def signer_jwt_def NewJwtSigner_def standardClaims_def example_header_def example_token_claims_def)
  have kid: "utf8_valid (Jwk_Kid jwk)" unfolding jk by code_simp
  note h = signer_header [OF k(1) kid, of "''issuer''" "standardClaims 0" 0 "''id''" example_claims, folded token_def]
  have wf: "wf_JwtClaims (jwtClaims token)" unfolding token_def by (rule example_wf) (simp_all add: int64_def)
  obtain body where body: "Jwt_MarshalBody token = Inr body"
    using Jwt_token_roundtrip [OF h wf, of "[''my audience'']" "[]" "[]"] tok by (cases token) (auto simp: example_token_claims_def)
  obtain u where u: "JwsHeader_Marshal (jwtHeader token) = Inr u" "length (json_print u) < 400"
    using example_lengths(2) tok(1) by (cases "JwsHeader_Marshal example_header") simp_all
  have "length (MarshalJws body (replicate 32 CHR ''d'')) \<le> MaxCompactSize"
    using jwt_text_length [OF h u _ _ body, of "replicate 32 CHR ''d''"] example_lengths(1) example_untyped tok(2)
    by (simp add: example_token_claims_def del: json_print.simps)
  then show ?thesis
    using sk body example_signs [OF k(1-4), of "[]" body]
    by (auto simp: JwtSignerImpl_Sign_def example_encoded token_def [symmetric]) (simp add: NewJwtSigner_def)
qed

lemma example_rsa_correct: "rsa_correct example_lib"
  using demo_lib_correct(1) by (simp add: rsa_correct_def example_lib_def)

theorem jwt_example_runs_witness:
  "\<exists>lines. jwt_main example_lib example_gen [] 0 0 ''id'' 30 demo_clock BadRequest = (lines @ [''JWT custom claim street: Acacia Road''], None)"
proof -
  obtain sk t where t: "RsaSigningKeyGenerator_Generate example_lib example_gen ''RS256'' 2048 [''sign''] = Inr sk"
    "JwtSignerImpl_Sign example_lib [] 0 ''id'' (NewJwtSigner ''issuer'' sk) (standardClaims 0) customClaims = Inr t"
    "length t \<le> MaxCompactSize"
    using example_signed by blast
  obtain m where "jwt_main example_lib example_gen [] 0 0 ''id'' 30 demo_clock BadRequest = ([''Created signing key with kid '' @ SigningKey_Kid sk, ''Created signed JWT: '' @ t,
      ''Created verification key JWK: '' @ m, ''Successfully verified JWT signed with key '' @ SigningKey_Kid sk]
     @ [''JWT Subject: my subject'', ''JWT Audiences: [my audience]'', ''JWT Expiry: '' @ dec_int (0 + 60),
      ''JWT Not Before: '' @ dec_int 0, ''JWT Issued At: '' @ dec_int 0, ''JWT Issuer: issuer'', ''JWT unique ID: '' @ ''id'',
      ''JWT custom claim house number: '' @ dec_int 29, ''JWT custom claim street: Acacia Road''], None)"
    using jwt_example_runs [OF t(1) example_rsa_generator t(2,3) example_rsa_correct example_primitives(2), of 30] by (auto simp: int64_def)
  then show ?thesis by (metis append_Cons append_Nil append_assoc)
qed

end
