(* ===== verification/JweBlock_Laws.thy ===== *)
theory JweBlock_Laws
  imports JweCrypt_Laws
begin

text \<open>
  Laws of direct encryption with AES-CBC and HMAC: the round trip of a message, what a decrypted JWE
  satisfies, and the boundary inputs of the block cryptor.
\<close>

section \<open>Sealing and opening\<close>

text \<open>
  What a pair of CBC modes started from the same key and IV documents: whole blocks in, as many
  octets out, and decryption inverts encryption also when more blocks follow.
\<close>

definition cbc_pair :: "'b BlockMode \<Rightarrow> 'c BlockMode \<Rightarrow> bool" where
  "cbc_pair E D \<longleftrightarrow> bm_BlockSize E = 16 \<and> bm_BlockSize D = 16
   \<and> (\<forall>src. length src mod 16 = 0 \<longrightarrow> length (snd (bm_Crypt E (bm_State E) src)) = length src
        \<and> length (snd (bm_Crypt D (bm_State D) src)) = length src)
   \<and> (\<forall>src rest. length src mod 16 = 0 \<longrightarrow> length rest mod 16 = 0 \<longrightarrow>
        take (length src) (snd (bm_Crypt D (bm_State D) (snd (bm_Crypt E (bm_State E) src) @ rest))) = src)"

lemma cbc_pairD:
  assumes "cbc_pair E D" "length src mod 16 = 0" "length rest mod 16 = 0"
  shows "take (length src) (snd (bm_Crypt D (bm_State D) (snd (bm_Crypt E (bm_State E) src) @ rest))) = src"
  using assms by (simp add: cbc_pair_def)

lemma round_up_16: "(n + 15) div 16 * 16 + (if n mod 16 = 0 then 16 else 0) = n div 16 * 16 + (16 :: nat)"
proof -
  have "(n + 15) div 16 = (n mod 16 + 15 + n div 16 * 16) div 16" by (rule arg_cong [of _ _ "\<lambda>x. x div 16"]) simp
  also have "\<dots> = n div 16 + (n mod 16 + 15) div 16" by (rule div_mult_self1) simp
  also have "(n mod 16 + 15) div 16 = (if n mod 16 = 0 then 0 else 1)"
    using mod_less_divisor [of 16 n] by (auto intro: div_nat_eqI)
  finally show ?thesis by simp
qed

lemma trimSize_16:
  assumes "bm_BlockSize (cbcMode k) = 16" "length pt \<le> MaxPlaintextSize"
  shows "length (trimSize k pt) = (length pt + 15) div 16 * 16" "take (length pt) (trimSize k pt) = pt"
proof -
  have "length pt \<le> length pt div 16 * 16 + 16" using mod_less_divisor [of 16 "length pt"] by linarith
  then show "length (trimSize k pt) = (length pt + 15) div 16 * 16"
    using assms round_up_16 [of "length pt"] by (auto simp: trimSize_def zeros_def Let_def split: if_splits)
  show "take (length pt) (trimSize k pt) = pt" using assms by (simp add: trimSize_def Let_def)
qed

lemma getDestinationSize_16: "getDestinationSize n 16 = n div 16 * 16 + 16"
  by (simp add: getDestinationSize_def Let_def)

text \<open>The sealed octets: the encrypted blocks, then whatever zeros are left of the destination.\<close>

lemma cbc_Seal:
  assumes "cbc_pair (cbcMode k) D" "length pt \<le> MaxPlaintextSize"
  shows "\<exists>k'. AesCbcCryptor_Seal k pt = Inr (k', Some (snd (bm_Crypt (cbcMode k) (bm_State (cbcMode k)) (trimSize k pt))
      @ zeros (if length pt mod 16 = 0 then 16 else 0)))"
proof -
  have bs: "bm_BlockSize (cbcMode k) = 16" using assms(1) by (simp add: cbc_pair_def)
  note t = trimSize_16 [OF bs assms(2)]
  have "length (snd (bm_Crypt (cbcMode k) (bm_State (cbcMode k)) (trimSize k pt))) = (length pt + 15) div 16 * 16"
    using assms(1) t(1) by (simp add: cbc_pair_def)
  moreover note round_up_16 [of "length pt"]
  ultimately show ?thesis
    using assms(2) bs t(1)
    by (auto simp: AesCbcCryptor_Seal_def CryptBlocks_def getDestinationSize_16 zeros_def split_beta Let_def split: if_splits)
qed

lemma cbc_Seal_length:
  assumes "cbc_pair (cbcMode k) D" "AesCbcCryptor_Seal k pt = Inr (k', Some ct)" "length pt < MaxPlaintextSize"
  shows "length ct \<le> MaxPlaintextSize"
proof -
  have bs: "bm_BlockSize (cbcMode k) = 16" using assms(1) by (simp add: cbc_pair_def)
  have "length ct = length pt div 16 * 16 + 16"
    using cbc_Seal [OF assms(1), of pt] assms trimSize_16 [OF bs, of pt] round_up_16 [of "length pt"]
    by (auto simp: cbc_pair_def zeros_def)
  also have "\<dots> \<le> 4194303 * 16 + 16"
    using assms(3) by (intro add_mono mult_le_mono) (simp_all add: MaxPlaintextSize_def less_mult_imp_div_less div_le_mono2 less_Suc_eq_le [symmetric])
  finally show ?thesis by (simp add: MaxPlaintextSize_def)
qed

lemma cbc_Open_sealed:
  assumes "cbc_pair (cbcMode k) (cbcMode d)" "AesCbcCryptor_Seal k pt = Inr (k', Some ct)"
    "length pt \<le> MaxPlaintextSize" "length ct \<le> MaxPlaintextSize"
  shows "length ct mod 16 = 0 \<and> (\<exists>d' p. AesCbcCryptor_Open d ct = Inr (d', Some p) \<and> length pt \<le> length p \<and> take (length pt) p = pt)"
proof -
  have bs: "bm_BlockSize (cbcMode k) = 16" "bm_BlockSize (cbcMode d) = 16" using assms(1) by (simp_all add: cbc_pair_def)
  note t = trimSize_16 [OF bs(1) assms(3)]
  define c where "c = snd (bm_Crypt (cbcMode k) (bm_State (cbcMode k)) (trimSize k pt))"
  define z where "z = zeros (if length pt mod 16 = 0 then 16 else 0)"
  have ct: "ct = c @ z" using cbc_Seal [OF assms(1,3)] assms(2) by (auto simp: c_def z_def)
  have z: "length z mod 16 = 0" by (simp add: z_def zeros_def)
  have c: "length c = length (trimSize k pt)" using assms(1) t(1) by (simp add: cbc_pair_def c_def)
  then have len: "length ct mod 16 = 0" using ct z t(1) by (simp add: mod_add_eq [symmetric])
  define p where "p = snd (bm_Crypt (cbcMode d) (bm_State (cbcMode d)) ct)"
  have p: "length p = length ct" using assms(1) len by (simp add: cbc_pair_def p_def)
  have "length (trimSize k pt) mod 16 = 0" using t(1) by simp
  then have q: "take (length (trimSize k pt)) p = trimSize k pt"
    unfolding p_def ct c_def using z by (intro cbc_pairD [OF assms(1)])
  have "length pt \<le> length (trimSize k pt)" using t(1) by simp
  then have "take (length pt) p = pt"
    using q t(2) by (metis min.absorb2 min.commute take_take)
  moreover have "length ct \<le> length ct div 16 * 16 + 16" using len by linarith
  then have "\<exists>d' r. AesCbcCryptor_Open d ct = Inr (d', Some (p @ r))"
    using assms(4) bs(2) len
    by (simp add: AesCbcCryptor_Open_def CryptBlocks_def getDestinationSize_16 p_def zeros_def split_beta Let_def)
  moreover have "length pt \<le> length p" using p c ct t(1) by simp
  ultimately show ?thesis using len by fastforce
qed

section \<open>Round trip\<close>

definition length_header :: "'b JweDirectEncryptorBlock \<Rightarrow> bytes \<Rightarrow> JweProtectedHeader" where
  "length_header e pt = (block_makeJweProtectedHeader e)\<lparr>hOtherAad := Some (uintToBytesBigEndian (of_nat (length pt)))\<rparr>"

lemma length_header_wf:
  assumes "utf8_valid (cbcKid (ebKey e))" "map_of cbcAlgToEncMap (cbcAlg (ebKey e)) = Some enc"
  shows "wf_JweHeader (length_header e pt)" "acceptable_header (length_header e pt)"
proof -
  have "(cbcAlg (ebKey e), enc) \<in> set cbcAlgToEncMap" using assms(2) by (rule map_of_SomeD)
  then have "utf8_valid enc" "utf8_valid (cbcAlg (ebKey e))" "cbcAlg (ebKey e) \<in> set supportedJweAlgs" "enc \<in> set supportedJweEncs"
    by (auto simp: cbcAlgToEncMap_def supportedJweAlgs_def supportedJweEncs_def)
  moreover have "uintToBytesBigEndian n \<noteq> []" for n
    using length_nat_be [of 8 "unat n"] unfolding uintToBytesBigEndian_def by fastforce
  ultimately show "wf_JweHeader (length_header e pt)" "acceptable_header (length_header e pt)"
    using assms
    by (simp_all add: length_header_def block_makeJweProtectedHeader_def zero_JweHeader_def zero_JwsHeader_def JwsHeader.extend_def
        wf_JweHeader_def wf_JwsHeader_def wf_blob_def enc_of_def acceptable_header_def uintToBytesBigEndian_def MaxBlobSize_def)
qed

lemma length_header_fields:
  "hAlg (length_header e pt) = cbcAlg (ebKey e)" "hKid (length_header e pt) = cbcKid (ebKey e)" "hZip (length_header e pt) = []"
  "hOtherAad (length_header e pt) = Some (uintToBytesBigEndian (of_nat (length pt)))"
  by (simp_all add: length_header_def block_makeJweProtectedHeader_def zero_JweHeader_def zero_JwsHeader_def JwsHeader.extend_def)

lemma declared_length:
  assumes "n < 2 ^ 64"
  shows "length (uintToBytesBigEndian (of_nat n)) = 8" "be_nat (uintToBytesBigEndian (of_nat n)) = n"
  using assms by (simp_all add: uintToBytesBigEndian_def unat_of_nat take_bit_eq_mod be_nat_nat_be)

text \<open>Two verifiers hold the same key: neither is destroyed and their hashes compute the same MAC.\<close>

definition same_mac :: "JweHmacVerifierImpl \<Rightarrow> JweHmacVerifierImpl \<Rightarrow> bool" where
  "same_mac v v' \<longleftrightarrow> hmacDestroyed (hvKey v) = hmacDestroyed (hvKey v')
     \<and> map_option hash_Reset (hmacHash (hvKey v)) = map_option hash_Reset (hmacHash (hvKey v'))"

lemma same_mac_refl [simp]: "same_mac v v"
  by (simp add: same_mac_def)

lemma same_mac_sym: "same_mac v v' \<Longrightarrow> same_mac v' v"
  by (simp add: same_mac_def)

lemma same_mac_trans: "same_mac u v \<Longrightarrow> same_mac v w \<Longrightarrow> same_mac u w"
  by (simp add: same_mac_def)

lemma verifier_Hash_state: "same_mac (fst (verifier_Hash v x)) v"
  by (simp add: same_mac_def verifier_Hash_def HmacShaCryptor_Hash_def hash_Reset_def hash_Write_def Let_def split: option.split)

lemma hash_Reset_same: "hash_Reset h = hash_Reset h' \<Longrightarrow> hhSum h = hhSum h'"
  by (metis hash_Reset_def hash_Hash.select_convs(3) hash_Hash.surjective hash_Hash.update_convs(4))

lemma verifier_Hash_same: "same_mac v v' \<Longrightarrow> snd (verifier_Hash v x) = snd (verifier_Hash v' x)"
  by (auto simp: same_mac_def verifier_Hash_def HmacShaCryptor_Hash_def hash_Write_def hash_Sum_def Let_def
      dest: hash_Reset_same split: option.splits)

lemma VerifyCompact_state: "same_mac (fst (VerifyCompact v jwe)) v"
  using verifier_Hash_state by (auto simp: VerifyCompact_def Let_def split_beta split: sum.split)

text \<open>A produced JWE is parsed, and verified under the same MAC.\<close>

lemma block_encrypt_Inr:
  assumes "JweDirectEncryptorBlock_Encrypt e pt aad = (e', Inr t)" "length t \<le> MaxCompactSize"
    "utf8_valid (cbcKid (ebKey e))" "map_of cbcAlgToEncMap (cbcAlg (ebKey e)) = Some enc"
  obtains sealed jwe where "AesCbcCryptor_Seal (ebKey e) pt = Inr (ebKey e', sealed)" "same_mac (ebVerifier e') (ebVerifier e)"
    "ebIv e' = ebIv e"
    "JweRfc7516Compact_Unmarshal zero_compact t = Inr jwe" "ProtectedHeader jwe = length_header e pt"
    "Ciphertext jwe = (case sealed of None \<Rightarrow> [] | Some c \<Rightarrow> c)"
    "\<And>v. same_mac v (ebVerifier e) \<Longrightarrow> snd (VerifyCompact v jwe) = Inr True"
proof -
  obtain raw k sealed v tag where p: "MarshalProtectedHeader (length_header e pt) = Inr raw"
    "AesCbcCryptor_Seal (ebKey e) pt = Inr (k, sealed)"
    "ComputeHash (ebVerifier e) raw (ebIv e) (case sealed of None \<Rightarrow> [] | Some c \<Rightarrow> c) = (v, Inr tag)"
    "JweRfc7516Compact_Marshal \<lparr>ProtectedHeader = length_header e pt, RawProtectedHeader = [], EncryptedKey = [],
       InitializationVector = ebIv e, Ciphertext = (case sealed of None \<Rightarrow> [] | Some c \<Rightarrow> c), AuthenticationTag = tag\<rparr> = Inr t"
    "e' = e\<lparr>ebKey := k, ebVerifier := v\<rparr>"
    using assms(1)
    by (auto simp: JweDirectEncryptorBlock_Encrypt_def length_header_def Let_def split: sum.splits prod.splits)
  have "same_mac v (ebVerifier e)"
    using p(3) verifier_Hash_state by (metis ComputeHash_def fst_conv)
  moreover note rt = compact_roundtrip [of "\<lparr>ProtectedHeader = length_header e pt, RawProtectedHeader = [], EncryptedKey = [],
       InitializationVector = ebIv e, Ciphertext = (case sealed of None \<Rightarrow> [] | Some c \<Rightarrow> c), AuthenticationTag = tag\<rparr>"]
  moreover have "snd (verifier_Hash u (Helpers.concatByteArrays [raw, ebIv e, case sealed of None \<Rightarrow> [] | Some c \<Rightarrow> c, computeAL raw])) = Inr tag"
    if "same_mac u (ebVerifier e)" for u
    using p(3) verifier_Hash_same [OF that] by (metis ComputeHash_def snd_conv)
  ultimately show ?thesis
    using length_header_wf [OF assms(3,4)] p assms(2)
    by (intro that) (auto simp: VerifyCompact_def split_beta Let_def)
qed

text \<open>What the decryptor makes of a parsed JWE whose MAC is right.\<close>

lemma block_decrypt_opened:
  assumes "JweRfc7516Compact_Unmarshal zero_compact t = Inr jwe" "length t \<le> MaxCompactSize"
    "hAlg (ProtectedHeader jwe) = cbcAlg (dbKey d)" "hKid (ProtectedHeader jwe) = cbcKid (dbKey d)" "hZip (ProtectedHeader jwe) = []"
    "snd (VerifyCompact (dbVerifier d) jwe) = Inr True" "length (Ciphertext jwe) mod 16 = 0"
    "AesCbcCryptor_Open (dbKey d) (Ciphertext jwe) = Inr (k, opened)"
  shows "JweDirectDecryptorBlock_Decrypt d t =
    (d\<lparr>dbKey := k, dbVerifier := fst (VerifyCompact (dbVerifier d) jwe)\<rparr>,
     rbind (declared_plaintext jwe (case opened of None \<Rightarrow> [] | Some p \<Rightarrow> p)) (\<lambda>p. Inr (p, None)))"
  using assms by (cases "VerifyCompact (dbVerifier d) jwe") (simp add: JweDirectDecryptorBlock_Decrypt_def Let_def)

lemma declared_plaintext_header:
  assumes "ProtectedHeader jwe = length_header e pt" "length pt < 2 ^ 64"
  shows "declared_plaintext jwe p = (if length pt > length p then Inl (Fmt ''error decoding plaintext: declared length'')
    else Inr (take (length pt) p))"
  using assms declared_length by (simp add: declared_plaintext_def length_header_fields)

lemma block_roundtrip:
  assumes "JweDirectEncryptorBlock_Encrypt e pt aad = (e', Inr t)" "length t \<le> MaxCompactSize"
    "cbc_pair (cbcMode (ebKey e)) (cbcMode (dbKey d))" "cbcKid (dbKey d) = cbcKid (ebKey e)" "cbcAlg (dbKey d) = cbcAlg (ebKey e)"
    "same_mac (dbVerifier d) (ebVerifier e)"
    "utf8_valid (cbcKid (ebKey e))" "map_of cbcAlgToEncMap (cbcAlg (ebKey e)) = Some enc" "length pt < MaxPlaintextSize"
  shows "snd (JweDirectDecryptorBlock_Decrypt d t) = Inr (pt, None)"
proof -
  obtain sealed jwe where j: "AesCbcCryptor_Seal (ebKey e) pt = Inr (ebKey e', sealed)"
    "JweRfc7516Compact_Unmarshal zero_compact t = Inr jwe" "ProtectedHeader jwe = length_header e pt"
    "Ciphertext jwe = (case sealed of None \<Rightarrow> [] | Some c \<Rightarrow> c)"
    "snd (VerifyCompact (dbVerifier d) jwe) = Inr True"
    using block_encrypt_Inr [OF assms(1,2,7,8)] assms(6) by blast
  obtain ct where ct: "sealed = Some ct" using cbc_Seal [OF assms(3), of pt] j(1) assms(9) by auto
  then have le: "length ct \<le> MaxPlaintextSize" using cbc_Seal_length [OF assms(3) _ assms(9)] j(1) by simp
  obtain d' p where o: "length ct mod 16 = 0" "AesCbcCryptor_Open (dbKey d) ct = Inr (d', Some p)" "length pt \<le> length p"
      "take (length pt) p = pt"
    using cbc_Open_sealed [OF assms(3), of pt "ebKey e'" ct] j(1) ct le assms(9) by force
  have "length pt < 2 ^ 64" using assms(9) by (simp add: MaxPlaintextSize_def)
  then have "declared_plaintext jwe p = Inr pt" using declared_plaintext_header [OF j(3)] o(3,4) by simp
  then show ?thesis
    using block_decrypt_opened [OF j(2) assms(2) _ _ _ j(5), of d' "Some p"] j(3,4) ct o(1,2) assms(4,5)
    by (simp add: length_header_fields)
qed

text \<open>
  What the AES-CBC encryptor produces, a decryptor with the same key identifier and MAC and an inverse
  block mode decrypts to the plaintext: the padding is removed by the length in the authenticated header.
  The plaintext must be shorter than the bound of the cryptor.
\<close>

theorem block_encryption_roundtrip:
  assumes "JweDirectEncryptorBlock_Encrypt e pt aad = (e', Inr t)" "length t \<le> MaxCompactSize"
    "cbc_pair (cbcMode (ebKey e)) (cbcMode (dbKey d))" "cbcKid (dbKey d) = cbcKid (ebKey e)" "cbcAlg (dbKey d) = cbcAlg (ebKey e)"
    "same_mac (dbVerifier d) (ebVerifier e)"
    "utf8_valid (cbcKid (ebKey e))" "map_of cbcAlgToEncMap (cbcAlg (ebKey e)) = Some enc" "length pt < MaxPlaintextSize"
  shows "snd (JweDirectDecryptorBlock_Decrypt d t) = Inr (pt, None)"
  using assms by (rule block_roundtrip)

definition demo_cbc :: "unit AesCbcCryptor" where
  "demo_cbc = \<lparr>cbcKid = ''k'', cbcAlg = ''A256CBC'', cbcMode = \<lparr>bm_State = (), bm_BlockSize = 16, bm_Crypt = Pair\<rparr>\<rparr>"

definition demo_hmac :: HmacShaCryptor where
  "demo_hmac = \<lparr>hmacKid = ''h'', hmacHash = Some \<lparr>hhType = Some (PointerTo (Named ''HMAC'' ''crypto/internal/fips140/hmac'')),
     hhKeyedHash = False, hhSum = (\<lambda>_. replicate 32 CHR ''h''), hhWritten = []\<rparr>, hmacDestroyed = False\<rparr>"

definition demo_eb :: "unit JweDirectEncryptorBlock" where
  "demo_eb = NewJweDirectEncryptorBlock demo_cbc demo_hmac ''iv''"

definition demo_db :: "unit JweDirectDecryptorBlock" where
  "demo_db = NewJweDirectDecryptorBlock demo_cbc demo_hmac"

lemma demo_block_fields [simp]:
  "ebKey demo_eb = demo_cbc" "ebIv demo_eb = ''iv''" "ebVerifier demo_eb = \<lparr>hvKey = demo_hmac\<rparr>"
  "dbKey demo_db = demo_cbc" "dbVerifier demo_db = \<lparr>hvKey = demo_hmac\<rparr>"
  by (simp_all add: demo_eb_def demo_db_def NewJweDirectEncryptorBlock_def NewJweDirectDecryptorBlock_def)

lemma demo_cbc_ok: "cbc_pair (cbcMode demo_cbc) (cbcMode demo_cbc)"
  by (simp add: demo_cbc_def cbc_pair_def)

lemma demo_cbc_keys: "utf8_valid (cbcKid demo_cbc)" "map_of cbcAlgToEncMap (cbcAlg demo_cbc) = Some EncA256CBC"
  by (simp_all add: demo_cbc_def cbcAlgToEncMap_def)

lemma demo_mac: "snd (verifier_Hash \<lparr>hvKey = demo_hmac\<rparr> x) = Inr (replicate 32 CHR ''h'')"
  by (simp add: verifier_Hash_def demo_hmac_def HmacShaCryptor_Hash_def hash_Reset_def hash_Write_def hash_Sum_def)

text \<open>A block encryptor succeeds whenever its parts do; the length of the text follows from the parts.\<close>

lemma block_encrypt_runs:
  assumes "MarshalProtectedHeader (length_header e pt) = Inr raw" "AesCbcCryptor_Seal (ebKey e) pt = Inr (k, sealed)"
    "\<And>x. snd (verifier_Hash (ebVerifier e) x) = Inr tag"
  shows "\<exists>v t. JweDirectEncryptorBlock_Encrypt e pt aad = (e\<lparr>ebKey := k, ebVerifier := v\<rparr>, Inr t) \<and> same_mac v (ebVerifier e)
    \<and> JweRfc7516Compact_Marshal \<lparr>ProtectedHeader = length_header e pt, RawProtectedHeader = [], EncryptedKey = [],
       InitializationVector = ebIv e, Ciphertext = (case sealed of None \<Rightarrow> [] | Some c \<Rightarrow> c), AuthenticationTag = tag\<rparr> = Inr t"
proof -
  obtain t where "JweRfc7516Compact_Marshal \<lparr>ProtectedHeader = length_header e pt, RawProtectedHeader = [], EncryptedKey = [],
       InitializationVector = ebIv e, Ciphertext = (case sealed of None \<Rightarrow> [] | Some c \<Rightarrow> c), AuthenticationTag = tag\<rparr> = Inr t"
    using assms(1) by (auto simp: JweRfc7516Compact_Marshal_def)
  with assms verifier_Hash_state show ?thesis
    by (auto simp: JweDirectEncryptorBlock_Encrypt_def length_header_def Let_def ComputeHash_def split_beta)
qed

lemma demo_length_header: "case_sum (\<lambda>_. 1000) length (MarshalProtectedHeader (length_header demo_eb ''m'')) < 300"
  by code_simp

lemma demo_cbc_text:
  "\<exists>e' t. JweDirectEncryptorBlock_Encrypt demo_eb ''m'' [] = (e', Inr t) \<and> length t \<le> MaxCompactSize"
proof -
  obtain raw where raw: "MarshalProtectedHeader (length_header demo_eb ''m'') = Inr raw" "length raw < 300"
    using demo_length_header by (auto split: sum.splits)
  have "MaxPlaintextSize \<ge> 1" by (simp add: MaxPlaintextSize_def)
  then obtain k' where "AesCbcCryptor_Seal (ebKey demo_eb) ''m'' = Inr (k', Some (trimSize demo_cbc ''m''))"
    using cbc_Seal [OF demo_cbc_ok, of "''m''"] by (auto simp: demo_cbc_def zeros_def)
  moreover have "length (trimSize demo_cbc ''m'') = 16"
    using trimSize_16(1) [of demo_cbc "''m''"] by (simp add: demo_cbc_def MaxPlaintextSize_def)
  moreover have "\<not> padded RawURLEncoding" by (simp add: RawURLEncoding_def)
  ultimately show ?thesis
    using block_encrypt_runs [OF raw(1), of k' "Some (trimSize demo_cbc ''m'')" "replicate 32 CHR ''h''" "[]"] raw demo_mac
    by (fastforce simp: JweRfc7516Compact_Marshal_def MaxCompactSize_def length_b64_encode EncodedLen_def pad_def)
qed

theorem block_encryption_roundtrip_witness:
  "\<exists>e' t. JweDirectEncryptorBlock_Encrypt demo_eb ''m'' [] = (e', Inr t)
    \<and> snd (JweDirectDecryptorBlock_Decrypt demo_db t) = Inr (''m'', None)"
proof -
  obtain e' t where t: "JweDirectEncryptorBlock_Encrypt demo_eb ''m'' [] = (e', Inr t)" "length t \<le> MaxCompactSize"
    using demo_cbc_text by blast
  from block_encryption_roundtrip [OF t, of demo_db] t(1) demo_cbc_ok demo_cbc_keys show ?thesis
    by (auto simp: MaxPlaintextSize_def)
qed

text \<open>
  C15: a plaintext the AES-CBC decryptor returns was authenticated first: the tag of the received JWE is
  the MAC over the received header segment, the IV, the ciphertext and the header's length, the header
  names the decryptor's key and algorithm, and the plaintext has the length the authenticated header
  declares.
\<close>

theorem block_decrypt_authenticated:
  assumes "JweDirectDecryptorBlock_Decrypt d t = (d', Inr (pt, aad))"
  shows "\<exists>jwe mac data. JweRfc7516Compact_Unmarshal zero_compact t = Inr jwe
    \<and> hAlg (ProtectedHeader jwe) = cbcAlg (dbKey d) \<and> hKid (ProtectedHeader jwe) = cbcKid (dbKey d)
    \<and> \<not> hmacDestroyed (hvKey (dbVerifier d)) \<and> hmacHash (hvKey (dbVerifier d)) = Some mac
    \<and> AuthenticationTag jwe = hhSum mac (takeWhile (\<lambda>c. c \<noteq> CHR ''.'') t @ InitializationVector jwe @ Ciphertext jwe
        @ computeAL (takeWhile (\<lambda>c. c \<noteq> CHR ''.'') t))
    \<and> hOtherAad (ProtectedHeader jwe) = Some data \<and> length pt = be_nat (take 8 data)"
proof -
  obtain jwe p where j: "JweRfc7516Compact_Unmarshal zero_compact t = Inr jwe"
    "hAlg (ProtectedHeader jwe) = cbcAlg (dbKey d)" "hKid (ProtectedHeader jwe) = cbcKid (dbKey d)"
    "snd (VerifyCompact (dbVerifier d) jwe) = Inr True" "declared_plaintext jwe p = Inr pt"
    using assms
    by (auto simp: JweDirectDecryptorBlock_Decrypt_def Let_def split: if_splits sum.splits prod.splits bool.splits)
  obtain mac where "\<not> hmacDestroyed (hvKey (dbVerifier d))" "hmacHash (hvKey (dbVerifier d)) = Some mac"
    "AuthenticationTag jwe = hhSum mac (takeWhile (\<lambda>c. c \<noteq> CHR ''.'') t @ InitializationVector jwe @ Ciphertext jwe
        @ computeAL (takeWhile (\<lambda>c. c \<noteq> CHR ''.'') t))"
    using j(4) compact_accepts [OF j(1)]
    by (auto simp: VerifyCompact_def verifier_Hash_def Helpers.concatByteArrays_def split_beta Let_def elim!: Hash_Inr)
  moreover obtain data where "hOtherAad (ProtectedHeader jwe) = Some data" "length pt = be_nat (take 8 data)"
    using j(5) by (auto simp: declared_plaintext_def Let_def not_less split: option.splits if_splits)
  ultimately show ?thesis using j(1-3) by auto
qed

theorem block_decrypt_authenticated_witness:
  "\<exists>e' t jwe. JweDirectEncryptorBlock_Encrypt demo_eb ''m'' [] = (e', Inr t)
    \<and> JweRfc7516Compact_Unmarshal zero_compact t = Inr jwe \<and> AuthenticationTag jwe = replicate 32 CHR ''h''"
proof -
  obtain e' t where t: "JweDirectEncryptorBlock_Encrypt demo_eb ''m'' [] = (e', Inr t)" "length t \<le> MaxCompactSize"
    using demo_cbc_text by blast
  have "snd (JweDirectDecryptorBlock_Decrypt demo_db t) = Inr (''m'', None)"
    using block_roundtrip [OF t, of demo_db] demo_cbc_ok demo_cbc_keys by (auto simp: MaxPlaintextSize_def)
  then obtain d' where "JweDirectDecryptorBlock_Decrypt demo_db t = (d', Inr (''m'', None))"
    by (cases "JweDirectDecryptorBlock_Decrypt demo_db t") auto
  from block_decrypt_authenticated [OF this] t(1) show ?thesis by (auto simp: demo_hmac_def)
qed

section \<open>Boundary inputs\<close>

lemma verifier_Hash_runs:
  assumes "\<not> hmacDestroyed (hvKey v)" "hmacHash (hvKey v) = Some mac"
  shows "\<exists>v' tag. verifier_Hash v x = (v', Inr tag)"
  using assms by (simp add: verifier_Hash_def HmacShaCryptor_Hash_def Let_def)

text \<open>A JWE with an empty ciphertext is refused by every decryptor when its header declares more than one block.\<close>

lemma empty_ciphertext_refused:
  assumes "JweRfc7516Compact_Unmarshal zero_compact t = Inr jwe" "ProtectedHeader jwe = length_header e pt" "Ciphertext jwe = []"
    "16 < length pt" "length pt < 2 ^ 64"
    "bm_BlockSize (cbcMode (dbKey d)) = 16" "snd (bm_Crypt (cbcMode (dbKey d)) (bm_State (cbcMode (dbKey d))) []) = []"
  shows "\<exists>err. snd (JweDirectDecryptorBlock_Decrypt d t) = Inl err"
proof -
  obtain k where k: "AesCbcCryptor_Open (dbKey d) [] = Inr (k, Some (zeros 16))"
    using assms(6,7) by (auto simp: AesCbcCryptor_Open_def CryptBlocks_def getDestinationSize_def split_beta Let_def)
  have "declared_plaintext jwe (zeros 16) = Inl (Fmt ''error decoding plaintext: declared length'')"
    using declared_plaintext_header [OF assms(2,5)] assms(4) by (simp add: zeros_def)
  with k show ?thesis
    using assms(1,3) by (auto simp: JweDirectDecryptorBlock_Decrypt_def Let_def split: prod.splits sum.splits bool.splits)
qed

text \<open>
  C37: a plaintext above the cryptor's bound is encrypted without an error: an encryptor with a key
  identifier that is valid text, an algorithm it knows and a MAC that is not destroyed returns a JWE whose
  ciphertext segment is empty, its block mode untouched. Every AES-CBC decryptor refuses that JWE, whatever
  its keys: the plaintext is lost silently. Of the decryptor's block mode only what every AES mode has is
  assumed, blocks of sixteen octets and no output for no input.
\<close>

theorem oversized_plaintext_lost:
  assumes "length pt > MaxPlaintextSize" "length pt < 2 ^ 64"
    "utf8_valid (cbcKid (ebKey e))" "map_of cbcAlgToEncMap (cbcAlg (ebKey e)) = Some enc"
    "\<not> hmacDestroyed (hvKey (ebVerifier e))" "hmacHash (hvKey (ebVerifier e)) = Some mac"
  shows "\<exists>e' t header tag. JweDirectEncryptorBlock_Encrypt e pt aad = (e', Inr t) \<and> ebKey e' = ebKey e
    \<and> t = join ''.'' [header, [], b64_encode RawURLEncoding (ebIv e), [], tag]
    \<and> (\<forall>d. bm_BlockSize (cbcMode (dbKey d)) = 16 \<longrightarrow> snd (bm_Crypt (cbcMode (dbKey d)) (bm_State (cbcMode (dbKey d))) []) = []
         \<longrightarrow> (\<exists>err. snd (JweDirectDecryptorBlock_Decrypt d t) = Inl err))"
proof -
  obtain raw where raw: "MarshalProtectedHeader (length_header e pt) = Inr raw"
    using jwe_header_segment [OF length_header_wf(1) [OF assms(3,4)]] by blast
  have seal: "AesCbcCryptor_Seal (ebKey e) pt = Inr (ebKey e, None)" using assms(1) by (simp add: AesCbcCryptor_Seal_def)
  obtain v tag where v: "ComputeHash (ebVerifier e) raw (ebIv e) [] = (v, Inr tag)"
    using verifier_Hash_runs [OF assms(5,6)] unfolding ComputeHash_def by blast
  let ?t = "join ''.'' [raw, [], b64_encode RawURLEncoding (ebIv e), [], b64_encode RawURLEncoding tag]"
  have "b64_encode RawURLEncoding [] = []" by simp
  then have enc: "JweDirectEncryptorBlock_Encrypt e pt aad = (e\<lparr>ebKey := ebKey e, ebVerifier := v\<rparr>, Inr ?t)"
    using raw seal v
    by (simp add: JweDirectEncryptorBlock_Encrypt_def length_header_def [symmetric] JweRfc7516Compact_Marshal_def Let_def del: join.simps)
  have "\<exists>err. snd (JweDirectDecryptorBlock_Decrypt d ?t) = Inl err"
    if d: "bm_BlockSize (cbcMode (dbKey d)) = 16" "snd (bm_Crypt (cbcMode (dbKey d)) (bm_State (cbcMode (dbKey d))) []) = []" for d
  proof (cases "length ?t \<le> MaxCompactSize")
    case True
    then obtain jwe where "JweRfc7516Compact_Unmarshal zero_compact ?t = Inr jwe" "ProtectedHeader jwe = length_header e pt"
      "Ciphertext jwe = []"
      using block_encrypt_Inr [OF enc True assms(3,4)] seal by force
    moreover have "16 < length pt" using assms(1) by (simp add: MaxPlaintextSize_def)
    ultimately show ?thesis using assms(2) d by (intro empty_ciphertext_refused)
  qed (simp add: JweDirectDecryptorBlock_Decrypt_def)
  with enc show ?thesis by (intro exI [of _ "e\<lparr>ebKey := ebKey e, ebVerifier := v\<rparr>"] exI [of _ ?t] exI [of _ raw]
      exI [of _ "b64_encode RawURLEncoding tag"] conjI allI impI) simp_all
qed

theorem oversized_plaintext_lost_witness:
  "\<exists>e' t err. JweDirectEncryptorBlock_Encrypt demo_eb (replicate 67108865 CHR ''m'') [] = (e', Inr t)
    \<and> snd (JweDirectDecryptorBlock_Decrypt demo_db t) = Inl err"
proof -
  define pt where "pt = replicate 67108865 CHR ''m''"
  have big: "length pt > MaxPlaintextSize" "length pt < 2 ^ 64" by (simp_all add: MaxPlaintextSize_def pt_def)
  obtain mac where mac: "\<not> hmacDestroyed (hvKey (ebVerifier demo_eb))" "hmacHash (hvKey (ebVerifier demo_eb)) = Some mac"
    by (simp add: demo_hmac_def)
  have keys: "utf8_valid (cbcKid (ebKey demo_eb))" "map_of cbcAlgToEncMap (cbcAlg (ebKey demo_eb)) = Some EncA256CBC"
    using demo_cbc_keys by simp_all
  obtain e' t where "JweDirectEncryptorBlock_Encrypt demo_eb pt [] = (e', Inr t)"
    and lost: "\<And>d :: unit JweDirectDecryptorBlock. bm_BlockSize (cbcMode (dbKey d)) = 16
      \<Longrightarrow> snd (bm_Crypt (cbcMode (dbKey d)) (bm_State (cbcMode (dbKey d))) []) = []
      \<Longrightarrow> \<exists>err. snd (JweDirectDecryptorBlock_Decrypt d t) = Inl err"
    using oversized_plaintext_lost [OF big keys mac, of "[]"] by blast
  moreover have "\<exists>err. snd (JweDirectDecryptorBlock_Decrypt demo_db t) = Inl err"
    by (rule lost) (simp_all add: demo_cbc_def)
  ultimately show ?thesis unfolding pt_def by blast
qed

text \<open>
  A plaintext of whole blocks, the empty one included, is sealed into one block more than it has:
  the last sixteen octets of the ciphertext are zeros that were never encrypted.
\<close>

theorem aligned_plaintext_zero_block:
  assumes "cbc_pair (cbcMode k) D" "length pt mod 16 = 0" "length pt \<le> MaxPlaintextSize"
  shows "\<exists>k' c. AesCbcCryptor_Seal k pt = Inr (k', Some (c @ replicate 16 CHR 0x00)) \<and> length c = length pt
    \<and> c = snd (bm_Crypt (cbcMode k) (bm_State (cbcMode k)) pt)"
proof -
  have "bm_BlockSize (cbcMode k) = 16" "length (snd (bm_Crypt (cbcMode k) (bm_State (cbcMode k)) pt)) = length pt"
    using assms(1,2) by (simp_all add: cbc_pair_def)
  moreover have "trimSize k pt = pt" using assms(2,3) calculation(1) by (simp add: trimSize_def)
  ultimately show ?thesis using cbc_Seal [OF assms(1,3)] assms(2) by (simp add: zeros_def)
qed

theorem aligned_plaintext_zero_block_witness:
  "\<exists>k'. AesCbcCryptor_Seal demo_cbc [] = Inr (k', Some (replicate 16 CHR 0x00))"
  using aligned_plaintext_zero_block [OF demo_cbc_ok, of "[]"] by (simp add: demo_cbc_def)

text \<open>
  The length field of the MAC input is the number of octets of the header segment, not of bits as its
  comment and \<open>GetALFromAAD\<close> have it; for every header shorter than $2^{61}$ octets the two differ.
\<close>

theorem computeAL_octets:
  assumes "0 < length aad" "length aad < 2 ^ 61"
  shows "be_nat (computeAL aad) = length aad \<and> be_nat (GetALFromAAD aad) = 8 * length aad"
proof -
  have "length aad < 2 ^ 64" "8 * length aad < 2 ^ 64" using assms(2) by simp_all
  then show ?thesis
    using declared_length(2) [of "length aad"] GetALFromAAD_value [of aad] by (simp add: computeAL_def)
qed

theorem computeAL_octets_witness:
  "be_nat (computeAL ''abc'') = 3 \<and> be_nat (GetALFromAAD ''abc'') = 24"
  using computeAL_octets [of "''abc''"] by simp

end
