(* ===== verification/Interfaces_Laws.thy ===== *)
theory Interfaces_Laws
  imports Interfaces JwtVerify_Laws JweKeyEncryption_Laws JweBlock_Laws
begin

text \<open>
  Laws of the interfaces. A verifier over any trust store rests on what the store vouches for, and a
  service that adds and removes keys while it verifies tokens never accepts a revoked key again. The
  locale \<open>jwe_scheme\<close> is the contract of a pair of JWE encryptor and decryptor; both schemes obey it,
  and so does the interface. The texts that the three kinds of decryptor accept are disjoint.
\<close>

section \<open>Verifiers over an interface value\<close>

definition TrustStore_vouches :: "clock \<Rightarrow> TrustStore \<Rightarrow> string \<Rightarrow> string \<Rightarrow> VerificationKey \<Rightarrow> bool" where
  "TrustStore_vouches t store issuer kid vk = (case store of
     TsImpl s \<Rightarrow> store_vouches s issuer kid vk | TsJwks s \<Rightarrow> jwks_vouches t s issuer kid vk)"

interpretation any_store: trust_store "TrustStore_Get C t answer" "TrustStore_vouches t" for C t answer
proof
  fix s issuer kid s' vk assume "TrustStore_Get C t answer s issuer kid = (s', Inr (Some vk))"
  then show "TrustStore_vouches t s' issuer kid vk"
    by (cases s) (auto simp: TrustStore_Get_def TrustStore_vouches_def map_prod_def split: prod.splits
        intro: local_store.get_vouched remote_store.get_vouched)
qed

text \<open>A service: keys are added and removed and tokens are verified, in any order.\<close>

inductive service_step :: "crypto_lib \<Rightarrow> JwtVerifierImpl \<Rightarrow> JwtVerifierImpl \<Rightarrow> bool" where
  add: "service_step C v (v\<lparr>jvStore := fst (TrustStore_Add (jvStore v) issuer jwk)\<rparr>)"
| remove: "service_step C v (v\<lparr>jvStore := fst (TrustStore_Remove (jvStore v) issuer kid)\<rparr>)"
| verify: "service_step C v (fst (JwtVerifier_Verify C t answer now v jwt audience))"

definition TrustStore_revoked :: "TrustStore \<Rightarrow> string \<Rightarrow> string \<Rightarrow> bool" where
  "TrustStore_revoked store issuer kid = (case store of TsImpl s \<Rightarrow> is_revoked s issuer kid | TsJwks _ \<Rightarrow> False)"

lemma TrustStore_Remove_revokes: "TrustStore_Remove s issuer kid = (s', True) \<Longrightarrow> TrustStore_revoked s' issuer kid"
  by (auto simp: TrustStore_Remove_def TrustStore_revoked_def JwksTrustStore_Remove_def TrustKeyStoreImpl_Remove_def is_revoked_def
      split: TrustStore.splits option.splits)

text \<open>Verification leaves the store as it is, or as the one \<open>Get\<close> it makes leaves it.\<close>

lemma Verify_store:
  "fst (JwtVerifierImpl_Verify C get s now jwt audience) = s
   \<or> (\<exists>issuer kid. fst (JwtVerifierImpl_Verify C get s now jwt audience) = fst (get s issuer kid))"
  by (auto simp: JwtVerifierImpl_Verify_def Let_def split: sum.splits prod.splits) (metis fst_conv)

lemma store_ops_keep_revoked:
  assumes "TrustStore_revoked s i k"
  shows "TrustStore_revoked (fst (TrustStore_Add s issuer jwk)) i k"
    "TrustStore_revoked (fst (TrustStore_Remove s issuer kid)) i k"
    "TrustStore_revoked (fst (TrustStore_Get C t answer s issuer kid)) i k"
proof -
  obtain l where s: "s = TsImpl l" "is_revoked l i k" using assms by (cases s) (simp_all add: TrustStore_revoked_def)
  note r = revoked_step [OF store_step.add s(2)] revoked_step [OF store_step.remove s(2)] revoked_step [OF store_step.get s(2)]
  with s(1) show "TrustStore_revoked (fst (TrustStore_Add s issuer jwk)) i k"
    "TrustStore_revoked (fst (TrustStore_Remove s issuer kid)) i k"
    "TrustStore_revoked (fst (TrustStore_Get C t answer s issuer kid)) i k"
    by (simp_all add: TrustStore_revoked_def TrustStore_Add_def TrustStore_Remove_def TrustStore_Get_def)
qed

lemma service_keeps_revoked:
  assumes "(service_step C)\<^sup>*\<^sup>* v w" "TrustStore_revoked (jvStore v) i k"
  shows "TrustStore_revoked (jvStore w) i k"
  using assms
proof (induction rule: rtranclp_induct)
  case (step w w')
  from step(2) step(3) [OF step(4)] show ?case
  proof cases
    case (verify t answer now jwt audience)
    have "jvStore w' = fst (JwtVerifierImpl_Verify C (TrustStore_Get C t answer) (jvStore w) now jwt audience)"
      by (simp add: verify JwtVerifier_Verify_def)
    with Verify_store [of C "TrustStore_Get C t answer" "jvStore w" now jwt audience] step(3) [OF step(4)] store_ops_keep_revoked(3)
    show ?thesis by auto
  qed (simp_all add: store_ops_keep_revoked)
qed

lemma vouched_not_revoked: "TrustStore_vouches t s issuer kid vk \<Longrightarrow> \<not> TrustStore_revoked s issuer kid"
  by (auto simp: TrustStore_vouches_def TrustStore_revoked_def store_vouches_def split: TrustStore.splits)

text \<open>
  C13: revocation reaches the verifier. Once a key of an issuer has been removed from a verifier's trust
  store, no token of that issuer under that key identifier is accepted any more, whatever keys are added
  and removed and whatever tokens are verified in between, by whichever kind of store.
\<close>

theorem revoked_key_rejects_tokens:
  assumes "TrustStore_Remove (jvStore v) issuer kid = (s1, True)" "(service_step C)\<^sup>*\<^sup>* (v\<lparr>jvStore := s1\<rparr>) w"
    "JwtVerifier_Verify C t answer now w jwt audience = (w', Inr (kid', claims))"
  shows "\<exists>(token :: Jwt) body. Jwt_Unmarshal jwt = Inr (token, body) \<and> claims = jwtClaims token
    \<and> \<not> (cIssuer claims = issuer \<and> hKid (jwtHeader token) = kid)"
proof -
  obtain s' where s': "JwtVerifierImpl_Verify C (TrustStore_Get C t answer) (jvStore w) now jwt audience = (s', Inr (kid', claims))"
    "w' = w\<lparr>jvStore := s'\<rparr>"
    using assms(3) by (cases "JwtVerifierImpl_Verify C (TrustStore_Get C t answer) (jvStore w) now jwt audience")
      (auto simp: JwtVerifier_Verify_def)
  have "(service_step C)\<^sup>*\<^sup>* (v\<lparr>jvStore := s1\<rparr>) w'"
    using assms(2) service_step.verify [of C w t answer now jwt audience] assms(3) by (simp add: rtranclp.rtrancl_into_rtrancl)
  then have "TrustStore_revoked s' issuer kid"
    using service_keeps_revoked [of C _ w' issuer kid] TrustStore_Remove_revokes [OF assms(1)] s'(2) by fastforce
  with any_store.verified_by_vouched_key [OF s'(1)] vouched_not_revoked show ?thesis by blast
qed

text \<open>A service that has revoked another key of the issuer and added one for a second issuer still accepts a token.\<close>

definition revoked_other :: "Jwk \<Rightarrow> TrustKeyStoreImpl" where
  "revoked_other pub = (store_of pub)\<lparr>tksRevoked := [''i'' \<mapsto> {''other''}]\<rparr>"

lemma revoked_other_removed:
  "TrustStore_Remove (jvStore (NewJwtVerifier (TsImpl (store_of pub)))) ''i'' ''other'' = (TsImpl (revoked_other pub), True)"
  by (simp add: TrustStore_Remove_def TrustKeyStoreImpl_Remove_def NewJwtVerifier_def store_of_def revoked_other_def)

lemma demo_service:
  "\<exists>pub jwt w' kid claims. JwtVerifier_Verify demo_lib demo_clock BadRequest 1000
      \<lparr>jvStore = fst (TrustStore_Add (TsImpl (revoked_other pub)) ''j'' demo_ec)\<rparr> jwt [''a''] = (w', Inr (kid, claims))"
proof -
  obtain t where t: "JwtSignerImpl_Sign demo_lib [] 0 [] demo_jwt_signer demo_settable demo_untyped_values = Inr t"
    "length t \<le> MaxCompactSize" using demo_signed_token by blast
  obtain pub pub' vk where pub: "PublicFromPrivate demo_lib (EcPriv demo_ec_priv) = Inr pub"
    "NewVerificationKey pub = (pub', Inr vk)" "Jwk_Kid pub = ''k1''" using demo_public by blast
  let ?s = "fst (TrustKeyStoreImpl_Add (revoked_other pub) ''j'' demo_ec)"
  have "Jwk_Kid demo_ec = ''k1''" by (simp add: demo_ec_def Jwk_Kid_def jwk_get_def)
  then have s: "stored ?s ''i'' ''k1'' = Some pub" "\<not> is_revoked ?s ''i'' ''k1''"
    by (simp_all add: Add_stored) (simp_all add: stored_def revoked_other_def store_of_def is_revoked_def TrustKeyStoreImpl_Add_def Let_def)
  have "snd (JwtVerifierImpl_Verify demo_lib TrustKeyStoreImpl_Get ?s 1000 t [''a''])
    = Inr (Jwk_Kid (EcPriv demo_ec_priv), (jwtClaims (demo_jwt []))\<lparr>cUntyped := sort_key fst (cUntyped demo_claims)\<rparr>)"
    by (rule signed_token_verifies [OF demo_signer_made pub(1,2) demo_lib_correct _ _ _ _ _ demo_token [symmetric] demo_encoded t(1)
          _ _ t(2), where xs = "[''a'']"])
      (use demo_claims_wf s in \<open>simp_all add: demo_kid demo_settable_def\<close>)
  then have "snd (JwtVerifier_Verify demo_lib demo_clock BadRequest 1000
      \<lparr>jvStore = fst (TrustStore_Add (TsImpl (revoked_other pub)) ''j'' demo_ec)\<rparr> t [''a''])
    = Inr (Jwk_Kid (EcPriv demo_ec_priv), (jwtClaims (demo_jwt []))\<lparr>cUntyped := sort_key fst (cUntyped demo_claims)\<rparr>)"
    by (simp add: JwtVerifier_Verify_def TrustStore_Add_def Verify_local)
  then show ?thesis by (metis prod.collapse)
qed

theorem revoked_key_rejects_tokens_witness:
  "\<exists>pub jwt w' kid claims (token :: Jwt) body. JwtVerifier_Verify demo_lib demo_clock BadRequest 1000
      \<lparr>jvStore = fst (TrustStore_Add (TsImpl (revoked_other pub)) ''j'' demo_ec)\<rparr> jwt [''a''] = (w', Inr (kid, claims))
    \<and> Jwt_Unmarshal jwt = Inr (token, body) \<and> \<not> (cIssuer claims = ''i'' \<and> hKid (jwtHeader token) = ''other'')"
proof -
  obtain pub jwt w' kid claims where v: "JwtVerifier_Verify demo_lib demo_clock BadRequest 1000
      \<lparr>jvStore = fst (TrustStore_Add (TsImpl (revoked_other pub)) ''j'' demo_ec)\<rparr> jwt [''a''] = (w', Inr (kid, claims))"
    using demo_service by blast
  have "(service_step demo_lib)\<^sup>*\<^sup>* ((NewJwtVerifier (TsImpl (store_of pub)))\<lparr>jvStore := TsImpl (revoked_other pub)\<rparr>)
      \<lparr>jvStore = fst (TrustStore_Add (TsImpl (revoked_other pub)) ''j'' demo_ec)\<rparr>"
    using service_step.add [of demo_lib "\<lparr>jvStore = TsImpl (revoked_other pub)\<rparr>" "''j''" demo_ec]
    by (simp add: NewJwtVerifier_def r_into_rtranclp)
  from revoked_key_rejects_tokens [OF revoked_other_removed this v] v show ?thesis by blast
qed

section \<open>JWE encryptors and decryptors\<close>

locale jwe_scheme =
  fixes encrypt :: "'e \<Rightarrow> bytes \<Rightarrow> bytes \<Rightarrow> 'e \<times> (err + string)"
    and decrypt :: "'d \<Rightarrow> string \<Rightarrow> 'd \<times> (err + bytes \<times> bytes option)"
    and paired :: "'e \<Rightarrow> 'd \<Rightarrow> bool"
    and fits :: "'e \<Rightarrow> bytes \<Rightarrow> bytes \<Rightarrow> bool"
    and carried :: "'e \<Rightarrow> bytes \<Rightarrow> bytes option"
  assumes decrypts: "paired e d \<Longrightarrow> encrypt e pt aad = (e', Inr t) \<Longrightarrow> length t \<le> MaxCompactSize \<Longrightarrow> fits e pt aad \<Longrightarrow>
      snd (decrypt d t) = Inr (pt, carried e aad)"
begin

text \<open>Two messages that one decryptor takes are told apart: the text determines plaintext and additional data.\<close>

lemma unambiguous:
  assumes "paired e d" "encrypt e pt aad = (e', Inr t)" "fits e pt aad"
    and "paired f d" "encrypt f pt' aad' = (f', Inr t)" "fits f pt' aad'" and "length t \<le> MaxCompactSize"
  shows "pt = pt' \<and> carried e aad = carried f aad'"
  using decrypts [OF assms(1,2,7,3)] decrypts [OF assms(4,5,7,6)] by simp

end

definition aead_paired :: "JweDirectEncryptorAead \<Rightarrow> JweDirectDecryptorAeadImpl \<Rightarrow> bool" where
  "aead_paired e d \<longleftrightarrow> aead_correct (gcmAead (deKey e)) \<and> rng_exact (gcmRng (deKey e)) \<and> ''decrypt'' \<in> set (gcmOpts (deKey e))
     \<and> utf8_valid (gcmKid (deKey e)) \<and> gcmKid (deKey e) \<noteq> [] \<and> (\<exists>enc. map_of gcmAlgToEncMap (gcmAlg (deKey e)) = Some enc)
     \<and> ddKeystore d (gcmKid (deKey e)) = Some (deKey e)"

definition block_paired :: "'b JweDirectEncryptorBlock \<Rightarrow> 'b JweDirectDecryptorBlock \<Rightarrow> bool" where
  "block_paired e d \<longleftrightarrow> cbc_pair (cbcMode (ebKey e)) (cbcMode (dbKey d)) \<and> cbcKid (dbKey d) = cbcKid (ebKey e)
     \<and> cbcAlg (dbKey d) = cbcAlg (ebKey e) \<and> same_mac (dbVerifier d) (ebVerifier e)
     \<and> utf8_valid (cbcKid (ebKey e)) \<and> (\<exists>enc. map_of cbcAlgToEncMap (cbcAlg (ebKey e)) = Some enc)"

fun jwe_paired :: "'b JweEncryptor \<Rightarrow> 'b JweDecryptor \<Rightarrow> bool" where
  "jwe_paired (JeAead e) (JdAead d) = aead_paired e d"
| "jwe_paired (JeBlock e) (JdBlock d) = block_paired e d"
| "jwe_paired _ _ = False"

text \<open>What a scheme takes, and what its decryptor returns of the additional data: the AES-CBC scheme carries none.\<close>

definition jwe_fits :: "'b JweEncryptor \<Rightarrow> bytes \<Rightarrow> bytes \<Rightarrow> bool" where
  "jwe_fits e pt aad = (case e of JeAead _ \<Rightarrow> length aad \<le> MaxBlobSize | JeBlock _ \<Rightarrow> length pt < MaxPlaintextSize)"

definition jwe_carried :: "'b JweEncryptor \<Rightarrow> bytes \<Rightarrow> bytes option" where
  "jwe_carried e aad = (case e of JeAead _ \<Rightarrow> if aad = [] then None else Some aad | JeBlock _ \<Rightarrow> None)"

interpretation any_scheme: jwe_scheme JweEncryptor_Encrypt JweDecryptor_Decrypt jwe_paired jwe_fits jwe_carried
proof
  fix e :: "'b JweEncryptor" and d pt aad e' t
  assume a: "jwe_paired e d" "JweEncryptor_Encrypt e pt aad = (e', Inr t)" "length t \<le> MaxCompactSize" "jwe_fits e pt aad"
  show "snd (JweDecryptor_Decrypt d t) = Inr (pt, jwe_carried e aad)"
  proof (cases "(e, d)" rule: jwe_paired.cases)
    case (1 x y)
    then have "JweDirectEncryptorAead_Encrypt (NewJweDirectEncryptorAead (deKey x) (deExternalIV x)) pt aad = Inr t"
      using a(2) by (cases x) (auto simp: JweEncryptor_Encrypt_def)
    with 1 a direct_roundtrip [of "deKey x" "deExternalIV x" pt aad t _ y] show ?thesis
      by (auto simp: JweDecryptor_Decrypt_def aead_paired_def jwe_fits_def jwe_carried_def)
  next
    case (2 x y)
    then obtain x' where "JweDirectEncryptorBlock_Encrypt x pt aad = (x', Inr t)"
      using a(2) by (cases "JweDirectEncryptorBlock_Encrypt x pt aad") (auto simp: JweEncryptor_Encrypt_def)
    with 2 a block_roundtrip [of x pt aad x' t y] show ?thesis
      by (auto simp: JweDecryptor_Decrypt_def block_paired_def jwe_fits_def jwe_carried_def)
  qed (use a(1) in auto)
qed

text \<open>
  C5: the contract of the JWE interfaces. Whatever the scheme behind \<open>JweEncryptor\<close>, a text it produces is
  decrypted by the paired \<open>JweDecryptor\<close> to the plaintext and, for AES-GCM with a drawn nonce or one chosen
  by the backend, the additional data; and no other message encrypted for that decryptor has the same text.
\<close>

theorem jwe_interface_contract:
  assumes "jwe_paired e d" "JweEncryptor_Encrypt e pt aad = (e', Inr t)" "jwe_fits e pt aad" "length t \<le> MaxCompactSize"
  shows "snd (JweDecryptor_Decrypt d t) = Inr (pt, jwe_carried e aad)
    \<and> (\<forall>f pt' aad' f'. jwe_paired f d \<longrightarrow> JweEncryptor_Encrypt f pt' aad' = (f', Inr t) \<longrightarrow> jwe_fits f pt' aad' \<longrightarrow>
        pt' = pt \<and> jwe_carried f aad' = jwe_carried e aad)"
  using any_scheme.decrypts [OF assms(1,2,4,3)] any_scheme.unambiguous [OF assms(1-3) _ _ _ assms(4)] by metis

lemma demo_aead_paired:
  "jwe_paired (JeAead (NewJweDirectEncryptorAead demo_gcm False) :: unit JweEncryptor) (JdAead (NewJweDirectDecryptorAeadImpl [demo_gcm]) :: unit JweDecryptor)"
  using demo_gcm_ok by (simp add: aead_paired_def NewJweDirectDecryptorAeadImpl_def) (simp add: demo_gcm_def gcmAlgToEncMap_def)

theorem jwe_interface_contract_witness:
  "\<exists>t. JweEncryptor_Encrypt (JeAead (NewJweDirectEncryptorAead demo_gcm False) :: unit JweEncryptor) ''m'' ''a''
      = (JeAead (NewJweDirectEncryptorAead demo_gcm False), Inr t)
    \<and> snd (JweDecryptor_Decrypt (JdAead (NewJweDirectDecryptorAeadImpl [demo_gcm]) :: unit JweDecryptor) t) = Inr (''m'', Some ''a'')"
proof -
  obtain t where t: "JweDirectEncryptorAead_Encrypt (NewJweDirectEncryptorAead demo_gcm False) ''m'' ''a'' = Inr t" "length t \<le> MaxCompactSize"
    using demo_gcm_text by blast
  then have e: "JweEncryptor_Encrypt (JeAead (NewJweDirectEncryptorAead demo_gcm False) :: unit JweEncryptor) ''m'' ''a''
      = (JeAead (NewJweDirectEncryptorAead demo_gcm False), Inr t)"
    by (simp add: JweEncryptor_Encrypt_def)
  from jwe_interface_contract [OF demo_aead_paired e _ t(2)] e show ?thesis
    by (intro exI [of _ t]) (simp add: jwe_fits_def jwe_carried_def MaxBlobSize_def)
qed

section \<open>Which decryptor accepts which text\<close>

text \<open>The algorithm the received header names.\<close>

definition header_alg :: "string \<Rightarrow> Alg" where
  "header_alg t = (case decode_jwe_header (splitn CHR ''.'' 5 t ! 0) zero_JweHeader of Inl _ \<Rightarrow> [] | Inr h \<Rightarrow> hAlg h)"

lemma Jwe_Unmarshal_alg: "Jwe_Unmarshal zero_Jwe t = Inr j \<Longrightarrow> hAlg (jweHeader j) = header_alg t"
  by (auto simp: Jwe_Unmarshal_def header_alg_def zero_Jwe_def Let_def split: if_splits)

lemma JweCompact_Unmarshal_alg: "JweRfc7516Compact_Unmarshal zero_compact t = Inr j \<Longrightarrow> hAlg (ProtectedHeader j) = header_alg t"
  by (auto simp: JweRfc7516Compact_Unmarshal_def header_alg_def zero_compact_def Let_def split: if_splits)

lemma aead_accepts_alg: "JweDirectDecryptorAead_Decrypt d t = Inr r \<Longrightarrow> header_alg t = ''dir''"
  by (auto simp: JweDirectDecryptorAead_Decrypt_def split: if_splits option.splits dest: Jwe_Unmarshal_alg)

lemma block_accepts_alg: "JweDirectDecryptorBlock_Decrypt d t = (d', Inr r) \<Longrightarrow> header_alg t = cbcAlg (dbKey d)"
  by (auto simp: JweDirectDecryptorBlock_Decrypt_def AesCbcCryptor_Algorithm_def split: if_splits sum.splits
      dest: JweCompact_Unmarshal_alg)

lemma rsa_accepts_alg: "JweRsaKeyEncryption_Decrypt C d rng t h = Inr r \<Longrightarrow> OaepHashFromAlg (header_alg t) \<noteq> None"
  by (auto simp: JweRsaKeyEncryption_Decrypt_def split: if_splits option.splits dest: JweCompact_Unmarshal_alg)

text \<open>
  C33: the kinds of decryptor do not take each other's messages. A text that one of the direct AES-GCM
  decryptor, the AES-CBC decryptor with a cryptor of a listed algorithm and the RSA key-encryption
  decryptor decrypts is refused by the other two, whatever keys they hold.
\<close>

theorem jwe_decryptors_disjoint:
  assumes "cbcAlg (dbKey b) \<in> fst ` set cbcAlgToEncMap"
  shows "\<not> ((\<exists>r. JweDirectDecryptorAead_Decrypt d t = Inr r) \<and> (\<exists>b' r. JweDirectDecryptorBlock_Decrypt b t = (b', Inr r)))
    \<and> \<not> ((\<exists>r. JweDirectDecryptorAead_Decrypt d t = Inr r) \<and> (\<exists>r. JweRsaKeyEncryption_Decrypt C k rng t h = Inr r))
    \<and> \<not> ((\<exists>b' r. JweDirectDecryptorBlock_Decrypt b t = (b', Inr r)) \<and> (\<exists>r. JweRsaKeyEncryption_Decrypt C k rng t h = Inr r))"
proof -
  have "cbcAlg (dbKey b) \<in> {''A256CBC'', ''A256GCM''}" using assms by (auto simp: cbcAlgToEncMap_def)
  moreover have "OaepHashFromAlg ''dir'' = None" "OaepHashFromAlg ''A256CBC'' = None" "OaepHashFromAlg ''A256GCM'' = None"
    by (simp_all add: OaepHashFromAlg_def oaepAlgToHash_def)
  ultimately show ?thesis
    using aead_accepts_alg [of d t] block_accepts_alg [of b t] rsa_accepts_alg [of C k rng t h] by fastforce
qed

theorem jwe_decryptors_disjoint_witness:
  "\<exists>t. JweDirectDecryptorAead_Decrypt (NewJweDirectDecryptorAeadImpl [demo_gcm]) t = Inr (''m'', Some ''a'')
    \<and> (\<nexists>b' r. JweDirectDecryptorBlock_Decrypt demo_db t = (b', Inr r))"
proof -
  obtain t where t: "JweDirectEncryptorAead_Encrypt (NewJweDirectEncryptorAead demo_gcm False) ''m'' ''a'' = Inr t" "length t \<le> MaxCompactSize"
    using demo_gcm_text by blast
  have "ddKeystore (NewJweDirectDecryptorAeadImpl [demo_gcm]) (gcmKid demo_gcm) = Some demo_gcm"
    by (simp add: NewJweDirectDecryptorAeadImpl_def)
  from direct_roundtrip [OF t(1) demo_gcm_ok _ _ _ _ _ t(2) this]
  have a: "JweDirectDecryptorAead_Decrypt (NewJweDirectDecryptorAeadImpl [demo_gcm]) t = Inr (''m'', Some ''a'')"
    by (simp add: demo_gcm_def gcmAlgToEncMap_def MaxBlobSize_def)
  have "cbcAlg (dbKey demo_db) \<in> fst ` set cbcAlgToEncMap"
    by (simp add: demo_db_def NewJweDirectDecryptorBlock_def demo_cbc_def cbcAlgToEncMap_def)
  from jwe_decryptors_disjoint [OF this, of "NewJweDirectDecryptorAeadImpl [demo_gcm]" t] a show ?thesis by blast
qed

end
