(* ===== verification/JweBlock_Session.thy ===== *)
theory JweBlock_Session
  imports JweBlock_Laws
begin

text \<open>
  Several messages through one AES-CBC encryptor and one decryptor. The block modes of
  \<open>crypto/cipher\<close> chain across calls of \<open>CryptBlocks\<close>, and the cryptors never reset them. The modes
  are spelled out here, over a block cipher that is not part of the source, to see what the chaining
  does to the second message.
\<close>

section \<open>CBC of the standard library\<close>

fun xor_octet :: "char \<Rightarrow> char \<Rightarrow> char" where
  "xor_octet (Char a0 a1 a2 a3 a4 a5 a6 a7) (Char b0 b1 b2 b3 b4 b5 b6 b7) =
     Char (a0 \<noteq> b0) (a1 \<noteq> b1) (a2 \<noteq> b2) (a3 \<noteq> b3) (a4 \<noteq> b4) (a5 \<noteq> b5) (a6 \<noteq> b6) (a7 \<noteq> b7)"

definition xor_octets :: "bytes \<Rightarrow> bytes \<Rightarrow> bytes" where
  "xor_octets a b = map2 xor_octet a b"

function cbc_encrypt :: "(bytes \<Rightarrow> bytes) \<Rightarrow> bytes \<Rightarrow> bytes \<Rightarrow> bytes \<times> bytes" where
  "cbc_encrypt E iv src =
     (if length src < 16 then (iv, [])
      else let c = E (xor_octets iv (take 16 src)); (s, cs) = cbc_encrypt E c (drop 16 src) in (s, c @ cs))"
  by pat_completeness auto
termination
  by (relation "measure (\<lambda>(_, _, src). length src)") auto

function cbc_decrypt :: "(bytes \<Rightarrow> bytes) \<Rightarrow> bytes \<Rightarrow> bytes \<Rightarrow> bytes \<times> bytes" where
  "cbc_decrypt D iv src =
     (if length src < 16 then (iv, [])
      else let c = take 16 src; (s, ps) = cbc_decrypt D c (drop 16 src) in (s, xor_octets iv (D c) @ ps))"
  by pat_completeness auto
termination
  by (relation "measure (\<lambda>(_, _, src). length src)") auto

definition NewCBCEncrypter :: "(bytes \<Rightarrow> bytes) \<Rightarrow> bytes \<Rightarrow> bytes BlockMode" where
  "NewCBCEncrypter E iv = \<lparr>bm_State = iv, bm_BlockSize = 16, bm_Crypt = cbc_encrypt E\<rparr>"

definition NewCBCDecrypter :: "(bytes \<Rightarrow> bytes) \<Rightarrow> bytes \<Rightarrow> bytes BlockMode" where
  "NewCBCDecrypter D iv = \<lparr>bm_State = iv, bm_BlockSize = 16, bm_Crypt = cbc_decrypt D\<rparr>"

text \<open>What \<open>cipher.Block\<close> documents: blocks of sixteen octets, and decryption inverts encryption.\<close>

definition block_cipher :: "(bytes \<Rightarrow> bytes) \<Rightarrow> (bytes \<Rightarrow> bytes) \<Rightarrow> bool" where
  "block_cipher E D \<longleftrightarrow> (\<forall>b. length b = 16 \<longrightarrow> length (E b) = 16 \<and> length (D b) = 16 \<and> D (E b) = b)"

declare cbc_encrypt.simps [simp del] cbc_decrypt.simps [simp del]

lemma xor_octet_cancel [simp]: "xor_octet a (xor_octet a b) = b"
  by (cases a; cases b) auto

lemma xor_octet_zero [simp]: "xor_octet CHR 0x00 b = b"
  by (cases b) auto

lemma xor_octet_fixed: "xor_octet a b = b \<longleftrightarrow> a = CHR 0x00"
  by (cases a; cases b) auto

lemma length_xor_octets [simp]: "length (xor_octets a b) = min (length a) (length b)"
  by (simp add: xor_octets_def)

lemma xor_octets_cancel [simp]: "length b \<le> length a \<Longrightarrow> xor_octets a (xor_octets a b) = b"
  by (auto simp: xor_octets_def intro!: nth_equalityI)

lemma xor_octets_zeros [simp]: "length b \<le> n \<Longrightarrow> xor_octets (zeros n) b = b"
  by (auto simp: xor_octets_def zeros_def intro!: nth_equalityI)

lemma xor_octets_fixed: "length b \<le> length a \<Longrightarrow> xor_octets a b = b \<longleftrightarrow> take (length b) a = zeros (length b)"
  by (auto simp: xor_octets_def zeros_def list_eq_iff_nth_eq xor_octet_fixed)

lemma take_xor_octets: "take n (xor_octets a b) = xor_octets (take n a) (take n b)"
  by (simp add: xor_octets_def take_map take_zip)

lemma xor_octets_take: "xor_octets (take (length b) a) b = xor_octets a b"
  by (auto simp: xor_octets_def intro!: nth_equalityI)

section \<open>CBC inverts, and its states\<close>

lemma cbc_encrypt_length:
  assumes "block_cipher E D" "length iv = 16"
  shows "length (snd (cbc_encrypt E iv src)) = length src div 16 * 16 \<and> length (fst (cbc_encrypt E iv src)) = 16"
  using assms
proof (induction E iv src rule: cbc_encrypt.induct)
  case (1 E iv src)
  show ?case
  proof (cases "length src < 16")
    case False
    let ?c = "E (xor_octets iv (take 16 src))"
    have "length ?c = 16" using 1(2,3) False by (simp add: block_cipher_def)
    with 1(1) [OF False refl 1(2)] False show ?thesis
      by (subst (1 2) cbc_encrypt.simps) (simp add: split_beta Let_def le_div_geq not_less)
  qed (simp add: cbc_encrypt.simps 1)
qed

lemma cbc_decrypt_length:
  assumes "block_cipher E D" "length iv = 16"
  shows "length (snd (cbc_decrypt D iv src)) = length src div 16 * 16"
  using assms
proof (induction D iv src rule: cbc_decrypt.induct)
  case (1 D iv src)
  show ?case
  proof (cases "length src < 16")
    case False
    then have "length (D (take 16 src)) = 16" using 1(2) by (simp add: block_cipher_def)
    with 1(1) [OF False refl 1(2)] False 1(3) show ?thesis
      by (subst cbc_decrypt.simps) (simp add: split_beta Let_def le_div_geq not_less)
  qed (simp add: cbc_decrypt.simps)
qed

lemma cbc_inverse:
  assumes "block_cipher E D" "length iv = 16" "length src mod 16 = 0"
  shows "cbc_decrypt D iv (snd (cbc_encrypt E iv src) @ rest) =
    (fst (cbc_decrypt D (fst (cbc_encrypt E iv src)) rest), src @ snd (cbc_decrypt D (fst (cbc_encrypt E iv src)) rest))"
  using assms
proof (induction E iv src rule: cbc_encrypt.induct)
  case (1 E iv src)
  show ?case
  proof (cases "length src < 16")
    case True
    then have "src = []" using 1(4) by simp
    then show ?thesis by (simp add: cbc_encrypt.simps)
  next
    case False
    let ?x = "xor_octets iv (take 16 src)"
    have x: "length (E ?x) = 16" "D (E ?x) = ?x" using 1(2,3) False by (simp_all add: block_cipher_def)
    have e: "cbc_encrypt E iv src = (fst (cbc_encrypt E (E ?x) (drop 16 src)), E ?x @ snd (cbc_encrypt E (E ?x) (drop 16 src)))"
      using False by (subst cbc_encrypt.simps) (simp add: split_beta Let_def)
    have "length (drop 16 src) mod 16 = 0" using 1(4) False by (simp add: mod_if)
    from 1(1) [OF False refl 1(2) x(1) this] show ?thesis
      unfolding e by (subst cbc_decrypt.simps) (use False 1(3) x in \<open>simp add: split_beta Let_def\<close>)
  qed
qed

lemma cbc_modes_pair:
  assumes "block_cipher E D" "length iv = 16"
  shows "cbc_pair (NewCBCEncrypter E iv) (NewCBCDecrypter D iv)"
  using cbc_encrypt_length [OF assms] cbc_decrypt_length [OF assms] cbc_inverse [OF assms]
  by (simp add: cbc_pair_def NewCBCEncrypter_def NewCBCDecrypter_def dvd_div_mult_self mod_0_imp_dvd)

section \<open>One message\<close>

text \<open>
  An encryptor and a decryptor with the same identifier, label and MAC, over one block cipher; \<open>s\<close> and
  \<open>s'\<close> are the blocks their modes will chain from.
\<close>

definition linked :: "(bytes \<Rightarrow> bytes) \<Rightarrow> (bytes \<Rightarrow> bytes) \<Rightarrow> bytes \<Rightarrow> bytes
    \<Rightarrow> bytes JweDirectEncryptorBlock \<Rightarrow> bytes JweDirectDecryptorBlock \<Rightarrow> bool" where
  "linked E D s s' e d \<longleftrightarrow> block_cipher E D \<and> length s = 16 \<and> length s' = 16
   \<and> cbcMode (ebKey e) = NewCBCEncrypter E s \<and> cbcMode (dbKey d) = NewCBCDecrypter D s'
   \<and> cbcKid (dbKey d) = cbcKid (ebKey e) \<and> cbcAlg (dbKey d) = cbcAlg (ebKey e)
   \<and> same_mac (dbVerifier d) (ebVerifier e)
   \<and> utf8_valid (cbcKid (ebKey e)) \<and> cbcAlg (ebKey e) \<in> fst ` set cbcAlgToEncMap"

lemma cbc_decrypt_state:
  assumes "length src mod 16 = 0" "length s = 16"
  shows "length (fst (cbc_decrypt D s src)) = 16"
  using assms
proof (induction D s src rule: cbc_decrypt.induct)
  case (1 D s src)
  show ?case
  proof (cases "length src < 16")
    case False
    then have "length (drop 16 src) mod 16 = 0" using 1(2) by (simp add: mod_if)
    with 1(1) [OF False refl] False show ?thesis
      by (subst cbc_decrypt.simps) (simp add: split_beta Let_def)
  qed (simp add: cbc_decrypt.simps 1)
qed

lemma Seal_mode:
  assumes "AesCbcCryptor_Seal k pt = Inr (k', Some ct)" "cbcMode k = NewCBCEncrypter E s"
  shows "cbcMode k' = NewCBCEncrypter E (fst (cbc_encrypt E s (trimSize k pt)))" "cbcKid k' = cbcKid k" "cbcAlg k' = cbcAlg k"
  using assms
  by (auto simp: AesCbcCryptor_Seal_def CryptBlocks_def NewCBCEncrypter_def Let_def split_beta split: if_splits)

lemma Open_mode:
  assumes "length ct \<le> MaxPlaintextSize" "length ct mod 16 = 0" "cbcMode k = NewCBCDecrypter D s" "block_cipher E D" "length s = 16"
  shows "\<exists>k' r. AesCbcCryptor_Open k ct = Inr (k', Some (snd (cbc_decrypt D s ct) @ r))
    \<and> cbcMode k' = NewCBCDecrypter D (fst (cbc_decrypt D s ct)) \<and> cbcKid k' = cbcKid k \<and> cbcAlg k' = cbcAlg k"
proof -
  have "length ct \<le> length ct div 16 * 16 + 16" using assms(2) by linarith
  then show ?thesis
    using assms by (simp add: AesCbcCryptor_Open_def CryptBlocks_def getDestinationSize_16 NewCBCDecrypter_def zeros_def split_beta Let_def)
qed

lemma one_message:
  assumes l: "linked E D s s' e d" and enc: "JweDirectEncryptorBlock_Encrypt e pt aad = (e', Inr t)"
    and t: "length t \<le> MaxCompactSize" and pt: "length pt < MaxPlaintextSize"
    and src: "src = trimSize (ebKey e) pt"
    and ct: "ct = snd (cbc_encrypt E s src) @ zeros (if length pt mod 16 = 0 then 16 else 0)"
  shows "\<exists>d'. JweDirectDecryptorBlock_Decrypt d t = (d', Inr (take (length pt) (snd (cbc_decrypt D s' ct)), None))
    \<and> linked E D (fst (cbc_encrypt E s src)) (fst (cbc_decrypt D s' ct)) e' d'"
proof -
  from l obtain enc where keys: "utf8_valid (cbcKid (ebKey e))" "map_of cbcAlgToEncMap (cbcAlg (ebKey e)) = Some enc"
    unfolding linked_def by (metis map_of_eq_None_iff not_Some_eq)
  obtain sealed jwe where j: "AesCbcCryptor_Seal (ebKey e) pt = Inr (ebKey e', sealed)" "same_mac (ebVerifier e') (ebVerifier e)"
    "JweRfc7516Compact_Unmarshal zero_compact t = Inr jwe" "ProtectedHeader jwe = length_header e pt"
    "Ciphertext jwe = (case sealed of None \<Rightarrow> [] | Some c \<Rightarrow> c)" "snd (VerifyCompact (dbVerifier d) jwe) = Inr True"
    using block_encrypt_Inr [OF enc t keys] l unfolding linked_def by metis
  have pair: "cbc_pair (cbcMode (ebKey e)) (NewCBCDecrypter D s)" and bs: "bm_BlockSize (cbcMode (ebKey e)) = 16"
    using l cbc_modes_pair by (auto simp: linked_def NewCBCEncrypter_def)
  have sealed: "sealed = Some ct"
    using cbc_Seal [OF pair, of pt] j(1) pt l unfolding ct src by (auto simp: linked_def NewCBCEncrypter_def)
  note tr = trimSize_16 [OF bs, of pt, folded src]
  have len: "length (snd (cbc_encrypt E s src)) = length src"
    using cbc_encrypt_length [of E D s src] l tr(1) pt by (simp add: linked_def)
  then have ct16: "length ct mod 16 = 0" "length pt \<le> length ct"
    using tr(1) pt ct by (auto simp: zeros_def)
  have "length ct \<le> MaxPlaintextSize" using cbc_Seal_length [OF pair _ pt] j(1) sealed by simp
  then obtain k' r where k': "AesCbcCryptor_Open (dbKey d) ct = Inr (k', Some (snd (cbc_decrypt D s' ct) @ r))"
    "cbcMode k' = NewCBCDecrypter D (fst (cbc_decrypt D s' ct))" "cbcKid k' = cbcKid (dbKey d)" "cbcAlg k' = cbcAlg (dbKey d)"
    using Open_mode [of ct "dbKey d" D s' E] ct16(1) l unfolding linked_def by blast
  have "length (snd (cbc_decrypt D s' ct)) = length ct"
    using cbc_decrypt_length [of E D s' ct] l ct16(1) by (simp add: linked_def dvd_div_mult_self mod_0_imp_dvd)
  moreover have "length pt < 2 ^ 64" using pt by (simp add: MaxPlaintextSize_def)
  ultimately have "declared_plaintext jwe (snd (cbc_decrypt D s' ct) @ r) = Inr (take (length pt) (snd (cbc_decrypt D s' ct)))"
    using declared_plaintext_header [OF j(4)] ct16(2) by simp
  then have dec: "JweDirectDecryptorBlock_Decrypt d t = (d\<lparr>dbKey := k', dbVerifier := fst (VerifyCompact (dbVerifier d) jwe)\<rparr>,
      Inr (take (length pt) (snd (cbc_decrypt D s' ct)), None))"
    using block_decrypt_opened [OF j(3) t _ _ _ j(6), of k'] j(4,5) sealed ct16(1) k' l
    by (simp add: length_header_fields linked_def)
  have "linked E D (fst (cbc_encrypt E s src)) (fst (cbc_decrypt D s' ct)) e'
      (d\<lparr>dbKey := k', dbVerifier := fst (VerifyCompact (dbVerifier d) jwe)\<rparr>)"
    using l k' Seal_mode [OF j(1) [unfolded sealed], of E s] cbc_encrypt_length [of E D s src] cbc_decrypt_state [OF ct16(1), of s' D]
      same_mac_trans [OF same_mac_trans [OF VerifyCompact_state] same_mac_sym [OF j(2)]]
    unfolding linked_def src by auto
  with dec show ?thesis by blast
qed

lemma linked_src:
  assumes "linked E D s s' e d" "length pt < MaxPlaintextSize"
  shows "length (trimSize (ebKey e) pt) mod 16 = 0" "take (length pt) (trimSize (ebKey e) pt) = pt"
  using assms trimSize_16 [of "ebKey e" pt] by (simp_all add: linked_def NewCBCEncrypter_def)

text \<open>From the same chaining block the message comes out; unless it is whole blocks, the states stay equal.\<close>

lemma message_in_step:
  assumes l: "linked E D s s e d" and enc: "JweDirectEncryptorBlock_Encrypt e pt aad = (e', Inr t)"
    and t: "length t \<le> MaxCompactSize" and pt: "length pt < MaxPlaintextSize" "length pt mod 16 \<noteq> 0"
  shows "\<exists>d' s1. JweDirectDecryptorBlock_Decrypt d t = (d', Inr (pt, None)) \<and> linked E D s1 s1 e' d'"
proof -
  let ?src = "trimSize (ebKey e) pt"
  have "cbc_decrypt D s (snd (cbc_encrypt E s ?src) @ zeros 0) = (fst (cbc_encrypt E s ?src), ?src)"
    using cbc_inverse [of E D s ?src "[]"] l linked_src(1) [OF l pt(1)]
    by (simp add: linked_def zeros_def cbc_decrypt.simps [of _ _ "[]"])
  then show ?thesis
    using one_message [OF l enc t pt(1) refl refl] pt(2) linked_src(2) [OF l pt(1)] by auto
qed

lemma message_aligned:
  assumes l: "linked E D s s e d" and enc: "JweDirectEncryptorBlock_Encrypt e pt aad = (e', Inr t)"
    and t: "length t \<le> MaxCompactSize" and pt: "length pt < MaxPlaintextSize" "length pt mod 16 = 0"
  shows "\<exists>d'. JweDirectDecryptorBlock_Decrypt d t = (d', Inr (pt, None))
    \<and> linked E D (bm_State (cbcMode (ebKey e'))) (zeros 16) e' d'"
proof -
  let ?src = "trimSize (ebKey e) pt"
  have "fst (cbc_decrypt D x (zeros 16)) = zeros 16" for x
    by (subst cbc_decrypt.simps) (simp add: cbc_decrypt.simps [of _ _ "[]"] zeros_def Let_def)
  then have "fst (cbc_decrypt D s (snd (cbc_encrypt E s ?src) @ zeros 16)) = zeros 16"
    "take (length pt) (snd (cbc_decrypt D s (snd (cbc_encrypt E s ?src) @ zeros 16))) = pt"
    using cbc_inverse [of E D s ?src "zeros 16"] l linked_src [OF l pt(1)] pt
    by (simp_all add: linked_def trimSize_def NewCBCEncrypter_def)
  then obtain d' where "JweDirectDecryptorBlock_Decrypt d t = (d', Inr (pt, None))" "linked E D (fst (cbc_encrypt E s ?src)) (zeros 16) e' d'"
    using one_message [OF l enc t pt(1) refl refl] pt(2) by auto
  moreover from this(2) have "bm_State (cbcMode (ebKey e')) = fst (cbc_encrypt E s ?src)"
    by (simp add: linked_def NewCBCEncrypter_def)
  ultimately show ?thesis by auto
qed

lemma cbc_one_block:
  assumes "block_cipher E D" "length s = 16" "length b = 16"
  shows "snd (cbc_decrypt D s' (snd (cbc_encrypt E s b))) = xor_octets s' (xor_octets s b)"
  using assms
  by (simp add: cbc_encrypt.simps [of _ _ b] cbc_encrypt.simps [of _ _ "[]"] cbc_decrypt.simps [of _ _ "E _"]
      cbc_decrypt.simps [of _ _ "[]"] block_cipher_def Let_def)

text \<open>A short message decrypted from another chaining block.\<close>

lemma message_out_of_step:
  assumes l: "linked E D s (zeros 16) e d" and enc: "JweDirectEncryptorBlock_Encrypt e pt aad = (e', Inr t)"
    and t: "length t \<le> MaxCompactSize" and pt: "0 < length pt" "length pt < 16"
  shows "snd (JweDirectDecryptorBlock_Decrypt d t) = Inr (xor_octets s pt, None)"
proof -
  let ?src = "trimSize (ebKey e) pt"
  have mx: "length pt < MaxPlaintextSize" and al: "length pt mod 16 \<noteq> 0" using pt by (simp_all add: MaxPlaintextSize_def)
  have src: "length ?src = 16" "take (length pt) ?src = pt"
    using trimSize_16 [of "ebKey e" pt] l mx pt div_nat_eqI [of 16 1 "length pt + 15"]
    by (simp_all add: linked_def NewCBCEncrypter_def)
  have "snd (cbc_decrypt D (zeros 16) (snd (cbc_encrypt E s ?src))) = xor_octets s ?src"
    using cbc_one_block [of E D s ?src "zeros 16"] l src(1) by (simp add: linked_def)
  moreover have "take (length pt) (xor_octets s ?src) = xor_octets s pt"
    using src(2) by (simp add: take_xor_octets xor_octets_take)
  ultimately show ?thesis
    using one_message [OF l enc t mx refl refl] al by (auto simp: zeros_def)
qed

section \<open>Sequences of messages\<close>

text \<open>A sender that encrypts messages one after the other, and a receiver that decrypts what it gets.\<close>

fun encrypt_all :: "'b JweDirectEncryptorBlock \<Rightarrow> bytes list \<Rightarrow> err + string list" where
  "encrypt_all e [] = Inr []"
| "encrypt_all e (pt # pts) = (case JweDirectEncryptorBlock_Encrypt e pt [] of
     (e', Inl er) \<Rightarrow> Inl er
   | (e', Inr t) \<Rightarrow> rbind (encrypt_all e' pts) (\<lambda>ts. Inr (t # ts)))"

fun decrypt_all :: "'b JweDirectDecryptorBlock \<Rightarrow> string list \<Rightarrow> (err + bytes \<times> bytes option) list" where
  "decrypt_all d [] = []"
| "decrypt_all d (t # ts) = (let (d', r) = JweDirectDecryptorBlock_Decrypt d t in r # decrypt_all d' ts)"

lemma session_in_step:
  assumes "linked E D s s e d" "encrypt_all e pts = Inr ts" "\<forall>t \<in> set ts. length t \<le> MaxCompactSize"
    "\<forall>pt \<in> set pts. length pt < MaxPlaintextSize \<and> length pt mod 16 \<noteq> 0"
  shows "decrypt_all d ts = map (\<lambda>pt. Inr (pt, None)) pts"
  using assms
proof (induction pts arbitrary: s e d ts)
  case (Cons pt pts)
  then obtain e' t ts' where p: "JweDirectEncryptorBlock_Encrypt e pt [] = (e', Inr t)" "encrypt_all e' pts = Inr ts'" "ts = t # ts'"
    by (auto split: prod.splits sum.splits)
  then obtain d' s1 where "JweDirectDecryptorBlock_Decrypt d t = (d', Inr (pt, None))" "linked E D s1 s1 e' d'"
    using message_in_step [OF Cons.prems(1) p(1)] Cons.prems(3,4) by auto
  with Cons.IH [OF this(2) p(2)] Cons.prems(3,4) p(3) show ?case by simp
qed auto

lemma linked_new:
  assumes "block_cipher E D" "length iv = 16" "utf8_valid kid" "alg \<in> fst ` set cbcAlgToEncMap"
  shows "linked E D iv iv (NewJweDirectEncryptorBlock (NewAesCbcCryptor (NewCBCEncrypter E iv) kid alg) h iv)
    (NewJweDirectDecryptorBlock (NewAesCbcCryptor (NewCBCDecrypter D iv) kid alg) h)"
  using assms
  by (simp add: linked_def NewJweDirectEncryptorBlock_def NewJweDirectDecryptorBlock_def NewAesCbcCryptor_def)

text \<open>
  C12: an AES-CBC encryptor and decryptor made from one key, one IV and one MAC stay in step over any
  sequence of messages none of which is a whole number of blocks: the decryptor returns the messages, in
  order. The block cipher is assumed to invert on blocks.
\<close>

theorem block_session_roundtrip:
  assumes "block_cipher E D" "length iv = 16" "utf8_valid kid" "alg \<in> fst ` set cbcAlgToEncMap"
    "encrypt_all (NewJweDirectEncryptorBlock (NewAesCbcCryptor (NewCBCEncrypter E iv) kid alg) h iv) pts = Inr ts"
    "\<forall>t \<in> set ts. length t \<le> MaxCompactSize" "\<forall>pt \<in> set pts. length pt < MaxPlaintextSize \<and> length pt mod 16 \<noteq> 0"
  shows "decrypt_all (NewJweDirectDecryptorBlock (NewAesCbcCryptor (NewCBCDecrypter D iv) kid alg) h) ts
    = map (\<lambda>pt. Inr (pt, None)) pts"
  using session_in_step [OF linked_new [OF assms(1-4)] assms(5-7)] .

text \<open>
  C38: one message of whole blocks breaks the pair. The block of zeros that the encryptor appends is not
  part of its chain but is part of the decryptor's: the message itself comes out, and the next one, here
  a message shorter than a block, is returned with no error, combined by exclusive or with the
  encryptor's chaining block; it is wrong unless that block starts with zeros.
\<close>

theorem aligned_message_desynchronises:
  assumes "block_cipher E D" "length iv = 16" "utf8_valid kid" "alg \<in> fst ` set cbcAlgToEncMap"
    "JweDirectEncryptorBlock_Encrypt (NewJweDirectEncryptorBlock (NewAesCbcCryptor (NewCBCEncrypter E iv) kid alg) h iv) pt1 [] = (e1, Inr t1)"
    "JweDirectEncryptorBlock_Encrypt e1 pt2 [] = (e2, Inr t2)" "length t1 \<le> MaxCompactSize" "length t2 \<le> MaxCompactSize"
    "length pt1 mod 16 = 0" "length pt1 < MaxPlaintextSize" "0 < length pt2" "length pt2 < 16"
  shows "decrypt_all (NewJweDirectDecryptorBlock (NewAesCbcCryptor (NewCBCDecrypter D iv) kid alg) h) [t1, t2]
      = [Inr (pt1, None), Inr (xor_octets (bm_State (cbcMode (ebKey e1))) pt2, None)]
    \<and> (xor_octets (bm_State (cbcMode (ebKey e1))) pt2 = pt2
        \<longleftrightarrow> take (length pt2) (bm_State (cbcMode (ebKey e1))) = zeros (length pt2))"
proof -
  obtain d1 where d1: "JweDirectDecryptorBlock_Decrypt (NewJweDirectDecryptorBlock (NewAesCbcCryptor (NewCBCDecrypter D iv) kid alg) h) t1
      = (d1, Inr (pt1, None))" "linked E D (bm_State (cbcMode (ebKey e1))) (zeros 16) e1 d1"
    using message_aligned [OF linked_new [OF assms(1-4)] assms(5,7,10,9)] by blast
  then have "length (bm_State (cbcMode (ebKey e1))) = 16" by (simp add: linked_def)
  with d1 message_out_of_step [OF d1(2) assms(6,8,11,12)] xor_octets_fixed assms(12) show ?thesis
    by (simp add: split_beta)
qed

text \<open>A demonstration with the identity as block cipher.\<close>

definition demo_iv :: bytes where
  "demo_iv = replicate 16 CHR ''v''"

definition demo_sender :: "bytes JweDirectEncryptorBlock" where
  "demo_sender = NewJweDirectEncryptorBlock (NewAesCbcCryptor (NewCBCEncrypter (\<lambda>b. b) demo_iv) ''k'' ''A256CBC'') demo_hmac demo_iv"

lemma demo_sender_fields: "ebVerifier demo_sender = \<lparr>hvKey = demo_hmac\<rparr>" "ebIv demo_sender = demo_iv"
  "cbcMode (ebKey demo_sender) = NewCBCEncrypter (\<lambda>b. b) demo_iv" "cbcKid (ebKey demo_sender) = ''k''" "cbcAlg (ebKey demo_sender) = ''A256CBC''"
  by (simp_all add: demo_sender_def NewJweDirectEncryptorBlock_def NewAesCbcCryptor_def)

lemma demo_cipher: "block_cipher (\<lambda>b. b) (\<lambda>b. b)"
  by (simp add: block_cipher_def)

lemma demo_session_keys: "utf8_valid ''k''" "''A256CBC'' \<in> fst ` set cbcAlgToEncMap" "length demo_iv = 16"
  by (simp_all add: cbcAlgToEncMap_def demo_iv_def)

text \<open>Every encryption with a fixed tag and a short header, IV and message succeeds and is short.\<close>

lemma header_of_key: "ebKey e' = (ebKey e)\<lparr>cbcMode := m\<rparr> \<Longrightarrow> length_header e' pt = length_header e pt"
  by (simp add: length_header_def block_makeJweProtectedHeader_def)

lemma demo_step:
  assumes "cbcMode (ebKey e) = NewCBCEncrypter (\<lambda>b. b) s" "length s = 16" "length (ebIv e) = 16"
    "\<And>x. snd (verifier_Hash (ebVerifier e) x) = Inr (replicate 32 CHR ''h'')"
    "MarshalProtectedHeader (length_header e pt) = Inr raw" "length raw < 300" "length pt \<le> 16"
  shows "\<exists>v t. JweDirectEncryptorBlock_Encrypt e pt [] = (e\<lparr>ebKey := (ebKey e)\<lparr>cbcMode :=
      NewCBCEncrypter (\<lambda>b. b) (fst (cbc_encrypt (\<lambda>b. b) s (trimSize (ebKey e) pt)))\<rparr>, ebVerifier := v\<rparr>, Inr t)
    \<and> length t \<le> MaxCompactSize \<and> same_mac v (ebVerifier e)"
proof -
  have mx: "length pt < MaxPlaintextSize" using assms(7) by (simp add: MaxPlaintextSize_def)
  have pair: "cbc_pair (cbcMode (ebKey e)) (NewCBCDecrypter (\<lambda>b. b) s)"
    using cbc_modes_pair [OF demo_cipher assms(2)] assms(1) by simp
  obtain k ct where k: "AesCbcCryptor_Seal (ebKey e) pt = Inr (k, Some ct)"
    using cbc_Seal [OF pair, of pt] mx by auto
  note m = Seal_mode [OF k assms(1)]
  have "length ct \<le> 32"
    using cbc_Seal [OF pair, of pt] k mx assms(7) trimSize_16 [of "ebKey e" pt] pair div_le_mono [of "length pt + 15" 31 16]
    by (auto simp: cbc_pair_def zeros_def)
  moreover have "\<not> padded RawURLEncoding" by (simp add: RawURLEncoding_def)
  moreover have "k = (ebKey e)\<lparr>cbcMode := NewCBCEncrypter (\<lambda>b. b) (fst (cbc_encrypt (\<lambda>b. b) s (trimSize (ebKey e) pt)))\<rparr>"
    using m by (cases k; cases "ebKey e") simp
  ultimately show ?thesis
    using block_encrypt_runs [OF assms(5) k assms(4), of "[]"] assms(3,5,6)
    by (fastforce simp: JweRfc7516Compact_Marshal_def MaxCompactSize_def length_b64_encode EncodedLen_def pad_def)
qed

lemma demo_headers:
  "case_sum (\<lambda>_. 1000) length (MarshalProtectedHeader (length_header demo_sender ''m'')) < 300"
  "case_sum (\<lambda>_. 1000) length (MarshalProtectedHeader (length_header demo_sender ''hello'')) < 300"
  "case_sum (\<lambda>_. 1000) length (MarshalProtectedHeader (length_header demo_sender ''sixteen octets!!'')) < 300"
  by code_simp+

text \<open>Two messages of at most one block, the second after the first.\<close>

lemma demo_two:
  assumes "case_sum (\<lambda>_. 1000) length (MarshalProtectedHeader (length_header demo_sender pt1)) < (300 :: nat)"
    "case_sum (\<lambda>_. 1000) length (MarshalProtectedHeader (length_header demo_sender pt2)) < (300 :: nat)"
    "length pt1 \<le> 16" "length pt2 \<le> 16"
  shows "\<exists>e1 t1 e2 t2. JweDirectEncryptorBlock_Encrypt demo_sender pt1 [] = (e1, Inr t1)
    \<and> JweDirectEncryptorBlock_Encrypt e1 pt2 [] = (e2, Inr t2) \<and> length t1 \<le> MaxCompactSize \<and> length t2 \<le> MaxCompactSize
    \<and> bm_State (cbcMode (ebKey e1)) = fst (cbc_encrypt (\<lambda>b. b) demo_iv (trimSize (ebKey demo_sender) pt1))"
proof -
  obtain raw1 raw2 where raw: "MarshalProtectedHeader (length_header demo_sender pt1) = Inr raw1" "length raw1 < 300"
    "MarshalProtectedHeader (length_header demo_sender pt2) = Inr raw2" "length raw2 < 300"
    using assms(1,2) by (auto split: sum.splits)
  define s where "s = fst (cbc_encrypt (\<lambda>b. b) demo_iv (trimSize (ebKey demo_sender) pt1))"
  obtain v t1 where 1: "JweDirectEncryptorBlock_Encrypt demo_sender pt1 [] =
      (demo_sender\<lparr>ebKey := (ebKey demo_sender)\<lparr>cbcMode := NewCBCEncrypter (\<lambda>b. b) s\<rparr>, ebVerifier := v\<rparr>, Inr t1)"
    "length t1 \<le> MaxCompactSize" "same_mac v (ebVerifier demo_sender)"
    using demo_step [of demo_sender demo_iv pt1 raw1] raw assms(3) demo_mac demo_session_keys(3)
    unfolding demo_sender_fields s_def by blast
  define e1 where "e1 = demo_sender\<lparr>ebKey := (ebKey demo_sender)\<lparr>cbcMode := NewCBCEncrypter (\<lambda>b. b) s\<rparr>, ebVerifier := v\<rparr>"
  have "length_header e1 pt2 = length_header demo_sender pt2"
    by (rule header_of_key) (simp add: e1_def)
  moreover have "snd (verifier_Hash (ebVerifier e1) x) = Inr (replicate 32 CHR ''h'')" for x
    using verifier_Hash_same [OF 1(3)] demo_mac by (simp add: e1_def demo_sender_fields)
  moreover have "length s = 16"
    using cbc_encrypt_length [OF demo_cipher demo_session_keys(3)] by (simp add: s_def)
  ultimately obtain e2 t2 where "JweDirectEncryptorBlock_Encrypt e1 pt2 [] = (e2, Inr t2)" "length t2 \<le> MaxCompactSize"
    using demo_step [of e1 s pt2 raw2] raw assms(4) demo_session_keys(3) by (auto simp: e1_def demo_sender_fields)
  moreover have "bm_State (cbcMode (ebKey e1)) = s"
    by (simp add: e1_def NewCBCEncrypter_def)
  ultimately show ?thesis
    using 1 unfolding e1_def [symmetric] s_def [symmetric] by blast
qed

theorem block_session_roundtrip_witness:
  "\<exists>ts. encrypt_all demo_sender [''m'', ''hello''] = Inr ts
    \<and> decrypt_all (NewJweDirectDecryptorBlock (NewAesCbcCryptor (NewCBCDecrypter (\<lambda>b. b) demo_iv) ''k'' ''A256CBC'') demo_hmac) ts
      = [Inr (''m'', None), Inr (''hello'', None)]"
proof -
  obtain e1 t1 e2 t2 where t: "JweDirectEncryptorBlock_Encrypt demo_sender ''m'' [] = (e1, Inr t1)"
    "JweDirectEncryptorBlock_Encrypt e1 ''hello'' [] = (e2, Inr t2)" "length t1 \<le> MaxCompactSize" "length t2 \<le> MaxCompactSize"
    using demo_two [OF demo_headers(1,2)] by auto
  then have "encrypt_all demo_sender [''m'', ''hello''] = Inr [t1, t2]" by simp
  moreover from block_session_roundtrip [OF demo_cipher demo_session_keys(3,1,2), where h = demo_hmac, folded demo_sender_def, OF this] t(3,4)
  have "decrypt_all (NewJweDirectDecryptorBlock (NewAesCbcCryptor (NewCBCDecrypter (\<lambda>b. b) demo_iv) ''k'' ''A256CBC'') demo_hmac) [t1, t2]
      = [Inr (''m'', None), Inr (''hello'', None)]"
    by (simp add: MaxPlaintextSize_def)
  ultimately show ?thesis by blast
qed

theorem aligned_message_desynchronises_witness:
  "\<exists>e1 t1 e2 t2 wrong. JweDirectEncryptorBlock_Encrypt demo_sender ''sixteen octets!!'' [] = (e1, Inr t1)
    \<and> JweDirectEncryptorBlock_Encrypt e1 ''m'' [] = (e2, Inr t2)
    \<and> decrypt_all (NewJweDirectDecryptorBlock (NewAesCbcCryptor (NewCBCDecrypter (\<lambda>b. b) demo_iv) ''k'' ''A256CBC'') demo_hmac) [t1, t2]
      = [Inr (''sixteen octets!!'', None), Inr (wrong, None)] \<and> wrong \<noteq> ''m''"
proof -
  obtain e1 t1 e2 t2 where t: "JweDirectEncryptorBlock_Encrypt demo_sender ''sixteen octets!!'' [] = (e1, Inr t1)"
    "JweDirectEncryptorBlock_Encrypt e1 ''m'' [] = (e2, Inr t2)" "length t1 \<le> MaxCompactSize" "length t2 \<le> MaxCompactSize"
    "bm_State (cbcMode (ebKey e1)) = fst (cbc_encrypt (\<lambda>b. b) demo_iv (trimSize (ebKey demo_sender) ''sixteen octets!!''))"
    using demo_two [OF demo_headers(3,1)] by auto
  have "trimSize (ebKey demo_sender) ''sixteen octets!!'' = ''sixteen octets!!''"
    by (simp add: trimSize_def demo_sender_fields NewCBCEncrypter_def MaxPlaintextSize_def)
  moreover have "take 1 (fst (cbc_encrypt (\<lambda>b. b) demo_iv ''sixteen octets!!'')) \<noteq> zeros 1"
    by code_simp
  ultimately have "take 1 (bm_State (cbcMode (ebKey e1))) \<noteq> zeros 1" using t(5) by simp
  with aligned_message_desynchronises [OF demo_cipher demo_session_keys(3,1,2), where h = demo_hmac, folded demo_sender_def, OF t(1-4)] t(1,2)
  show ?thesis by (fastforce simp: MaxPlaintextSize_def)
qed

end
