(* ===== verification/JwksStore_Sequential.thy ===== *)
theory JwksStore_Sequential
  imports JwksStore_Laws
begin

text \<open>
  The two models of the fetching trust store agree: a call of \<open>Get\<close> as one function is a run of the
  interleaved machine in which one goroutine acts while no other one is fetching. A lookup that the
  cache answers needs nobody else to act, not even the goroutine that is fetching.
\<close>

section \<open>The run of one call\<close>

definition at_point :: "(nat \<rightharpoonup> point) \<Rightarrow> nat \<Rightarrow> int \<Rightarrow> int list \<Rightarrow> (int \<times> VerificationKey list) list \<Rightarrow> JwksTrustStore \<Rightarrow> point \<Rightarrow> world" where
  "at_point ps g now as fs s p = \<lparr>w_store = s, w_now = now, w_points = ps(g \<mapsto> p), w_attempts = as, w_fetches = fs\<rparr>"

lemma at_point_sel [simp]:
  "w_store (at_point ps g now as fs s p) = s" "w_now (at_point ps g now as fs s p) = now"
  "w_points (at_point ps g now as fs s p) = ps(g \<mapsto> p)" "w_attempts (at_point ps g now as fs s p) = as"
  "w_fetches (at_point ps g now as fs s p) = fs"
  by (simp_all add: at_point_def)

lemma at_point_later:
  assumes "now \<le> now'"
  shows "get_step C (at_point ps g now as fs s p) (at_point ps g now' as fs s p)"
  using get_step.tick [of "now' - now" C "at_point ps g now as fs s p"] assms by (simp add: at_point_def)

text \<open>The steps of the goroutine, each with the clock at the moment it is taken.\<close>

lemma call_steps:
  "knownIssuer s issuer = (s', True) \<Longrightarrow> get_step C (at_point ps g now as fs s (Entered issuer kid)) (at_point ps g now as fs s' (Looking kid))"
  "knownIssuer s issuer = (s', False) \<Longrightarrow> get_step C (at_point ps g now as fs s (Entered issuer kid)) (at_point ps g now as fs s' (Returned (Inr None)))"
  "lookup now s kid = Some r \<Longrightarrow> get_step C (at_point ps g now as fs s (Looking kid)) (at_point ps g now as fs s (Returned r))"
  "lookup now s kid = None \<Longrightarrow> get_step C (at_point ps g now as fs s (Looking kid)) (at_point ps g now as fs s (Blocked kid))"
  "lookup now s kid = Some r \<Longrightarrow> get_step C (at_point ps g now as fs s (Locked kid)) (at_point ps g now as fs s (Returned r))"
  "lookup now s kid = None \<Longrightarrow> get_step C (at_point ps g now as fs s (Locked kid)) (at_point ps g now as fs s (Decided kid))"
  "get_step C (at_point ps g now as fs s (Decided kid)) (at_point ps g now (now # as) fs (refresh_start now s) (Requested kid))"
  "refresh_answer C answer = Inl e \<Longrightarrow> get_step C (at_point ps g now as fs s (Requested kid)) (at_point ps g now as fs s (Returned (Inl e)))"
  "refresh_answer C answer = Inr keys \<Longrightarrow> get_step C (at_point ps g now as fs s (Requested kid)) (at_point ps g now as fs s (Answered kid keys))"
  "get_step C (at_point ps g now as fs s (Answered kid keys)) (at_point ps g now as ((now, keys) # fs) (refresh_install now keys s) (Installed kid))"
  "get_step C (at_point ps g now as fs s (Installed kid)) (at_point ps g now as fs s (Returned (not_done (lookup now s kid))))"
  using get_step.known [of "at_point ps g now as fs s (Entered issuer kid)" g issuer kid s' C]
    get_step.unknown [of "at_point ps g now as fs s (Entered issuer kid)" g issuer kid s' C]
    get_step.hit [of "at_point ps g now as fs s (Looking kid)" g kid r C]
    get_step.miss [of "at_point ps g now as fs s (Looking kid)" g kid C]
    get_step.hit_locked [of "at_point ps g now as fs s (Locked kid)" g kid r C]
    get_step.decide [of "at_point ps g now as fs s (Locked kid)" g kid C]
    get_step.request [of "at_point ps g now as fs s (Decided kid)" g kid C]
    get_step.failed [of "at_point ps g now as fs s (Requested kid)" g kid C answer e]
    get_step.answered [of "at_point ps g now as fs s (Requested kid)" g kid C answer keys]
    get_step.install [of "at_point ps g now as fs s (Answered kid keys)" g kid keys C]
    get_step.finish [of "at_point ps g now as fs s (Installed kid)" g kid C]
  by (simp_all add: at_point_def)

lemma call_lock:
  assumes "\<forall>u q. u \<noteq> g \<longrightarrow> ps u = Some q \<longrightarrow> \<not> holds_lock q"
  shows "get_step C (at_point ps g now as fs s (Blocked kid)) (at_point ps g now as fs s (Locked kid))"
  using get_step.lock [of "at_point ps g now as fs s (Blocked kid)" g kid C] assms by (simp add: at_point_def)

lemma fetch_runs:
  assumes "refresh C a answer b s = (s', r)" "now \<le> a" "a \<le> b" "b \<le> l"
  shows "\<exists>now' as' fs'. (get_step C)\<^sup>*\<^sup>* (at_point ps g now as fs s (Decided kid))
    (at_point ps g now' as' fs' s' (Returned (case r of Inl e \<Rightarrow> Inl e | Inr _ \<Rightarrow> not_done (lookup l s' kid))))"
proof -
  note st = r_into_rtranclp [of "get_step C"]
  have req: "(get_step C)\<^sup>*\<^sup>* (at_point ps g now as fs s (Decided kid)) (at_point ps g a (a # as) fs (refresh_start a s) (Requested kid))"
    using rtranclp_trans [OF st [OF at_point_later [OF assms(2)]] st [OF call_steps(7)]] .
  show ?thesis
  proof (cases "refresh_answer C answer")
    case (Inl e)
    with assms(1) have "s' = refresh_start a s" "r = Inl e" by (auto simp: refresh_def)
    with rtranclp_trans [OF req st [OF call_steps(8) [OF Inl]]] show ?thesis by auto
  next
    case (Inr keys)
    with assms(1) have r: "s' = refresh_install b keys (refresh_start a s)" "r = Inr ()" by (auto simp: refresh_def)
    have "(get_step C)\<^sup>*\<^sup>* (at_point ps g a (a # as) fs (refresh_start a s) (Requested kid)) (at_point ps g b (a # as) ((b, keys) # fs) s' (Installed kid))"
      unfolding r(1) by (rule rtranclp_trans [OF st [OF call_steps(9) [OF Inr]]
          rtranclp_trans [OF st [OF at_point_later [OF assms(3)]] st [OF call_steps(10)]]])
    from rtranclp_trans [OF req rtranclp_trans [OF this rtranclp_trans [OF st [OF at_point_later [OF assms(4)]] st [OF call_steps(11)]]]]
    show ?thesis using r(2) by auto
  qed
qed

text \<open>
  The sequential \<open>Get\<close> is one behaviour of the concurrent store. For clock readings that do not go
  back, what \<open>Get\<close> returns and the store it leaves are what a goroutine in the interleaved machine
  returns and leaves, whatever other goroutines are waiting or have returned, as long as none of them
  is fetching.
\<close>

theorem Get_is_a_run:
  assumes "JwksTrustStore_Get C t answer s issuer kid = (s', r)" "\<forall>u q. u \<noteq> g \<longrightarrow> ps u = Some q \<longrightarrow> \<not> holds_lock q"
    "c_first t \<le> c_locked t" "c_locked t \<le> c_attempt t" "c_attempt t \<le> c_install t" "c_install t \<le> c_last t"
  shows "\<exists>now' as' fs'. (get_step C)\<^sup>*\<^sup>* (at_point ps g (c_first t) as fs s (Entered issuer kid)) (at_point ps g now' as' fs' s' (Returned r))"
proof -
  note st = r_into_rtranclp [of "get_step C"]
  obtain s1 known where k: "knownIssuer s issuer = (s1, known)" by fastforce
  show ?thesis
  proof (cases known)
    case False
    with assms(1) k have "s' = s1" "r = Inr None" by (auto simp: JwksTrustStore_Get_def)
    moreover have "knownIssuer s issuer = (s1, False)" using k False by simp
    ultimately show ?thesis using st [OF call_steps(2)] by metis
  next
    case True
    have "knownIssuer s issuer = (s1, True)" using k True by simp
    note look = st [OF call_steps(1) [OF this]]
    show ?thesis
    proof (cases "lookup (c_first t) s1 kid")
      case (Some r1)
      with assms(1) k True have "s' = s1" "r = r1" by (auto simp: JwksTrustStore_Get_def)
      with rtranclp_trans [OF look st [OF call_steps(3) [OF Some]]] show ?thesis by blast
    next
      case None
      have locked: "(get_step C)\<^sup>*\<^sup>* (at_point ps g (c_first t) as fs s (Entered issuer kid)) (at_point ps g (c_locked t) as fs s1 (Locked kid))"
        using rtranclp_trans [OF look rtranclp_trans [OF st [OF call_steps(4) [OF None]]
            rtranclp_trans [OF st [OF call_lock [OF assms(2)]] st [OF at_point_later [OF assms(3)]]]]] .
      show ?thesis
      proof (cases "lookup (c_locked t) s1 kid")
        case (Some r1)
        with assms(1) k True None have "s' = s1" "r = r1" by (auto simp: JwksTrustStore_Get_def)
        with rtranclp_trans [OF locked st [OF call_steps(5) [OF Some]]] show ?thesis by blast
      next
        case again: None
        obtain s2 rr where rf: "refresh C (c_attempt t) answer (c_install t) s1 = (s2, rr)" by fastforce
        then have "s' = s2" "r = (case rr of Inl e \<Rightarrow> Inl e | Inr _ \<Rightarrow> not_done (lookup (c_last t) s2 kid))"
          using assms(1) k True None again by (auto simp: JwksTrustStore_Get_def split: sum.splits)
        with rtranclp_trans [OF locked rtranclp_trans [OF st [OF call_steps(6) [OF again]]]] fetch_runs [OF rf assms(4-6)]
        show ?thesis by blast
      qed
    qed
  qed
qed

text \<open>
  A lookup that the cache answers waits for nobody. In every state, whoever holds the fetch lock, a
  goroutine that enters \<open>Get\<close> for a configured issuer and finds its answer in the cache returns it in two
  steps of its own, with no request and without any other goroutine moving.
\<close>

theorem cached_lookup_waits_for_nobody:
  assumes "w_points w g = Some (Entered issuer kid)" "knownIssuer (w_store w) issuer = (s, True)"
    "lookup (w_now w) s kid = Some r"
  shows "\<exists>w'. (get_step C ^^ 2) w w' \<and> w_points w' = (w_points w)(g \<mapsto> Returned r) \<and> w_attempts w' = w_attempts w"
proof -
  have "get_step C w (goto g (Looking kid) (w\<lparr>w_store := s\<rparr>))" by (rule get_step.known [OF assms(1,2)])
  moreover have "get_step C (goto g (Looking kid) (w\<lparr>w_store := s\<rparr>))
      (goto g (Returned r) (goto g (Looking kid) (w\<lparr>w_store := s\<rparr>)))"
    using assms(3) by (intro get_step.hit) simp_all
  ultimately have "(get_step C ^^ 2) w (goto g (Returned r) (goto g (Looking kid) (w\<lparr>w_store := s\<rparr>)))"
    by (auto simp: numeral_2_eq_2)
  then show ?thesis
    by (intro exI [of _ "goto g (Returned r) (goto g (Looking kid) (w\<lparr>w_store := s\<rparr>))"] conjI) simp_all
qed

text \<open>A lookup of an unknown key by goroutine 0 while goroutine 1 is fetching; and one on an empty cache whose request fails.\<close>

theorem cached_lookup_waits_for_nobody_witness:
  "\<exists>w'. (get_step demo_lib ^^ 2) (goto 1 (Entered ''i'' ''x'') demo_requested) w'
    \<and> w_points w' = (w_points demo_requested)(1 \<mapsto> Returned (Inr None)) \<and> w_points w' 0 = Some (Requested ''k'')"
proof -
  let ?s = "demo_jwks\<lparr>jsIssuers := [''i''], jsLastAttempt := Some 5\<rparr>"
  have "knownIssuer ?s ''i'' = (?s, True)" by (simp add: knownIssuer_def)
  moreover have "lookup 5 ?s ''x'' = Some (Inr None)"
    by (simp add: lookup_def demo_jwks_def NewJwksKeyStore_def coolingDown_def time_Sub_def DefaultJwksMinRefreshInterval_def)
  ultimately show ?thesis
    using cached_lookup_waits_for_nobody [of "goto 1 (Entered ''i'' ''x'') demo_requested" 1 "''i''" "''x''" ?s "Inr None" demo_lib]
    by (fastforce simp: demo_requested_def demo_world_def initial_world_def)
qed

theorem Get_is_a_run_witness:
  "\<exists>now' as' fs'. (get_step demo_lib)\<^sup>*\<^sup>* (at_point Map.empty 0 0 [] [] demo_jwks (Entered ''i'' ''k''))
    (at_point Map.empty 0 now' as' fs' (demo_jwks\<lparr>jsIssuers := [''i''], jsLastAttempt := Some 2\<rparr>) (Returned (Inl (Std (LibError ''http'')))))"
proof -
  let ?t = "\<lparr>c_first = 0, c_locked = 1, c_attempt = 2, c_install = 3, c_last = 4\<rparr>"
  have "JwksTrustStore_Get demo_lib ?t BadRequest demo_jwks ''i'' ''k''
      = (demo_jwks\<lparr>jsIssuers := [''i''], jsLastAttempt := Some 2\<rparr>, Inl (Std (LibError ''http'')))"
    by (simp add: JwksTrustStore_Get_def demo_known demo_lookup refresh_def refresh_answer_def refresh_start_def)
  from Get_is_a_run [OF this, of 0 Map.empty "[]" "[]"] show ?thesis by simp
qed

end
