(* ===== verification/Concurrency.thy ===== *)
theory Concurrency
  imports Prelude
begin

text \<open>
  Goroutines inside the methods of one shared object. A state says where each goroutine is, and an
  action moves one of them. When a rank bounds what every call has left to do, every action lowers the
  rank of the goroutine it moves, and some goroutine can act as long as one has something left, then
  every schedule is finite and ends with all calls returned. The two concurrent components of the
  library are instances.
\<close>

locale ranked_calls =
  fixes act :: "'w \<Rightarrow> 'w \<Rightarrow> bool"
    and points :: "'w \<Rightarrow> (nat \<rightharpoonup> 'p)"
    and rank_of :: "'p \<Rightarrow> nat"
    and most :: nat
    and good :: "'w \<Rightarrow> bool"
  assumes forward: "good w \<Longrightarrow> act w w' \<Longrightarrow>
      \<exists>t p p'. points w t = Some p \<and> points w' = (points w)(t \<mapsto> p') \<and> rank_of p' < rank_of p"
    and good_act: "good w \<Longrightarrow> act w w' \<Longrightarrow> good w'"
    and good_finite: "good w \<Longrightarrow> finite (dom (points w))"
    and rank_most: "rank_of p \<le> most"
    and progress: "good w \<Longrightarrow> points w t = Some p \<Longrightarrow> 0 < rank_of p \<Longrightarrow> \<exists>w'. act w w'"
begin

definition remaining :: "'w \<Rightarrow> nat" where
  "remaining w = (\<Sum>t \<in> dom (points w). rank_of (the (points w t)))"

definition finished :: "'w \<Rightarrow> bool" where
  "finished w \<longleftrightarrow> (\<forall>t p. points w t = Some p \<longrightarrow> rank_of p = 0)"

lemma remaining_moved:
  assumes "finite (dom (points w))" "points w t = Some p" "points w' = (points w)(t \<mapsto> p')"
  shows "remaining w' + rank_of p = remaining w + rank_of p'"
proof -
  have t: "t \<in> dom (points w)" and dom: "dom (points w') = dom (points w)"
    using assms(2,3) by auto
  have "(\<Sum>u \<in> dom (points w) - {t}. rank_of (the (points w' u))) = (\<Sum>u \<in> dom (points w) - {t}. rank_of (the (points w u)))"
    by (rule sum.cong) (auto simp: assms(3))
  then show ?thesis
    unfolding remaining_def dom sum.remove [OF assms(1) t] by (simp add: assms(2,3))
qed

lemma act_decreases:
  assumes "good w" "act w w'"
  shows "remaining w' < remaining w"
proof -
  obtain t p p' where "points w t = Some p" "points w' = (points w)(t \<mapsto> p')" "rank_of p' < rank_of p"
    using forward [OF assms] by blast
  with remaining_moved [OF good_finite [OF assms(1)]] show ?thesis by fastforce
qed

lemma run_decreases:
  assumes "(act ^^ n) w w'" "good w"
  shows "n + remaining w' \<le> remaining w \<and> good w'"
  using assms
proof (induction n arbitrary: w')
  case (Suc n)
  then obtain v where "(act ^^ n) w v" "act v w'" by auto
  with Suc.IH [of v] Suc.prems(2) act_decreases [of v w'] good_act [of v w'] show ?case by fastforce
qed simp

lemma remaining_le:
  assumes "good w"
  shows "remaining w \<le> most * card (dom (points w))"
  using sum_bounded_above [of "dom (points w)" "\<lambda>t. rank_of (the (points w t))" most] rank_most
  by (simp add: remaining_def mult.commute)

lemma stuck_finished: "good w \<Longrightarrow> \<nexists>w'. act w w' \<Longrightarrow> finished w"
  unfolding finished_def using progress by blast

lemma run_to_end:
  assumes "good w"
  shows "\<exists>w'. act\<^sup>*\<^sup>* w w' \<and> finished w'"
  using assms
proof (induction "remaining w" arbitrary: w rule: less_induct)
  case less
  show ?case
  proof (cases "\<exists>v. act w v")
    case True
    then obtain v where v: "act w v" ..
    with less act_decreases [OF _ v] good_act [OF _ v] show ?thesis by (meson converse_rtranclp_into_rtranclp)
  next
    case False
    with less.prems show ?thesis using stuck_finished by blast
  qed
qed

text \<open>Every schedule is bounded, ends only when all calls have returned, and can be carried to its end.\<close>

lemma schedules_end:
  assumes "good w"
  shows "((act ^^ k) w w' \<longrightarrow> k \<le> most * card (dom (points w)) \<and> ((\<nexists>v. act w' v) \<longrightarrow> finished w'))
    \<and> (\<exists>v. act\<^sup>*\<^sup>* w v \<and> finished v)"
  using run_decreases [OF _ assms] remaining_le [OF assms] run_to_end [OF assms] stuck_finished by fastforce

end

end
