(* ===== verification/JwksStore_Termination.thy ===== *)
theory JwksStore_Termination
  imports JwksStore_Laws Concurrency
begin

text \<open>
  Concurrent lookups of the fetching trust store come to an end: they are an instance of
  \<open>ranked_calls\<close>, since every action brings a goroutine closer to returning and a goroutine that waits
  for the fetch lock waits for one that can act.
\<close>

section \<open>Actions\<close>

text \<open>An action of a goroutine that is inside \<open>Get\<close>, after any time has passed.\<close>

definition acts :: "crypto_lib \<Rightarrow> world \<Rightarrow> world \<Rightarrow> bool" where
  "acts C w w' \<longleftrightarrow> (\<exists>d \<ge> 0. get_step C (w\<lparr>w_now := w_now w + d\<rparr>) w')
     \<and> w_points w' \<noteq> w_points w \<and> dom (w_points w') = dom (w_points w)"

definition all_returned :: "world \<Rightarrow> bool" where
  "all_returned w \<longleftrightarrow> (\<forall>t p. w_points w t = Some p \<longrightarrow> (\<exists>r. p = Returned r))"

inductive_cases get_stepE: "get_step C w w'"

lemma rank_le: "rank p \<le> 8"
  by (cases p) simp_all

lemma rank_0: "rank p = 0 \<longleftrightarrow> (\<exists>r. p = Returned r)"
  by (cases p) simp_all

text \<open>An action moves one goroutine, and moves it forward.\<close>

lemma acts_forward:
  assumes "acts C w w'"
  obtains t p p' where "w_points w t = Some p" "w_points w' = (w_points w)(t \<mapsto> p')" "rank p' < rank p"
proof -
  obtain d where g: "get_step C (w\<lparr>w_now := w_now w + d\<rparr>) w'"
    and ne: "w_points w' \<noteq> w_points w" "dom (w_points w') = dom (w_points w)"
    using assms by (auto simp: acts_def)
  from g show ?thesis
    by cases (use ne that in \<open>auto simp: domIff\<close>)
qed

lemma finite_calls:
  assumes "(get_step C)\<^sup>*\<^sup>* (initial_world s start) w"
  shows "finite (dom (w_points w))"
  using assms
proof (induction rule: rtranclp_induct)
  case (step w w')
  from step(2,3) show ?case by (induction rule: get_step.induct) simp_all
qed (simp add: initial_world_def)

lemma advances_acts: "advances C w t \<Longrightarrow> \<exists>w'. acts C w w'"
  unfolding advances_def acts_def
proof (elim exE conjE)
  fix w' p p' assume a: "get_step C w w'" "w_points w t = Some p" "w_points w' = (w_points w)(t \<mapsto> p')" "rank p' < rank p"
  have "w\<lparr>w_now := w_now w + 0\<rparr> = w" by simp
  moreover have "w_points w' \<noteq> w_points w" using a(2-4) by (metis fun_upd_same nat_less_le option.inject)
  moreover have "dom (w_points w') = dom (w_points w)" using a(2,3) by auto
  ultimately show "\<exists>w'. (\<exists>d\<ge>0. get_step C (w\<lparr>w_now := w_now w + d\<rparr>) w') \<and> w_points w' \<noteq> w_points w \<and> dom (w_points w') = dom (w_points w)"
    using a(1) by (metis order_refl)
qed

lemma acts_progress:
  assumes "w_points w t = Some p" "0 < rank p"
  shows "\<exists>w'. acts C w w'"
  using some_advances [OF assms, of C] advances_acts by blast

interpretation lookups: ranked_calls "acts C" w_points rank 8 "\<lambda>w. finite (dom (w_points w))" for C
proof unfold_locales
  show "\<exists>t p p'. w_points w t = Some p \<and> w_points w' = (w_points w)(t \<mapsto> p') \<and> rank p' < rank p"
    if "acts C w w'" for w w'
    using acts_forward [OF that] by metis
  show "finite (dom (w_points w'))" if "finite (dom (w_points w))" "acts C w w'" for w w'
    using that by (simp add: acts_def)
qed (auto intro: rank_le acts_progress)

lemma finished_returned: "lookups.finished w \<longleftrightarrow> all_returned w"
  by (auto simp: lookups.finished_def all_returned_def rank_0)

text \<open>
  C23: concurrent lookups end. In every reachable state with \<open>n\<close> calls of \<open>Get\<close>, whatever time passes and
  in whatever order the goroutines act, they act at most \<open>8 n\<close> times in all; when none can act any more
  all of them have returned; and such a final state is reachable. No goroutine waits for ever.
\<close>

theorem lookups_terminate:
  assumes "(get_step C)\<^sup>*\<^sup>* (initial_world s start) w"
  shows "(\<forall>k w'. (acts C ^^ k) w w' \<longrightarrow> k \<le> 8 * card (dom (w_points w)) \<and> ((\<nexists>v. acts C w' v) \<longrightarrow> all_returned w'))
    \<and> (\<exists>w'. (acts C)\<^sup>*\<^sup>* w w' \<and> all_returned w')"
  using lookups.schedules_end [OF finite_calls [OF assms]] finished_returned by metis

theorem lookups_terminate_witness:
  "\<exists>w'. (acts demo_lib)\<^sup>*\<^sup>* demo_requested w' \<and> all_returned w'"
  using lookups_terminate [OF demo_run] by blast

end
