(* ===== verification/Keys_Types.thy ===== *)
theory Keys_Types
  imports Keys_Laws
begin

text \<open>
  The dynamic types behind the interfaces. A \<open>jose.Jwk\<close> is one of five Go types; the constructors of
  keys dispatch on it. The type of what they return is that of the JWK, and private material never
  becomes a verification key.
\<close>

datatype family = RSA_family | EC_family | Oct_family

text \<open>The family of a key and whether it holds private material.\<close>

fun jwk_type :: "Jwk \<Rightarrow> family \<times> bool" where
  "jwk_type (RsaPub _) = (RSA_family, False)"
| "jwk_type (RsaPriv _) = (RSA_family, True)"
| "jwk_type (EcPub _) = (EC_family, False)"
| "jwk_type (EcPriv _) = (EC_family, True)"
| "jwk_type (Oct _) = (Oct_family, True)"

fun vk_type :: "VerificationKey \<Rightarrow> family \<times> bool" where
  "vk_type (VkRsa _) = (RSA_family, False)"
| "vk_type (VkEc _) = (EC_family, False)"

fun signer_type :: "Signer \<Rightarrow> family \<times> bool" where
  "signer_type (RsaSigner _) = (RSA_family, True)"
| "signer_type (EcSigner _) = (EC_family, True)"

text \<open>A signing key with the Go type it has, and the type of the \<open>crypto.Signer\<close> it holds.\<close>

fun sk_type :: "SigningKey \<Rightarrow> (family \<times> bool) \<times> (family \<times> bool)" where
  "sk_type (SkImpl k) = ((RSA_family, True), signer_type (skKey k))"
| "sk_type (SkEcdsa k) = ((EC_family, True), signer_type (eskKey k))"

lemma jwk_type_put [simp]: "jwk_type (jwk_put f j) = jwk_type j"
  by (cases j) (simp_all add: jwk_put_def)

lemma jwk_type_set [simp]: "jwk_type (Jwk_SetOps ops j) = jwk_type j" "jwk_type (Jwk_SetAlg a j) = jwk_type j"
  by (simp_all add: jwk_setters)

lemma PublicFromPrivate_type:
  assumes "PublicFromPrivate C jwk = Inr pub"
  shows "snd (jwk_type jwk)" "jwk_type pub = (fst (jwk_type jwk), False)"
proof -
  obtain out where out: "public_numbers C jwk = Inr out" "pub = public_metadata jwk out"
    using assms by (auto simp: PublicFromPrivate_numbers)
  then have "snd (jwk_type jwk) \<and> jwk_type out = (fst (jwk_type jwk), False)"
    by (cases jwk) (auto simp: public_numbers_def split: if_splits)
  then show "snd (jwk_type jwk)" "jwk_type pub = (fst (jwk_type jwk), False)"
    using out(2) public_metadata_put [of jwk out] by auto
qed

lemma fallback_alg_type: "fallback_alg jwk = Inr jwk1 \<Longrightarrow> jwk_type jwk1 = jwk_type jwk"
  by (auto simp: fallback_alg_def split: if_splits list.splits option.splits)

lemma NewVerificationKey_type:
  assumes "NewVerificationKey jwk = (jwk', Inr vk)"
  shows "vk_type vk = jwk_type jwk" "jwk_type jwk' = jwk_type jwk"
  using assms by (cases rule: NewVerificationKey_Inr; auto dest: fallback_alg_type)+

lemma NewSigningKey_type: "NewSigningKey C jwk required = Inr sk \<Longrightarrow> sk_type sk = (jwk_type jwk, jwk_type jwk) \<and> snd (jwk_type jwk)"
  by (erule NewSigningKey_Inr) auto

lemma Verifier_type:
  assumes "NewSigningKey C jwk required = Inr sk" "SigningKey_Verifier C sk = Inr vk"
  shows "vk_type vk = (fst (jwk_type jwk), False)"
proof -
  obtain pub where "PublicFromPrivate C jwk = Inr pub" "snd (NewVerificationKey pub) = Inr vk"
    using assms by (cases rule: NewSigningKey_Inr)
      (auto simp: SigningKey_Verifier_def SigningKeyImpl_Verifier_def ECDSASigningKey_Verifier_def)
  then show ?thesis
    using PublicFromPrivate_type(2) NewVerificationKey_type(1) by (metis prod.collapse)
qed

lemma LoadPrivateKey_type: "LoadPrivateKey C jwk required = Inr s \<Longrightarrow> signer_type s = jwk_type jwk"
  by (cases jwk) (auto simp: LoadPrivateKey_def Let_def split: if_splits prod.splits)

lemma LoadSymmetricAEAD_type: "LoadSymmetricAEAD C jwk required = Inr aead \<Longrightarrow> jwk_type jwk = (Oct_family, True)"
  by (cases jwk) (auto simp: LoadSymmetricAEAD_def loadSymmetricBytes_def split: if_splits option.splits)

text \<open>
  C27: the constructors of keys respect the dynamic type of the JWK. A verification key is made only from a
  public JWK and is of its family, and the JWK that \<open>NewVerificationKey\<close> rewrites keeps its type; a signing
  key is made only from a private JWK, has the Go type and holds the \<open>crypto.Signer\<close> of its family, and its
  verifier is the public key of the same family; decryption keys and AEADs are made only from private RSA and
  from symmetric JWKs.
\<close>

theorem key_types_respected:
  "(NewVerificationKey jwk = (jwk', Inr vk) \<longrightarrow> \<not> snd (jwk_type jwk) \<and> vk_type vk = jwk_type jwk \<and> jwk_type jwk' = jwk_type jwk)
   \<and> (NewSigningKey C jwk required = Inr sk \<longrightarrow> snd (jwk_type jwk) \<and> sk_type sk = (jwk_type jwk, jwk_type jwk)
        \<and> (\<forall>v. SigningKey_Verifier C sk = Inr v \<longrightarrow> vk_type v = (fst (jwk_type jwk), False)))
   \<and> (NewRsaDecryptionKey C jwk = Inr rk \<longrightarrow> jwk_type jwk = (RSA_family, True))
   \<and> (LoadSymmetricAEAD C jwk required = Inr aead \<longrightarrow> jwk_type jwk = (Oct_family, True))"
proof (intro conjI impI allI)
  assume v: "NewVerificationKey jwk = (jwk', Inr vk)"
  note t = NewVerificationKey_type [OF v]
  then show "vk_type vk = jwk_type jwk" "jwk_type jwk' = jwk_type jwk" by simp_all
  show "\<not> snd (jwk_type jwk)" unfolding t(1) [symmetric] by (cases vk) simp_all
next
  assume k: "NewSigningKey C jwk required = Inr sk"
  then show "snd (jwk_type jwk)" "sk_type sk = (jwk_type jwk, jwk_type jwk)" using NewSigningKey_type by blast+
  show "vk_type v = (fst (jwk_type jwk), False)" if "SigningKey_Verifier C sk = Inr v" for v
    using Verifier_type [OF k that] .
next
  assume "NewRsaDecryptionKey C jwk = Inr rk"
  then show "jwk_type jwk = (RSA_family, True)"
    using LoadPrivateKey_type by (fastforce simp: NewRsaDecryptionKey_iff)
qed (rule LoadSymmetricAEAD_type)

theorem key_types_respected_witness:
  "\<exists>vk. NewSigningKey demo_lib (EcPriv demo_ec_priv) [] = Inr (SkEcdsa demo_signer)
    \<and> SigningKey_Verifier demo_lib (SkEcdsa demo_signer) = Inr vk \<and> vk_type vk = (EC_family, False)"
proof -
  obtain vk where vk: "SigningKey_Verifier demo_lib (SkEcdsa demo_signer) = Inr vk"
    using demo_signer_verifier by (auto simp: SigningKey_Verifier_def)
  with key_types_respected [of "EcPriv demo_ec_priv" _ _ demo_lib "[]"] demo_signer_made show ?thesis
    by fastforce
qed

end
