(* ===== verification/Hmac_Laws.thy ===== *)
theory Hmac_Laws
  imports Hmac
begin

text \<open>
  The HMAC cryptor under concurrent calls: the mutex keeps every goroutine but its owner outside the
  critical section, so that the statements of \<open>Hash\<close> and \<open>Destroy\<close> take effect as if each call
  happened at once. The interleaved machine refines the machine whose steps are whole calls.
\<close>

inductive_cases hmac_stepE: "hmac_step w w'"

section \<open>The invariant\<close>

lemma point_ok_outside: "\<not> in_section p \<Longrightarrow> point_ok k p"
  by (cases p) auto

lemma hworld_ok_initial: "NewHmacShaCryptor kid h = Inr k \<Longrightarrow> hworld_ok (initial_hworld k)"
  by (auto simp: NewHmacShaCryptor_def initial_hworld_def hworld_ok_def split: if_splits)

lemma hworld_ok_owner:
  assumes "hworld_ok w" "hwPoints w t = Some p" "in_section p"
  shows "hwMutex w = Some t" "point_ok (hwKey w) p"
  using assms by (auto simp: hworld_ok_def)

text \<open>A statement of a goroutine outside the section: it starts a call, or takes a free mutex.\<close>

lemma hworld_ok_call: "hworld_ok w \<Longrightarrow> hwPoints w t = None \<Longrightarrow> \<not> in_section p \<Longrightarrow> hworld_ok (hgoto t p w)"
  by (auto simp: hworld_ok_def hgoto_def intro: point_ok_outside)

lemma hworld_ok_lock:
  assumes "hworld_ok w" "hwMutex w = None" "point_ok (hwKey w) p"
  shows "hworld_ok (hgoto t p (w\<lparr>hwMutex := Some t\<rparr>))"
  using assms by (fastforce simp: hworld_ok_def hgoto_def intro: point_ok_outside)

text \<open>A statement of the owner: nobody else is in the section, so the key is its own.\<close>

lemma hworld_ok_inside:
  assumes ok: "hworld_ok w" and p: "hwPoints w t = Some p" "in_section p" and pts: "hwPoints w' = hwPoints w"
    and k: "point_ok (hwKey w') p'" "\<not> hmacDestroyed (hwKey w') \<longrightarrow> hmacHash (hwKey w') \<noteq> None"
    and m: "in_section p' \<longrightarrow> hwMutex w' = Some t"
  shows "hworld_ok (hgoto t p' w')"
proof -
  have "hwMutex w = Some t"
    by (rule hworld_ok_owner(1) [OF ok p])
  then have "\<not> in_section q" if "hwPoints w t' = Some q" "t' \<noteq> t" for t' q
    using ok that by (auto simp: hworld_ok_def)
  with k m pts show ?thesis
    by (auto simp: hworld_ok_def hgoto_def intro: point_ok_outside)
qed

lemma hworld_ok_key: "hworld_ok w \<Longrightarrow> \<not> hmacDestroyed (hwKey w) \<Longrightarrow> \<exists>hh. hmacHash (hwKey w) = Some hh"
  by (auto simp: hworld_ok_def)

text \<open>The three kinds of statement in the section: nothing shared changes, the key changes, the mutex is released.\<close>

lemma hworld_ok_advance:
  assumes "hworld_ok w" "hwPoints w t = Some p" "in_section p" "point_ok (hwKey w) p'" "in_section p'"
  shows "hworld_ok (hgoto t p' w)"
  using hworld_ok_owner(1) [OF assms(1-3)] hworld_ok_key [OF assms(1)] assms(4)
  by (intro hworld_ok_inside [OF assms(1-3)]) auto

lemma hworld_ok_write:
  assumes "hworld_ok w" "hwPoints w t = Some p" "in_section p" "point_ok k p'"
    and "\<not> hmacDestroyed k \<longrightarrow> hmacHash k \<noteq> None" "in_section p'"
  shows "hworld_ok (hgoto t p' (w\<lparr>hwKey := k\<rparr>))"
  using hworld_ok_owner(1) [OF assms(1-3)] assms(4-) by (intro hworld_ok_inside [OF assms(1-3)]) auto

lemma hworld_ok_release:
  assumes "hworld_ok w" "hwPoints w t = Some p" "in_section p" "\<not> in_section p'"
  shows "hworld_ok (hgoto t p' (w\<lparr>hwMutex := None\<rparr>))"
  using hworld_ok_key [OF assms(1)] point_ok_outside [OF assms(4)] assms(4)
  by (intro hworld_ok_inside [OF assms(1-3)]) auto

lemma hworld_ok_step:
  assumes "hmac_step w w'" "hworld_ok w"
  shows "hworld_ok w'"
  using assms
proof (induction rule: hmac_step.induct)
  case (hash_test w t x)
  then show ?case
    using hworld_ok_key [OF hash_test(3,2)] by (intro hworld_ok_advance) auto
next
  case (hash_reset w t x hh)
  then show ?case
    using hworld_ok_owner [OF hash_reset(3,1)] by (intro hworld_ok_write) (auto simp: hash_Reset_def)
next
  case (hash_write w t x hh)
  then show ?case
    using hworld_ok_owner [OF hash_write(3,1)] by (intro hworld_ok_write) (auto simp: hash_Write_def)
next
  case (destroy_drop w t)
  then show ?case
    using hworld_ok_owner [OF destroy_drop(2,1)] by (intro hworld_ok_write) auto
qed (auto intro: hworld_ok_call hworld_ok_lock hworld_ok_advance hworld_ok_write hworld_ok_release)

lemma hworld_ok_reachable:
  assumes "NewHmacShaCryptor kid h = Inr k" "hmac_step\<^sup>*\<^sup>* (initial_hworld k) w"
  shows "hworld_ok w"
  using assms(2,1)
  by (induction rule: rtranclp_induct) (auto intro: hworld_ok_initial hworld_ok_step)

section \<open>Refinement of the atomic calls\<close>

lemma abs_hgoto: "abs_hworld (hgoto t p w) = (abs_hworld w)\<lparr>awCalls := (awCalls (abs_hworld w))(t \<mapsto> abs_point p)\<rparr>"
  by (auto simp: abs_hworld_def hgoto_def)

lemma abs_stutter: "hwPoints w t = Some p \<Longrightarrow> abs_point p' = abs_point p \<Longrightarrow> abs_key (hwKey w') = abs_key (hwKey w) \<Longrightarrow>
    hwPoints w' = hwPoints w \<Longrightarrow> abs_hworld (hgoto t p' w') = abs_hworld w"
  by (auto simp: abs_hworld_def hgoto_def)

lemma hmac_step_refines:
  assumes "hmac_step w w'" "hworld_ok w"
  shows "abs_hworld w' = abs_hworld w \<or> atomic_step (abs_hworld w) (abs_hworld w')"
  using assms
proof (induction rule: hmac_step.induct)
  case (call_hash w t x)
  have "atomic_step (abs_hworld w) (abs_hworld (hgoto t (HWait x) w))"
    unfolding abs_hgoto abs_point.simps using call_hash by (intro begin_hash) (simp add: abs_hworld_def)
  then show ?case ..
next
  case (call_destroy w t)
  have "atomic_step (abs_hworld w) (abs_hworld (hgoto t DWait w))"
    unfolding abs_hgoto abs_point.simps using call_destroy by (intro begin_destroy) (simp add: abs_hworld_def)
  then show ?case ..
next
  case (hash_refuse w t x)
  have "atomic_step (abs_hworld w) ((abs_hworld w)
      \<lparr>awKey := (abs_key (hwKey w))\<lparr>hmacHash := map_option hash_Reset (hmacHash (abs_key (hwKey w)))\<rparr>,
       awCalls := (awCalls (abs_hworld w))(t \<mapsto> AHashed x (Inl destroyed_panic))\<rparr>)"
    using hash_refuse by (intro run_hash) (auto simp: abs_hworld_def abs_key_def HmacShaCryptor_Hash_def)
  then show ?case
    using hash_refuse by (simp add: abs_hgoto) (simp add: abs_hworld_def abs_key_def)
next
  case (hash_sum w t x hh)
  then have k: "\<not> hmacDestroyed (hwKey w)" "hhWritten hh = x"
    using hworld_ok_owner(2) [OF hash_sum(3,1)] by auto
  define k' where "k' = fst (HmacShaCryptor_Hash (abs_key (hwKey w)) x)"
  have "atomic_step (abs_hworld w) ((abs_hworld w)\<lparr>awKey := k'\<lparr>hmacHash := map_option hash_Reset (hmacHash k')\<rparr>,
       awCalls := (awCalls (abs_hworld w))(t \<mapsto> AHashed x (Inr (hash_Sum hh)))\<rparr>)"
    using hash_sum k by (intro run_hash)
      (auto simp: abs_hworld_def abs_key_def HmacShaCryptor_Hash_def k'_def hash_Reset_def hash_Write_def hash_Sum_def)
  then show ?case
    using hash_sum k by (simp add: abs_hgoto)
      (simp add: abs_hworld_def abs_key_def k'_def HmacShaCryptor_Hash_def hash_Reset_def hash_Write_def Let_def)
next
  case (destroy_mark w t)
  have "atomic_step (abs_hworld w) ((abs_hworld w)\<lparr>awKey := HmacShaCryptor_Destroy (awKey (abs_hworld w)),
      awCalls := (awCalls (abs_hworld w))(t \<mapsto> ADestroyed)\<rparr>)"
    using destroy_mark by (intro run_destroy) (simp add: abs_hworld_def)
  then show ?case
    by (simp add: abs_hgoto) (simp add: abs_hworld_def abs_key_def HmacShaCryptor_Destroy_def)
next
  case (destroy_drop w t)
  then have "hmacDestroyed (hwKey w)"
    using hworld_ok_owner(2) [OF destroy_drop(2,1)] by simp
  then show ?case
    using destroy_drop by (intro disjI1 abs_stutter) (auto simp: abs_key_def)
next
  case (hash_nil w t x)
  then show ?case
    using hworld_ok_owner(2) [OF hash_nil(3,1)] by simp
qed (rule disjI1, rule abs_stutter, assumption, (auto simp: abs_key_def hash_Reset_def hash_Write_def)[3])+

text \<open>
  In the atomic machine every call returns what the one key of the constructor computes, or, once the
  cryptor is destroyed, the refusal.
\<close>

fun acall_ok :: "hash_Hash \<Rightarrow> bool \<Rightarrow> acall \<Rightarrow> bool" where
  "acall_ok h destroyed (AHashed x r) \<longleftrightarrow> r = Inr (hhSum h x) \<or> destroyed \<and> r = Inl destroyed_panic"
| "acall_ok h destroyed _ \<longleftrightarrow> True"

lemma acall_ok_destroyed: "acall_ok h d c \<Longrightarrow> acall_ok h True c"
  by (cases c) auto

definition aworld_ok :: "hash_Hash \<Rightarrow> aworld \<Rightarrow> bool" where
  "aworld_ok h a \<longleftrightarrow> (\<forall>t c. awCalls a t = Some c \<longrightarrow> acall_ok h (hmacDestroyed (awKey a)) c)
     \<and> hmacHash (awKey a) = (if hmacDestroyed (awKey a) then None else Some (hash_Reset h))"

lemma aworld_ok_step:
  assumes "atomic_step a a'" "aworld_ok h a"
  shows "aworld_ok h a'"
  using assms
proof (induction rule: atomic_step.induct)
  case (run_hash a t x k r)
  then show ?case
    by (cases "hmacDestroyed (awKey a)")
      (auto simp: aworld_ok_def HmacShaCryptor_Hash_def hash_Reset_def hash_Write_def hash_Sum_def)
qed (auto simp: aworld_ok_def HmacShaCryptor_Destroy_def intro: acall_ok_destroyed)

lemma hmac_run_refines:
  assumes new: "NewHmacShaCryptor kid h = Inr k" and run: "hmac_step\<^sup>*\<^sup>* (initial_hworld k) w"
  shows "atomic_step\<^sup>*\<^sup>* (abs_hworld (initial_hworld k)) (abs_hworld w)"
  using run
proof (induction rule: rtranclp_induct)
  case (step w w')
  then have "abs_hworld w' = abs_hworld w \<or> atomic_step (abs_hworld w) (abs_hworld w')"
    by (intro hmac_step_refines hworld_ok_reachable [OF new])
  with step.IH show ?case
    by (auto intro: rtranclp.rtrancl_into_rtrancl)
qed simp

lemma aworld_ok_reachable:
  assumes new: "NewHmacShaCryptor kid h = Inr k" and run: "atomic_step\<^sup>*\<^sup>* (abs_hworld (initial_hworld k)) a"
  shows "aworld_ok h a"
  using run
proof (induction rule: rtranclp_induct)
  case base
  from new show ?case
    by (auto simp: aworld_ok_def abs_hworld_def initial_hworld_def abs_key_def NewHmacShaCryptor_def split: if_splits)
qed (rule aworld_ok_step)

section \<open>A call that gets the mutex returns\<close>

lemma hash_call_completes:
  assumes ps: "ps t = Some (HWait x)" and k: "\<not> hmacDestroyed k" "hmacHash k = Some hh"
  shows "hmac_step\<^sup>*\<^sup>* \<lparr>hwKey = k, hwMutex = None, hwPoints = ps\<rparr>
    \<lparr>hwKey = k\<lparr>hmacHash := Some (hh\<lparr>hhWritten := x\<rparr>)\<rparr>, hwMutex = None,
     hwPoints = ps(t \<mapsto> HReturned x (Inr (hhSum hh x)))\<rparr>"
proof -
  let ?at = "\<lambda>p k. \<lparr>hwKey = k, hwMutex = Some t, hwPoints = ps(t \<mapsto> p)\<rparr>"
  let ?k = "\<lambda>b. k\<lparr>hmacHash := Some (hh\<lparr>hhWritten := b\<rparr>)\<rparr>"
  have "hmac_step\<^sup>*\<^sup>* \<lparr>hwKey = k, hwMutex = None, hwPoints = ps\<rparr> (?at (HTest x) k)"
    using hash_lock [of "\<lparr>hwKey = k, hwMutex = None, hwPoints = ps\<rparr>" t x] ps by (simp add: hgoto_def r_into_rtranclp)
  also have "hmac_step \<dots> (?at (HReset x) k)"
    using hash_test [of "?at (HTest x) k" t x] k by (simp add: hgoto_def)
  also have "hmac_step \<dots> (?at (HWrite x) (?k []))"
    using hash_reset [of "?at (HReset x) k" t x hh] k by (simp add: hgoto_def hash_Reset_def)
  also have "hmac_step \<dots> (?at (HSum x) (?k x))"
    using hash_write [of "?at (HWrite x) (?k [])" t x] k by (simp add: hgoto_def hash_Write_def)
  also have "hmac_step \<dots> (?at (HUnlock x (Inr (hhSum hh x))) (?k x))"
    using hash_sum [of "?at (HSum x) (?k x)" t x] k by (simp add: hgoto_def hash_Sum_def)
  also have "hmac_step \<dots> \<lparr>hwKey = ?k x, hwMutex = None, hwPoints = ps(t \<mapsto> HReturned x (Inr (hhSum hh x)))\<rparr>"
    using hash_unlock [of "?at (HUnlock x (Inr (hhSum hh x))) (?k x)" t x] by (simp add: hgoto_def)
  finally show ?thesis .
qed

lemma hash_calls:
  assumes "ps t = None"
  shows "hmac_step\<^sup>*\<^sup>* \<lparr>hwKey = k, hwMutex = m, hwPoints = ps\<rparr> \<lparr>hwKey = k, hwMutex = m, hwPoints = ps(t \<mapsto> HWait x)\<rparr>"
  using call_hash [of "\<lparr>hwKey = k, hwMutex = m, hwPoints = ps\<rparr>" t x] assms by (simp add: hgoto_def r_into_rtranclp)

section \<open>The properties\<close>

text \<open>
  C9: \<open>HmacShaCryptor\<close> under concurrent use. From the constructor, in every state reached by any number
  of goroutines calling \<open>Hash\<close> and \<open>Destroy\<close>, interleaved statement by statement under the mutex, the
  next statement either changes nothing of what the state stands for or is exactly one whole call of
  the sequential \<open>Hash\<close> or \<open>Destroy\<close>: the calls are linearizable.
\<close>

theorem hmac_linearizable:
  assumes "NewHmacShaCryptor kid h = Inr k" "hmac_step\<^sup>*\<^sup>* (initial_hworld k) w" "hmac_step w w'"
  shows "atomic_step\<^sup>*\<^sup>* (abs_hworld (initial_hworld k)) (abs_hworld w)
    \<and> (abs_hworld w' = abs_hworld w \<or> atomic_step (abs_hworld w) (abs_hworld w'))"
  using hmac_run_refines [OF assms(1,2)] hmac_step_refines [OF assms(3) hworld_ok_reachable [OF assms(1,2)]] by simp

text \<open>
  C17: every \<open>Hash\<close> call that has returned gave the MAC of its own input under the key of the
  constructor, whatever the other goroutines wrote meanwhile, or, when the cryptor has been destroyed,
  the documented panic; it never dereferences the hash that \<open>Destroy\<close> dropped.
\<close>

theorem concurrent_hash_results:
  assumes "NewHmacShaCryptor kid h = Inr k" "hmac_step\<^sup>*\<^sup>* (initial_hworld k) w" "hwPoints w t = Some (HReturned x r)"
  shows "r = Inr (hhSum h x) \<or> hmacDestroyed (hwKey w) \<and> r = Inl destroyed_panic"
proof -
  have "aworld_ok h (abs_hworld w)"
    by (rule aworld_ok_reachable [OF assms(1) hmac_run_refines [OF assms(1,2)]])
  then have "acall_ok h (hmacDestroyed (hwKey w)) (AHashed x r)"
    unfolding aworld_ok_def using assms(3) by (elim conjE allE [of _ t]) (simp add: abs_hworld_def abs_key_def)
  then show ?thesis
    by simp
qed

text \<open>A keyed hash of \<open>crypto/internal/fips140/hmac\<close>; two goroutines hash, one of them has returned.\<close>

definition demo_hash :: hash_Hash where
  "demo_hash = \<lparr>hhType = Some (PointerTo (Named ''HMAC'' ''crypto/internal/fips140/hmac'')), hhKeyedHash = False,
     hhSum = rev, hhWritten = ''left over''\<rparr>"

definition demo_cryptor :: HmacShaCryptor where
  "demo_cryptor = \<lparr>hmacKid = ''mac'', hmacHash = Some demo_hash, hmacDestroyed = False\<rparr>"

definition demo_hworld :: hworld where
  "demo_hworld = \<lparr>hwKey = demo_cryptor\<lparr>hmacHash := Some (demo_hash\<lparr>hhWritten := ''ab''\<rparr>)\<rparr>, hwMutex = None,
     hwPoints = [1 \<mapsto> HWait ''ab'', 2 \<mapsto> HWait ''xyz'', 1 \<mapsto> HReturned ''ab'' (Inr ''ba'')]\<rparr>"

lemma demo_cryptor_new: "NewHmacShaCryptor ''mac'' demo_hash = Inr demo_cryptor"
  by (simp add: NewHmacShaCryptor_def isHmac_def demo_hash_def demo_cryptor_def str_contains_def upt_rec)

lemma demo_hworld_reachable: "hmac_step\<^sup>*\<^sup>* (initial_hworld demo_cryptor) demo_hworld"
proof -
  have a: "hmac_step\<^sup>*\<^sup>* (initial_hworld demo_cryptor) \<lparr>hwKey = demo_cryptor, hwMutex = None, hwPoints = [1 \<mapsto> HWait ''ab'']\<rparr>"
    unfolding initial_hworld_def by (rule hash_calls) simp
  have b: "hmac_step\<^sup>*\<^sup>* \<lparr>hwKey = demo_cryptor, hwMutex = None, hwPoints = [1 \<mapsto> HWait ''ab'']\<rparr>
      \<lparr>hwKey = demo_cryptor, hwMutex = None, hwPoints = [1 \<mapsto> HWait ''ab'', 2 \<mapsto> HWait ''xyz'']\<rparr>"
    by (rule hash_calls) simp
  have c: "hmac_step\<^sup>*\<^sup>* \<lparr>hwKey = demo_cryptor, hwMutex = None, hwPoints = [1 \<mapsto> HWait ''ab'', 2 \<mapsto> HWait ''xyz'']\<rparr> demo_hworld"
    using hash_call_completes [of "[1 \<mapsto> HWait ''ab'', 2 \<mapsto> HWait ''xyz'']" 1 "''ab''" demo_cryptor demo_hash]
    by (simp add: demo_hworld_def) (simp add: demo_cryptor_def demo_hash_def)
  show ?thesis
    by (rule rtranclp_trans [OF rtranclp_trans [OF a b] c])
qed

theorem hmac_linearizable_witness:
  "atomic_step\<^sup>*\<^sup>* (abs_hworld (initial_hworld demo_cryptor)) (abs_hworld demo_hworld)
    \<and> (abs_hworld (hgoto 2 (HTest ''xyz'') (demo_hworld\<lparr>hwMutex := Some 2\<rparr>)) = abs_hworld demo_hworld
      \<or> atomic_step (abs_hworld demo_hworld) (abs_hworld (hgoto 2 (HTest ''xyz'') (demo_hworld\<lparr>hwMutex := Some 2\<rparr>))))"
  by (rule hmac_linearizable [OF demo_cryptor_new demo_hworld_reachable], rule hash_lock) (simp_all add: demo_hworld_def)

theorem concurrent_hash_results_witness:
  "(Inr ''ba'' :: err + bytes) = Inr (hhSum demo_hash ''ab'') \<or> hmacDestroyed (hwKey demo_hworld) \<and> (Inr ''ba'' :: err + bytes) = Inl destroyed_panic"
  by (rule concurrent_hash_results [OF demo_cryptor_new demo_hworld_reachable, of 1]) (simp add: demo_hworld_def)

end
