(* ===== verification/Hmac_Termination.thy ===== *)
theory Hmac_Termination
  imports Hmac_Laws Concurrency
begin

text \<open>
  Concurrent calls of the HMAC cryptor return: they are an instance of \<open>ranked_calls\<close>. The owner of the
  mutex is always inside its critical section and has a statement to execute, so a goroutine that waits
  for the mutex waits for one that will release it.
\<close>

section \<open>Statements left to execute\<close>

fun statements_left :: "hpoint \<Rightarrow> nat" where
  "statements_left (HWait _) = 6"
| "statements_left (HTest _) = 5"
| "statements_left (HReset _) = 4"
| "statements_left (HWrite _) = 3"
| "statements_left (HSum _) = 2"
| "statements_left (HUnlock _ _) = 1"
| "statements_left (HReturned _ _) = 0"
| "statements_left DWait = 4"
| "statements_left DMark = 3"
| "statements_left DDrop = 2"
| "statements_left DUnlock = 1"
| "statements_left DReturned = 0"

text \<open>A statement of a call that has begun.\<close>

definition hmac_acts :: "hworld \<Rightarrow> hworld \<Rightarrow> bool" where
  "hmac_acts w w' \<longleftrightarrow> hmac_step w w' \<and> dom (hwPoints w') = dom (hwPoints w)"

definition all_calls_returned :: "hworld \<Rightarrow> bool" where
  "all_calls_returned w \<longleftrightarrow> (\<forall>t p. hwPoints w t = Some p \<longrightarrow> p = DReturned \<or> (\<exists>x r. p = HReturned x r))"

definition owner_inside :: "hworld \<Rightarrow> bool" where
  "owner_inside w \<longleftrightarrow> (\<forall>t. hwMutex w = Some t \<longrightarrow> (\<exists>p. hwPoints w t = Some p \<and> in_section p))"

definition hworld_live :: "hworld \<Rightarrow> bool" where
  "hworld_live w \<longleftrightarrow> hworld_ok w \<and> owner_inside w \<and> finite (dom (hwPoints w))"

lemma statements_left_0: "statements_left p = 0 \<longleftrightarrow> p = DReturned \<or> (\<exists>x r. p = HReturned x r)"
  by (cases p) simp_all

lemma hgoto_simps [simp]:
  "hwPoints (hgoto t p w) = (hwPoints w)(t \<mapsto> p)" "hwMutex (hgoto t p w) = hwMutex w" "hwKey (hgoto t p w) = hwKey w"
  by (simp_all add: hgoto_def)

lemma hworld_live_step:
  assumes "hmac_step w w'" "hworld_live w"
  shows "hworld_live w'"
proof -
  have "owner_inside w'"
    using assms(1) assms(2) [unfolded hworld_live_def]
    by cases (auto simp: owner_inside_def)
  moreover have "finite (dom (hwPoints w'))"
    using assms by cases (auto simp: hworld_live_def)
  ultimately show ?thesis
    using assms hworld_ok_step by (simp add: hworld_live_def)
qed

lemma hworld_live_reachable:
  assumes "NewHmacShaCryptor kid h = Inr k" "hmac_step\<^sup>*\<^sup>* (initial_hworld k) w"
  shows "hworld_live w"
  using assms(2)
proof (induction rule: rtranclp_induct)
  case base
  show ?case
    using hworld_ok_initial [OF assms(1)] by (simp add: hworld_live_def owner_inside_def initial_hworld_def)
qed (rule hworld_live_step)

section \<open>Progress\<close>

lemma hmac_acts_forward:
  assumes "hmac_acts w w'"
  shows "\<exists>t p p'. hwPoints w t = Some p \<and> hwPoints w' = (hwPoints w)(t \<mapsto> p') \<and> statements_left p' < statements_left p"
proof -
  have s: "hmac_step w w'" and d: "dom (hwPoints w') = dom (hwPoints w)" using assms by (simp_all add: hmac_acts_def)
  from s show ?thesis
    by cases (use d in \<open>auto simp: domIff\<close>, fastforce+)
qed

text \<open>The owner of the mutex can always execute its next statement.\<close>

lemma hmac_acts_goto:
  "hmac_step w (hgoto t p' v) \<Longrightarrow> hwPoints v = hwPoints w \<Longrightarrow> hwPoints w t = Some p \<Longrightarrow> \<exists>w'. hmac_acts w w'"
  unfolding hmac_acts_def by (rule exI [of _ "hgoto t p' v"]) auto

lemma inside_acts:
  assumes "hworld_ok w" "hwPoints w t = Some p" "in_section p"
  shows "\<exists>w'. hmac_acts w w'"
proof -
  have ok: "point_ok (hwKey w) p" by (rule hworld_ok_owner(2) [OF assms])
  show ?thesis
  proof (cases p)
    case (HTest x)
    with assms(2) show ?thesis
      using hmac_acts_goto [OF hash_refuse] hmac_acts_goto [OF hash_test] by blast
  next
    case (HReset x)
    with ok obtain hh where "hmacHash (hwKey w) = Some hh" by auto
    with HReset assms(2) show ?thesis by (intro hmac_acts_goto [OF hash_reset]) auto
  next
    case (HWrite x)
    with ok obtain hh where "hmacHash (hwKey w) = Some hh" by auto
    with HWrite assms(2) show ?thesis by (intro hmac_acts_goto [OF hash_write]) auto
  next
    case (HSum x)
    with ok obtain hh where "hmacHash (hwKey w) = Some hh" by auto
    with HSum assms(2) show ?thesis by (intro hmac_acts_goto [OF hash_sum]) auto
  next
    case (HUnlock x r)
    with assms(2) show ?thesis by (intro hmac_acts_goto [OF hash_unlock]) auto
  next
    case DMark
    with assms(2) show ?thesis by (intro hmac_acts_goto [OF destroy_mark]) auto
  next
    case DDrop
    with assms(2) show ?thesis by (intro hmac_acts_goto [OF destroy_drop]) auto
  next
    case DUnlock
    with assms(2) show ?thesis by (intro hmac_acts_goto [OF destroy_unlock]) auto
  qed (use assms(3) in auto)
qed

lemma hmac_progress:
  assumes "hworld_live w" "hwPoints w t = Some p" "0 < statements_left p"
  shows "\<exists>w'. hmac_acts w w'"
proof (cases "hwMutex w")
  case None
  show ?thesis
  proof (cases "in_section p")
    case True
    with assms show ?thesis using inside_acts by (auto simp: hworld_live_def)
  next
    case False
    then consider x where "p = HWait x" | "p = DWait" using assms(3) by (cases p) auto
    then show ?thesis
    proof cases
      case 1
      with assms(2) None show ?thesis by (intro hmac_acts_goto [OF hash_lock]) auto
    next
      case 2
      with assms(2) None show ?thesis by (intro hmac_acts_goto [OF destroy_lock]) auto
    qed
  qed
next
  case (Some u)
  then obtain q where "hwPoints w u = Some q" "in_section q"
    using assms(1) by (auto simp: hworld_live_def owner_inside_def)
  with assms(1) show ?thesis using inside_acts by (auto simp: hworld_live_def)
qed

interpretation calls: ranked_calls hmac_acts hwPoints statements_left 6 hworld_live
proof unfold_locales
  show "hworld_live w'" if "hworld_live w" "hmac_acts w w'" for w w'
    using that hworld_live_step unfolding hmac_acts_def by blast
  show "finite (dom (hwPoints w))" if "hworld_live w" for w
    using that by (simp add: hworld_live_def)
  show "statements_left p \<le> 6" for p by (cases p) simp_all
qed (rule hmac_acts_forward hmac_progress; assumption)+

lemma finished_calls_returned: "calls.finished w \<longleftrightarrow> all_calls_returned w"
  by (auto simp: calls.finished_def all_calls_returned_def statements_left_0)

text \<open>
  C24: concurrent calls of \<open>Hash\<close> and \<open>Destroy\<close> return. From the constructor, in every reachable state with
  \<open>n\<close> calls, the goroutines execute at most \<open>6 n\<close> further statements in whatever order they are scheduled;
  when none can execute a statement any more every call has returned (or, for a \<open>Hash\<close> after \<open>Destroy\<close>,
  panicked with the mutex released); and such a state is reachable. No call waits for the mutex for ever.
\<close>

theorem hmac_calls_return:
  assumes "NewHmacShaCryptor kid h = Inr k" "hmac_step\<^sup>*\<^sup>* (initial_hworld k) w"
  shows "(\<forall>n w'. (hmac_acts ^^ n) w w' \<longrightarrow> n \<le> 6 * card (dom (hwPoints w))
      \<and> ((\<nexists>v. hmac_acts w' v) \<longrightarrow> all_calls_returned w'))
    \<and> (\<exists>w'. hmac_acts\<^sup>*\<^sup>* w w' \<and> all_calls_returned w')"
  using calls.schedules_end [OF hworld_live_reachable [OF assms]] finished_calls_returned by metis

theorem hmac_calls_return_witness:
  "\<exists>w'. hmac_acts\<^sup>*\<^sup>* demo_hworld w' \<and> all_calls_returned w'"
  using hmac_calls_return [OF demo_cryptor_new demo_hworld_reachable] by blast

end
