(* ===== verification/Spec2Isabelle.thy ===== *)
theory Spec2Isabelle
  imports Examples_Laws Interfaces_Laws JweBlock_Session JwksStore_Fresh JwksStore_Sequential JwksStore_Termination Keys_Types
    Hmac_Termination
begin

text \<open>
  A model of gose, a Go library for JSON Object Signing and Encryption: signed tokens (JWS, JWT), encrypted messages
  (JWE), keys and key sets (JWK, JWKS), the trust stores that hold keys and the signers, verifiers, encryptors and
  decryptors built on them.

  \<^bold>\<open>The parts of the program.\<close> The package \<open>jose\<close> (\<open>src/jose/\<close>) defines
  the wire formats and their parsers. The package \<open>gose\<close> (\<open>src/*.go\<close>) loads keys from JWKs,
  signs and verifies, encrypts and decrypts; \<open>src/hsm/\<close> adapts decryption keys held by a PKCS\#11 token.
  A JWT verifier parses a token, checks its claims, asks a trust store for the key of its issuer and key identifier,
  and verifies the signature over the received octets. A JWE decryptor parses a message, finds its key, and opens the
  ciphertext with the received header octets as additional authenticated data.

  \<^bold>\<open>Theories and sources.\<close>

  \<^item> \<open>Prelude\<close>: octets, results, Go maps as association lists, splitting, big-endian numbers.
    \<open>Concurrency\<close>: goroutines inside the methods of one object, and when all their calls return.
    \<open>Errors\<close>: \<open>errors.go\<close>, the sentinels of \<open>jose/types.go\<close> and the panics of
    the run time.
  \<^item> \<open>Base64\<close>, \<open>Json\<close>, \<open>Json_Laws\<close>, \<open>Json_RoundTrip\<close>,
    \<open>Json_Html\<close>: what the source uses of \<open>encoding/base64\<close> and \<open>encoding/json\<close>,
    with their round trips.
  \<^item> \<open>JoseTypes\<close> (\<open>jose/types.go\<close>), \<open>Jws\<close> (\<open>jose/jws.go\<close>),
    \<open>Jwt\<close> (\<open>jose/jwt.go\<close>), \<open>Jwe\<close> (\<open>jose/jwe.go\<close>),
    \<open>Jwk\<close>, \<open>Jwk_Laws\<close>, \<open>Jwk_RoundTrip\<close>, \<open>Jwk_Interface\<close>
    (\<open>jose/jwk.go\<close>, \<open>jose/jwks.go\<close>).
  \<^item> \<open>Crypto\<close>: the parameter record of cryptographic primitives. \<open>Helpers\<close>,
    \<open>Helpers_Laws\<close>: \<open>helpers.go\<close>, with the export and import of keys in
    \<open>Key_Export\<close>. \<open>Keys\<close>, \<open>Keys_Laws\<close>, \<open>Keys_Types\<close>:
    \<open>signer.go\<close>, \<open>verifier.go\<close>, \<open>ecdsa_signer.go\<close>,
    \<open>ecdsa_verifier.go\<close>, \<open>rsa_private.go\<close>, \<open>rsa_public.go\<close>,
    \<open>rsa_oaep_alg.go\<close>.
  \<^item> \<open>TrustStore\<close>, \<open>TrustStore_Laws\<close>: \<open>keystore.go\<close>.
    \<open>JwksStore\<close>, \<open>JwksStore_Laws\<close>, \<open>JwksStore_Fresh\<close>,
    \<open>JwksStore_Sequential\<close>, \<open>JwksStore_Termination\<close>: \<open>jwks_truststore.go\<close>.
    \<open>JwtVerify\<close>, \<open>JwtVerify_Laws\<close>: \<open>jwt_signer.go\<close>, \<open>jwt_verifier.go\<close>.
  \<^item> \<open>Hmac\<close>, \<open>Hmac_Laws\<close>, \<open>Hmac_Termination\<close>:
    \<open>hmac_sha_cryptor.go\<close>. \<open>JweCrypt\<close>: \<open>aes_gcm_cryptor.go\<close>,
    \<open>aes_cbc_cryptor.go\<close>, \<open>jwe_hmac_verifier.go\<close> and the direct encryptors and decryptors,
    with the laws of the AES-GCM ones in \<open>JweCrypt_Laws\<close> and those of the AES-CBC ones in
    \<open>JweBlock_Laws\<close> (one message, any block mode) and \<open>JweBlock_Session\<close> (sequences of
    messages, with cipher-block chaining written out). \<open>JweKeyEncryption\<close>,
    \<open>JweKeyEncryption_Laws\<close>: the key-encryption encryptor and decryptor,
    \<open>asymmetric_decryption_key_store.go\<close>, \<open>key_generator.go\<close> and \<open>hsm/\<close>.
  \<^item> \<open>Interfaces\<close>, \<open>Interfaces_Laws\<close>: \<open>interfaces.go\<close>, the struct of the
    JWT verifier, and what holds of a component whatever implementation it is given.
  \<^item> \<open>Examples\<close>, \<open>Examples_Laws\<close>: the programs \<open>examples/jwt/jwt.go\<close> and
    \<open>examples/jwe/jwe.go\<close>, as the lines they print and the error they fail with.

  \<^bold>\<open>How state and operations correspond.\<close> A struct is a record with the fields of the source, an
  interface value is a datatype of its implementations, and an operation keeps its Go name, prefixed with the
  receiver's type where two methods share it. A fallible function returns \<open>err + 'a\<close> and a panic is the
  error \<open>GoPanic\<close>, so its absence can be proved. A method that writes through its receiver or an argument
  returns the updated value: \<open>NewVerificationKey\<close> returns the JWK it rewrites,
  \<open>TrustKeyStoreImpl_Get\<close> the store whose JWK was rewritten, the CBC cryptor the chaining state. The
  fetching trust store is modelled twice: \<open>JwksTrustStore_Get\<close> is one call without interference, and
  \<open>get_step\<close> interleaves any number of calls at the boundaries of the critical sections of the two
  mutexes; \<open>JwksStore_Sequential\<close> relates the two. The state of the interleaved store also records, for
  the properties only, when requests were made and which key sets were installed when. The HMAC cryptor likewise:
  \<open>HmacShaCryptor_Hash\<close> is one call, and \<open>hmac_step\<close> interleaves the statements of any
  number of calls of \<open>Hash\<close> and \<open>Destroy\<close>. An error wrapped with \<open>%w\<close> is the
  wrapped error.

  \<^bold>\<open>Interfaces.\<close> \<open>byte_codec\<close> (base64, interpreted on both encodings),
  \<open>field_access\<close> (the \<open>Jwk\<close> getters and setters), \<open>guarded_operation\<close> (a key
  operation refused unless the key permits it, interpreted on every signing, verification, encryption and decryption
  method), \<open>trust_store\<close> (what the verifier relies on of a store, interpreted on the local and the
  fetching store and on the interface value), \<open>jwe_scheme\<close> (a pair of JWE encryptor and decryptor,
  interpreted on the interface values of both schemes) and \<open>ranked_calls\<close> (concurrent calls that return,
  interpreted on the fetching store and the HMAC cryptor).

  \<^bold>\<open>What is shown.\<close>

  \<^item> \<^emph>\<open>Wire formats.\<close> JWT, JWK, JWKS and JWE are read back from what is written; accepted
    JWS text is canonical; accepted headers name no critical extension and only supported algorithms; parsing a JWK
    never panics; an accepted key is consistent with its certificates and operations.
  \<^item> \<^emph>\<open>Keys.\<close> Loaded keys are bounded and validated; keys act only as their JWK permitted
    when they were made; an exported key is read back and loaded as the same key; a key has the family of its JWK;
    what a key signs its derived public key verifies; verification never panics.
  \<^item> \<^emph>\<open>Trust stores.\<close> The local store refines an abstract store of unknown, trusted and
    revoked keys, and revocation lasts, for the store and for a verifier that uses it. Fetching lookups are paced, end
    in at most eight steps each whatever the schedule, return only keys of the last key set that was fetched and no
    longer than the refresh interval after it was, and always return such a key without waiting for anybody.
  \<^item> \<^emph>\<open>Tokens.\<close> A signed token is accepted; an accepted token was signed by the key the
    store holds, or last fetched, for the token's issuer and key identifier, in its time frame and for an expected
    audience.
  \<^item> \<^emph>\<open>Encryption.\<close> Decryption inverts encryption for the three kinds of JWE, and none
    accepts the text of another; what is decrypted was authenticated; a failed unwrap of a content-encryption key
    cannot be told from a wrong key. An AES-CBC pair stays in step over messages that are not whole blocks. Concurrent
    calls of the HMAC cryptor are linearizable, all return, and each returns the MAC of its own input.
  \<^item> \<^emph>\<open>Examples.\<close> The example programs print what they announce and end without an error.
  \<^item> \<^emph>\<open>Divergences.\<close> Some theorems record where the code differs from its comments: an
    absent audience does not survive encoding, a mislabelled RSA key verifies, a store's errors are masked, the length
    field of the MAC input counts octets, an oversized plaintext is lost without an error, a plaintext of whole blocks
    gets a block of zeros that makes the next message decrypt to a wrong plaintext, and operations without inverse
    become empty.

  \<^bold>\<open>Bounds.\<close> The size bounds of the source (\<open>MaxCompactSize\<close>,
  \<open>MaxBlobSize\<close>, \<open>MaxPlaintextSize\<close>, ...) are kept as numbers. The JSON parser's loops over
  the elements of an array and the members of an object take a counter that starts at the length of the text;
  \<open>parse_elems_fuel\<close> and \<open>parse_members_fuel\<close> show that a larger one gives the same result.
  Lengths encoded as \<open>uint64\<close> are 64-bit words.

  \<^bold>\<open>Parameters.\<close> The primitives of \<open>crypto_lib\<close> (RSA, ECDSA, OAEP, AES-GCM, digests,
  certificate parsing), the block mode, the MAC, random sources, the clock, the HTTP answer, the file system's answer
  and the PKCS\#11 token are arguments. The laws assumed of them are named predicates (\<open>rsa_correct\<close>,
  \<open>ecdsa_correct\<close>, \<open>oaep_correct\<close>, \<open>aead_correct\<close>, \<open>cbc_pair\<close>,
  \<open>block_cipher\<close>, \<open>rng_exact\<close>), each satisfied by the concrete primitives the witnesses run
  with.

  \<^bold>\<open>Not modelled.\<close> Sharing of one JWK object between two entries of a trust store, which are values
  here; logging; the clearing of key material, which no caller can observe; the values
  that formatted error messages interpolate, save those of the audience error; the header types of
  \<open>jose/jwe.go\<close> that nothing uses; and the tests. What remains of \<open>interfaces.go\<close> are
  interfaces with one implementation, whose method is called directly.
\<close>

end
